(* ===== verification/Prelude.thy ===== *)
theory Prelude
  imports Main "HOL-Library.Word"
begin

text \<open>
  Shared vocabulary of the development: the type names of the C program, the outcome of a
  C function that may run into undefined behaviour, and the collections of facts that the
  component theories extend.
\<close>

named_theorems frame_simps "fields an operation leaves unchanged"
named_theorems key_simps "operations that keep the sort key of a device"
named_theorems inv_intros "operations that keep an invariant"

subsection \<open>C integer types (LP64)\<close>

type_synonym c_short = "16 word"
type_synonym c_ushort = "16 word"
type_synonym c_uint = "32 word"
type_synonym c_long = "64 word"

subsection \<open>Undefined behaviour as a value\<close>

text \<open>
  What a C function can run into instead of returning: an access outside an array, a
  dereference of a null pointer, a loop or a wait that never ends, or the message of level error
  with which \<open>g_error\<close> aborts the process.
\<close>

datatype fault = Out_of_bounds | Null_deref | Non_termination | Fatal_error

type_synonym 'a outcome = "fault + 'a"

definition read_at :: "'a list \<Rightarrow> nat \<Rightarrow> 'a outcome" where
  "read_at xs i = (if i < length xs then Inr (xs ! i) else Inl Out_of_bounds)"

definition write_at :: "'a list \<Rightarrow> nat \<Rightarrow> 'a \<Rightarrow> 'a list outcome" where
  "write_at xs i v = (if i < length xs then Inr (xs[i := v]) else Inl Out_of_bounds)"

definition bind_outcome :: "'a outcome \<Rightarrow> ('a \<Rightarrow> 'b outcome) \<Rightarrow> 'b outcome" where
  "bind_outcome m f = (case m of Inl e \<Rightarrow> Inl e | Inr x \<Rightarrow> f x)"

lemma bind_outcome_simps [simp]:
  "bind_outcome (Inl e) f = Inl e"
  "bind_outcome (Inr x) f = f x"
  by (simp_all add: bind_outcome_def)

lemma bind_outcome_Inr_iff:
  "bind_outcome m f = Inr y \<longleftrightarrow> (\<exists>x. m = Inr x \<and> f x = Inr y)"
  by (cases m) auto

lemma read_at_in [simp]: "i < length xs \<Longrightarrow> read_at xs i = Inr (xs ! i)"
  by (simp add: read_at_def)

lemma write_at_in [simp]: "i < length xs \<Longrightarrow> write_at xs i v = Inr (xs[i := v])"
  by (simp add: write_at_def)

lemma read_at_out [simp]: "length xs \<le> i \<Longrightarrow> read_at xs i = Inl Out_of_bounds"
  by (simp add: read_at_def)

lemma write_at_out [simp]: "length xs \<le> i \<Longrightarrow> write_at xs i v = Inl Out_of_bounds"
  by (simp add: write_at_def)

end
