(* ===== verification/Glib.thy ===== *)
theory Glib
  imports Prelude "HOL-Library.Sublist"
begin

text \<open>
  The C string functions and the GLib string and list primitives the program calls, by their
  reference manuals. A C string is the list of its characters before the terminating NUL, so
  no string of the model holds the character NUL. A \<open>GString\<close> is read through its \<open>str\<close>
  field, so it is a string too, and a \<open>GList\<close> is the list of its \<open>data\<close> fields.
  Comparison callbacks of the program strip the strings they compare in place, so the list
  primitives take callbacks that return the changed operands.
\<close>

subsection \<open>Stripping white space\<close>

definition g_ascii_isspace :: "char \<Rightarrow> bool" where
  "g_ascii_isspace c \<longleftrightarrow> c \<in> {CHR '' '', CHR 0x0C, CHR 0x0A, CHR 0x0D, CHR 0x09}"

definition g_strchug :: "string \<Rightarrow> string" where
  "g_strchug s = dropWhile g_ascii_isspace s"

definition g_strchomp :: "string \<Rightarrow> string" where
  "g_strchomp s = rev (dropWhile g_ascii_isspace (rev s))"

definition g_strstrip :: "string \<Rightarrow> string" where
  "g_strstrip s = g_strchomp (g_strchug s)"

definition stripped :: "string \<Rightarrow> bool" where
  "stripped s \<longleftrightarrow> s = [] \<or> (\<not> g_ascii_isspace (hd s) \<and> \<not> g_ascii_isspace (last s))"

lemma g_strchomp_Cons:
  "\<not> g_ascii_isspace c \<Longrightarrow> \<exists>t. g_strchomp (c # s) = c # t"
proof -
  assume c: "\<not> g_ascii_isspace c"
  have "\<exists>t. dropWhile g_ascii_isspace (xs @ [c]) = t @ [c]" for xs
    using c by (induction xs) auto
  then obtain t where "dropWhile g_ascii_isspace (rev s @ [c]) = t @ [c]" by blast
  then have "g_strchomp (c # s) = c # rev t" by (simp add: g_strchomp_def)
  then show ?thesis by blast
qed

lemma stripped_g_strstrip [simp]: "stripped (g_strstrip s)"
proof (cases "g_strchug s")
  case Nil
  then show ?thesis by (simp add: g_strstrip_def stripped_def g_strchomp_def)
next
  case (Cons c t)
  then have "\<not> g_ascii_isspace c"
    unfolding g_strchug_def by (metis hd_dropWhile list.distinct(1) list.sel(1))
  with Cons have hd: "g_strstrip s \<noteq> [] \<and> \<not> g_ascii_isspace (hd (g_strstrip s))"
    using g_strchomp_Cons [of c t] by (auto simp: g_strstrip_def)
  then have "last (g_strstrip s) = hd (dropWhile g_ascii_isspace (rev (g_strchug s)))"
    by (simp add: g_strstrip_def g_strchomp_def last_rev)
  moreover have "dropWhile g_ascii_isspace (rev (g_strchug s)) \<noteq> []"
    using hd by (auto simp: g_strstrip_def g_strchomp_def)
  ultimately show ?thesis using hd hd_dropWhile unfolding stripped_def by metis
qed

lemma g_strstrip_stripped: "stripped s \<Longrightarrow> g_strstrip s = s"
proof (cases s)
  case (Cons c t)
  moreover assume "stripped s"
  ultimately have 1: "\<not> g_ascii_isspace c" and 2: "\<not> g_ascii_isspace (last s)"
    by (auto simp: stripped_def)
  from 1 Cons have "g_strchug s = s" by (simp add: g_strchug_def)
  moreover from 2 Cons have "dropWhile g_ascii_isspace (rev s) = rev s"
    by (metis dropWhile_eq_self_iff hd_rev)
  ultimately show ?thesis by (simp add: g_strstrip_def g_strchomp_def)
qed (simp add: g_strstrip_def g_strchug_def g_strchomp_def)

lemma g_strstrip_idem [simp]: "g_strstrip (g_strstrip s) = g_strstrip s"
  by (simp add: g_strstrip_stripped)

lemma g_strstrip_Nil [simp]: "g_strstrip [] = []"
  by (simp add: g_strstrip_stripped stripped_def)

subsection \<open>Comparison\<close>

text \<open>
  \<open>strcmp\<close> compares bytes as unsigned values; only the sign of its result is specified, so
  the model returns the sign.
\<close>

fun strcmp :: "string \<Rightarrow> string \<Rightarrow> int" where
  "strcmp [] [] = 0"
| "strcmp [] (y # ys) = -1"
| "strcmp (x # xs) [] = 1"
| "strcmp (x # xs) (y # ys) =
     (if (of_char x :: nat) < of_char y then -1
      else if (of_char y :: nat) < of_char x then 1
      else strcmp xs ys)"

definition strncmp :: "string \<Rightarrow> string \<Rightarrow> nat \<Rightarrow> int" where
  "strncmp s t n = strcmp (take n s) (take n t)"

fun g_strcmp0 :: "string option \<Rightarrow> string option \<Rightarrow> int" where
  "g_strcmp0 None None = 0"
| "g_strcmp0 None (Some t) = -1"
| "g_strcmp0 (Some s) None = 1"
| "g_strcmp0 (Some s) (Some t) = strcmp s t"

lemma strcmp_range: "strcmp s t \<in> {-1, 0, 1}"
  by (induction s t rule: strcmp.induct) auto

lemma strcmp_eq_0 [simp]: "strcmp s t = 0 \<longleftrightarrow> s = t"
  by (induction s t rule: strcmp.induct) (auto simp: not_less)

lemma strcmp_refl [simp]: "strcmp s s = 0"
  by simp

lemma strcmp_swap: "strcmp t s = - strcmp s t"
  by (induction s t rule: strcmp.induct) auto

lemma strcmp_trans: "strcmp s t < 0 \<Longrightarrow> strcmp t u < 0 \<Longrightarrow> strcmp s u < 0"
proof (induction s t arbitrary: u rule: strcmp.induct)
  case (2 y ys)
  then show ?case by (cases u) auto
next
  case (4 x xs y ys)
  note IH = "4.IH" and prems = "4.prems"
  show ?case
  proof (cases u)
    case Nil
    with prems show ?thesis by simp
  next
    case (Cons z zs)
    define i j k where "i = (of_char x :: nat)" and "j = (of_char y :: nat)" and "k = (of_char z :: nat)"
    have 1: "i < j \<or> i = j \<and> strcmp xs ys < 0"
      using prems(1) by (simp add: i_def j_def split: if_splits)
    have 2: "j < k \<or> j = k \<and> strcmp ys zs < 0"
      using prems(2) Cons by (simp add: j_def k_def split: if_splits)
    have "i < k \<or> i = k \<and> strcmp xs zs < 0"
    proof (cases "i = j \<and> j = k")
      case True
      with 1 2 have "strcmp xs ys < 0" "strcmp ys zs < 0" by simp_all
      with True IH show ?thesis by (simp add: i_def j_def)
    next
      case False
      with 1 2 show ?thesis by linarith
    qed
    with Cons show ?thesis by (auto simp: i_def k_def)
  qed
qed simp_all

lemma strncmp_eq_0 [simp]: "strncmp s t n = 0 \<longleftrightarrow> take n s = take n t"
  by (simp add: strncmp_def)

text \<open>
  The serial number of a device as the sort key of the device list: the order is the one of
  \<open>strcmp\<close>, so that the library's sorted lists apply.
\<close>

datatype sno_key = Sno (sno_str: string)

instantiation sno_key :: linorder
begin

definition less_sno_key :: "sno_key \<Rightarrow> sno_key \<Rightarrow> bool" where
  "less_sno_key a b \<longleftrightarrow> strcmp (sno_str a) (sno_str b) < 0"

definition less_eq_sno_key :: "sno_key \<Rightarrow> sno_key \<Rightarrow> bool" where
  "less_eq_sno_key a b \<longleftrightarrow> strcmp (sno_str a) (sno_str b) \<le> 0"

instance
proof
  fix a b c :: sno_key
  show "(a < b) = (a \<le> b \<and> \<not> b \<le> a)"
    using strcmp_swap [of "sno_str a" "sno_str b"]
    by (auto simp: less_sno_key_def less_eq_sno_key_def)
  show "a \<le> a" by (simp add: less_eq_sno_key_def)
  show "a \<le> b \<or> b \<le> a"
    using strcmp_swap [of "sno_str a" "sno_str b"] by (auto simp: less_eq_sno_key_def)
  show "a \<le> b \<Longrightarrow> b \<le> a \<Longrightarrow> a = b"
    using strcmp_swap [of "sno_str a" "sno_str b"]
    by (cases a; cases b) (auto simp: less_eq_sno_key_def)
  show "a \<le> b \<Longrightarrow> b \<le> c \<Longrightarrow> a \<le> c"
    using strcmp_trans [of "sno_str a" "sno_str b" "sno_str c"]
    by (cases a; cases b; cases c) (force simp: less_eq_sno_key_def order_le_less)
qed

end

lemma less_eq_Sno: "Sno s \<le> Sno t \<longleftrightarrow> strcmp s t \<le> 0"
  by (simp add: less_eq_sno_key_def)

lemma less_Sno: "Sno s < Sno t \<longleftrightarrow> strcmp s t < 0"
  by (simp add: less_sno_key_def)

subsection \<open>Searching and splitting\<close>

text \<open>\<open>strstr\<close> returns the part of the string that starts at the first occurrence.\<close>

fun strstr :: "string \<Rightarrow> string \<Rightarrow> string option" where
  "strstr [] n = (if n = [] then Some [] else None)"
| "strstr (c # s) n = (if prefix n (c # s) then Some (c # s) else strstr s n)"

text \<open>\<open>g_strrstr\<close> is only ever compared with NULL, so the model keeps that comparison.\<close>

definition g_strrstr :: "string \<Rightarrow> string \<Rightarrow> bool" where
  "g_strrstr s n \<longleftrightarrow> strstr s n \<noteq> None"

definition tolower :: "char \<Rightarrow> char" where
  "tolower c = (let k = (of_char c :: nat) in if 65 \<le> k \<and> k \<le> 90 then char_of (k + 32) else c)"

definition strcasestr :: "string \<Rightarrow> string \<Rightarrow> bool" where
  "strcasestr s n \<longleftrightarrow> strstr (map tolower s) (map tolower n) \<noteq> None"

lemma strstr_Some_iff: "(\<exists>t. strstr s n = Some t) \<longleftrightarrow> sublist n s"
  by (induction s) (auto simp: sublist_Cons_right)

lemma g_strrstr_iff: "g_strrstr s n \<longleftrightarrow> sublist n s"
  using strstr_Some_iff [of s n] by (auto simp: g_strrstr_def)

lemma strstr_Some_prefix: "strstr s n = Some t \<Longrightarrow> prefix n t \<and> suffix t s"
  by (induction s) (auto split: if_splits simp: suffix_Cons)

text \<open>
  The tokens between separators. The empty string has no token; any other string has one
  token more than it has separators.
\<close>

fun split_set :: "char set \<Rightarrow> string \<Rightarrow> string list" where
  "split_set ds [] = [[]]"
| "split_set ds (c # s) =
     (if c \<in> ds then [] # split_set ds s
      else case split_set ds s of [] \<Rightarrow> [[c]] | t # ts \<Rightarrow> (c # t) # ts)"

definition g_strsplit_set :: "string \<Rightarrow> string \<Rightarrow> string list" where
  "g_strsplit_set s ds = (if s = [] then [] else split_set (set ds) s)"

lemma split_set_not_Nil [simp]: "split_set ds s \<noteq> []"
  by (cases s) (auto split: list.splits)

lemma split_set_no_sep: "set s \<inter> ds = {} \<Longrightarrow> split_set ds s = [s]"
  by (induction s) auto

lemma split_set_sep:
  "set s \<inter> ds = {} \<Longrightarrow> c \<in> ds \<Longrightarrow> split_set ds (s @ c # t) = s # split_set ds t"
  by (induction s) auto

lemma length_split_set: "length (split_set ds s) = Suc (length (filter (\<lambda>c. c \<in> ds) s))"
  by (induction s) (auto split: list.splits)

subsection \<open>Lists with comparison callbacks\<close>

text \<open>
  \<open>g_list_find_custom\<close> calls \<open>func (element, user_data)\<close> until it returns 0. The callback
  of the model returns its result, the element and the user data it leaves behind; the search
  returns the list and the user data after all these calls and the position of the hit.
\<close>

fun g_list_find_custom ::
  "('d \<Rightarrow> 'k \<Rightarrow> int \<times> 'd \<times> 'k) \<Rightarrow> 'd list \<Rightarrow> 'k \<Rightarrow> 'd list \<times> 'k \<times> nat option" where
  "g_list_find_custom f [] k = ([], k, None)"
| "g_list_find_custom f (d # ds) k =
     (case f d k of (r, d', k') \<Rightarrow>
        if r = 0 then (d' # ds, k', Some 0)
        else (case g_list_find_custom f ds k' of (ds', k'', h) \<Rightarrow>
               (d' # ds', k'', map_option Suc h)))"

text \<open>
  \<open>g_list_insert_sorted_with_data\<close> calls \<open>func (data, element)\<close> along the list while the
  result is positive, and puts the data before the first element that does not give a
  positive result.
\<close>

fun g_list_insert_sorted_with_data ::
  "('d \<Rightarrow> 'd \<Rightarrow> int \<times> 'd \<times> 'd) \<Rightarrow> 'd list \<Rightarrow> 'd \<Rightarrow> 'd list" where
  "g_list_insert_sorted_with_data f [] x = [x]"
| "g_list_insert_sorted_with_data f (d # ds) x =
     (case f x d of (r, x', d') \<Rightarrow>
        if r > 0 then d' # g_list_insert_sorted_with_data f ds x'
        else x' # d' # ds)"

text \<open>\<open>g_list_remove_link\<close> takes the link at a position out of the list.\<close>

definition g_list_remove_link :: "'d list \<Rightarrow> nat \<Rightarrow> 'd list" where
  "g_list_remove_link ds i = take i ds @ drop (Suc i) ds"

subsection \<open>Printing numbers\<close>

text \<open>What \<open>%u\<close> and \<open>%d\<close> print.\<close>

fun show_nat :: "nat \<Rightarrow> string" where
  "show_nat n = (if n < 10 then [char_of (48 + n)] else show_nat (n div 10) @ [char_of (48 + n mod 10)])"

declare show_nat.simps [simp del]

definition show_int :: "int \<Rightarrow> string" where
  "show_int i = (if i < 0 then CHR ''-'' # show_nat (nat (- i)) else show_nat (nat i))"

end
