(* ===== verification/Whitelist.thy ===== *)
theory Whitelist
  imports Glib
begin

unbundle bit_operations_syntax

text \<open>
  The device-protection white list of \<open>src/xdiscovery.c\<close> (build \<open>BROADBAND\<close>): a table in
  shared memory that maps the IPv4 address of a discovered device to its MAC address. The
  first 1024 slots are addressed by a hash of the address, the other 1024 are an overflow
  area whose free slots are kept in \<open>dp_wlist_fifo\<close>. The theory models the FIFO macros of
  \<open>include/xdiscovery_private.h\<close>, the initialisation, the lookup, the insertion and the
  deletion, with every access to the table checked against its bounds and with the contents
  of the uninitialised locals \<open>stat\<close> and \<open>pindex\<close> as arguments.
\<close>

subsection \<open>State\<close>

definition MAX_ENTRIES :: nat where "MAX_ENTRIES = 1024"
definition MAX_OVERFLOW :: nat where "MAX_OVERFLOW = 1024"
definition MAX_BUF_SIZE :: nat where "MAX_BUF_SIZE = 2048"
definition MAC_ADDRESS_SIZE :: nat where "MAC_ADDRESS_SIZE = 20"
definition SHM_EXISTS :: int where "SHM_EXISTS = 17"

lemmas dp_sizes = MAX_ENTRIES_def MAX_OVERFLOW_def MAX_BUF_SIZE_def MAC_ADDRESS_SIZE_def

datatype dp_wlist_ss = DP_SUCCESS | DP_INVALID_MAC | DP_COLLISION | DP_WLIST_ERROR

text \<open>The value of the enumerator, as \<open>dpnode_lookup\<close> returns it through a \<open>short\<close>.\<close>

fun ss_code :: "dp_wlist_ss \<Rightarrow> c_short" where
  "ss_code DP_SUCCESS = 0"
| "ss_code DP_INVALID_MAC = 1"
| "ss_code DP_COLLISION = 2"
| "ss_code DP_WLIST_ERROR = 3"

datatype fstat = FIFO_OK | FIFO_FULL | FIFO_EMPTY

record fifo =
  f_entries :: "c_uint list"
  f_tail :: c_uint
  f_size :: c_uint

record dp_entry =
  ipaddr :: c_long
  macaddr :: string
  ofb_index :: c_short

text \<open>The pointer \<open>dp_wlist\<close>: NULL, \<open>(void *) -1\<close>, or the attached segment.\<close>

datatype dp_ptr = Wl_null | Wl_failed | Mapped "dp_entry list"

record dp_state =
  dp_wlist :: dp_ptr
  dp_wlist_fifo :: fifo
  shmId :: int

subsection \<open>The FIFO macros\<close>

definition INIT_FIFO :: "fifo \<Rightarrow> nat \<Rightarrow> fifo" where
  "INIT_FIFO f max_size = f\<lparr>f_tail := of_nat max_size, f_size := of_nat max_size\<rparr>"

definition ENQUEUE_FIFO :: "fifo \<Rightarrow> c_uint \<Rightarrow> (fifo \<times> fstat) outcome" where
  "ENQUEUE_FIFO f v =
     (if f_tail f > 0 then
        (let t = f_tail f - 1 in
         bind_outcome (write_at (f_entries f) (unat t) v)
           (\<lambda>es. Inr (f\<lparr>f_tail := t, f_entries := es\<rparr>, FIFO_OK)))
      else Inr (f, FIFO_FULL))"

definition DEQUEUE_FIFO :: "fifo \<Rightarrow> (fifo \<times> c_uint option \<times> fstat) outcome" where
  "DEQUEUE_FIFO f =
     (if f_tail f \<noteq> f_size f then
        bind_outcome (read_at (f_entries f) (unat (f_tail f)))
          (\<lambda>v. Inr (f\<lparr>f_tail := f_tail f + 1\<rparr>, Some v, FIFO_OK))
      else Inr (f, None, FIFO_EMPTY))"

subsection \<open>Hashing\<close>

text \<open>
  The shifts of a \<open>long\<close> are arithmetic. The second line of the C function joins the upper
  bits with \<open>&&\<close>, so they count as 0 or 1.
\<close>

definition dp_hashindex :: "c_long \<Rightarrow> c_ushort" where
  "dp_hashindex ip =
     (let ret = ucast ((ip AND 0x3FF) + (signed_drop_bit 10 ip AND 0x3FF)
                      + (signed_drop_bit 20 ip AND 0x3FF) + (signed_drop_bit 30 ip AND 0x3FF)) :: c_ushort;
          ret = ((ret AND 0x3FF) + (if drop_bit 10 ret \<noteq> 0 then 1 else 0)) AND 0x3FF
      in if ret \<noteq> 0 then ret - 1 else ret)"

subsection \<open>Initialisation\<close>

text \<open>
  What the System V shared-memory calls answer: whether \<open>ftok\<close> succeeds, the results of the
  two \<open>shmget\<close> calls, \<open>errno\<close> after the first, and the segment \<open>shmat\<close> maps, if it does.
\<close>

record shm_env =
  se_ftok :: bool
  se_shmget_create :: int
  se_errno :: int
  se_shmget_open :: int
  se_shmat :: "dp_entry list option"

fun fill_fifo :: "nat list \<Rightarrow> fifo \<Rightarrow> fifo outcome" where
  "fill_fifo [] f = Inr f"
| "fill_fifo (i # is) f =
     bind_outcome (ENQUEUE_FIFO f (of_nat i))
       (\<lambda>(f', fstat). if fstat = FIFO_FULL then Inr f' else fill_fifo is f')"

definition dp_attach :: "shm_env \<Rightarrow> int \<Rightarrow> dp_state \<Rightarrow> (int \<times> dp_state) outcome" where
  "dp_attach E sid st =
     (case se_shmat E of
        None \<Rightarrow> Inr (-1, st\<lparr>shmId := sid, dp_wlist := Wl_failed\<rparr>)
      | Some wl \<Rightarrow>
          bind_outcome (fill_fifo [MAX_ENTRIES..<MAX_BUF_SIZE] (dp_wlist_fifo st))
            (\<lambda>f. if length wl < MAX_BUF_SIZE then Inl Out_of_bounds
                 else Inr (0, st\<lparr>shmId := sid, dp_wlist_fifo := f,
                   dp_wlist := Mapped (map (\<lambda>e. e\<lparr>ofb_index := -1\<rparr>) (take MAX_BUF_SIZE wl))\<rparr>)))"

definition dp_wlistInit :: "shm_env \<Rightarrow> dp_state \<Rightarrow> (int \<times> dp_state) outcome" where
  "dp_wlistInit E st =
     (if \<not> se_ftok E then Inr (-1, st\<lparr>dp_wlist := Wl_failed\<rparr>)
      else if se_shmget_create E < 0 then
        (if se_errno E \<noteq> SHM_EXISTS then
           Inr (-1, st\<lparr>shmId := se_shmget_create E, dp_wlist := Wl_failed\<rparr>)
         else if se_shmget_open E < 0 then
           Inr (-1, st\<lparr>shmId := se_shmget_open E, dp_wlist := Wl_failed\<rparr>)
         else dp_attach E (se_shmget_open E) st)
      else dp_attach E (se_shmget_create E) st)"

text \<open>
  The state before \<open>dp_wlistInit\<close>: the file-scope variables are zero, so the FIFO has
  \<open>tail = 0\<close> and \<open>size = 0\<close>. No code calls \<open>INIT_FIFO\<close>.
\<close>

definition dp_static :: dp_state where
  "dp_static = \<lparr>dp_wlist = Wl_null,
     dp_wlist_fifo = \<lparr>f_entries = replicate MAX_OVERFLOW 0, f_tail = 0, f_size = 0\<rparr>, shmId = 0\<rparr>"

subsection \<open>Lookup\<close>

text \<open>
  A subscript of type \<open>short\<close>: a negative one is outside the table.
\<close>

definition at_short :: "c_short \<Rightarrow> nat" where
  "at_short i = (if sint i < 0 then MAX_BUF_SIZE else unat i)"

text \<open>
  The walk through the overflow area. The result is the returned index, \<open>*stat\<close> and
  \<open>*lastnode\<close>. The fuel is the number of steps a walk can make through a table of that size
  before it repeats a slot; without fuel left the walk does not end.
\<close>

fun dp_walk ::
  "nat \<Rightarrow> dp_entry list \<Rightarrow> c_long \<Rightarrow> string \<Rightarrow> c_short \<Rightarrow> c_ushort
     \<Rightarrow> (c_short \<times> dp_wlist_ss \<times> c_ushort) outcome" where
  "dp_walk 0 wl ip MAC index lastnode = Inl Non_termination"
| "dp_walk (Suc fuel) wl ip MAC index lastnode =
     bind_outcome (read_at wl (at_short index)) (\<lambda>e.
       if sint (ofb_index e) > 0 then
         (let lastnode = index; index = ofb_index e in
          bind_outcome (read_at wl (at_short index)) (\<lambda>e.
            if ipaddr e = ip then
              (if strncmp MAC (macaddr e) MAC_ADDRESS_SIZE = 0 then Inr (index, DP_COLLISION, lastnode)
               else Inr (index, DP_INVALID_MAC, lastnode))
            else dp_walk fuel wl ip MAC index lastnode))
       else Inr (-1, DP_COLLISION, lastnode))"

definition dpnode_lookup ::
  "dp_state \<Rightarrow> c_long \<Rightarrow> string \<Rightarrow> dp_wlist_ss \<Rightarrow> c_ushort
     \<Rightarrow> (c_short \<times> dp_wlist_ss \<times> c_ushort) outcome" where
  "dpnode_lookup st ip MAC stat lastnode =
     (case dp_wlist st of
        Wl_failed \<Rightarrow> Inr (ss_code DP_WLIST_ERROR, stat, lastnode)
      | Wl_null \<Rightarrow> Inl Null_deref
      | Mapped wl \<Rightarrow>
          (let index = dp_hashindex ip in
           bind_outcome (read_at wl (at_short index)) (\<lambda>e.
             if ofb_index e = -1 then Inr (-1, stat, lastnode)
             else if ipaddr e = ip then
               (if strncmp MAC (macaddr e) MAC_ADDRESS_SIZE = 0 then Inr (index, DP_SUCCESS, lastnode)
                else Inr (index, DP_INVALID_MAC, lastnode))
             else dp_walk (Suc MAX_BUF_SIZE) wl ip MAC index index)))"

subsection \<open>Insertion\<close>

definition strncpy_mac :: "string \<Rightarrow> string" where
  "strncpy_mac s = take MAC_ADDRESS_SIZE s"

definition new_entry :: "c_long \<Rightarrow> string \<Rightarrow> dp_entry" where
  "new_entry ip mac = \<lparr>ipaddr = ip, macaddr = strncpy_mac mac, ofb_index = 0\<rparr>"

definition modify_at ::
  "dp_entry list \<Rightarrow> nat \<Rightarrow> (dp_entry \<Rightarrow> dp_entry) \<Rightarrow> dp_entry list outcome" where
  "modify_at wl i g = bind_outcome (read_at wl i) (\<lambda>e. write_at wl i (g e))"

definition dpnode_insert ::
  "dp_state \<Rightarrow> c_long \<Rightarrow> string \<Rightarrow> dp_wlist_ss \<Rightarrow> c_ushort \<Rightarrow> (dp_wlist_ss \<times> dp_state) outcome" where
  "dpnode_insert st ip mac stat pindex =
     (case dp_wlist st of
        Wl_failed \<Rightarrow> Inr (DP_WLIST_ERROR, st)
      | Wl_null \<Rightarrow> Inl Null_deref
      | Mapped wl \<Rightarrow>
          bind_outcome (dpnode_lookup st ip mac stat pindex) (\<lambda>(index, stat, pindex).
            if index = -1 then
              (if stat = DP_COLLISION then
                 bind_outcome (DEQUEUE_FIFO (dp_wlist_fifo st)) (\<lambda>(f, v, fret).
                   case v of
                     None \<Rightarrow> Inr (DP_SUCCESS, st\<lparr>dp_wlist_fifo := f\<rparr>)
                   | Some v \<Rightarrow>
                       (let index = ucast v :: c_short in
                        bind_outcome (modify_at wl (at_short pindex) (\<lambda>e. e\<lparr>ofb_index := index\<rparr>)) (\<lambda>wl.
                        bind_outcome (write_at wl (at_short index) (new_entry ip mac)) (\<lambda>wl.
                        Inr (DP_SUCCESS, st\<lparr>dp_wlist_fifo := f, dp_wlist := Mapped wl\<rparr>)))))
               else
                 (let index = dp_hashindex ip in
                  bind_outcome (write_at wl (at_short index) (new_entry ip mac)) (\<lambda>wl.
                  Inr (DP_SUCCESS, st\<lparr>dp_wlist := Mapped wl\<rparr>))))
            else if stat = DP_INVALID_MAC then
              bind_outcome (modify_at wl (at_short index) (\<lambda>e. e\<lparr>macaddr := strncpy_mac mac\<rparr>)) (\<lambda>wl.
              Inr (DP_SUCCESS, st\<lparr>dp_wlist := Mapped wl\<rparr>))
            else Inr (DP_WLIST_ERROR, st)))"

subsection \<open>Deletion\<close>

text \<open>
  \<open>index\<close> is an \<open>unsigned short\<close> here, so the test \<open>index >= 0\<close> always holds and the
  answer \<open>-1\<close> of the lookup is the subscript 65535.
\<close>

definition dpnode_delete ::
  "dp_state \<Rightarrow> c_long \<Rightarrow> string \<Rightarrow> dp_wlist_ss \<Rightarrow> c_ushort \<Rightarrow> dp_state outcome" where
  "dpnode_delete st ip mac stat pindex =
     bind_outcome (dpnode_lookup st ip mac stat pindex) (\<lambda>(index, stat, pindex).
       if index \<noteq> ss_code DP_WLIST_ERROR then
         (case dp_wlist st of
            Mapped wl \<Rightarrow>
              if unat index < MAX_ENTRIES then
                bind_outcome (read_at wl (unat index)) (\<lambda>e.
                if ofb_index e = 0 then
                  bind_outcome (write_at wl (unat index) (e\<lparr>ofb_index := -1, ipaddr := 0\<rparr>)) (\<lambda>wl.
                  Inr (st\<lparr>dp_wlist := Mapped wl\<rparr>))
                else
                  (let tindex = ofb_index e :: c_ushort in
                   bind_outcome (read_at wl (unat tindex)) (\<lambda>t.
                   bind_outcome (write_at wl (unat index)
                     (e\<lparr>ofb_index := ofb_index t, ipaddr := ipaddr t, macaddr := strncpy_mac (macaddr t)\<rparr>)) (\<lambda>wl.
                   bind_outcome (modify_at wl (unat tindex) (\<lambda>t. t\<lparr>ofb_index := -1, ipaddr := 0\<rparr>)) (\<lambda>wl.
                   bind_outcome (ENQUEUE_FIFO (dp_wlist_fifo st) (ucast tindex)) (\<lambda>(f, ret).
                   Inr (st\<lparr>dp_wlist := Mapped wl, dp_wlist_fifo := f\<rparr>)))))))
              else
                bind_outcome (read_at wl (unat index)) (\<lambda>e.
                bind_outcome (modify_at wl (unat pindex) (\<lambda>p. p\<lparr>ofb_index := ofb_index e\<rparr>)) (\<lambda>wl.
                bind_outcome (modify_at wl (unat index) (\<lambda>e. e\<lparr>ofb_index := -1, ipaddr := 0\<rparr>)) (\<lambda>wl.
                bind_outcome (ENQUEUE_FIFO (dp_wlist_fifo st) (ucast index)) (\<lambda>(f, ret).
                Inr (st\<lparr>dp_wlist := Mapped wl, dp_wlist_fifo := f\<rparr>)))))
          | _ \<Rightarrow> Inl Null_deref)
       else Inr st)"


subsection \<open>Arithmetic of the hash\<close>

lemma mask10_le: "unat ((w :: c_ushort) AND 0x3FF) \<le> 1023"
  using word_and_le1 [of w "0x3FF"] by (simp add: word_le_nat_alt)

lemma dp_hashindex_le: "unat (dp_hashindex ip) \<le> 1022"
proof -
  define r where "r = (ucast ((ip AND 0x3FF) + (signed_drop_bit 10 ip AND 0x3FF)
      + (signed_drop_bit 20 ip AND 0x3FF) + (signed_drop_bit 30 ip AND 0x3FF)) :: c_ushort)"
  define q where "q = ((r AND 0x3FF) + (if drop_bit 10 r \<noteq> 0 then 1 else 0)) AND (0x3FF :: c_ushort)"
  have h: "dp_hashindex ip = (if q \<noteq> 0 then q - 1 else q)"
    by (simp add: dp_hashindex_def Let_def r_def q_def)
  have "unat q \<le> 1023" unfolding q_def by (rule mask10_le)
  then have "q \<noteq> 0 \<Longrightarrow> unat (q - 1) \<le> 1022" by (simp add: unat_minus_one)
  moreover have "unat (0 :: c_ushort) \<le> 1022" by simp
  ultimately show ?thesis using h by (cases "q = 0") auto
qed

lemma sint_small: "unat (i :: c_short) < 32768 \<Longrightarrow> sint i = int (unat i)"
proof -
  assume a: "unat i < 32768"
  have u: "uint i = int (unat i)" by (rule uint_nat)
  with a have "- 32768 \<le> uint i \<and> uint i < 32768" by linarith
  then have "sint i = uint i" by (simp add: sint_uint signed_take_bit_int_eq_self_iff)
  with u show ?thesis by simp
qed

lemma at_short_small: "unat i < 32768 \<Longrightarrow> at_short i = unat i"
  by (simp add: at_short_def sint_small)

lemma at_short_hash [simp]: "at_short (dp_hashindex ip) = unat (dp_hashindex ip)"
  using dp_hashindex_le [of ip] by (intro at_short_small) simp

lemma hash_in_table [simp]: "unat (dp_hashindex ip) < 2048"
  using dp_hashindex_le [of ip] by simp

lemma hash_neq_minus_one [simp]: "dp_hashindex ip \<noteq> -1"
proof
  assume "dp_hashindex ip = -1"
  then have "unat (dp_hashindex ip) = 65535" by (simp add: unsigned_minus_1_eq_mask mask_eq_exp_minus_1)
  with dp_hashindex_le [of ip] show False by simp
qed

subsection \<open>The reachable tables\<close>

text \<open>
  The FIFO of free overflow slots is never initialised, so it stays empty, and every slot in
  use holds the end of its chain: an overflow slot is never linked.
\<close>

definition slot_ok :: "nat \<Rightarrow> dp_entry \<Rightarrow> bool" where
  "slot_ok i e \<longleftrightarrow> ofb_index e = -1 \<or>
     ofb_index e = 0 \<and> i = unat (dp_hashindex (ipaddr e)) \<and> length (macaddr e) \<le> MAC_ADDRESS_SIZE"

definition flat_table :: "dp_entry list \<Rightarrow> bool" where
  "flat_table wl \<longleftrightarrow> length wl = MAX_BUF_SIZE \<and> (\<forall>i < MAX_BUF_SIZE. slot_ok i (wl ! i))"

definition dp_inv :: "dp_state \<Rightarrow> bool" where
  "dp_inv st \<longleftrightarrow> f_tail (dp_wlist_fifo st) = f_size (dp_wlist_fifo st) \<and>
     (case dp_wlist st of Mapped wl \<Rightarrow> flat_table wl | _ \<Rightarrow> False)"

text \<open>The map a table stands for: the MAC address recorded for an IP address.\<close>

definition slot_abs :: "dp_entry list \<Rightarrow> c_long \<Rightarrow> string option" where
  "slot_abs wl ip = (let e = wl ! unat (dp_hashindex ip) in
     if ofb_index e \<noteq> -1 \<and> ipaddr e = ip then Some (macaddr e) else None)"

definition dp_abs :: "dp_state \<Rightarrow> c_long \<Rightarrow> string option" where
  "dp_abs st = (case dp_wlist st of Mapped wl \<Rightarrow> slot_abs wl | _ \<Rightarrow> Map.empty)"

text \<open>A new address finds its bucket taken by another one.\<close>

definition bucket_taken :: "(c_long \<Rightarrow> string option) \<Rightarrow> c_long \<Rightarrow> bool" where
  "bucket_taken m ip \<longleftrightarrow>
     (\<exists>ip'. ip' \<noteq> ip \<and> dp_hashindex ip' = dp_hashindex ip \<and> m ip' \<noteq> None)"

lemma dp_invE:
  assumes "dp_inv st"
  obtains wl where "dp_wlist st = Mapped wl" "flat_table wl"
    "f_tail (dp_wlist_fifo st) = f_size (dp_wlist_fifo st)"
  using assms by (auto simp: dp_inv_def split: dp_ptr.splits)

lemma flat_table_length: "flat_table wl \<Longrightarrow> length wl = 2048"
  by (simp add: flat_table_def dp_sizes)

lemma flat_table_slot:
  "flat_table wl \<Longrightarrow> i < 2048 \<Longrightarrow> ofb_index (wl ! i) \<noteq> -1 \<Longrightarrow>
     ofb_index (wl ! i) = 0 \<and> unat (dp_hashindex (ipaddr (wl ! i))) = i \<and>
     length (macaddr (wl ! i)) \<le> 20"
  by (auto simp: flat_table_def slot_ok_def dp_sizes)

lemma flat_table_update: "flat_table wl \<Longrightarrow> slot_ok i e \<Longrightarrow> flat_table (wl[i := e])"
  by (cases "i < length wl") (auto simp: flat_table_def dp_sizes nth_list_update)

lemma slot_abs_update:
  assumes "length wl = 2048" "i < 2048"
  shows "slot_abs (wl[i := e]) ip =
    (if unat (dp_hashindex ip) = i
     then (if ofb_index e \<noteq> -1 \<and> ipaddr e = ip then Some (macaddr e) else None)
     else slot_abs wl ip)"
  using assms by (auto simp: slot_abs_def Let_def)

lemma slot_abs_occupant:
  assumes "flat_table wl" "ofb_index (wl ! unat (dp_hashindex ip)) \<noteq> -1"
  shows "slot_abs wl (ipaddr (wl ! unat (dp_hashindex ip))) =
     Some (macaddr (wl ! unat (dp_hashindex ip)))"
  using assms flat_table_slot [OF assms(1), of "unat (dp_hashindex ip)"]
  by (simp add: slot_abs_def Let_def)

lemma bucket_taken_iff:
  assumes "flat_table wl"
  shows "bucket_taken (slot_abs wl) ip \<longleftrightarrow>
    ofb_index (wl ! unat (dp_hashindex ip)) \<noteq> -1 \<and> ipaddr (wl ! unat (dp_hashindex ip)) \<noteq> ip"
proof
  assume "bucket_taken (slot_abs wl) ip"
  then show "ofb_index (wl ! unat (dp_hashindex ip)) \<noteq> -1 \<and> ipaddr (wl ! unat (dp_hashindex ip)) \<noteq> ip"
    by (auto simp: bucket_taken_def slot_abs_def Let_def split: if_splits)
next
  assume *: "ofb_index (wl ! unat (dp_hashindex ip)) \<noteq> -1 \<and> ipaddr (wl ! unat (dp_hashindex ip)) \<noteq> ip"
  then have "unat (dp_hashindex (ipaddr (wl ! unat (dp_hashindex ip)))) = unat (dp_hashindex ip)"
    using flat_table_slot [OF assms, of "unat (dp_hashindex ip)"] by simp
  then have "dp_hashindex (ipaddr (wl ! unat (dp_hashindex ip))) = dp_hashindex ip"
    by (simp add: word_unat_eq_iff)
  then show "bucket_taken (slot_abs wl) ip"
    using * slot_abs_occupant [OF assms, of ip] by (auto simp: bucket_taken_def)
qed

subsection \<open>The operations on reachable tables\<close>

lemma dp_walk_flat:
  "i < 2048 \<Longrightarrow> length wl = 2048 \<Longrightarrow> at_short index = i \<Longrightarrow> ofb_index (wl ! i) = 0 \<Longrightarrow>
   dp_walk (Suc n) wl ip MAC index lastnode = Inr (-1, DP_COLLISION, lastnode)"
  by simp

lemma dpnode_lookup_flat:
  assumes "dp_wlist st = Mapped wl" "flat_table wl"
  shows "dpnode_lookup st ip MAC stat lastnode =
    (let e = wl ! unat (dp_hashindex ip) in
     if ofb_index e = -1 then Inr (-1, stat, lastnode)
     else if ipaddr e = ip then
       Inr (dp_hashindex ip,
         if take 20 MAC = take 20 (macaddr e) then DP_SUCCESS else DP_INVALID_MAC, lastnode)
     else Inr (-1, DP_COLLISION, dp_hashindex ip))"
  using assms flat_table_length [OF assms(2)]
    flat_table_slot [OF assms(2), of "unat (dp_hashindex ip)"]
  by (simp add: dpnode_lookup_def Let_def dp_walk_flat [of "unat (dp_hashindex ip)"]
      MAC_ADDRESS_SIZE_def del: dp_walk.simps)

lemma DEQUEUE_empty:
  "f_tail f = f_size f \<Longrightarrow> DEQUEUE_FIFO f = Inr (f, None, FIFO_EMPTY)"
  by (simp add: DEQUEUE_FIFO_def)

lemma slot_ok_new [simp]: "slot_ok (unat (dp_hashindex ip)) (new_entry ip mac)"
  by (simp add: slot_ok_def new_entry_def strncpy_mac_def dp_sizes)

lemma dpnode_insert_flat:
  assumes "dp_wlist st = Mapped wl" "flat_table wl"
    "f_tail (dp_wlist_fifo st) = f_size (dp_wlist_fifo st)"
  shows "dpnode_insert st ip mac stat pindex =
    (let h = unat (dp_hashindex ip); e = wl ! h in
     if ofb_index e = -1 then
       Inr (DP_SUCCESS, if stat = DP_COLLISION then st
                        else st\<lparr>dp_wlist := Mapped (wl[h := new_entry ip mac])\<rparr>)
     else if ipaddr e = ip then
       (if take 20 mac = take 20 (macaddr e) then Inr (DP_WLIST_ERROR, st)
        else Inr (DP_SUCCESS, st\<lparr>dp_wlist := Mapped (wl[h := e\<lparr>macaddr := take 20 mac\<rparr>])\<rparr>))
     else Inr (DP_SUCCESS, st))"
  using assms(1,3) flat_table_length [OF assms(2)]
  by (simp add: dpnode_insert_def dpnode_lookup_flat [OF assms(1,2)] Let_def DEQUEUE_empty
      modify_at_def strncpy_mac_def MAC_ADDRESS_SIZE_def)

lemma dpnode_delete_flat:
  assumes "dp_wlist st = Mapped wl" "flat_table wl"
  shows "dpnode_delete st ip mac stat pindex =
    (let h = unat (dp_hashindex ip); e = wl ! h in
     if ofb_index e = -1 \<or> ipaddr e \<noteq> ip then Inl Out_of_bounds
     else if h = 3 then Inr st
     else Inr (st\<lparr>dp_wlist := Mapped (wl[h := e\<lparr>ofb_index := -1, ipaddr := 0\<rparr>])\<rparr>))"
proof -
  let ?h = "unat (dp_hashindex ip)"
  have m1: "unat (- 1 :: c_ushort) = 65535" by (simp add: unsigned_minus_1_eq_mask mask_eq_exp_minus_1)
  have h3: "dp_hashindex ip = 3 \<longleftrightarrow> ?h = 3" by (simp add: word_unat_eq_iff)
  have "?h < 1024" using dp_hashindex_le [of ip] by simp
  then show ?thesis
    using assms(1) flat_table_length [OF assms(2)] flat_table_slot [OF assms(2), of ?h] h3
    by (simp add: dpnode_delete_def dpnode_lookup_flat [OF assms] Let_def m1 dp_sizes)
qed

lemma dp_abs_Mapped [simp]: "dp_wlist st = Mapped wl \<Longrightarrow> dp_abs st = slot_abs wl"
  by (simp add: dp_abs_def)

lemma dp_abs_update [simp]: "dp_abs (st\<lparr>dp_wlist := Mapped wl\<rparr>) = slot_abs wl"
  by (simp add: dp_abs_def)

lemma slot_abs_new:
  assumes "flat_table wl" "ofb_index e = 0" "ipaddr e = ip"
    "ofb_index (wl ! unat (dp_hashindex ip)) = -1 \<or> ipaddr (wl ! unat (dp_hashindex ip)) = ip"
  shows "slot_abs (wl[unat (dp_hashindex ip) := e]) = (slot_abs wl)(ip \<mapsto> macaddr e)"
  using assms flat_table_length [OF assms(1)]
  by (auto simp: fun_eq_iff slot_abs_update) (auto simp: slot_abs_def Let_def)

lemma slot_abs_delete:
  assumes "flat_table wl" "ofb_index (wl ! unat (dp_hashindex ip)) = -1 \<or> ipaddr (wl ! unat (dp_hashindex ip)) = ip"
    "ofb_index e = -1"
  shows "slot_abs (wl[unat (dp_hashindex ip) := e]) = (slot_abs wl)(ip := None)"
  using assms flat_table_length [OF assms(1)]
  by (auto simp: fun_eq_iff slot_abs_update) (auto simp: slot_abs_def Let_def)

lemma dpnode_delete_unlisted:
  assumes "dp_inv st" "dp_abs st ip = None"
  shows "dpnode_delete st ip mac stat pindex = Inl Out_of_bounds"
proof -
  from assms(1) obtain wl where wl: "dp_wlist st = Mapped wl" "flat_table wl" by (rule dp_invE)
  show ?thesis
    using assms(2) wl(1) by (auto simp: dpnode_delete_flat [OF wl] Let_def slot_abs_def split: if_splits)
qed

lemma bucket_taken_unlisted: "dp_inv st \<Longrightarrow> bucket_taken (dp_abs st) ip \<Longrightarrow> dp_abs st ip = None"
proof -
  assume "dp_inv st" and t: "bucket_taken (dp_abs st) ip"
  then obtain wl where wl: "dp_wlist st = Mapped wl" "flat_table wl" by (auto elim: dp_invE)
  with t show ?thesis using bucket_taken_iff [OF wl(2), of ip] by (simp add: slot_abs_def Let_def)
qed

subsection \<open>The contract of the white list\<close>

text \<open>
  What the device list relies on: an address table with room for one address per bucket. An
  entry that is inserted carries the MAC address and whatever the callee's uninitialised
  locals held; \<open>ok\<close> says for which of these the insertion takes place.
\<close>

locale mac_table =
  fixes lookup :: "'s \<Rightarrow> 'ip \<Rightarrow> 'm option"
    and ins :: "'s \<Rightarrow> 'ip \<Rightarrow> 'e \<Rightarrow> 's outcome"
    and del :: "'s \<Rightarrow> 'ip \<Rightarrow> 'e \<Rightarrow> 's outcome"
    and inv :: "'s \<Rightarrow> bool"
    and bucket :: "'ip \<Rightarrow> 'b"
    and val :: "'e \<Rightarrow> 'm"
    and ok :: "'e \<Rightarrow> bool"
    and deletable :: "'ip \<Rightarrow> bool"
  assumes one_per_bucket:
      "inv s \<Longrightarrow> lookup s a \<noteq> None \<Longrightarrow> lookup s b \<noteq> None \<Longrightarrow> bucket a = bucket b \<Longrightarrow> a = b"
    and insert_free:
      "inv s \<Longrightarrow> ok e \<Longrightarrow> (\<And>b. b \<noteq> a \<Longrightarrow> bucket b = bucket a \<Longrightarrow> lookup s b = None) \<Longrightarrow>
         \<exists>s'. ins s a e = Inr s' \<and> inv s' \<and> lookup s' = (lookup s)(a \<mapsto> val e)"
    and insert_taken:
      "inv s \<Longrightarrow> b \<noteq> a \<Longrightarrow> bucket b = bucket a \<Longrightarrow> lookup s b \<noteq> None \<Longrightarrow>
         \<exists>s'. ins s a e = Inr s' \<and> inv s' \<and> lookup s' = lookup s"
    and delete_present:
      "inv s \<Longrightarrow> lookup s a \<noteq> None \<Longrightarrow> deletable a \<Longrightarrow>
         \<exists>s'. del s a e = Inr s' \<and> inv s' \<and> lookup s' = (lookup s)(a := None)"

text \<open>A sequence of insertions, as a sequence of discovered devices makes it.\<close>

fun enrol_all :: "('s \<Rightarrow> 'ip \<Rightarrow> 'e \<Rightarrow> 's outcome) \<Rightarrow> 's \<Rightarrow> ('ip \<times> 'e) list \<Rightarrow> 's outcome" where
  "enrol_all ins s [] = Inr s"
| "enrol_all ins s ((a, e) # xs) = bind_outcome (ins s a e) (\<lambda>s. enrol_all ins s xs)"

context mac_table
begin

lemma insert_other:
  assumes "inv s" "ok e" "lookup s b = Some m" "b \<noteq> a"
  shows "\<exists>s'. ins s a e = Inr s' \<and> inv s' \<and> lookup s' b = Some m"
proof (cases "\<exists>c. c \<noteq> a \<and> bucket c = bucket a \<and> lookup s c \<noteq> None")
  case True
  then show ?thesis using insert_taken [OF assms(1)] assms(3) by metis
next
  case False
  then have "\<And>c. c \<noteq> a \<Longrightarrow> bucket c = bucket a \<Longrightarrow> lookup s c = None" by blast
  then obtain s' where "ins s a e = Inr s'" "inv s'" "lookup s' = (lookup s)(a \<mapsto> val e)"
    using insert_free [OF assms(1,2)] by blast
  then show ?thesis using assms(3,4) by simp
qed

lemma enrol_keeps:
  "inv s \<Longrightarrow> lookup s b = Some m \<Longrightarrow> b \<notin> fst ` set xs \<Longrightarrow> (\<forall>x \<in> set xs. ok (snd x)) \<Longrightarrow>
   \<exists>s'. enrol_all ins s xs = Inr s' \<and> inv s' \<and> lookup s' b = Some m"
proof (induction xs arbitrary: s)
  case (Cons x xs)
  obtain a e where x: "x = (a, e)" by (cases x)
  with Cons.prems have "b \<noteq> a" "ok e" by auto
  then obtain s' where s': "ins s a e = Inr s'" "inv s'" "lookup s' b = Some m"
    using insert_other [OF Cons.prems(1) _ Cons.prems(2)] by blast
  with Cons.IH [OF s'(2,3)] Cons.prems x show ?case by auto
qed simp

lemma enrol_distinct:
  "inv s \<Longrightarrow> (\<forall>x \<in> set xs. ok (snd x)) \<Longrightarrow> distinct (map (bucket \<circ> fst) xs) \<Longrightarrow>
   (\<forall>x \<in> set xs. \<forall>b. bucket b = bucket (fst x) \<longrightarrow> lookup s b = None) \<Longrightarrow>
   \<exists>s'. enrol_all ins s xs = Inr s' \<and> inv s' \<and> (\<forall>(a, e) \<in> set xs. lookup s' a = Some (val e))"
proof (induction xs arbitrary: s)
  case (Cons x xs)
  obtain a e where x: "x = (a, e)" by (cases x)
  with Cons.prems have "ok e" "\<And>b. bucket b = bucket a \<Longrightarrow> lookup s b = None" by auto
  then obtain s' where s': "ins s a e = Inr s'" "inv s'" "lookup s' = (lookup s)(a \<mapsto> val e)"
    using insert_free [OF Cons.prems(1), of e a] by blast
  have fresh: "\<forall>y \<in> set xs. \<forall>b. bucket b = bucket (fst y) \<longrightarrow> lookup s' b = None"
    using Cons.prems(3,4) x s'(3) by force
  have "a \<notin> fst ` set xs" using Cons.prems(3) x by force
  moreover have "lookup s' a = Some (val e)" using s'(3) by simp
  ultimately obtain t where t: "enrol_all ins s' xs = Inr t" "lookup t a = Some (val e)"
    using enrol_keeps [OF s'(2)] Cons.prems(2) by force
  obtain u where "enrol_all ins s' xs = Inr u \<and> inv u \<and> (\<forall>(a, e) \<in> set xs. lookup u a = Some (val e))"
    using Cons.IH [OF s'(2) _ _ fresh] Cons.prems(2,3) by auto
  with t x s'(1) show ?case by auto
qed simp

lemma enrol_then_delete:
  assumes "inv s" "lookup s a \<noteq> None" "deletable a"
  shows "\<exists>s'. del s a e = Inr s' \<and> inv s' \<and> lookup s' a = None \<and>
           (\<forall>b. b \<noteq> a \<longrightarrow> lookup s' b = lookup s b)"
  using delete_present [OF assms] by force

end

text \<open>
  The code provides the contract: the payload of an insertion is the MAC address with the
  contents of \<open>stat\<close> and \<open>pindex\<close>. A device in bucket 3 can't be deleted.
\<close>

type_synonym dp_payload = "string \<times> dp_wlist_ss \<times> c_ushort"

definition dp_ins :: "dp_state \<Rightarrow> c_long \<Rightarrow> dp_payload \<Rightarrow> dp_state outcome" where
  "dp_ins st ip = (\<lambda>(mac, stat, pindex).
     bind_outcome (dpnode_insert st ip mac stat pindex) (\<lambda>(r, st'). Inr st'))"

definition dp_del :: "dp_state \<Rightarrow> c_long \<Rightarrow> dp_payload \<Rightarrow> dp_state outcome" where
  "dp_del st ip = (\<lambda>(mac, stat, pindex). dpnode_delete st ip mac stat pindex)"

definition dp_val :: "dp_payload \<Rightarrow> string" where
  "dp_val = (\<lambda>(mac, stat, pindex). take 20 mac)"

definition dp_ok :: "dp_payload \<Rightarrow> bool" where
  "dp_ok = (\<lambda>(mac, stat, pindex). stat \<noteq> DP_COLLISION)"

lemma dp_inv_update:
  "dp_inv st \<Longrightarrow> flat_table wl \<Longrightarrow> dp_inv (st\<lparr>dp_wlist := Mapped wl\<rparr>)"
  by (simp add: dp_inv_def)

lemma dpnode_insert_refines:
  assumes "dp_inv st" "stat \<noteq> DP_COLLISION"
  shows "\<exists>r st'. dpnode_insert st ip mac stat pindex = Inr (r, st') \<and> dp_inv st' \<and>
     dp_abs st' = (if bucket_taken (dp_abs st) ip then dp_abs st
                   else (dp_abs st)(ip \<mapsto> take 20 mac)) \<and>
     (r = DP_WLIST_ERROR \<longleftrightarrow> dp_abs st ip = Some (take 20 mac)) \<and>
     (r \<noteq> DP_WLIST_ERROR \<longrightarrow> r = DP_SUCCESS)"
proof -
  from assms(1) obtain wl where wl: "dp_wlist st = Mapped wl" "flat_table wl"
      "f_tail (dp_wlist_fifo st) = f_size (dp_wlist_fifo st)"
    by (rule dp_invE)
  let ?h = "unat (dp_hashindex ip)"
  let ?e = "wl ! ?h"
  note ins = dpnode_insert_flat [OF wl, of ip mac stat pindex, unfolded Let_def]
  have taken: "bucket_taken (dp_abs st) ip \<longleftrightarrow> ofb_index ?e \<noteq> -1 \<and> ipaddr ?e \<noteq> ip"
    using bucket_taken_iff [OF wl(2)] wl(1) by simp
  have absip: "dp_abs st ip = (if ofb_index ?e \<noteq> -1 \<and> ipaddr ?e = ip then Some (macaddr ?e) else None)"
    using wl(1) by (simp add: slot_abs_def Let_def)
  consider "ofb_index ?e = -1" | "ofb_index ?e \<noteq> -1" "ipaddr ?e = ip" | "ofb_index ?e \<noteq> -1" "ipaddr ?e \<noteq> ip"
    by blast
  then show ?thesis
  proof cases
    case 1
    have "slot_abs (wl[?h := new_entry ip mac]) = (slot_abs wl)(ip \<mapsto> take 20 mac)"
      using slot_abs_new [OF wl(2), of "new_entry ip mac"] 1
      by (simp add: new_entry_def strncpy_mac_def MAC_ADDRESS_SIZE_def)
    moreover have "flat_table (wl[?h := new_entry ip mac])"
      by (rule flat_table_update [OF wl(2)]) simp
    ultimately show ?thesis
      using 1 ins taken absip wl(1) assms dp_inv_update [OF assms(1)] by simp
  next
    case 2
    note slot = flat_table_slot [OF wl(2) hash_in_table 2(1)]
    show ?thesis
    proof (cases "take 20 mac = macaddr ?e")
      case True
      then show ?thesis using 2 ins taken absip wl(1) assms(1) slot by (simp add: fun_upd_idem)
    next
      case False
      have ok: "slot_ok ?h (?e\<lparr>macaddr := take 20 mac\<rparr>)"
        using slot 2 by (simp add: slot_ok_def MAC_ADDRESS_SIZE_def)
      have "slot_abs (wl[?h := ?e\<lparr>macaddr := take 20 mac\<rparr>]) = (slot_abs wl)(ip \<mapsto> take 20 mac)"
        using slot_abs_new [OF wl(2), of "?e\<lparr>macaddr := take 20 mac\<rparr>"] slot 2 by simp
      then show ?thesis
        using 2 False slot ins taken absip wl(1)
          dp_inv_update [OF assms(1) flat_table_update [OF wl(2) ok]] by simp
    qed
  next
    case 3
    then show ?thesis using ins taken absip wl(1) assms(1) by simp
  qed
qed

lemma dpnode_delete_refines:
  assumes "dp_inv st" "dp_abs st ip \<noteq> None" "dp_hashindex ip \<noteq> 3"
  shows "\<exists>st'. dpnode_delete st ip mac stat pindex = Inr st' \<and> dp_inv st' \<and>
     dp_abs st' = (dp_abs st)(ip := None)"
proof -
  from assms(1) obtain wl where wl: "dp_wlist st = Mapped wl" "flat_table wl"
    by (rule dp_invE)
  let ?h = "unat (dp_hashindex ip)"
  let ?e = "wl ! ?h"
  let ?e' = "?e\<lparr>ofb_index := -1, ipaddr := 0\<rparr>"
  have e: "ofb_index ?e \<noteq> -1" "ipaddr ?e = ip"
    using assms(2) wl(1) by (auto simp: slot_abs_def Let_def split: if_splits)
  have "?h \<noteq> 3" using assms(3) by (simp add: word_unat_eq_iff)
  then have "dpnode_delete st ip mac stat pindex = Inr (st\<lparr>dp_wlist := Mapped (wl[?h := ?e'])\<rparr>)"
    using dpnode_delete_flat [OF wl, of ip mac stat pindex] e by (simp add: Let_def)
  moreover have "flat_table (wl[?h := ?e'])"
    by (rule flat_table_update [OF wl(2)]) (simp add: slot_ok_def)
  moreover have "slot_abs (wl[?h := ?e']) = (slot_abs wl)(ip := None)"
    using slot_abs_delete [OF wl(2), of ip ?e'] e by simp
  ultimately show ?thesis using wl(1) dp_inv_update [OF assms(1)] by simp
qed

interpretation dpl: mac_table dp_abs dp_ins dp_del dp_inv dp_hashindex dp_val dp_ok
    "\<lambda>ip. dp_hashindex ip \<noteq> 3"
proof
  fix s :: dp_state and a b :: c_long and e :: dp_payload
  assume inv: "dp_inv s"
  then obtain wl where wl: "dp_wlist s = Mapped wl" "flat_table wl"
      "f_tail (dp_wlist_fifo s) = f_size (dp_wlist_fifo s)"
    by (rule dp_invE)
  obtain mac stat pindex where e: "e = (mac, stat, pindex)" by (cases e)
  show "dp_abs s a \<noteq> None \<Longrightarrow> dp_abs s b \<noteq> None \<Longrightarrow> dp_hashindex a = dp_hashindex b \<Longrightarrow> a = b"
    using wl(1) by (auto simp: slot_abs_def Let_def split: if_splits)
  show "dp_ok e \<Longrightarrow> (\<And>b. b \<noteq> a \<Longrightarrow> dp_hashindex b = dp_hashindex a \<Longrightarrow> dp_abs s b = None) \<Longrightarrow>
      \<exists>s'. dp_ins s a e = Inr s' \<and> dp_inv s' \<and> dp_abs s' = (dp_abs s)(a \<mapsto> dp_val e)"
    using dpnode_insert_refines [OF inv, of stat a mac pindex] e
    by (force simp: dp_ok_def dp_ins_def dp_val_def bucket_taken_def)
  show "b \<noteq> a \<Longrightarrow> dp_hashindex b = dp_hashindex a \<Longrightarrow> dp_abs s b \<noteq> None \<Longrightarrow>
      \<exists>s'. dp_ins s a e = Inr s' \<and> dp_inv s' \<and> dp_abs s' = dp_abs s"
    using dpnode_insert_flat [OF wl, of a mac stat pindex] bucket_taken_iff [OF wl(2), of a] wl(1) inv e
    by (fastforce simp: dp_ins_def Let_def bucket_taken_def)
  show "dp_abs s a \<noteq> None \<Longrightarrow> dp_hashindex a \<noteq> 3 \<Longrightarrow>
      \<exists>s'. dp_del s a e = Inr s' \<and> dp_inv s' \<and> dp_abs s' = (dp_abs s)(a := None)"
    using dpnode_delete_refines [OF inv, of a mac stat pindex] e by (simp add: dp_del_def)
qed

subsection \<open>The initial list\<close>

definition shm_ok :: "shm_env \<Rightarrow> bool" where
  "shm_ok E \<longleftrightarrow> se_ftok E \<and>
     (se_shmget_create E \<ge> 0 \<or> se_errno E = SHM_EXISTS \<and> se_shmget_open E \<ge> 0) \<and>
     (case se_shmat E of None \<Rightarrow> False | Some wl \<Rightarrow> MAX_BUF_SIZE \<le> length wl)"

lemma fill_fifo_full: "f_tail f = 0 \<Longrightarrow> fill_fifo (i # is) f = Inr f"
  by (simp add: ENQUEUE_FIFO_def)

lemma dp_wlistInit_ok:
  assumes "shm_ok E"
  shows "\<exists>st. dp_wlistInit E dp_static = Inr (0, st) \<and> dp_inv st \<and> dp_abs st = Map.empty"
proof -
  from assms obtain wl where wl: "se_shmat E = Some wl" "2048 \<le> length wl"
    by (auto simp: shm_ok_def dp_sizes split: option.splits)
  let ?wl = "map (\<lambda>e. e\<lparr>ofb_index := -1\<rparr>) (take 2048 wl)"
  have up: "[1024..<2048] = 1024 # [1025..<2048]" by (simp add: upt_conv_Cons)
  have at: "dp_attach E sid dp_static = Inr (0, dp_static\<lparr>shmId := sid, dp_wlist := Mapped ?wl\<rparr>)" for sid
    using wl by (simp add: dp_attach_def dp_sizes up fill_fifo_full dp_static_def del: fill_fifo.simps)
  have "\<exists>sid. dp_wlistInit E dp_static = dp_attach E sid dp_static"
    using assms by (cases "se_shmget_create E < 0") (auto simp: dp_wlistInit_def shm_ok_def)
  then obtain sid where "dp_wlistInit E dp_static = dp_attach E sid dp_static" by blast
  moreover have "flat_table ?wl"
    using wl by (simp add: flat_table_def slot_ok_def dp_sizes)
  moreover have "slot_abs ?wl = Map.empty"
    using wl by (simp add: fun_eq_iff slot_abs_def Let_def)
  ultimately show ?thesis
    by (simp add: at dp_inv_def dp_abs_def) (simp add: dp_static_def)
qed

lemma dp_wlistInit_failed:
  assumes "dp_wlistInit E st = Inr (r, st')" "r \<noteq> 0"
  shows "dp_wlist st' = Wl_failed"
  using assms
  by (auto simp: dp_wlistInit_def dp_attach_def bind_outcome_Inr_iff split: if_splits option.splits)

text \<open>Two addresses of the same bucket, and a segment of zero bytes, for the witnesses.\<close>

definition shm_zero :: shm_env where
  "shm_zero = \<lparr>se_ftok = True, se_shmget_create = 0, se_errno = 0, se_shmget_open = 0,
     se_shmat = Some (replicate MAX_BUF_SIZE \<lparr>ipaddr = 0, macaddr = [], ofb_index = 0\<rparr>)\<rparr>"

lemma shm_ok_zero [simp]: "shm_ok shm_zero"
  by (simp add: shm_ok_def shm_zero_def)

definition dp_fresh :: dp_state where
  "dp_fresh = (case dp_wlistInit shm_zero dp_static of Inr (r, st) \<Rightarrow> st | Inl _ \<Rightarrow> dp_static)"

lemma dp_fresh: "dp_wlistInit shm_zero dp_static = Inr (0, dp_fresh)"
    "dp_inv dp_fresh" "dp_abs dp_fresh = Map.empty"
  using dp_wlistInit_ok [of shm_zero] by (auto simp: dp_fresh_def)

text \<open>
  Link-local addresses in the byte order of \<open>inet_aton\<close>: 169.254.1.1 and 169.254.0.5 share
  bucket 823, 169.254.128.209 has bucket 3, and 192.168.0.10 bucket 393.
\<close>

lemma hash_examples:
  "dp_hashindex 0x0101FEA9 = 823" "dp_hashindex 0x0500FEA9 = 823" "dp_hashindex 0xFCC2FEA9 = 823"
  "dp_hashindex 0xD180FEA9 = 3" "dp_hashindex 0x0A00A8C0 = 393"
  by (simp_all add: dp_hashindex_def)

subsection \<open>Chains through the overflow area\<close>

text \<open>
  \<open>dp_chain wl i js\<close>: from slot \<open>i\<close> the links run through the slots \<open>js\<close>, all of them in the
  table, and end there.
\<close>

inductive dp_chain :: "dp_entry list \<Rightarrow> nat \<Rightarrow> nat list \<Rightarrow> bool" for wl :: "dp_entry list" where
  chain_end: "i < length wl \<Longrightarrow> sint (ofb_index (wl ! i)) \<le> 0 \<Longrightarrow> dp_chain wl i []"
| chain_link: "i < length wl \<Longrightarrow> 0 < sint (ofb_index (wl ! i)) \<Longrightarrow> j = unat (ofb_index (wl ! i)) \<Longrightarrow>
    dp_chain wl j js \<Longrightarrow> dp_chain wl i (j # js)"

inductive_cases dp_chain_NilE: "dp_chain wl i []"
inductive_cases dp_chain_ConsE: "dp_chain wl i (j # js)"

lemma dp_chain_tail: "dp_chain wl i (j # js) \<Longrightarrow> dp_chain wl j js"
  by (erule dp_chain_ConsE) blast

lemma dp_chain_in: "dp_chain wl i js \<Longrightarrow> i < length wl \<and> set js \<subseteq> {..<length wl}"
  by (induction rule: dp_chain.induct) auto

lemma dp_chain_unique: "dp_chain wl i js \<Longrightarrow> dp_chain wl i ks \<Longrightarrow> js = ks"
proof (induction arbitrary: ks rule: dp_chain.induct)
  case (chain_end i)
  from chain_end.prems show ?case
    by (cases rule: dp_chain.cases) (use chain_end.hyps in auto)
next
  case (chain_link i j js)
  from chain_link.prems show ?case
  proof (cases rule: dp_chain.cases)
    case chain_end
    with chain_link.hyps(2) show ?thesis by simp
  next
    case (chain_link k ls)
    then show ?thesis using chain_link.IH [of ls] by (simp add: \<open>j = _\<close>)
  qed
qed

lemma dp_chain_suffix: "dp_chain wl i (xs @ j # ys) \<Longrightarrow> dp_chain wl j ys"
proof (induction xs arbitrary: i)
  case Nil
  then have "dp_chain wl i (j # ys)" by simp
  then show ?case by (rule dp_chain_tail)
next
  case (Cons x xs)
  then have "dp_chain wl i (x # xs @ j # ys)" by simp
  then have "dp_chain wl x (xs @ j # ys)" by (rule dp_chain_tail)
  then show ?case by (rule Cons.IH)
qed

lemma dp_chain_distinct: "dp_chain wl i js \<Longrightarrow> distinct (i # js)"
proof (induction rule: dp_chain.induct)
  case (chain_link i j js)
  have c: "dp_chain wl i (j # js)" using chain_link by (auto intro: dp_chain.chain_link)
  have "i \<notin> set (j # js)"
  proof
    assume "i \<in> set (j # js)"
    then obtain xs ys where xy: "j # js = xs @ i # ys" by (meson split_list)
    with c have "dp_chain wl i ys" by (metis dp_chain_suffix)
    with c have "j # js = ys" by (rule dp_chain_unique)
    with xy have "length ys = length xs + Suc (length ys)" by simp
    then show False by simp
  qed
  with chain_link.IH show ?case by simp
qed simp

lemma dp_chain_length: "dp_chain wl i js \<Longrightarrow> length js < length wl"
proof -
  assume c: "dp_chain wl i js"
  have "card (set (i # js)) \<le> card {..<length wl}"
    using dp_chain_in [OF c] by (intro card_mono) auto
  moreover have "card (set (i # js)) = Suc (length js)"
    using dp_chain_distinct [OF c] by (metis distinct_card length_Cons)
  ultimately show ?thesis by simp
qed

lemma dp_walk_chain:
  "dp_chain wl i js \<Longrightarrow> at_short index = i \<Longrightarrow> length wl \<le> MAX_BUF_SIZE \<Longrightarrow> length js < fuel \<Longrightarrow>
   \<exists>r. dp_walk fuel wl ip MAC index lastnode = Inr r"
proof (induction arbitrary: index lastnode fuel rule: dp_chain.induct)
  case (chain_end i)
  then obtain n where "fuel = Suc n" by (cases fuel) auto
  with chain_end show ?case by simp
next
  case (chain_link i j js)
  then obtain n where n: "fuel = Suc n" "length js < n" by (cases fuel) auto
  have j: "j < length wl" using dp_chain_in [OF chain_link.hyps(4)] by simp
  have aj: "at_short (ofb_index (wl ! i)) = j"
    using chain_link.hyps by (simp add: at_short_def)
  obtain r where "dp_walk n wl ip MAC (ofb_index (wl ! i)) index = Inr r"
    using chain_link.IH [OF aj _ n(2)] chain_link.prems by blast
  with n j aj chain_link.hyps chain_link.prems show ?case by (cases r) (simp add: Let_def)
qed

lemma dpnode_lookup_chain:
  assumes "dp_wlist st = Mapped wl" "length wl \<le> MAX_BUF_SIZE"
    "dp_chain wl (unat (dp_hashindex ip)) js"
  shows "\<exists>r. dpnode_lookup st ip MAC stat lastnode = Inr r"
proof -
  have "length js < Suc MAX_BUF_SIZE" using dp_chain_length [OF assms(3)] assms(2) by simp
  then obtain r where "dp_walk (Suc MAX_BUF_SIZE) wl ip MAC (dp_hashindex ip) (dp_hashindex ip) = Inr r"
    using dp_walk_chain [OF assms(3) _ assms(2)] at_short_hash by blast
  then show ?thesis
    using assms(1) dp_chain_in [OF assms(3)] by (cases r) (simp add: dpnode_lookup_def Let_def del: dp_walk.simps)
qed

subsection \<open>Properties\<close>

lemma dp_wlistInit_zero:
  assumes "dp_wlistInit E dp_static = Inr (0, st)"
  shows "dp_inv st \<and> dp_abs st = Map.empty"
proof -
  have "shm_ok E"
    using assms
    by (auto simp: dp_wlistInit_def dp_attach_def shm_ok_def bind_outcome_Inr_iff
        split: if_splits option.splits)
  then show ?thesis using dp_wlistInit_ok [of E] assms by auto
qed

text \<open>
  C27. After a successful \<open>dp_wlistInit\<close>, inserting any sequence of devices whose addresses
  fall into different buckets (with \<open>stat\<close> not happening to hold \<open>DP_COLLISION\<close>) succeeds,
  and every one of them is then recorded with the first 20 characters of its MAC address.
\<close>

theorem whitelist_enrols_distinct_buckets:
  assumes "dp_wlistInit E dp_static = Inr (0, st)"
    and "\<forall>x \<in> set xs. dp_ok (snd x)"
    and "distinct (map (dp_hashindex \<circ> fst) xs)"
  shows "\<exists>st'. enrol_all dp_ins st xs = Inr st' \<and> dp_inv st' \<and>
     (\<forall>(ip, e) \<in> set xs. dp_abs st' ip = Some (dp_val e))"
  using dpl.enrol_distinct [of st xs] dp_wlistInit_zero [OF assms(1)] assms(2,3) by simp

theorem whitelist_enrols_distinct_buckets_witness:
  "\<exists>st'. enrol_all dp_ins dp_fresh [(0x0101FEA9, ''aa'', DP_SUCCESS, 0), (0x0A00A8C0, ''bb'', DP_SUCCESS, 0)]
      = Inr st' \<and> dp_inv st' \<and> dp_abs st' 0x0A00A8C0 = Some ''bb''"
  using whitelist_enrols_distinct_buckets [OF dp_fresh(1),
      of "[(0x0101FEA9, ''aa'', DP_SUCCESS, 0), (0x0A00A8C0, ''bb'', DP_SUCCESS, 0)]"]
  by (auto simp: dp_ok_def dp_val_def hash_examples)



text \<open>
  \<open>dpnode_lookup\<close> on any table the service can reach returns, answers -1 exactly for the
  addresses that are not recorded, and for a recorded one gives its bucket and whether the
  first 20 characters of the MAC address agree.
\<close>

theorem whitelist_lookup:
  assumes "dp_inv st"
  shows "\<exists>index stat' ln'. dpnode_lookup st ip MAC stat ln = Inr (index, stat', ln') \<and>
     (index = -1 \<longleftrightarrow> dp_abs st ip = None) \<and>
     (\<forall>m. dp_abs st ip = Some m \<longrightarrow> index = dp_hashindex ip \<and>
        stat' = (if take 20 MAC = take 20 m then DP_SUCCESS else DP_INVALID_MAC))"
proof -
  from assms obtain wl where wl: "dp_wlist st = Mapped wl" "flat_table wl" by (rule dp_invE)
  show ?thesis
    using wl(1) by (simp add: dpnode_lookup_flat [OF wl] Let_def slot_abs_def)
qed

theorem whitelist_lookup_witness:
  "dp_inv dp_fresh \<and> (\<exists>stat' ln'. dpnode_lookup dp_fresh 7 ''aa'' DP_SUCCESS 0 = Inr (-1, stat', ln'))"
  using whitelist_lookup [OF dp_fresh(2), of 7 "''aa''" DP_SUCCESS 0] dp_fresh(2,3) by auto

text \<open>
  C29. \<open>dpnode_delete\<close> of a recorded address removes that address and nothing else, except
  that an address of bucket 3 stays: its index equals the error code \<open>DP_WLIST_ERROR\<close>.
\<close>

theorem whitelist_delete:
  assumes "dp_inv st" "dp_abs st ip \<noteq> None"
  shows "\<exists>st'. dpnode_delete st ip mac stat pindex = Inr st' \<and> dp_inv st' \<and>
     dp_abs st' = (if dp_hashindex ip = 3 then dp_abs st else (dp_abs st)(ip := None))"
proof (cases "dp_hashindex ip = 3")
  case True
  from assms(1) obtain wl where wl: "dp_wlist st = Mapped wl" "flat_table wl" by (rule dp_invE)
  show ?thesis
    using assms wl(1) True
    by (auto simp: dpnode_delete_flat [OF wl] Let_def slot_abs_def split: if_splits)
next
  case False
  then show ?thesis using dpnode_delete_refines [OF assms] by simp
qed

definition dp_with_bucket3 :: dp_state where
  "dp_with_bucket3 = (case dpnode_insert dp_fresh 0xD180FEA9 ''cc'' DP_SUCCESS 0 of
     Inr (r, st) \<Rightarrow> st | Inl _ \<Rightarrow> dp_fresh)"

lemma dp_with_bucket3: "dp_inv dp_with_bucket3" "dp_abs dp_with_bucket3 0xD180FEA9 = Some ''cc''"
  using dpnode_insert_refines [OF dp_fresh(2), of DP_SUCCESS "0xD180FEA9" "''cc''" 0] dp_fresh(3)
  by (auto simp: dp_with_bucket3_def bucket_taken_def)

theorem whitelist_delete_witness:
  "\<exists>st'. dpnode_delete dp_with_bucket3 0xD180FEA9 '' '' DP_SUCCESS 0 = Inr st' \<and>
     dp_abs st' 0xD180FEA9 = Some ''cc''"
  using whitelist_delete [OF dp_with_bucket3(1), of "0xD180FEA9" "'' ''" DP_SUCCESS 0]
  by (auto simp: dp_with_bucket3(2) hash_examples)

text \<open>
  An address whose bucket another device holds is refused silently: \<open>dpnode_insert\<close>
  answers \<open>DP_SUCCESS\<close> and changes nothing, whatever its locals held, and the
  \<open>dpnode_delete\<close> that follows when the device leaves accesses the table out of bounds.
\<close>

theorem whitelist_collision_lost_then_faults:
  assumes "dp_inv st" "bucket_taken (dp_abs st) ip"
  shows "dpnode_insert st ip mac stat pindex = Inr (DP_SUCCESS, st) \<and> dp_abs st ip = None \<and>
     dpnode_delete st ip mac' stat' pindex' = Inl Out_of_bounds"
proof -
  from assms(1) obtain wl where wl: "dp_wlist st = Mapped wl" "flat_table wl"
      "f_tail (dp_wlist_fifo st) = f_size (dp_wlist_fifo st)"
    by (rule dp_invE)
  show ?thesis
    using assms(2) wl(1) bucket_taken_iff [OF wl(2), of ip]
    by (simp add: dpnode_insert_flat [OF wl] dpnode_delete_flat [OF wl(1,2)] Let_def slot_abs_def)
qed

definition dp_with_first :: dp_state where
  "dp_with_first = (case dpnode_insert dp_fresh 0x0101FEA9 ''aa'' DP_SUCCESS 0 of
     Inr (r, st) \<Rightarrow> st | Inl _ \<Rightarrow> dp_fresh)"

lemma dp_with_first: "dp_inv dp_with_first" "bucket_taken (dp_abs dp_with_first) 0x0500FEA9"
proof -
  have "dp_inv dp_with_first \<and> dp_abs dp_with_first 0x0101FEA9 = Some ''aa''"
    using dpnode_insert_refines [OF dp_fresh(2), of DP_SUCCESS "0x0101FEA9" "''aa''" 0] dp_fresh(3)
    by (auto simp: dp_with_first_def bucket_taken_def)
  then show "dp_inv dp_with_first" "bucket_taken (dp_abs dp_with_first) 0x0500FEA9"
    by (auto simp: bucket_taken_def hash_examples intro!: exI [of _ "0x0101FEA9"])
qed

theorem whitelist_collision_lost_then_faults_witness:
  "dpnode_delete dp_with_first 0x0500FEA9 '' '' DP_SUCCESS 0 = Inl Out_of_bounds"
  using whitelist_collision_lost_then_faults [OF dp_with_first] by blast

text \<open>
  \<open>dpnode_insert\<close> reads \<open>stat\<close> before anything is stored in it: for a new address in a
  free bucket the outcome depends on the garbage the variable held. With \<open>DP_COLLISION\<close> in it
  the device is dropped, with anything else it is recorded; both answer \<open>DP_SUCCESS\<close>.
\<close>

theorem whitelist_insert_reads_garbage:
  assumes "dp_inv st" "dp_abs st ip = None" "\<not> bucket_taken (dp_abs st) ip"
  shows "\<exists>st'. dpnode_insert st ip mac stat pindex = Inr (DP_SUCCESS, st') \<and>
     (if stat = DP_COLLISION then st' = st else dp_abs st' = (dp_abs st)(ip \<mapsto> take 20 mac))"
proof (cases "stat = DP_COLLISION")
  case True
  from assms(1) obtain wl where wl: "dp_wlist st = Mapped wl" "flat_table wl"
      "f_tail (dp_wlist_fifo st) = f_size (dp_wlist_fifo st)"
    by (rule dp_invE)
  then show ?thesis
    using assms(2,3) True bucket_taken_iff [OF wl(2), of ip]
    by (auto simp: dpnode_insert_flat [OF wl] Let_def slot_abs_def split: if_splits)
next
  case False
  then show ?thesis using dpnode_insert_refines [OF assms(1) False, of ip mac pindex] assms(2,3) by auto
qed

theorem whitelist_insert_reads_garbage_witness:
  "dpnode_insert dp_fresh 0x0101FEA9 ''aa'' DP_COLLISION 0 = Inr (DP_SUCCESS, dp_fresh)"
  using whitelist_insert_reads_garbage [OF dp_fresh(2), of "0x0101FEA9" "''aa''" DP_COLLISION 0] dp_fresh(3)
  by (auto simp: bucket_taken_def)

text \<open>
  C30. The search loop of \<open>dpnode_lookup\<close> ends and stays inside the table whenever the links
  from the bucket end, however long the chain.
\<close>

theorem whitelist_lookup_terminates:
  assumes "dp_wlist st = Mapped wl" "length wl \<le> MAX_BUF_SIZE"
    "dp_chain wl (unat (dp_hashindex ip)) js"
  shows "\<exists>r. dpnode_lookup st ip MAC stat lastnode = Inr r"
  by (rule dpnode_lookup_chain [OF assms])

text \<open>A table with a bucket of two: 169.254.1.1 in slot 823, 169.254.0.5 linked in slot 1024.\<close>

definition wl_chained :: "dp_entry list" where
  "wl_chained = (replicate 2048 \<lparr>ipaddr = 0, macaddr = [], ofb_index = -1\<rparr>)
     [823 := \<lparr>ipaddr = 0x0101FEA9, macaddr = ''aa'', ofb_index = 1024\<rparr>,
      1024 := \<lparr>ipaddr = 0x0500FEA9, macaddr = ''bb'', ofb_index = 0\<rparr>]"

definition st_chained :: dp_state where
  "st_chained = \<lparr>dp_wlist = Mapped wl_chained,
     dp_wlist_fifo = \<lparr>f_entries = replicate 1024 1025, f_tail = 1, f_size = 1024\<rparr>, shmId = 1\<rparr>"

lemma wl_chained:
  "length wl_chained = 2048"
  "wl_chained ! 823 = \<lparr>ipaddr = 0x0101FEA9, macaddr = ''aa'', ofb_index = 1024\<rparr>"
  "wl_chained ! 1024 = \<lparr>ipaddr = 0x0500FEA9, macaddr = ''bb'', ofb_index = 0\<rparr>"
  by (simp_all add: wl_chained_def nth_list_update)

lemma chain_chained: "dp_chain wl_chained 823 [1024]"
  by (intro dp_chain.intros) (simp_all add: wl_chained)

theorem whitelist_lookup_terminates_witness:
  "\<exists>r. dpnode_lookup st_chained 0x0500FEA9 ''bb'' DP_SUCCESS 0 = Inr r"
  by (rule whitelist_lookup_terminates [of _ wl_chained _ "[1024]"])
     (simp_all add: st_chained_def wl_chained dp_sizes hash_examples chain_chained)

text \<open>
  Even with free overflow slots, the third device of a bucket unlinks the second:
  \<open>dpnode_lookup\<close> leaves in \<open>lastnode\<close> the slot before the end of the chain, and
  \<open>dpnode_insert\<close> overwrites its link. The insertion answers \<open>DP_SUCCESS\<close>; the second
  device, found before, isn't found any more.
\<close>

theorem whitelist_third_unlinks_second:
  assumes "dp_wlist st = Mapped wl" "length wl = MAX_BUF_SIZE"
    and "dp_hashindex b = dp_hashindex a" "dp_hashindex c = dp_hashindex a" "distinct [a, b, c]"
    and "wl ! unat (dp_hashindex a) = \<lparr>ipaddr = a, macaddr = ma, ofb_index = o1\<rparr>"
    and "wl ! unat o1 = \<lparr>ipaddr = b, macaddr = mb, ofb_index = 0\<rparr>"
    and "DEQUEUE_FIFO (dp_wlist_fifo st) = Inr (f, Some v, FIFO_OK)"
    and "MAX_ENTRIES \<le> unat o1" "unat o1 < MAX_BUF_SIZE"
    and "MAX_ENTRIES \<le> unat (ucast v :: c_short)" "unat (ucast v :: c_short) < MAX_BUF_SIZE"
    and "ucast v \<noteq> o1"
  shows "dpnode_lookup st b mb stat ln = Inr (o1, DP_COLLISION, dp_hashindex a) \<and>
    (\<exists>st'. dpnode_insert st c mc stat ln = Inr (DP_SUCCESS, st') \<and>
       dpnode_lookup st' b mb stat ln = Inr (-1, DP_COLLISION, dp_hashindex a))"
proof -
  define o2 where "o2 = (ucast v :: c_short)"
  let ?h = "unat (dp_hashindex a)"
  have h: "?h < 1024" using dp_hashindex_le [of a] by simp
  have pos: "0 < sint i \<and> at_short i = unat i \<and> i \<noteq> -1"
    if "1024 \<le> unat i" "unat i < 2048" for i :: c_short
  proof -
    have "i \<noteq> -1" using that by (auto simp: unsigned_minus_1_eq_mask mask_eq_exp_minus_1)
    moreover have "sint i = int (unat i)" using that by (intro sint_small) linarith
    then have "0 < sint i" using that(1) by linarith
    moreover have "at_short i = unat i" using that by (intro at_short_small) linarith
    ultimately show ?thesis by blast
  qed
  have o1: "0 < sint o1 \<and> at_short o1 = unat o1 \<and> o1 \<noteq> -1"
    using assms(9,10) by (intro pos) (simp_all add: dp_sizes)
  have o2: "0 < sint o2 \<and> at_short o2 = unat o2 \<and> o2 \<noteq> -1"
    using assms(11,12) by (intro pos) (simp_all add: dp_sizes o2_def)
  have ne: "unat o1 \<noteq> unat o2" using assms(13) by (simp add: o2_def word_unat_eq_iff)
  have len: "length wl = 2048" using assms(2) by (simp add: dp_sizes)
  have distinct_rev: "b \<noteq> a" "c \<noteq> a" "c \<noteq> b" using assms(5) by auto
  note F = distinct_rev assms(1,3-10) len h o1 o2 ne assms(11,12) [folded o2_def] strncmp_def
  have walk: "dp_walk (Suc n) wl x MAC (dp_hashindex a) ln =
      (if x = b then Inr (o1, if strncmp MAC mb MAC_ADDRESS_SIZE = 0 then DP_COLLISION else DP_INVALID_MAC, dp_hashindex a)
       else dp_walk n wl x MAC o1 (dp_hashindex a))" for n x MAC ln
    using F by (simp add: Let_def dp_sizes)
  have walk0: "dp_walk (Suc n) wl x MAC o1 ln = Inr (-1, DP_COLLISION, ln)" for n x MAC ln
    using F by (simp add: Let_def dp_sizes)
  obtain k where k: "MAX_BUF_SIZE = Suc k" by (cases MAX_BUF_SIZE) (simp_all add: dp_sizes)
  have lb: "dpnode_lookup st b mb stat ln = Inr (o1, DP_COLLISION, dp_hashindex a)"
    using F by (simp add: dpnode_lookup_def Let_def walk del: dp_walk.simps)
  have lc: "dpnode_lookup st c mc stat ln = Inr (-1, DP_COLLISION, dp_hashindex a)"
    using F by (simp add: dpnode_lookup_def Let_def walk walk0 k del: dp_walk.simps)
  define wl' where "wl' = wl[?h := (wl ! ?h)\<lparr>ofb_index := o2\<rparr>, unat o2 := new_entry c mc]"
  have ins: "dpnode_insert st c mc stat ln =
      Inr (DP_SUCCESS, st\<lparr>dp_wlist_fifo := f, dp_wlist := Mapped wl'\<rparr>)"
    using F lc o2_def
    by (simp add: dpnode_insert_def modify_at_def Let_def wl'_def dp_sizes)
  have wl'_h: "wl' ! ?h = \<lparr>ipaddr = a, macaddr = ma, ofb_index = o2\<rparr>"
    using F by (simp add: wl'_def nth_list_update dp_sizes)
  have wl'_o2: "wl' ! unat o2 = new_entry c mc"
    using F by (simp add: wl'_def nth_list_update dp_sizes)
  have len': "length wl' = 2048" using len by (simp add: wl'_def)
  have "dp_walk (Suc (Suc n)) wl' b mb (dp_hashindex a) ln = Inr (-1, DP_COLLISION, dp_hashindex a)" for n ln
    using F wl'_h wl'_o2 len' by (simp add: Let_def dp_sizes new_entry_def)
  then have "dpnode_lookup (st\<lparr>dp_wlist_fifo := f, dp_wlist := Mapped wl'\<rparr>) b mb stat ln
      = Inr (-1, DP_COLLISION, dp_hashindex a)"
    using F wl'_h len' by (simp add: dpnode_lookup_def Let_def k del: dp_walk.simps)
  with lb ins show ?thesis by blast
qed

theorem whitelist_third_unlinks_second_witness:
  "\<exists>st'. dpnode_insert st_chained 0xFCC2FEA9 ''cc'' DP_SUCCESS 0 = Inr (DP_SUCCESS, st') \<and>
     dpnode_lookup st' 0x0500FEA9 ''bb'' DP_SUCCESS 0 = Inr (-1, DP_COLLISION, 823)"
  using whitelist_third_unlinks_second [of st_chained wl_chained "0x0500FEA9" "0x0101FEA9"
      "0xFCC2FEA9" "''aa''" 1024 "''bb''" "(dp_wlist_fifo st_chained)\<lparr>f_tail := 2\<rparr>" 1025 DP_SUCCESS 0 "''cc''"]
  by (simp add: st_chained_def wl_chained dp_sizes hash_examples DEQUEUE_FIFO_def)

text \<open>
  The hash stays below the last slot of the main table, for every value of a \<open>long\<close>.
\<close>

theorem dp_hashindex_bounds: "unat (dp_hashindex ip) < MAX_ENTRIES - 1"
  using dp_hashindex_le [of ip] by (simp add: MAX_ENTRIES_def)

text \<open>
  The index list is a stack: what \<open>ENQUEUE_FIFO\<close> stores, the next \<open>DEQUEUE_FIFO\<close> returns,
  with the position back where it was.
\<close>

theorem fifo_roundtrip:
  assumes "ENQUEUE_FIFO f v = Inr (f', FIFO_OK)" "f_tail f \<le> f_size f"
  shows "\<exists>f''. DEQUEUE_FIFO f' = Inr (f'', Some v, FIFO_OK) \<and>
     f_tail f'' = f_tail f \<and> f_size f'' = f_size f"
proof -
  from assms(1) have pos: "0 < f_tail f" and len: "unat (f_tail f - 1) < length (f_entries f)"
      and f': "f' = f\<lparr>f_tail := f_tail f - 1, f_entries := (f_entries f)[unat (f_tail f - 1) := v]\<rparr>"
    by (auto simp: ENQUEUE_FIFO_def Let_def bind_outcome_Inr_iff write_at_def split: if_splits)
  have "unat (f_tail f) \<noteq> 0" "f_tail f \<noteq> 0" using pos by (auto simp: unat_eq_0)
  then have "f_tail f - 1 < f_tail f" unfolding word_less_nat_alt by (simp add: unat_minus_one)
  then have "f_tail f - 1 \<noteq> f_size f" using assms(2) by auto
  then show ?thesis using f' len by (simp add: DEQUEUE_FIFO_def)
qed

theorem fifo_roundtrip_witness:
  "\<exists>f''. DEQUEUE_FIFO \<lparr>f_entries = [1024, 7], f_tail = 1, f_size = 2\<rparr> = Inr (f'', Some 7, FIFO_OK)"
  using fifo_roundtrip [of "\<lparr>f_entries = [1024, 0], f_tail = 2, f_size = 2\<rparr>" 7
      "\<lparr>f_entries = [1024, 7], f_tail = 1, f_size = 2\<rparr>"]
  by (auto simp: ENQUEUE_FIFO_def)

end
