(* ===== verification/Gwy_Data.thy ===== *)
theory Gwy_Data
  imports Glib
begin

text \<open>
  The record of a discovered device in \<open>src/xdiscovery.c\<close> (\<open>GwyDeviceData\<close> of
  \<open>include/xdiscovery_private.h\<close>), its initialisation and release, and the helpers on its
  strings: \<open>replace_string\<close>, \<open>replace_hn_with_local\<close>, \<open>replace_local_device_ip\<close>,
  \<open>checkvalidip\<close> and \<open>checkvalidhostname\<close>.
\<close>

subsection \<open>The device record\<close>

text \<open>
  The service proxies are only compared with NULL, so they are booleans. The field \<open>addr\<close> is
  the address of the allocation, by which the list refers to the device. The field \<open>make\<close> of
  the source is called \<open>make_str\<close>.
\<close>

record GwyDeviceData =
  addr :: nat
  serial_num :: string
  isgateway :: bool
  requirestrm :: bool
  gwyip :: string
  gwyipv6 :: string
  gatewaystbip :: string
  ipv6prefix :: string
  devicename :: string
  bcastmacaddress :: string
  hostmacaddress :: string
  recvdevtype :: string
  devicetype :: string
  buildversion :: string
  dsgtimezone :: string
  rawoffset :: c_uint
  dstoffset :: c_uint
  dstsavings :: c_uint
  usesdaylighttime :: bool
  baseurl :: string
  basetrmurl :: string
  playbackurl :: string
  dataGatewayIPaddress :: string
  dnsconfig :: string
  etchosts :: string
  systemids :: string
  receiverid :: string
  devFoundFlag :: bool
  isRouteSet :: bool
  isOwnGateway :: bool
  isDevRefactored :: bool
  sproxy :: bool
  sproxy_i :: bool
  sproxy_m :: bool
  sproxy_g :: bool
  sproxy_q :: bool
  sproxy_t :: bool
  modelclass :: string
  modelnumber :: string
  deviceid :: string
  hardwarerevision :: string
  softwarerevision :: string
  managementurl :: string
  make_str :: string
  accountid :: string
  ipSubNet :: string
  clientip :: string

text \<open>\<open>g_new (GwyDeviceData, 1)\<close> at an address, then \<open>init_gwydata\<close>.\<close>

definition init_gwydata :: "nat \<Rightarrow> GwyDeviceData" where
  "init_gwydata a = \<lparr>addr = a, serial_num = [], isgateway = False, requirestrm = True,
     gwyip = [], gwyipv6 = [], gatewaystbip = [], ipv6prefix = [], devicename = [],
     bcastmacaddress = [], hostmacaddress = [], recvdevtype = [], devicetype = [],
     buildversion = [], dsgtimezone = [], rawoffset = 0, dstoffset = 0, dstsavings = 0,
     usesdaylighttime = False, baseurl = [], basetrmurl = [], playbackurl = [],
     dataGatewayIPaddress = [], dnsconfig = [], etchosts = [], systemids = [], receiverid = [],
     devFoundFlag = False, isRouteSet = False, isOwnGateway = False, isDevRefactored = False,
     sproxy = False, sproxy_i = False, sproxy_m = False, sproxy_g = False, sproxy_q = False,
     sproxy_t = False, modelclass = [], modelnumber = [], deviceid = [], hardwarerevision = [],
     softwarerevision = [], managementurl = [], make_str = [], accountid = [], ipSubNet = [],
     clientip = []\<rparr>"

text \<open>
  The heap objects of a device, by field: the strings \<open>init_gwydata\<close> allocates and the proxies
  it holds, and the ones \<open>free_gwydata\<close> gives back.
\<close>

definition init_gwydata_strings :: "string list" where
  "init_gwydata_strings =
     [''serial_num'', ''gwyip'', ''gwyipv6'', ''hostmacaddress'', ''recvdevtype'', ''devicetype'',
      ''buildversion'', ''dsgtimezone'', ''ipSubNet'', ''dataGatewayIPaddress'', ''baseurl'',
      ''basetrmurl'', ''playbackurl'', ''dnsconfig'', ''etchosts'', ''systemids'', ''receiverid'',
      ''gatewaystbip'', ''ipv6prefix'', ''devicename'', ''bcastmacaddress'', ''modelclass'',
      ''modelnumber'', ''deviceid'', ''hardwarerevision'', ''softwarerevision'',
      ''managementurl'', ''make'', ''accountid'', ''clientip'']"

definition gwy_proxies :: "GwyDeviceData \<Rightarrow> string list" where
  "gwy_proxies d =
     (if sproxy d then [''sproxy''] else []) @ (if sproxy_i d then [''sproxy_i''] else []) @
     (if sproxy_m d then [''sproxy_m''] else []) @ (if sproxy_t d then [''sproxy_t''] else []) @
     (if sproxy_g d then [''sproxy_g''] else []) @ (if sproxy_q d then [''sproxy_q''] else [])"

definition free_gwydata :: "GwyDeviceData \<Rightarrow> string list" where
  "free_gwydata d =
     [''serial_num'', ''gwyip'', ''gwyipv6'', ''hostmacaddress'', ''recvdevtype'', ''devicetype'',
      ''buildversion'', ''dataGatewayIPaddress'', ''dsgtimezone'', ''ipSubNet'', ''baseurl'',
      ''basetrmurl'', ''playbackurl'', ''dnsconfig'', ''etchosts'', ''systemids'', ''receiverid'',
      ''gatewaystbip'', ''ipv6prefix'', ''devicename'', ''bcastmacaddress'', ''clientip''] @
     (if sproxy d then [''sproxy''] else []) @
     (if sproxy_i d then [''make'', ''accountid'', ''modelnumber'', ''sproxy_i''] else []) @
     (if sproxy_m d then [''sproxy_m''] else []) @ (if sproxy_t d then [''sproxy_t''] else []) @
     (if sproxy_g d then [''sproxy_g''] else []) @ (if sproxy_q d then [''sproxy_q''] else [])"

subsection \<open>Replacing an address in a URL\<close>

text \<open>
  \<open>strcpy_s\<close> and \<open>strncpy_s\<close> refuse to write past the size they are told; a refusal inside
  \<open>replace_string\<close> is the fault \<open>Out_of_bounds\<close>. The counting loop carries fuel.
\<close>

definition strcpy_s :: "int \<Rightarrow> string \<Rightarrow> string outcome" where
  "strcpy_s rmax src = (if int (length src) < rmax then Inr src else Inl Out_of_bounds)"

definition strncpy_s :: "int \<Rightarrow> string \<Rightarrow> nat \<Rightarrow> string outcome" where
  "strncpy_s rmax src n = strcpy_s rmax (take n src)"

fun count_occurrences :: "nat \<Rightarrow> string \<Rightarrow> string \<Rightarrow> nat outcome" where
  "count_occurrences 0 insert_str sub = Inl Non_termination"
| "count_occurrences (Suc fuel) insert_str sub =
     (case strstr insert_str sub of
        None \<Rightarrow> Inr 0
      | Some tmp \<Rightarrow> bind_outcome (count_occurrences fuel (drop (length sub) tmp) sub) (\<lambda>n. Inr (Suc n)))"

fun replace_loop :: "nat \<Rightarrow> int \<Rightarrow> string \<Rightarrow> string \<Rightarrow> string \<Rightarrow> string outcome" where
  "replace_loop 0 rstrsize src sub rep = strcpy_s rstrsize src"
| "replace_loop (Suc n) rstrsize src sub rep =
     (case strstr src sub of
        None \<Rightarrow> Inl Null_deref
      | Some insert_str \<Rightarrow>
          (let distance = length src - length insert_str in
           bind_outcome (strncpy_s rstrsize src distance) (\<lambda>a.
           bind_outcome (strcpy_s (rstrsize - int distance) rep) (\<lambda>b.
           bind_outcome (replace_loop n (rstrsize - int distance - int (length rep))
                           (drop (distance + length sub) src) sub rep) (\<lambda>c.
           Inr (a @ b @ c))))))"

definition replace_string_fuel :: "nat \<Rightarrow> string \<Rightarrow> string \<Rightarrow> string \<Rightarrow> string outcome" where
  "replace_string_fuel fuel src sub rep =
     bind_outcome (count_occurrences fuel src sub) (\<lambda>n.
       replace_loop n (int (length src) + (int (length rep) - int (length sub)) * int n + 1) src sub rep)"

definition replace_string :: "string \<Rightarrow> string \<Rightarrow> string \<Rightarrow> string outcome" where
  "replace_string src sub rep = replace_string_fuel (Suc (length src)) src sub rep"

definition localHostIP :: string where "localHostIP = ''127.0.0.1''"

definition replace_hn_with_local :: "GwyDeviceData \<Rightarrow> GwyDeviceData outcome" where
  "replace_hn_with_local d =
     bind_outcome (replace_string (playbackurl d) (gwyip d) localHostIP) (\<lambda>t.
     let d = d\<lparr>playbackurl := t\<rparr> in
     bind_outcome (replace_string (baseurl d) (gwyip d) localHostIP) (\<lambda>t.
     let d = d\<lparr>baseurl := t\<rparr> in
     bind_outcome (replace_string (basetrmurl d) (gwyip d) localHostIP) (\<lambda>t.
     Inr (d\<lparr>basetrmurl := t\<rparr>))))"

text \<open>
  The global buffer \<open>ipaddress\<close> is stripped in place; the result is the returned boolean, the
  device and the buffer.
\<close>

definition replace_local_device_ip ::
  "GwyDeviceData \<Rightarrow> string \<Rightarrow> (bool \<times> GwyDeviceData \<times> string) outcome" where
  "replace_local_device_ip d ipaddress =
     (let d = d\<lparr>gwyip := g_strstrip (gwyip d)\<rparr>; ipaddress = g_strstrip ipaddress in
      if strcmp (gwyip d) ipaddress = 0 then
        bind_outcome (replace_hn_with_local (d\<lparr>isOwnGateway := True\<rparr>)) (\<lambda>d. Inr (True, d, ipaddress))
      else Inr (False, d, ipaddress))"

subsection \<open>Address checks\<close>

text \<open>
  \<open>inet_pton\<close> for the two address families is an argument. Both calls come before the string
  is stripped in place; the second component is the string afterwards.
\<close>

definition checkvalidip :: "(string \<Rightarrow> bool) \<Rightarrow> (string \<Rightarrow> bool) \<Rightarrow> string \<Rightarrow> bool \<times> string" where
  "checkvalidip inet_pton4 inet_pton6 ipAddress =
     (let validip4 = inet_pton4 ipAddress; validip6 = inet_pton6 ipAddress;
          ipAddress = g_strstrip ipAddress
      in if g_strrstr ipAddress ''null'' \<or> ipAddress = [] then (True, ipAddress)
         else (validip4 \<or> validip6, ipAddress))"

fun any_valid_token :: "(string \<Rightarrow> bool) \<Rightarrow> (string \<Rightarrow> bool) \<Rightarrow> string list \<Rightarrow> bool" where
  "any_valid_token p4 p6 [] = False"
| "any_valid_token p4 p6 (t # ts) = (if fst (checkvalidip p4 p6 t) then True else any_valid_token p4 p6 ts)"

definition checkvalidhostname :: "(string \<Rightarrow> bool) \<Rightarrow> (string \<Rightarrow> bool) \<Rightarrow> string \<Rightarrow> bool \<times> string" where
  "checkvalidhostname inet_pton4 inet_pton6 hostname =
     (let hostname = g_strstrip hostname in
      if g_strrstr hostname ''null'' \<or> hostname = [] then (True, hostname)
      else (any_valid_token inet_pton4 inet_pton6 (g_strsplit_set hostname '' ;\<newline>''), hostname))"

subsection \<open>The replacement is the textbook one\<close>

text \<open>The occurrences from the left, without overlaps, character by character.\<close>

fun replaced :: "string \<Rightarrow> string \<Rightarrow> string \<Rightarrow> string" where
  "replaced sub rep [] = []"
| "replaced sub rep (c # s) =
     (if sub \<noteq> [] \<and> prefix sub (c # s) then rep @ replaced sub rep (drop (length sub - 1) s)
      else c # replaced sub rep s)"

lemma replaced_strstr_None: "sub \<noteq> [] \<Longrightarrow> strstr s sub = None \<Longrightarrow> replaced sub rep s = s"
  by (induction s) (auto split: if_splits)

lemma strstr_length: "strstr s sub = Some t \<Longrightarrow> length t \<le> length s"
  using strstr_Some_prefix suffix_length_le by blast

lemma strstr_drop: "strstr s sub = Some t \<Longrightarrow> drop (length s - length t) s = t"
  using strstr_Some_prefix by (metis suffix_take append_eq_conv_conj length_take suffix_drop
      diff_le_self min.absorb2 suffix_def length_append add_diff_cancel_right')

lemma replaced_strstr_Some:
  "sub \<noteq> [] \<Longrightarrow> strstr s sub = Some t \<Longrightarrow>
     replaced sub rep s =
       take (length s - length t) s @ rep @ replaced sub rep (drop (length sub) t)"
proof (induction s)
  case (Cons c s)
  show ?case
  proof (cases "prefix sub (c # s)")
    case True
    with Cons.prems have t: "t = c # s" by simp
    from Cons.prems(1) obtain b u where sub: "sub = b # u" by (cases sub) auto
    show ?thesis using True t sub by simp
  next
    case False
    with Cons.prems have t: "strstr s sub = Some t" by simp
    then have "length (c # s) - length t = Suc (length s - length t)"
      using strstr_length [OF t] by simp
    then show ?thesis using False Cons.IH [OF Cons.prems(1) t] by simp
  qed
qed auto

lemma count_occurrences_enough:
  "sub \<noteq> [] \<Longrightarrow> length s < fuel \<Longrightarrow> \<exists>n. count_occurrences fuel s sub = Inr n"
proof (induction fuel arbitrary: s)
  case (Suc fuel)
  show ?case
  proof (cases "strstr s sub")
    case (Some t)
    from Some have "prefix sub t" "length t \<le> length s"
      using strstr_Some_prefix strstr_length by blast+
    moreover from this Suc.prems(1) have "0 < length t" by (cases t) auto
    moreover have "0 < length sub" using Suc.prems(1) by simp
    ultimately have "length (drop (length sub) t) < fuel"
      unfolding length_drop using Suc.prems(2) by linarith
    with Suc.IH [OF Suc.prems(1)] obtain n where "count_occurrences fuel (drop (length sub) t) sub = Inr n"
      by blast
    with Some show ?thesis by simp
  qed simp
qed simp

lemma length_replaced:
  "sub \<noteq> [] \<Longrightarrow> count_occurrences fuel s sub = Inr n \<Longrightarrow>
     int (length (replaced sub rep s)) = int (length s) + (int (length rep) - int (length sub)) * int n"
proof (induction fuel arbitrary: s n)
  case (Suc fuel)
  show ?case
  proof (cases "strstr s sub")
    case None
    with Suc.prems show ?thesis by (simp add: replaced_strstr_None)
  next
    case (Some t)
    let ?r = "drop (length sub) t"
    from Suc.prems(2) Some obtain m where m: "count_occurrences fuel ?r sub = Inr m" "n = Suc m"
      by (auto simp: bind_outcome_Inr_iff)
    from Some have "prefix sub t" "length t \<le> length s"
      using strstr_Some_prefix strstr_length by blast+
    then have len: "int (length ?r) = int (length t) - int (length sub)"
        "int (length s - length t) = int (length s) - int (length t)"
      using prefix_length_le by fastforce+
    have "int (length (replaced sub rep s)) =
        int (length s - length t) + int (length rep) + int (length (replaced sub rep ?r))"
      using replaced_strstr_Some [OF Suc.prems(1) Some, of rep] by simp
    also have "\<dots> = int (length s) + (int (length rep) - int (length sub)) * int n"
      using Suc.IH [OF Suc.prems(1) m(1)] len m(2) by (simp add: algebra_simps)
    finally show ?thesis .
  qed
qed simp

lemma replace_loop_replaced:
  "sub \<noteq> [] \<Longrightarrow> count_occurrences fuel s sub = Inr n \<Longrightarrow>
     replace_loop n (int (length (replaced sub rep s)) + 1) s sub rep = Inr (replaced sub rep s)"
proof (induction fuel arbitrary: s n)
  case (Suc fuel)
  show ?case
  proof (cases "strstr s sub")
    case None
    with Suc.prems show ?thesis by (simp add: replaced_strstr_None strcpy_s_def)
  next
    case (Some t)
    let ?r = "drop (length sub) t"
    let ?d = "length s - length t"
    from Suc.prems(2) Some obtain m where m: "count_occurrences fuel ?r sub = Inr m" "n = Suc m"
      by (auto simp: bind_outcome_Inr_iff)
    have rest: "drop (?d + length sub) s = ?r"
      using strstr_drop [OF Some] by (metis add.commute drop_drop)
    have rep: "replaced sub rep s = take ?d s @ rep @ replaced sub rep ?r"
      by (rule replaced_strstr_Some [OF Suc.prems(1) Some])
    have sz: "int (length (replaced sub rep s)) + 1 =
        int ?d + int (length rep) + (int (length (replaced sub rep ?r)) + 1)"
      using rep by simp
    show ?thesis
      using m(2) Some rest Suc.IH [OF Suc.prems(1) m(1)]
      by (simp add: sz Let_def strncpy_s_def strcpy_s_def rep)
  qed
qed simp

lemma replace_string_correct:
  assumes "sub \<noteq> []"
  shows "replace_string src sub rep = Inr (replaced sub rep src)"
proof -
  obtain n where n: "count_occurrences (Suc (length src)) src sub = Inr n"
    using count_occurrences_enough [OF assms, of src "Suc (length src)"] by auto
  have "int (length src) + (int (length rep) - int (length sub)) * int n + 1 =
      int (length (replaced sub rep src)) + 1"
    using length_replaced [OF assms n, of rep] by simp
  then show ?thesis
    using replace_loop_replaced [OF assms n, of rep] n
    by (simp add: replace_string_def replace_string_fuel_def del: count_occurrences.simps)
qed

lemma count_occurrences_empty: "count_occurrences fuel s [] = Inl Non_termination"
  by (induction fuel arbitrary: s) (auto split: option.splits, case_tac s, auto)

lemma replace_string_empty: "replace_string_fuel fuel src [] rep = Inl Non_termination"
  by (simp add: replace_string_fuel_def count_occurrences_empty)

lemma replace_hn_with_local_replaced:
  "gwyip d \<noteq> [] \<Longrightarrow> replace_hn_with_local d =
     Inr (d\<lparr>playbackurl := replaced (gwyip d) localHostIP (playbackurl d),
            baseurl := replaced (gwyip d) localHostIP (baseurl d),
            basetrmurl := replaced (gwyip d) localHostIP (basetrmurl d)\<rparr>)"
  by (simp add: replace_hn_with_local_def replace_string_correct Let_def)

text \<open>What \<open>replace_local_device_ip\<close> leaves alone: the fields the device list sorts and reports by.\<close>

lemma replace_hn_with_local_frame:
  assumes "replace_hn_with_local d = Inr d'"
  shows "serial_num d' = serial_num d" "addr d' = addr d" "isgateway d' = isgateway d"
    "devicetype d' = devicetype d" "receiverid d' = receiverid d" "gwyip d' = gwyip d"
    "isOwnGateway d' = isOwnGateway d"
  using assms by (auto simp: replace_hn_with_local_def Let_def bind_outcome_Inr_iff)

lemma replace_local_device_ip_frame:
  assumes "replace_local_device_ip d ip = Inr (b, d', ip')"
  shows "serial_num d' = serial_num d" "addr d' = addr d" "isgateway d' = isgateway d"
    "devicetype d' = devicetype d" "receiverid d' = receiverid d" "ip' = g_strstrip ip"
  using assms replace_hn_with_local_frame
  by (fastforce simp: replace_local_device_ip_def Let_def bind_outcome_Inr_iff split: if_splits)+

lemmas replace_frame [frame_simps] = replace_local_device_ip_frame(1-5)

lemma replace_local_device_ip_returns:
  "g_strstrip ip \<noteq> [] \<Longrightarrow> \<exists>r. replace_local_device_ip d ip = Inr r"
  by (auto simp: replace_local_device_ip_def Let_def replace_hn_with_local_replaced)

lemma any_valid_token_iff:
  "any_valid_token p4 p6 ts \<longleftrightarrow> (\<exists>t \<in> set ts. fst (checkvalidip p4 p6 t))"
  by (induction ts) auto

lemma split_set_snoc: "c \<in> ds \<Longrightarrow> split_set ds (s @ [c]) = split_set ds s @ [[]]"
proof (induction s)
  case (Cons a s)
  then show ?case by (cases "split_set ds s") auto
qed simp

lemma g_strstrip_snoc:
  "\<not> g_ascii_isspace c \<Longrightarrow> \<exists>t. g_strstrip (s @ [c]) = t @ [c]"
proof -
  assume c: "\<not> g_ascii_isspace c"
  have "dropWhile g_ascii_isspace (s @ [c]) = dropWhile g_ascii_isspace s @ [c]"
    using c by (induction s) auto
  then have "g_strstrip (s @ [c]) = g_strchug s @ [c]"
    using c by (simp add: g_strstrip_def g_strchug_def g_strchomp_def)
  then show ?thesis by blast
qed

lemma checkvalidip_empty [simp]: "checkvalidip p4 p6 [] = (True, [])"
  by (simp add: checkvalidip_def Let_def)

subsection \<open>Properties\<close>

text \<open>
  C38. \<open>replace_string\<close> with a substring that is not empty returns the source string with every
  occurrence from the left replaced, and its copies stay inside the buffer it allocated.
\<close>

theorem replace_string_replaces:
  assumes "sub \<noteq> []"
  shows "replace_string src sub rep = Inr (replaced sub rep src)"
  by (rule replace_string_correct [OF assms])

theorem replace_string_replaces_witness:
  "replace_string ''http://10.1.2.3:8080/10.1.2.3'' ''10.1.2.3'' ''127.0.0.1'' =
     Inr ''http://127.0.0.1:8080/127.0.0.1''"
  using replace_string_replaces [of "''10.1.2.3''" "''http://10.1.2.3:8080/10.1.2.3''" "''127.0.0.1''"]
  by simp

text \<open>
  A device without a gateway address, seen while the process has no address of its own,
  counts as the own gateway, and \<open>replace_local_device_ip\<close> never returns: the counting loop
  of \<open>replace_string\<close> searches for the empty string, and no fuel is enough.
\<close>

theorem replace_local_device_ip_hangs:
  assumes "g_strstrip (gwyip d) = []" "g_strstrip ip = []"
  shows "replace_local_device_ip d ip = Inl Non_termination \<and>
    (\<forall>fuel. replace_string_fuel fuel (playbackurl d) (g_strstrip (gwyip d)) localHostIP = Inl Non_termination)"
  using assms
  by (simp add: replace_local_device_ip_def replace_hn_with_local_def replace_string_def
      replace_string_empty)

theorem replace_local_device_ip_hangs_witness:
  "replace_local_device_ip (init_gwydata 1) '' '' = Inl Non_termination"
  using replace_local_device_ip_hangs [of "init_gwydata 1" "'' ''"]
  by (simp add: init_gwydata_def g_strstrip_def g_strchug_def g_strchomp_def g_ascii_isspace_def)

text \<open>
  \<open>checkvalidhostname\<close> accepts a list of name servers as soon as one token is acceptable,
  and an empty token is: any text at all that ends with a semicolon passes, whatever
  \<open>inet_pton\<close> says about it.
\<close>

theorem checkvalidhostname_accepts:
  "(fst (checkvalidhostname p4 p6 h) \<longleftrightarrow>
     g_strstrip h = [] \<or> sublist ''null'' (g_strstrip h) \<or>
     (\<exists>t \<in> set (g_strsplit_set (g_strstrip h) '' ;\<newline>''). fst (checkvalidip p4 p6 t))) \<and>
   fst (checkvalidhostname p4 p6 (s @ '';''))"
proof -
  have iff: "fst (checkvalidhostname p4 p6 h) \<longleftrightarrow>
     g_strstrip h = [] \<or> sublist ''null'' (g_strstrip h) \<or>
     (\<exists>t \<in> set (g_strsplit_set (g_strstrip h) '' ;\<newline>''). fst (checkvalidip p4 p6 t))" for h
    by (auto simp: checkvalidhostname_def Let_def any_valid_token_iff g_strrstr_iff)
  obtain t where t: "g_strstrip (s @ '';'') = t @ '';''"
    using g_strstrip_snoc [of "CHR '';''" s] by (auto simp: g_ascii_isspace_def)
  have "[] \<in> set (g_strsplit_set (t @ '';'') '' ;\<newline>'')"
    using split_set_snoc [of "CHR '';''" "set '' ;\<newline>''" t] by (simp add: g_strsplit_set_def)
  then have "fst (checkvalidhostname p4 p6 (s @ '';''))"
    unfolding iff t by (intro disjI2 bexI [of _ "[]"]) simp_all
  with iff show ?thesis by blast
qed

text \<open>
  What \<open>free_gwydata\<close> leaves allocated of a device that \<open>init_gwydata\<close> set up: the model
  class, device id, revisions and management URL of every device, and the make, account id and
  model number of a device without an identity service. It releases nothing twice.
\<close>

theorem free_gwydata_leaks:
  "set (init_gwydata_strings @ gwy_proxies d) - set (free_gwydata d) =
     {''modelclass'', ''deviceid'', ''hardwarerevision'', ''softwarerevision'', ''managementurl''} \<union>
     (if sproxy_i d then {} else {''make'', ''accountid'', ''modelnumber''}) \<and>
   set (free_gwydata d) \<subseteq> set (init_gwydata_strings @ gwy_proxies d) \<and>
   distinct (free_gwydata d)"
proof (intro conjI)
  show "set (init_gwydata_strings @ gwy_proxies d) - set (free_gwydata d) =
     {''modelclass'', ''deviceid'', ''hardwarerevision'', ''softwarerevision'', ''managementurl''} \<union>
     (if sproxy_i d then {} else {''make'', ''accountid'', ''modelnumber''})"
    by (auto simp: init_gwydata_strings_def gwy_proxies_def free_gwydata_def)
  show "set (free_gwydata d) \<subseteq> set (init_gwydata_strings @ gwy_proxies d)"
    by (auto simp: init_gwydata_strings_def gwy_proxies_def free_gwydata_def)
  show "distinct (free_gwydata d)"
    by (simp add: free_gwydata_def)
qed

end
