(* ===== verification/Disc_State.thy ===== *)
theory Disc_State
  imports Whitelist Gwy_Data
begin

text \<open>
  The state of the discovery service \<open>src/xdiscovery.c\<close>: its file-scope variables, the build
  flags and the configuration, what the environment answers, and the effects the service has on
  the world. With them the operations that touch no device of the list: \<open>getserialnum\<close>,
  \<open>broadcastTimeZoneChange\<close>, \<open>notifyXUPnPDataUpdateEvent\<close> and \<open>GetXUPNPDeviceInfo\<close>.
\<close>

subsection \<open>Build, configuration, environment\<close>

record build =
  BROADBAND :: bool
  CLIENT_XCAL_SERVER :: bool
  ENABLE_ROUTE :: bool
  USE_XUPNP_TZ_UPDATE :: bool
  USE_XUPNP_IARM_BUS :: bool
  ENABLE_FEATURE_TELEMETRY2_0 :: bool

record ConfSettings =
  gwIf :: string
  gwSetupFile :: string
  outputJsonFile :: string
  enableGwSetup :: bool
  GwPriority :: int

text \<open>
  The environment of one call: the libraries' and the file system's answers, and the contents
  of the two locals \<open>dpnode_insert\<close> and \<open>dpnode_delete\<close> leave uninitialised. The answer of the
  manufacturer library is its result code and its buffer.
\<close>

record disc_env =
  flags :: build
  disConf :: ConfSettings
  rfc_enabled :: bool
  inet_aton :: "string \<Rightarrow> c_uint option"
  inet_pton4 :: "string \<Rightarrow> bool"
  inet_pton6 :: "string \<Rightarrow> bool"
  udhcpc_vendor_file :: "string option"
  hal_serial :: "string option"
  mfr_serial :: "string option option"
  file_write_ok :: bool
  head_ok :: "string \<Rightarrow> bool"
  webgui_started :: bool
  tz_payload_size :: nat
  junk_stat :: dp_wlist_ss
  junk_pindex :: c_ushort

subsection \<open>State\<close>

datatype effect =
    System string
  | Write_file string string
  | Broadcast_tz string
  | Broadcast_data_update nat
  | Telemetry string
  | Add_notify nat string string
  | Remove_notify string
  | Unsubscribe string
  | Set_subscribed nat string bool
  | Free_device nat "string list"
  | Unref nat string

record disc_state =
  xdevlist :: "GwyDeviceData list"
  dp :: dp_state
  outputcontents :: string
  ipMode :: string
  ipaddress :: string
  ownSerialNo :: string
  bSerialNum :: bool
  selfDeviceDiscovered :: bool
  gatewayDetected :: int
  partialDiscovery :: bool
  deviceAddNo :: c_uint
  prevTzIndex :: int
  IsDst :: bool
  next_addr :: nat
  effects :: "effect list"

definition emit :: "effect \<Rightarrow> disc_state \<Rightarrow> disc_state" where
  "emit e st = st\<lparr>effects := effects st @ [e]\<rparr>"

definition disc_start :: "string \<Rightarrow> disc_state" where
  "disc_start ip = \<lparr>xdevlist = [], dp = dp_static, outputcontents = [], ipMode = ''ipv4'',
     ipaddress = ip, ownSerialNo = [], bSerialNum = False, selfDeviceDiscovered = False,
     gatewayDetected = 0, partialDiscovery = False, deviceAddNo = 0, prevTzIndex = -1,
     IsDst = False, next_addr = 1, effects = []\<rparr>"

subsection \<open>The own serial number\<close>

text \<open>
  The tokens of the vendor file are stripped when they are looked at. \<open>tokens\<close> is a
  NULL-terminated array: the token at its length is NULL, which \<open>g_strstrip\<close> and
  \<open>g_string_assign\<close> refuse without an effect.
\<close>

fun scan_tokens :: "string list \<Rightarrow> nat \<Rightarrow> nat \<Rightarrow> (bool \<times> string option \<times> bool)" where
  "scan_tokens tokens 0 loopvar = (False, None, False)"
| "scan_tokens tokens (Suc n) loopvar =
     (if g_strrstr (g_strstrip (tokens ! loopvar)) ''SUBOPTION4'' then
        (True,
         if loopvar + 1 < length tokens \<and> loopvar + 2 < length tokens
         then Some (g_strstrip (tokens ! (loopvar + 2))) else None,
         loopvar + 1 < length tokens)
      else scan_tokens tokens n (Suc loopvar))"

definition getserialnum :: "disc_env \<Rightarrow> disc_state \<Rightarrow> (bool \<times> disc_state) outcome" where
  "getserialnum E st =
     (if \<not> CLIENT_XCAL_SERVER (flags E) then
        (case udhcpc_vendor_file E of
           None \<Rightarrow> Inr (False, st)
         | Some contents \<Rightarrow>
             (let tokens = g_strsplit_set contents [CHR '' '', CHR 0x0A, CHR 0x09, CHR 0x08]
              in case scan_tokens tokens (length tokens) 0 of (result, sno, found) \<Rightarrow>
                Inr (result, st\<lparr>ownSerialNo := (case sno of Some s \<Rightarrow> s | None \<Rightarrow> ownSerialNo st),
                            bSerialNum := bSerialNum st \<or> found\<rparr>)))
      else if BROADBAND (flags E) then
        (case hal_serial E of
           Some s \<Rightarrow> Inr (True, st\<lparr>ownSerialNo := s, bSerialNum := True\<rparr>)
         | None \<Rightarrow> Inl Fatal_error)
      else
        (case mfr_serial E of
           Some (Some s) \<Rightarrow> Inr (True, st\<lparr>ownSerialNo := s, bSerialNum := True\<rparr>)
         | _ \<Rightarrow> Inr (False, st)))"

text \<open>
  The number is looked for until it was found once. In the broadband build of a client a hardware
  layer that has none aborts the process; \<open>report_safe\<close> is the precondition under which neither
  this nor the telemetry buffer stops a report.
\<close>

definition fetch_serialnum :: "disc_env \<Rightarrow> disc_state \<Rightarrow> disc_state outcome" where
  "fetch_serialnum E st =
     (if \<not> bSerialNum st then bind_outcome (getserialnum E st) (\<lambda>(_, st). Inr st) else Inr st)"

definition serial_safe :: "disc_env \<Rightarrow> bool" where
  "serial_safe E \<longleftrightarrow> (CLIENT_XCAL_SERVER (flags E) \<and> BROADBAND (flags E) \<longrightarrow> hal_serial E \<noteq> None)"

definition report_safe :: "disc_env \<Rightarrow> bool" where
  "report_safe E \<longleftrightarrow> \<not> ENABLE_FEATURE_TELEMETRY2_0 (flags E) \<and> serial_safe E"

subsection \<open>Time zone events\<close>

record Timezone =
  upnpTZ :: string
  tz :: string
  tzInDst :: string

definition m_timezoneinfo :: "Timezone list" where
  "m_timezoneinfo =
    [\<lparr>upnpTZ = ''US/Hawaii'', tz = ''HST11'', tzInDst = ''HST11HDT,M3.2.0,M11.1.0''\<rparr>,
     \<lparr>upnpTZ = ''US/Alaska'', tz = ''AKST'', tzInDst = ''AKST09AKDT,M3.2.0,M11.1.0''\<rparr>,
     \<lparr>upnpTZ = ''US/Pacific'', tz = ''PST08'', tzInDst = ''PST08PDT,M3.2.0,M11.1.0''\<rparr>,
     \<lparr>upnpTZ = ''US/Mountain'', tz = ''MST07'', tzInDst = ''MST07MDT,M3.2.0,M11.1.0''\<rparr>,
     \<lparr>upnpTZ = ''US/Central'', tz = ''CST06'', tzInDst = ''CST06CDT,M3.2.0,M11.1.0''\<rparr>,
     \<lparr>upnpTZ = ''US/Eastern'', tz = ''EST05'', tzInDst = ''EST05EDT,M3.2.0,M11.1.0''\<rparr>]"

fun find_tz :: "Timezone list \<Rightarrow> int \<Rightarrow> string \<Rightarrow> int" where
  "find_tz [] i name = -1"
| "find_tz (z # zs) i name = (if strcmp (upnpTZ z) name = 0 then i else find_tz zs (i + 1) name)"

definition broadcastTimeZoneChange :: "disc_env \<Rightarrow> GwyDeviceData \<Rightarrow> disc_state \<Rightarrow> disc_state" where
  "broadcastTimeZoneChange E gwdata st =
     (let currTZIndex = find_tz m_timezoneinfo 0 (dsgtimezone gwdata) in
      if currTZIndex = -1 then st
      else if prevTzIndex st \<noteq> currTZIndex \<or> IsDst st \<noteq> usesdaylighttime gwdata then
        (let z = m_timezoneinfo ! nat currTZIndex;
             payload = take (tz_payload_size E - 1) (if usesdaylighttime gwdata then tzInDst z else tz z)
         in (emit (Broadcast_tz payload) st)
              \<lparr>prevTzIndex := currTZIndex, IsDst := usesdaylighttime gwdata\<rparr>)
      else st)"

subsection \<open>Access to the result by other processes\<close>

definition notifyXUPnPDataUpdateEvent :: "disc_state \<Rightarrow> disc_state" where
  "notifyXUPnPDataUpdateEvent st = emit (Broadcast_data_update (length (outputcontents st) + 1)) st"

datatype IARM_Result_t = IARM_RESULT_SUCCESS | IARM_RESULT_INVALID_STATE

text \<open>
  A buffer of the caller: its characters as bytes, the terminating NUL written out. \<open>strncpy\<close>
  with the length of the string plus one writes the string and its NUL.
\<close>

definition buf_write :: "char list \<Rightarrow> char list \<Rightarrow> char list outcome" where
  "buf_write buf bytes =
     (if length bytes \<le> length buf then Inr (bytes @ drop (length bytes) buf) else Inl Out_of_bounds)"

definition GetXUPNPDeviceInfo :: "disc_state \<Rightarrow> char list \<Rightarrow> (IARM_Result_t \<times> char list) outcome" where
  "GetXUPNPDeviceInfo st buf =
     (if length (outputcontents st) \<le> length buf then
        bind_outcome (buf_write buf (outputcontents st @ [CHR 0x00])) (\<lambda>b. Inr (IARM_RESULT_SUCCESS, b))
      else Inr (IARM_RESULT_INVALID_STATE, buf))"

text \<open>
  The bus call: the buffer of the requested length comes from \<open>IARM_Malloc\<close>, which may fail, and
  the caller is told of success either way.
\<close>

definition iarm_GetXUPNPDeviceInfo ::
  "disc_state \<Rightarrow> nat \<Rightarrow> char list option \<Rightarrow> (IARM_Result_t \<times> char list option) outcome" where
  "iarm_GetXUPNPDeviceInfo st bufLen mem =
     (case mem of
        None \<Rightarrow> Inr (IARM_RESULT_SUCCESS, None)
      | Some buf \<Rightarrow>
          bind_outcome (GetXUPNPDeviceInfo st (take bufLen buf))
            (\<lambda>(r, b). Inr (IARM_RESULT_SUCCESS, Some b)))"

text \<open>The name of the system manager's bus is a constant of the bus library, so it is an argument.\<close>

datatype sysmgr_event = XUPNP_DATA_REQUEST | Other_sysmgr_event

definition evtHandler :: "string \<Rightarrow> string \<Rightarrow> sysmgr_event \<Rightarrow> disc_state \<Rightarrow> disc_state" where
  "evtHandler sysmgr_name owner eventId st =
     (if strcmp owner sysmgr_name = 0 then
        (case eventId of XUPNP_DATA_REQUEST \<Rightarrow> notifyXUPnPDataUpdateEvent st | Other_sysmgr_event \<Rightarrow> st)
      else st)"

subsection \<open>Lemmas\<close>

lemma emit_frame [simp, frame_simps]:
  "xdevlist (emit e st) = xdevlist st" "dp (emit e st) = dp st"
  "outputcontents (emit e st) = outputcontents st" "ipaddress (emit e st) = ipaddress st"
  "gatewayDetected (emit e st) = gatewayDetected st" "deviceAddNo (emit e st) = deviceAddNo st"
  "partialDiscovery (emit e st) = partialDiscovery st" "next_addr (emit e st) = next_addr st"
  "effects (emit e st) = effects st @ [e]" "bSerialNum (emit e st) = bSerialNum st"
  "prevTzIndex (emit e st) = prevTzIndex st" "IsDst (emit e st) = IsDst st"
  "ipMode (emit e st) = ipMode st" "ownSerialNo (emit e st) = ownSerialNo st"
  by (simp_all add: emit_def)

lemma fetch_serialnum_frame:
  assumes "fetch_serialnum E st = Inr st'"
  shows "xdevlist st' = xdevlist st" "dp st' = dp st" "ipaddress st' = ipaddress st"
    "gatewayDetected st' = gatewayDetected st" "deviceAddNo st' = deviceAddNo st"
    "next_addr st' = next_addr st" "partialDiscovery st' = partialDiscovery st" "effects st' = effects st"
  using assms
  by (auto simp: fetch_serialnum_def getserialnum_def Let_def split: if_splits option.splits prod.splits)

lemma fetch_serialnum_returns:
  "(\<exists>st'. fetch_serialnum E st = Inr st') \<longleftrightarrow> bSerialNum st \<or> serial_safe E"
  by (auto simp: fetch_serialnum_def getserialnum_def serial_safe_def Let_def split: option.splits prod.splits)

lemma notify_frame [simp, frame_simps]:
  "xdevlist (notifyXUPnPDataUpdateEvent st) = xdevlist st" "dp (notifyXUPnPDataUpdateEvent st) = dp st"
  "ipaddress (notifyXUPnPDataUpdateEvent st) = ipaddress st"
  "gatewayDetected (notifyXUPnPDataUpdateEvent st) = gatewayDetected st"
  "deviceAddNo (notifyXUPnPDataUpdateEvent st) = deviceAddNo st"
  "next_addr (notifyXUPnPDataUpdateEvent st) = next_addr st"
  "partialDiscovery (notifyXUPnPDataUpdateEvent st) = partialDiscovery st"
  "outputcontents (notifyXUPnPDataUpdateEvent st) = outputcontents st"
  by (simp_all add: notifyXUPnPDataUpdateEvent_def)

lemma find_tz_range: "find_tz zs i name = -1 \<or> i \<le> find_tz zs i name \<and> find_tz zs i name < i + int (length zs)"
  by (induction zs arbitrary: i) (auto, fastforce+)

lemma broadcastTimeZoneChange_frame [simp, frame_simps]:
  "xdevlist (broadcastTimeZoneChange E d st) = xdevlist st"
  "dp (broadcastTimeZoneChange E d st) = dp st"
  "ipaddress (broadcastTimeZoneChange E d st) = ipaddress st"
  "gatewayDetected (broadcastTimeZoneChange E d st) = gatewayDetected st"
  "deviceAddNo (broadcastTimeZoneChange E d st) = deviceAddNo st"
  "next_addr (broadcastTimeZoneChange E d st) = next_addr st"
  "partialDiscovery (broadcastTimeZoneChange E d st) = partialDiscovery st"
  "outputcontents (broadcastTimeZoneChange E d st) = outputcontents st"
  by (simp_all add: broadcastTimeZoneChange_def Let_def)

text \<open>Without a readable number every report of such a build aborts.\<close>

lemma getserialnum_fatal:
  "getserialnum E st = Inl e \<longleftrightarrow> e = Fatal_error \<and> \<not> serial_safe E"
  by (auto simp: getserialnum_def serial_safe_def Let_def split: option.splits prod.splits)

subsection \<open>Properties\<close>

text \<open>
  \<open>broadcastTimeZoneChange\<close> speaks only when something changed: it sends at most one event,
  with the payload of the table row and the daylight flag of the device, it leaves an unknown
  zone alone, and a second call for the same device sends nothing.
\<close>

theorem tz_broadcast_on_change:
  "(let st' = broadcastTimeZoneChange E d st; i = find_tz m_timezoneinfo 0 (dsgtimezone d) in
     (if i = -1 \<or> (prevTzIndex st = i \<and> IsDst st = usesdaylighttime d) then st' = st
      else effects st' = effects st @ [Broadcast_tz (take (tz_payload_size E - 1)
             ((if usesdaylighttime d then tzInDst else tz) (m_timezoneinfo ! nat i)))] \<and>
           0 \<le> i \<and> i < 6 \<and> prevTzIndex st' = i) \<and>
     broadcastTimeZoneChange E d st' = st')"
proof -
  have "find_tz m_timezoneinfo 0 (dsgtimezone d) \<noteq> -1 \<longrightarrow>
      0 \<le> find_tz m_timezoneinfo 0 (dsgtimezone d) \<and> find_tz m_timezoneinfo 0 (dsgtimezone d) < 6"
    using find_tz_range [of m_timezoneinfo 0 "dsgtimezone d"] by (auto simp: m_timezoneinfo_def)
  then show ?thesis
    by (simp add: broadcastTimeZoneChange_def Let_def)
qed

text \<open>
  \<open>GetXUPNPDeviceInfo\<close> with room for the terminating NUL copies the whole result; with a
  buffer of exactly the length of the result it writes one byte past the end; with a smaller
  one it refuses and writes nothing.
\<close>

theorem GetXUPNPDeviceInfo_copies:
  "GetXUPNPDeviceInfo st buf =
     (if length (outputcontents st) < length buf then
        Inr (IARM_RESULT_SUCCESS,
          outputcontents st @ CHR 0x00 # drop (Suc (length (outputcontents st))) buf)
      else if length (outputcontents st) = length buf then Inl Out_of_bounds
      else Inr (IARM_RESULT_INVALID_STATE, buf))"
  by (auto simp: GetXUPNPDeviceInfo_def buf_write_def)

text \<open>
  A vendor file whose token \<open>SUBOPTION4\<close> is the last but one ends the search for the serial
  number for good: the flag \<open>bSerialNum\<close> is set and the call answers TRUE, but no number is stored.
\<close>

theorem getserialnum_flag_without_number:
  assumes "\<not> CLIENT_XCAL_SERVER (flags E)"
    and "udhcpc_vendor_file E = Some (''SUBOPTION4 '' @ t)"
    and "set t \<inter> {CHR '' '', CHR 0x0A, CHR 0x09, CHR 0x08} = {}"
  shows "getserialnum E st = Inr (True, st\<lparr>bSerialNum := True\<rparr>)"
proof -
  have s: "g_strsplit_set (''SUBOPTION4 '' @ t) [CHR '' '', CHR 0x0A, CHR 0x09, CHR 0x08] = [''SUBOPTION4'', t]"
    using split_set_no_sep [of t] assms(3) by (simp add: g_strsplit_set_def)
  have "g_strstrip ''SUBOPTION4'' = ''SUBOPTION4''"
    by (intro g_strstrip_stripped) (simp add: stripped_def g_ascii_isspace_def)
  then show ?thesis using assms(1,2) s
    by (simp add: getserialnum_def g_strrstr_iff numeral_2_eq_2)
qed

text \<open>An environment for the witnesses: a client build on a host without name service.\<close>

definition sample_flags :: build where
  "sample_flags = \<lparr>BROADBAND = False, CLIENT_XCAL_SERVER = False, ENABLE_ROUTE = False,
     USE_XUPNP_TZ_UPDATE = True, USE_XUPNP_IARM_BUS = True, ENABLE_FEATURE_TELEMETRY2_0 = False\<rparr>"

definition sample_env :: disc_env where
  "sample_env = \<lparr>flags = sample_flags,
     disConf = \<lparr>gwIf = ''eth1'', gwSetupFile = ''gwSetup.sh'', outputJsonFile = ''output.json'',
       enableGwSetup = True, GwPriority = 50\<rparr>,
     rfc_enabled = False, inet_aton = (\<lambda>s. if s = ''169.254.1.1'' then Some 0x0101FEA9 else None),
     inet_pton4 = (\<lambda>s. s = ''169.254.1.1''), inet_pton6 = (\<lambda>s. False),
     udhcpc_vendor_file = Some ''SUBOPTION4 SERIAL'', hal_serial = None, mfr_serial = None,
     file_write_ok = True, head_ok = (\<lambda>u. False), webgui_started = True, tz_payload_size = 128,
     junk_stat = DP_SUCCESS, junk_pindex = 0\<rparr>"

theorem getserialnum_flag_without_number_witness:
  "\<exists>st. getserialnum sample_env (disc_start ''10.0.0.1'') = Inr (True, st) \<and> bSerialNum st \<and>
     ownSerialNo st = []"
  using getserialnum_flag_without_number [of sample_env "''SERIAL''" "disc_start ''10.0.0.1''"]
  by (simp add: sample_env_def sample_flags_def disc_start_def)

end
