(* ===== verification/Sorted_List.thy ===== *)
theory Sorted_List
  imports Glib
begin

text \<open>
  The contract of the device lists of \<open>xdiscovery.c\<close> and \<open>idm_client.c\<close>: lists kept in the
  order of the serial numbers by \<open>g_list_insert_sorted_with_data\<close> and searched by
  \<open>g_list_find_custom\<close>, whose callbacks strip the serial numbers they compare. A device that was
  never compared keeps the white space around its number, so every statement is about the
  stripped numbers.
\<close>

definition serials :: "('d \<Rightarrow> string) \<Rightarrow> 'd list \<Rightarrow> string list" where
  "serials key ds = map (\<lambda>d. g_strstrip (key d)) ds"

definition sno_sorted :: "('d \<Rightarrow> string) \<Rightarrow> 'd list \<Rightarrow> bool" where
  "sno_sorted key ds \<longleftrightarrow> sorted_wrt (<) (map Sno (serials key ds))"

lemma serials_simps [simp]:
  "serials key [] = []"
  "serials key (d # ds) = g_strstrip (key d) # serials key ds"
  "serials key (ds @ es) = serials key ds @ serials key es"
  "length (serials key ds) = length ds"
  by (simp_all add: serials_def)

lemma sno_sorted_Nil [simp]: "sno_sorted key []"
  by (simp add: sno_sorted_def)

lemma sno_sorted_Cons [simp]:
  "sno_sorted key (d # ds) \<longleftrightarrow>
     (\<forall>s \<in> set (serials key ds). Sno (g_strstrip (key d)) < Sno s) \<and> sno_sorted key ds"
  by (simp add: sno_sorted_def)

lemma sno_sorted_distinct: "sno_sorted key ds \<Longrightarrow> distinct (serials key ds)"
  by (induction ds) auto

lemma sno_sorted_append:
  "sno_sorted key (ds @ es) \<longleftrightarrow> sno_sorted key ds \<and> sno_sorted key es \<and>
     (\<forall>s \<in> set (serials key ds). \<forall>t \<in> set (serials key es). Sno s < Sno t)"
  by (induction ds) auto

lemma serials_cong: "serials key ds = serials key es \<Longrightarrow> sno_sorted key ds = sno_sorted key es"
  by (simp add: sno_sorted_def)

lemma serials_remove_link:
  "serials key (g_list_remove_link ds i) = take i (serials key ds) @ drop (Suc i) (serials key ds)"
  by (simp add: g_list_remove_link_def serials_def take_map drop_map)

lemma sno_sorted_remove_link: "sno_sorted key ds \<Longrightarrow> sno_sorted key (g_list_remove_link ds i)"
proof -
  assume "sno_sorted key ds"
  then have "sno_sorted key (take i ds @ drop i ds)" by simp
  moreover have "drop i ds = [] \<or> (\<exists>d. drop i ds = d # drop (Suc i) ds)"
    by (metis Cons_nth_drop_Suc drop_eq_Nil2 not_le_imp_less)
  ultimately show ?thesis
    by (fastforce simp: g_list_remove_link_def sno_sorted_append simp del: append_take_drop_id)
qed

lemma set_serials_remove_link:
  assumes "sno_sorted key ds" "i < length ds"
  shows "set (serials key (g_list_remove_link ds i)) =
    set (serials key ds) - {g_strstrip (key (ds ! i))}"
proof -
  let ?ss = "serials key ds"
  have i: "i < length ?ss" "?ss ! i = g_strstrip (key (ds ! i))"
    using assms(2) by (simp_all add: serials_def)
  have split: "?ss = take i ?ss @ ?ss ! i # drop (Suc i) ?ss" by (rule id_take_nth_drop [OF i(1)])
  have "distinct (take i ?ss @ ?ss ! i # drop (Suc i) ?ss)"
    using sno_sorted_distinct [OF assms(1)] split by simp
  moreover have "set ?ss = set (take i ?ss @ ?ss ! i # drop (Suc i) ?ss)" using split by simp
  ultimately show ?thesis unfolding serials_remove_link i(2) [symmetric] by auto
qed

subsection \<open>The callbacks and what they promise\<close>

locale device_list =
  fixes key :: "'d \<Rightarrow> string"
    and strip_key :: "'d \<Rightarrow> 'd"
    and find_sno :: "'d \<Rightarrow> string option \<Rightarrow> int \<times> 'd \<times> string option"
    and compare_sno :: "'d \<Rightarrow> 'd \<Rightarrow> int \<times> 'd \<times> 'd"
  assumes key_strip: "key (strip_key d) = g_strstrip (key d)"
    and find_sno: "find_sno d k =
      (if map_option g_strstrip k = Some (g_strstrip (key d)) then 0 else 1,
       strip_key d, map_option g_strstrip k)"
    and compare_sno: "compare_sno d e =
      (strcmp (g_strstrip (key d)) (g_strstrip (key e)), strip_key d, strip_key e)"

context device_list
begin

lemma serials_strip: "serials key (map strip_key ds) = serials key ds"
  by (simp add: serials_def key_strip)

lemma find_Cons:
  "g_list_find_custom find_sno (d # ds) k =
     (if map_option g_strstrip k = Some (g_strstrip (key d)) then (strip_key d # ds, map_option g_strstrip k, Some 0)
      else case g_list_find_custom find_sno ds (map_option g_strstrip k) of
        (ds', k', h) \<Rightarrow> (strip_key d # ds', k', map_option Suc h))"
  by (cases "map_option g_strstrip k = Some (g_strstrip (key d))")
     (simp_all add: find_sno [of d k] del: map_option_eq_Some)

lemma insert_Cons:
  "g_list_insert_sorted_with_data compare_sno (d # ds) x =
     (if Sno (g_strstrip (key x)) \<le> Sno (g_strstrip (key d)) then strip_key x # strip_key d # ds
      else strip_key d # g_list_insert_sorted_with_data compare_sno ds (strip_key x))"
  by (simp add: compare_sno [of x d] less_eq_Sno not_le)

declare g_list_find_custom.simps(2) [simp del] g_list_insert_sorted_with_data.simps(2) [simp del]

lemma find_absent:
  "(\<forall>s \<in> set (serials key ds). map_option g_strstrip k \<noteq> Some s) \<Longrightarrow>
   g_list_find_custom find_sno ds k =
     (map strip_key ds, if ds = [] then k else map_option g_strstrip k, None)"
  by (induction ds arbitrary: k) (simp_all add: find_Cons option.map_comp comp_def del: map_option_eq_Some)

lemma find_None:
  "g_list_find_custom find_sno ds k = (ds', k', None) \<Longrightarrow>
     (\<forall>s \<in> set (serials key ds). map_option g_strstrip k \<noteq> Some s)"
proof (induction ds arbitrary: ds' k k')
  case (Cons d ds)
  from Cons.prems have ne: "map_option g_strstrip k \<noteq> Some (g_strstrip (key d))"
    by (auto simp: find_Cons split: if_splits)
  with Cons.prems obtain es where "g_list_find_custom find_sno ds (map_option g_strstrip k) = (es, k', None)"
    by (auto simp: find_Cons simp del: map_option_eq_Some split: prod.splits)
  from Cons.IH [OF this] ne show ?case by (simp add: option.map_comp comp_def del: map_option_eq_Some)
qed simp

lemma find_Some:
  "g_list_find_custom find_sno ds k = (ds', k', Some i) \<Longrightarrow>
     i < length ds \<and> ds' = map strip_key (take (Suc i) ds) @ drop (Suc i) ds \<and>
     k' = Some (g_strstrip (key (ds ! i))) \<and> map_option g_strstrip k = k' \<and>
     g_strstrip (key (ds ! i)) \<notin> set (serials key (take i ds))"
proof (induction ds arbitrary: ds' k k' i)
  case (Cons d ds)
  show ?case
  proof (cases "map_option g_strstrip k = Some (g_strstrip (key d))")
    case True
    with Cons.prems show ?thesis by (auto simp: find_Cons)
  next
    case False
    then obtain es j where
      *: "g_list_find_custom find_sno ds (map_option g_strstrip k) = (es, k', Some j)"
        "ds' = strip_key d # es" "i = Suc j"
      using Cons.prems by (auto simp: find_Cons split: prod.splits if_splits)
    with Cons.IH [OF *(1)] False show ?thesis by (auto simp: option.map_comp comp_def)
  qed
qed simp

lemma find_finds:
  assumes "g_list_find_custom find_sno ds k = (ds', k', h)"
  shows "serials key ds' = serials key ds" "length ds' = length ds"
    "(h = None) = (\<forall>s \<in> set (serials key ds). map_option g_strstrip k \<noteq> Some s)"
proof -
  have "serials key ds' = serials key ds \<and> length ds' = length ds \<and>
    (h = None \<longleftrightarrow> (\<forall>s \<in> set (serials key ds). map_option g_strstrip k \<noteq> Some s))"
  proof (cases h)
    case None
    note n = find_None [OF assms [unfolded None]]
    with find_absent [OF n] assms None show ?thesis by (auto simp: serials_strip)
  next
    case (Some i)
    note f = find_Some [OF assms [unfolded Some]]
    have "serials key ds' = serials key (take (Suc i) ds @ drop (Suc i) ds)"
      using f by (simp add: serials_strip del: append_take_drop_id)
    moreover have "length ds' = length (take (Suc i) ds @ drop (Suc i) ds)"
      using f by (simp del: append_take_drop_id)
    then have "length ds' = length ds" by simp
    moreover have "g_strstrip (key (ds ! i)) \<in> set (serials key ds)"
      using f by (auto simp: serials_def)
    ultimately show ?thesis using f Some by auto
  qed
  then show "serials key ds' = serials key ds" "length ds' = length ds"
    "(h = None) = (\<forall>s \<in> set (serials key ds). map_option g_strstrip k \<noteq> Some s)"
    by blast+
qed

lemma insert_set:
  "set (serials key (g_list_insert_sorted_with_data compare_sno ds x)) =
     insert (g_strstrip (key x)) (set (serials key ds))"
  by (induction ds arbitrary: x) (auto simp: insert_Cons key_strip)

lemma insert_sorted:
  "sno_sorted key ds \<Longrightarrow> g_strstrip (key x) \<notin> set (serials key ds) \<Longrightarrow>
     sno_sorted key (g_list_insert_sorted_with_data compare_sno ds x)"
proof (induction ds arbitrary: x)
  case (Cons d ds)
  let ?k = "g_strstrip (key x)" and ?d = "g_strstrip (key d)"
  show ?case
  proof (cases "Sno ?k \<le> Sno ?d")
    case True
    moreover from Cons.prems(2) have "Sno ?k \<noteq> Sno ?d" by auto
    ultimately have lt: "Sno ?k < Sno ?d" by (rule le_neq_trans)
    then have "\<forall>s \<in> set (serials key ds). Sno ?k < Sno s"
      using Cons.prems(1) by (auto intro: order.strict_trans)
    with True lt Cons.prems(1) show ?thesis by (simp add: insert_Cons key_strip)
  next
    case False
    have "sno_sorted key (g_list_insert_sorted_with_data compare_sno ds (strip_key x))"
      using Cons by (simp add: key_strip)
    moreover from False have "Sno ?d < Sno ?k" by simp
    ultimately show ?thesis
      using False Cons.prems(1) by (simp add: insert_Cons key_strip insert_set)
  qed
qed simp

text \<open>The insertion is the library's insertion by key, up to the stripping.\<close>

lemma insert_refines:
  assumes "\<And>d. strip_key (strip_key d) = strip_key d"
  shows "map strip_key (g_list_insert_sorted_with_data compare_sno ds x) =
    insort_key (\<lambda>d. Sno (g_strstrip (key d))) (strip_key x) (map strip_key ds)"
  by (induction ds arbitrary: x) (simp_all add: insert_Cons key_strip assms)

end

end
