(* ===== verification/Json_Output.thy ===== *)
theory Json_Output
  imports Disc_State Sorted_List
begin

text \<open>
  \<open>sendDiscoveryResult\<close> of \<open>src/xdiscovery.c\<close>: the report of all devices as JSON text, the set-up
  of the route to the gateways, and the publication of the text. The members of the device
  list are changed on the way: the strings the checks look at are stripped in place, and a
  gateway whose route is set is marked.
\<close>

subsection \<open>Formatting\<close>

definition nl :: string where "nl = [CHR 0x0A]"
definition tab :: string where "tab = [CHR 0x09]"
definition dq :: string where "dq = [CHR 0x22]"

definition yesno :: "bool \<Rightarrow> string" where
  "yesno b = (if b then ''yes'' else ''no'')"

text \<open>One line of the report: three tabs, the name, the value, a comma.\<close>

definition json_line :: "string \<Rightarrow> string \<Rightarrow> string" where
  "json_line name v = tab @ tab @ tab @ dq @ name @ dq @ '':'' @ dq @ v @ dq @ '','' @ nl"

definition json_head :: "GwyDeviceData \<Rightarrow> string" where
  "json_head d =
     dq @ ''sno'' @ dq @ '':'' @ dq @ serial_num d @ dq @ '','' @ nl @
     json_line ''isgateway'' (yesno (isgateway d)) @
     json_line ''deviceName'' (devicename d) @
     json_line ''recvDevType'' (recvdevtype d) @
     json_line ''DevType'' (devicetype d) @
     json_line ''bcastMacAddress'' (bcastmacaddress d)"

definition json_identity :: "GwyDeviceData \<Rightarrow> string" where
  "json_identity d =
     (if sproxy_i d then
        json_line ''accountId'' (accountid d) @
        json_line ''modelNumber'' (modelnumber d) @
        json_line ''modelClass'' (modelclass d) @
        json_line ''make'' (make_str d) @
        json_line ''softwareRevision'' (buildversion d) @
        (if strcmp (recvdevtype d) ''broadband'' \<noteq> 0 then
           json_line ''hardwareRevision'' (hardwarerevision d) @
           json_line ''managementUrl'' (managementurl d)
         else [])
      else json_line ''buildVersion'' (buildversion d))"

definition json_video :: "GwyDeviceData \<Rightarrow> string" where
  "json_video d =
     json_line ''gatewayStbIP'' (gatewaystbip d) @
     json_line ''ipv6Prefix'' (ipv6prefix d) @
     json_line ''timezone'' (dsgtimezone d) @
     json_line ''rawoffset'' (show_int (sint (rawoffset d))) @
     json_line ''dstoffset'' (show_int (sint (dstoffset d))) @
     json_line ''dstsavings'' (show_int (sint (dstsavings d))) @
     json_line ''usesdaylighttime'' (yesno (usesdaylighttime d)) @
     json_line ''requiresTRM'' (if requirestrm d then ''true'' else ''false'') @
     json_line ''baseTrmUrl'' (basetrmurl d) @
     json_line ''systemids'' (systemids d) @
     json_line ''playbackUrl'' (playbackurl d) @
     json_line ''dnsconfig'' (dnsconfig d) @
     json_line ''hosts'' (etchosts d)"

definition json_gateway :: "GwyDeviceData \<Rightarrow> string" where
  "json_gateway d =
     json_line ''gatewayip'' (gwyip d) @
     json_line ''gatewayipv6'' (gwyipv6 d) @
     json_line ''hostMacAddress'' (hostmacaddress d) @
     (if strcmp (recvdevtype d) ''hybrid'' \<noteq> 0 then json_line ''IPSubNet'' (ipSubNet d) else []) @
     (if strcmp (recvdevtype d) ''broadband'' \<noteq> 0 then json_video d else []) @
     (if sproxy_i d then
        json_line ''dataGatewayIPaddress'' (dataGatewayIPaddress d) @
        json_line ''clientip'' (clientip d)
      else [])"

definition json_client :: "GwyDeviceData \<Rightarrow> string" where
  "json_client d =
     json_line ''clientip'' (clientip d) @
     json_line ''dataGatewayIPaddress'' (dataGatewayIPaddress d)"

text \<open>The entry of a device. Its type is stripped between the head and the rest.\<close>

definition device_json :: "GwyDeviceData \<Rightarrow> string" where
  "device_json d =
     nl @ tab @ tab @ ''{'' @ nl @ tab @ tab @ tab @
     json_head d @ json_identity d @
     (if \<not> strcasestr (g_strstrip (devicetype d)) ''XI'' then json_gateway d else json_client d) @
     tab @ tab @ tab @ dq @ ''receiverid'' @ dq @ '':'' @ dq @ receiverid d @ dq @ nl @ tab @ tab @ ''}''"

subsection \<open>The route to a gateway\<close>

text \<open>
  The guard of the route set-up: the checks run from left to right, each only if the ones
  before it passed, and each strips the string it looks at.
\<close>

definition gw_setup_guard :: "disc_env \<Rightarrow> bool \<Rightarrow> bool \<Rightarrow> GwyDeviceData \<Rightarrow> bool \<times> GwyDeviceData" where
  "gw_setup_guard E first1 first2 d =
     (if enableGwSetup (disConf E) \<and> (first1 \<or> first2) \<and> isgateway d then
        (case checkvalidhostname (inet_pton4 E) (inet_pton6 E) (dnsconfig d) of (ok, s) \<Rightarrow>
         let d = d\<lparr>dnsconfig := s\<rparr> in
         if \<not> ok then (False, d) else
        (case checkvalidhostname (inet_pton4 E) (inet_pton6 E) (etchosts d) of (ok, s) \<Rightarrow>
         let d = d\<lparr>etchosts := s\<rparr> in
         if \<not> ok then (False, d) else
        (case checkvalidip (inet_pton4 E) (inet_pton6 E) (gwyip d) of (ok, s) \<Rightarrow>
         let d = d\<lparr>gwyip := s\<rparr> in
         if \<not> ok then (False, d) else
        (case checkvalidip (inet_pton4 E) (inet_pton6 E) (gwyipv6 d) of (ok, s) \<Rightarrow>
         (ok, d\<lparr>gwyipv6 := s\<rparr>)))))
      else (False, d))"

definition quoted :: "string \<Rightarrow> string" where
  "quoted s = '' '' @ dq @ s @ dq"

definition route_command :: "disc_env \<Rightarrow> GwyDeviceData \<Rightarrow> string" where
  "route_command E d =
     gwSetupFile (disConf E) @ quoted (gwyip d) @ quoted (dnsconfig d) @ quoted (etchosts d) @
     quoted (gwIf (disConf E)) @ quoted (show_int (GwPriority (disConf E))) @
     quoted (ipv6prefix d) @ quoted (gwyipv6 d) @ quoted (devicetype d)"

record send_loop =
  sl_st :: disc_state
  sl_first1 :: bool
  sl_first2 :: bool
  sl_out :: string
  sl_log :: string

definition gw_setup :: "disc_env \<Rightarrow> GwyDeviceData \<Rightarrow> send_loop \<Rightarrow> GwyDeviceData \<times> send_loop" where
  "gw_setup E d l =
     (let (d, l) =
        (if ENABLE_ROUTE (flags E) then
           (d\<lparr>isRouteSet := True\<rparr>,
            l\<lparr>sl_st := emit (System (route_command E d)) (sl_st l),
              sl_first1 := False,
              sl_first2 := (if sl_first1 l then sl_first2 l else False)\<rparr>)
         else (d, l));
        d = d\<lparr>ipv6prefix := g_strstrip (ipv6prefix d)\<rparr>;
        mode = (if g_strrstr (ipv6prefix d) ''null'' \<or> ipv6prefix d = [] then ''ipv4'' else ''ipv6'');
        l = l\<lparr>sl_st := (sl_st l)\<lparr>ipMode := mode\<rparr>\<rparr>
      in if USE_XUPNP_TZ_UPDATE (flags E) then
           (let d = d\<lparr>dsgtimezone := g_strstrip (dsgtimezone d)\<rparr> in
            (d, if strcmp (dsgtimezone d) ''null'' \<noteq> 0
                then l\<lparr>sl_st := broadcastTimeZoneChange E d (sl_st l)\<rparr> else l))
         else (d, l))"

subsection \<open>The loop over the devices\<close>

text \<open>The log line of managed devices, and the bookkeeping on the globals.\<close>

definition log_device :: "GwyDeviceData \<Rightarrow> string" where
  "log_device d =
     (if strcmp (recvdevtype d) ''broadband'' \<noteq> 0
      then bcastmacaddress d @ '','' @ devicetype d @ '','' else [])"

definition count_device :: "disc_env \<Rightarrow> GwyDeviceData \<Rightarrow> disc_state \<Rightarrow> disc_state" where
  "count_device E d st =
     (let st = (if CLIENT_XCAL_SERVER (flags E) \<and> isgateway d
                then st\<lparr>gatewayDetected := gatewayDetected st + 1\<rparr> else st)
      in if \<not> selfDeviceDiscovered st then
           (let st = st\<lparr>ownSerialNo := g_strstrip (ownSerialNo st)\<rparr> in
            if strcmp (ownSerialNo st) (serial_num d) = 0
            then st\<lparr>selfDeviceDiscovered := True\<rparr> else st)
         else st)"

definition send_device :: "disc_env \<Rightarrow> GwyDeviceData \<Rightarrow> send_loop \<Rightarrow> GwyDeviceData \<times> send_loop" where
  "send_device E d l =
     (let l = l\<lparr>sl_log := sl_log l @ log_device d, sl_out := sl_out l @ device_json d,
                sl_st := count_device E d (sl_st l)\<rparr>;
          d = d\<lparr>devicetype := g_strstrip (devicetype d)\<rparr>
      in case gw_setup_guard E (sl_first1 l) (sl_first2 l) d of (ok, d) \<Rightarrow>
           if ok then gw_setup E d l else (d, l))"

fun send_devices :: "disc_env \<Rightarrow> GwyDeviceData list \<Rightarrow> send_loop \<Rightarrow> GwyDeviceData list \<times> send_loop" where
  "send_devices E [] l = ([], l)"
| "send_devices E (d # ds) l =
     (case send_device E d l of (d, l) \<Rightarrow>
        let l = (if ds \<noteq> [] then l\<lparr>sl_out := sl_out l @ '',''\<rparr> else l) in
        case send_devices E ds l of (ds, l) \<Rightarrow> (d # ds, l))"

definition json_open :: string where
  "json_open = ''{'' @ nl @ dq @ ''xmediagateways'' @ dq @ '':'' @ nl @ tab @ ''[''"

definition json_close :: string where
  "json_close = nl @ tab @ '']'' @ nl @ ''}'' @ nl"

subsection \<open>Publication\<close>

text \<open>
  The telemetry buffer holds 4096 characters; a longer list of devices is written past its end,
  and one of exactly that length is read past its end, as it has no terminating NUL.
\<close>

definition publish :: "disc_env \<Rightarrow> send_loop \<Rightarrow> (bool \<times> disc_state) outcome" where
  "publish E l =
     (let log = (if sl_log l \<noteq> [] then butlast (sl_log l) else sl_log l); st = sl_st l in
      if ENABLE_FEATURE_TELEMETRY2_0 (flags E) \<and> 4096 \<le> length log then Inl Out_of_bounds
      else
        (let st = (if ENABLE_FEATURE_TELEMETRY2_0 (flags E) then emit (Telemetry log) st else st);
             out = sl_out l @ json_close;
             st = st\<lparr>outputcontents := out\<rparr>;
             st = (if USE_XUPNP_IARM_BUS (flags E) then notifyXUPnPDataUpdateEvent st else st)
         in if \<not> file_write_ok E then Inr (False, st)
            else
              (let st = emit (Write_file (outputJsonFile (disConf E)) out) st;
                   isMediaClientConnected = (strstr out ''mediaclient'' \<noteq> None)
               in if BROADBAND (flags E) \<and> \<not> webgui_started E \<and> isMediaClientConnected
                  then Inr (True, emit (System ''/etc/webgui.sh &'') st)
                  else Inr (True, st))))"

definition sendDiscoveryResult :: "disc_env \<Rightarrow> disc_state \<Rightarrow> (bool \<times> disc_state) outcome" where
  "sendDiscoveryResult E st =
     bind_outcome (fetch_serialnum E st) (\<lambda>st.
       let l = \<lparr>sl_st = st, sl_first1 = True, sl_first2 = True, sl_out = json_open, sl_log = []\<rparr>
       in case send_devices E (xdevlist st) l of (ds, l) \<Rightarrow>
            publish E (l\<lparr>sl_st := (sl_st l)\<lparr>xdevlist := ds\<rparr>\<rparr>))"

subsection \<open>What the loop keeps and what it writes\<close>

text \<open>The fields of a device that no step of the report changes.\<close>

definition same_device :: "GwyDeviceData \<Rightarrow> GwyDeviceData \<Rightarrow> bool" where
  "same_device d d' \<longleftrightarrow> addr d' = addr d \<and> serial_num d' = serial_num d \<and>
     receiverid d' = receiverid d \<and> isgateway d' = isgateway d \<and>
     isOwnGateway d' = isOwnGateway d \<and> devFoundFlag d' = devFoundFlag d \<and>
     isDevRefactored d' = isDevRefactored d \<and> g_strstrip (devicetype d') = g_strstrip (devicetype d) \<and>
     bcastmacaddress d' = bcastmacaddress d \<and> clientip d' = clientip d \<and>
     g_strstrip (gwyip d') = g_strstrip (gwyip d)"

lemma same_device_refl [simp]: "same_device d d"
  by (simp add: same_device_def)

lemma same_device_trans: "same_device d e \<Longrightarrow> same_device e f \<Longrightarrow> same_device d f"
  by (simp add: same_device_def)

lemma checkvalidip_snd [simp]: "snd (checkvalidip p4 p6 s) = g_strstrip s"
  by (simp add: checkvalidip_def Let_def)

lemma checkvalidhostname_snd [simp]: "snd (checkvalidhostname p4 p6 s) = g_strstrip s"
  by (simp add: checkvalidhostname_def Let_def)

lemma gw_setup_guard_same: "same_device d (snd (gw_setup_guard E f1 f2 d))"
  by (simp add: gw_setup_guard_def same_device_def Let_def case_prod_beta)

lemma gw_setup_guard_isgateway: "fst (gw_setup_guard E f1 f2 d) \<Longrightarrow> isgateway d \<and> (f1 \<or> f2)"
  by (simp add: gw_setup_guard_def split: if_splits)

lemma gw_setup_same: "same_device d (fst (gw_setup E d l))"
  by (simp add: gw_setup_def same_device_def Let_def)

lemma send_device_same: "same_device d (fst (send_device E d l))"
proof -
  define d1 where "d1 = d\<lparr>devicetype := g_strstrip (devicetype d)\<rparr>"
  have 1: "same_device d d1" by (simp add: same_device_def d1_def)
  have 2: "same_device d (snd (gw_setup_guard E f1 f2 d1))" for f1 f2
    by (rule same_device_trans [OF 1 gw_setup_guard_same])
  have 3: "same_device d (fst (gw_setup E (snd (gw_setup_guard E f1 f2 d1)) l'))" for f1 f2 l'
    by (rule same_device_trans [OF 2 gw_setup_same])
  show ?thesis
    unfolding send_device_def Let_def case_prod_beta d1_def [symmetric] using 2 3 by simp
qed

lemma gw_setup_loop:
  "sl_out (snd (gw_setup E d l)) = sl_out l" "sl_log (snd (gw_setup E d l)) = sl_log l"
  "gatewayDetected (sl_st (snd (gw_setup E d l))) = gatewayDetected (sl_st l)"
  "xdevlist (sl_st (snd (gw_setup E d l))) = xdevlist (sl_st l)"
  "dp (sl_st (snd (gw_setup E d l))) = dp (sl_st l)"
  "ipaddress (sl_st (snd (gw_setup E d l))) = ipaddress (sl_st l)"
  "deviceAddNo (sl_st (snd (gw_setup E d l))) = deviceAddNo (sl_st l)"
  "next_addr (sl_st (snd (gw_setup E d l))) = next_addr (sl_st l)"
  "partialDiscovery (sl_st (snd (gw_setup E d l))) = partialDiscovery (sl_st l)"
  by (simp_all add: gw_setup_def Let_def)

definition gw_count :: "GwyDeviceData list \<Rightarrow> int" where
  "gw_count ds = int (length (filter isgateway ds))"

lemma count_device_frame [simp, frame_simps]:
  "xdevlist (count_device E d st) = xdevlist st" "dp (count_device E d st) = dp st"
  "ipaddress (count_device E d st) = ipaddress st" "deviceAddNo (count_device E d st) = deviceAddNo st"
  "next_addr (count_device E d st) = next_addr st" "effects (count_device E d st) = effects st"
  "partialDiscovery (count_device E d st) = partialDiscovery st"
  "gatewayDetected (count_device E d st) =
     gatewayDetected st + (if CLIENT_XCAL_SERVER (flags E) \<and> isgateway d then 1 else 0)"
  by (simp_all add: count_device_def Let_def)

lemma send_device_loop:
  "sl_out (snd (send_device E d l)) = sl_out l @ device_json d"
  "gatewayDetected (sl_st (snd (send_device E d l))) =
     gatewayDetected (sl_st l) + (if CLIENT_XCAL_SERVER (flags E) \<and> isgateway d then 1 else 0)"
  "xdevlist (sl_st (snd (send_device E d l))) = xdevlist (sl_st l)"
  "dp (sl_st (snd (send_device E d l))) = dp (sl_st l)"
  "ipaddress (sl_st (snd (send_device E d l))) = ipaddress (sl_st l)"
  "deviceAddNo (sl_st (snd (send_device E d l))) = deviceAddNo (sl_st l)"
  "next_addr (sl_st (snd (send_device E d l))) = next_addr (sl_st l)"
  "partialDiscovery (sl_st (snd (send_device E d l))) = partialDiscovery (sl_st l)"
  by (simp_all add: send_device_def Let_def case_prod_beta gw_setup_loop)

text \<open>The entries, separated by commas.\<close>

fun joined :: "string list \<Rightarrow> string" where
  "joined [] = []"
| "joined [x] = x"
| "joined (x # y # xs) = x @ '','' @ joined (y # xs)"

lemma joined_Cons: "joined (x # xs) = x @ (if xs \<noteq> [] then '','' @ joined xs else [])"
  by (cases xs) simp_all

lemma send_devices_same: "list_all2 same_device ds (fst (send_devices E ds l))"
proof (induction ds arbitrary: l)
  case (Cons d ds)
  show ?case
    using Cons.IH send_device_same [of d E l]
    by (cases "send_device E d l") (simp add: Let_def case_prod_beta)
qed simp

lemma send_devices_loop:
  "sl_out (snd (send_devices E ds l)) = sl_out l @ joined (map device_json ds)"
  "gatewayDetected (sl_st (snd (send_devices E ds l))) =
     gatewayDetected (sl_st l) + (if CLIENT_XCAL_SERVER (flags E) then gw_count ds else 0)"
  "dp (sl_st (snd (send_devices E ds l))) = dp (sl_st l)"
  "ipaddress (sl_st (snd (send_devices E ds l))) = ipaddress (sl_st l)"
  "deviceAddNo (sl_st (snd (send_devices E ds l))) = deviceAddNo (sl_st l)"
  "next_addr (sl_st (snd (send_devices E ds l))) = next_addr (sl_st l)"
  "partialDiscovery (sl_st (snd (send_devices E ds l))) = partialDiscovery (sl_st l)"
proof -
  have "sl_out (snd (send_devices E ds l)) = sl_out l @ joined (map device_json ds) \<and>
    gatewayDetected (sl_st (snd (send_devices E ds l))) =
      gatewayDetected (sl_st l) + (if CLIENT_XCAL_SERVER (flags E) then gw_count ds else 0) \<and>
    dp (sl_st (snd (send_devices E ds l))) = dp (sl_st l) \<and>
    ipaddress (sl_st (snd (send_devices E ds l))) = ipaddress (sl_st l) \<and>
    deviceAddNo (sl_st (snd (send_devices E ds l))) = deviceAddNo (sl_st l) \<and>
    next_addr (sl_st (snd (send_devices E ds l))) = next_addr (sl_st l) \<and>
    partialDiscovery (sl_st (snd (send_devices E ds l))) = partialDiscovery (sl_st l)"
  proof (induction ds arbitrary: l)
    case Nil
    then show ?case by (simp add: gw_count_def)
  next
    case (Cons d ds)
    define l1 where "l1 = snd (send_device E d l)"
    define l2 where "l2 = (if ds \<noteq> [] then l1\<lparr>sl_out := sl_out l1 @ '',''\<rparr> else l1)"
    have "send_devices E (d # ds) l =
        (fst (send_device E d l) # fst (send_devices E ds l2), snd (send_devices E ds l2))"
      by (simp add: l1_def l2_def Let_def case_prod_beta)
    moreover have "gw_count (d # ds) = (if isgateway d then 1 else 0) + gw_count ds"
      by (simp add: gw_count_def)
    ultimately show ?case
      using Cons.IH [of l2] send_device_loop [of E d l]
      by (simp add: l1_def l2_def joined_Cons)
  qed
  then show "sl_out (snd (send_devices E ds l)) = sl_out l @ joined (map device_json ds)"
    "gatewayDetected (sl_st (snd (send_devices E ds l))) =
      gatewayDetected (sl_st l) + (if CLIENT_XCAL_SERVER (flags E) then gw_count ds else 0)"
    "dp (sl_st (snd (send_devices E ds l))) = dp (sl_st l)"
    "ipaddress (sl_st (snd (send_devices E ds l))) = ipaddress (sl_st l)"
    "deviceAddNo (sl_st (snd (send_devices E ds l))) = deviceAddNo (sl_st l)"
    "next_addr (sl_st (snd (send_devices E ds l))) = next_addr (sl_st l)"
    "partialDiscovery (sl_st (snd (send_devices E ds l))) = partialDiscovery (sl_st l)"
    by blast+
qed

definition report :: "GwyDeviceData list \<Rightarrow> string" where
  "report ds = json_open @ joined (map device_json ds) @ json_close"

lemma publish_frame:
  assumes "publish E l = Inr (r, st')"
  shows "xdevlist st' = xdevlist (sl_st l)" "dp st' = dp (sl_st l)" "ipaddress st' = ipaddress (sl_st l)"
    "deviceAddNo st' = deviceAddNo (sl_st l)" "next_addr st' = next_addr (sl_st l)"
    "partialDiscovery st' = partialDiscovery (sl_st l)" "gatewayDetected st' = gatewayDetected (sl_st l)"
    "outputcontents st' = sl_out l @ json_close" "r = file_write_ok E"
    "file_write_ok E \<longrightarrow> Write_file (outputJsonFile (disConf E)) (sl_out l @ json_close) \<in> set (effects st')"
  using assms by (simp_all add: publish_def Let_def split: if_splits) auto

lemma sendDiscoveryResult_frame:
  assumes "sendDiscoveryResult E st = Inr (r, st')"
  shows "list_all2 same_device (xdevlist st) (xdevlist st')" "dp st' = dp st"
    "ipaddress st' = ipaddress st" "deviceAddNo st' = deviceAddNo st" "next_addr st' = next_addr st"
    "partialDiscovery st' = partialDiscovery st"
    "gatewayDetected st' = gatewayDetected st +
       (if CLIENT_XCAL_SERVER (flags E) then gw_count (xdevlist st) else 0)"
    "outputcontents st' = report (xdevlist st)" "r = file_write_ok E"
    "file_write_ok E \<longrightarrow> Write_file (outputJsonFile (disConf E)) (report (xdevlist st)) \<in> set (effects st')"
proof -
  define l0 where "l0 = (\<lambda>s. \<lparr>sl_st = s, sl_first1 = True, sl_first2 = True, sl_out = json_open, sl_log = []\<rparr>)"
  obtain s where s: "fetch_serialnum E st = Inr s"
      and p: "publish E ((snd (send_devices E (xdevlist s) (l0 s)))\<lparr>sl_st :=
        (sl_st (snd (send_devices E (xdevlist s) (l0 s))))\<lparr>xdevlist := fst (send_devices E (xdevlist s) (l0 s))\<rparr>\<rparr>)
        = Inr (r, st')"
    using assms by (auto simp: sendDiscoveryResult_def bind_outcome_Inr_iff Let_def case_prod_beta l0_def)
  note F = fetch_serialnum_frame [OF s]
  note P = publish_frame [OF p]
  have S: "sl_st (l0 s) = s" "sl_out (l0 s) = json_open" by (simp_all add: l0_def)
  show "list_all2 same_device (xdevlist st) (xdevlist st')" "dp st' = dp st"
    "ipaddress st' = ipaddress st" "deviceAddNo st' = deviceAddNo st" "next_addr st' = next_addr st"
    "partialDiscovery st' = partialDiscovery st"
    "gatewayDetected st' = gatewayDetected st +
       (if CLIENT_XCAL_SERVER (flags E) then gw_count (xdevlist st) else 0)"
    "outputcontents st' = report (xdevlist st)" "r = file_write_ok E"
    "file_write_ok E \<longrightarrow> Write_file (outputJsonFile (disConf E)) (report (xdevlist st)) \<in> set (effects st')"
    using P by (simp_all add: send_devices_loop send_devices_same report_def S F)
qed

lemma sendDiscoveryResult_returns:
  assumes "report_safe E"
  obtains st' where "sendDiscoveryResult E st = Inr (file_write_ok E, st')"
proof -
  obtain s where "fetch_serialnum E st = Inr s"
    using fetch_serialnum_returns [of E st] assms by (auto simp: report_safe_def)
  then show thesis
    using assms that
    by (cases "sendDiscoveryResult E st")
       (auto simp: report_safe_def sendDiscoveryResult_def publish_def Let_def case_prod_beta split: if_splits)
qed

lemma sendDiscoveryResult_fatal:
  "\<not> bSerialNum st \<Longrightarrow> \<not> serial_safe E \<Longrightarrow> sendDiscoveryResult E st = Inl Fatal_error"
  using getserialnum_fatal [of E st Fatal_error] by (simp add: sendDiscoveryResult_def fetch_serialnum_def)

lemma same_devices_serials:
  assumes "list_all2 same_device ds es"
  shows "serials serial_num es = serials serial_num ds" "map addr es = map addr ds"
    "map isgateway es = map isgateway ds" "length es = length ds"
  using assms by (induction rule: list_all2_induct) (auto simp: same_device_def)

text \<open>How many routes one report sets up: every set-up clears one of the two flags.\<close>

definition routes :: "disc_state \<Rightarrow> nat" where
  "routes st = length (filter (\<lambda>e. case e of System c \<Rightarrow> True | _ \<Rightarrow> False) (effects st))"

definition budget :: "send_loop \<Rightarrow> nat" where
  "budget l = (if sl_first1 l then 1 else 0) + (if sl_first2 l then 1 else 0)"

lemma routes_emit: "routes (emit e st) = routes st + (case e of System c \<Rightarrow> 1 | _ \<Rightarrow> 0)"
  by (simp add: routes_def split: effect.splits)

lemma routes_update [simp]:
  "routes (st\<lparr>gatewayDetected := g\<rparr>) = routes st" "routes (st\<lparr>ownSerialNo := s\<rparr>) = routes st"
  "routes (st\<lparr>selfDeviceDiscovered := b\<rparr>) = routes st" "routes (st\<lparr>ipMode := s\<rparr>) = routes st"
  "routes (st\<lparr>prevTzIndex := i, IsDst := b\<rparr>) = routes st" "routes (st\<lparr>xdevlist := ds\<rparr>) = routes st"
  by (simp_all add: routes_def)

lemma routes_tz [simp]: "routes (broadcastTimeZoneChange E d st) = routes st"
  by (simp add: broadcastTimeZoneChange_def Let_def routes_emit)

lemma routes_gw_setup:
  "sl_first1 l \<or> sl_first2 l \<Longrightarrow>
     routes (sl_st (snd (gw_setup E d l))) + budget (snd (gw_setup E d l)) = routes (sl_st l) + budget l"
  by (cases "sl_first1 l"; simp add: gw_setup_def Let_def routes_emit budget_def)

lemma routes_send_device:
  "routes (sl_st (snd (send_device E d l))) + budget (snd (send_device E d l)) = routes (sl_st l) + budget l"
proof -
  define l1 where "l1 = l\<lparr>sl_log := sl_log l @ log_device d, sl_out := sl_out l @ device_json d,
      sl_st := count_device E d (sl_st l)\<rparr>"
  define d1 where "d1 = d\<lparr>devicetype := g_strstrip (devicetype d)\<rparr>"
  have b1: "budget l1 = budget l" "routes (sl_st l1) = routes (sl_st l)"
    by (simp_all add: l1_def budget_def routes_def)
  have "send_device E d l = (case gw_setup_guard E (sl_first1 l1) (sl_first2 l1) d1 of (ok, d) \<Rightarrow>
      if ok then gw_setup E d l1 else (d, l1))"
    unfolding send_device_def Let_def l1_def d1_def by (rule refl)
  then show ?thesis
    using gw_setup_guard_isgateway [of E "sl_first1 l1" "sl_first2 l1" d1] b1 routes_gw_setup [of l1 E]
    by (simp add: case_prod_beta)
qed

lemma routes_send_devices:
  "routes (sl_st (snd (send_devices E ds l))) + budget (snd (send_devices E ds l)) =
     routes (sl_st l) + budget l"
proof (induction ds arbitrary: l)
  case (Cons d ds)
  define l1 where "l1 = snd (send_device E d l)"
  define l2 where "l2 = (if ds \<noteq> [] then l1\<lparr>sl_out := sl_out l1 @ '',''\<rparr> else l1)"
  have "snd (send_devices E (d # ds) l) = snd (send_devices E ds l2)"
    by (simp add: l1_def l2_def Let_def case_prod_beta)
  moreover have "routes (sl_st l2) + budget l2 = routes (sl_st l1) + budget l1"
    by (simp add: l2_def budget_def)
  ultimately show ?case using Cons.IH [of l2] routes_send_device [of E d l] by (simp add: l1_def)
qed simp

subsection \<open>Properties\<close>

text \<open>
  C14. \<open>sendDiscoveryResult\<close> publishes the whole list: the text other processes read is the
  opening line, one entry per device in list order separated by commas, and the closing line;
  the same text goes to the output file; the answer tells whether the file was written; and no
  device is added, lost or reordered.
\<close>

theorem sendDiscoveryResult_reports_list:
  assumes "sendDiscoveryResult E st = Inr (r, st')"
  shows "outputcontents st' = json_open @ joined (map device_json (xdevlist st)) @ json_close \<and>
    (r \<longrightarrow> Write_file (outputJsonFile (disConf E)) (outputcontents st') \<in> set (effects st')) \<and>
    (r \<longleftrightarrow> file_write_ok E) \<and>
    map addr (xdevlist st') = map addr (xdevlist st) \<and>
    serials serial_num (xdevlist st') = serials serial_num (xdevlist st)"
  using sendDiscoveryResult_frame [OF assms] same_devices_serials [of "xdevlist st" "xdevlist st'"]
  by (simp add: report_def)

theorem sendDiscoveryResult_reports_list_witness:
  "\<exists>st'. sendDiscoveryResult sample_env (disc_start ''10.0.0.1'') = Inr (True, st') \<and>
     outputcontents st' = json_open @ json_close"
proof -
  obtain st' where st': "sendDiscoveryResult sample_env (disc_start ''10.0.0.1'') = Inr (True, st')"
    using sendDiscoveryResult_returns [of sample_env "disc_start ''10.0.0.1''"]
    by (auto simp: sample_env_def sample_flags_def report_safe_def serial_safe_def)
  then show ?thesis using sendDiscoveryResult_reports_list [OF st'] by (simp add: disc_start_def)
qed

text \<open>
  One report runs the gateway set-up script at most twice, whatever the list holds.
\<close>

theorem at_most_two_routes:
  "routes (sl_st (snd (send_devices E ds \<lparr>sl_st = st, sl_first1 = True, sl_first2 = True,
     sl_out = out, sl_log = log\<rparr>))) \<le> routes st + 2"
  using routes_send_devices [of E ds "\<lparr>sl_st = st, sl_first1 = True, sl_first2 = True,
     sl_out = out, sl_log = log\<rparr>"]
  by (simp add: budget_def)

text \<open>
  The checks on the name servers do not keep shell syntax out of the command line: for every
  text there is a device that passes them all and puts that text into the command, whatever
  \<open>inet_pton\<close> accepts.
\<close>

theorem route_command_injection:
  assumes "enableGwSetup (disConf E)"
  shows "let d = (init_gwydata a)\<lparr>isgateway := True, dnsconfig := CHR ''$'' # t @ '';''\<rparr>;
             (ok, d') = gw_setup_guard E True True d
         in ok \<and> sublist (CHR ''$'' # t @ '';'') (route_command E d')"
proof -
  let ?d = "(init_gwydata a)\<lparr>isgateway := True, dnsconfig := CHR ''$'' # t @ '';''\<rparr>"
  have strip: "g_strstrip (CHR ''$'' # t @ '';'') = CHR ''$'' # t @ '';''"
    by (rule g_strstrip_stripped) (simp add: stripped_def g_ascii_isspace_def)
  have "[] \<in> set (g_strsplit_set (CHR ''$'' # t @ '';'') '' ;\<newline>'')"
    using split_set_snoc [of "CHR '';''" "set '' ;\<newline>''" "CHR ''$'' # t"]
    by (simp add: g_strsplit_set_def del: split_set.simps)
  then have "any_valid_token (inet_pton4 E) (inet_pton6 E)
      (g_strsplit_set (CHR ''$'' # t @ '';'') '' ;\<newline>'')"
    unfolding any_valid_token_iff by (rule rev_bexI) simp
  then have ok: "checkvalidhostname (inet_pton4 E) (inet_pton6 E) (CHR ''$'' # t @ '';'') =
      (True, CHR ''$'' # t @ '';'')"
    by (simp add: checkvalidhostname_def Let_def strip)
  have empty: "checkvalidhostname p4 p6 [] = (True, [])" for p4 p6
    by (simp add: checkvalidhostname_def)
  have guard: "gw_setup_guard E True True ?d = (True, ?d)"
    using assms ok by (simp add: gw_setup_guard_def init_gwydata_def empty Let_def)
  have "route_command E ?d = gwSetupFile (disConf E) @ quoted [] @ '' '' @ dq @
      (CHR ''$'' # t @ '';'') @ (dq @ quoted [] @ quoted (gwIf (disConf E)) @
      quoted (show_int (GwPriority (disConf E))) @ quoted [] @ quoted [] @ quoted [])"
    by (simp add: route_command_def quoted_def init_gwydata_def)
  then have "sublist (CHR ''$'' # t @ '';'') (route_command E ?d)"
    by (metis append_assoc sublist_appendI)
  with guard show ?thesis by (simp add: Let_def)
qed

theorem route_command_injection_witness:
  "fst (gw_setup_guard sample_env True True
     ((init_gwydata 1)\<lparr>isgateway := True, dnsconfig := ''$(reboot);''\<rparr>))"
  using route_command_injection [of sample_env "''(reboot)''" 1]
  by (simp add: Let_def case_prod_beta sample_env_def)

end
