(* ===== verification/Gwy_List.thy ===== *)
theory Gwy_List
  imports Json_Output
begin

text \<open>
  The device list of \<open>src/xdiscovery.c\<close>: the comparison callbacks, \<open>checkDeviceExists\<close>,
  \<open>delete_gwyitem\<close>, \<open>update_gwylist\<close> and \<open>delOldItemsFromList\<close>. The list keeps the order of the
  serial numbers and holds each of them once.
\<close>

subsection \<open>Callbacks\<close>

definition strip_serial :: "GwyDeviceData \<Rightarrow> GwyDeviceData" where
  "strip_serial d = d\<lparr>serial_num := g_strstrip (serial_num d)\<rparr>"

definition g_list_find_sno ::
  "GwyDeviceData \<Rightarrow> string option \<Rightarrow> int \<times> GwyDeviceData \<times> string option" where
  "g_list_find_sno gwData sno =
     (let gwData = strip_serial gwData; sno = map_option g_strstrip sno in
      (if g_strcmp0 (Some (serial_num gwData)) sno = 0 then 0 else 1, gwData, sno))"

definition g_list_find_udn ::
  "GwyDeviceData \<Rightarrow> string option \<Rightarrow> int \<times> GwyDeviceData \<times> string option" where
  "g_list_find_udn gwData udn =
     (let gwData = gwData\<lparr>receiverid := g_strstrip (receiverid gwData)\<rparr>; udn = map_option g_strstrip udn in
      (if g_strcmp0 (Some (receiverid gwData)) udn = 0 then 0 else 1, gwData, udn))"

definition g_list_compare_sno ::
  "GwyDeviceData \<Rightarrow> GwyDeviceData \<Rightarrow> int \<times> GwyDeviceData \<times> GwyDeviceData" where
  "g_list_compare_sno d1 d2 =
     (let d1 = strip_serial d1; d2 = strip_serial d2 in
      (strcmp (serial_num d1) (serial_num d2), d1, d2))"

interpretation gwl: device_list serial_num strip_serial g_list_find_sno g_list_compare_sno
proof unfold_locales
  fix d k
  show "g_list_find_sno d k =
    (if map_option g_strstrip k = Some (g_strstrip (serial_num d)) then 0 else 1,
     strip_serial d, map_option g_strstrip k)"
    by (cases k) (auto simp: g_list_find_sno_def strip_serial_def Let_def)
qed (simp_all add: g_list_compare_sno_def strip_serial_def Let_def)

subsection \<open>Looking a device up before it is removed\<close>

definition OUTPLAYURL_SIZE :: nat where "OUTPLAYURL_SIZE = 180"

definition live_suffix :: string where "live_suffix = ''&live=ocap://0xffff''"

text \<open>
  The walk of \<open>checkDeviceExists\<close>: the answer, the play URL written to the caller's buffer of
  \<open>OUTPLAYURL_SIZE\<close> bytes, the list and the number afterwards. \<open>strcpy_s\<close> refuses a string that
  does not fit, \<open>strcat\<close> does not.
\<close>

fun check_loop ::
  "GwyDeviceData list \<Rightarrow> string option \<Rightarrow> string \<Rightarrow> (GwyDeviceData list \<times> string option \<times> bool \<times> string) outcome" where
  "check_loop [] sno url = Inr ([], sno, False, url)"
| "check_loop (d # ds) sno url =
     (let d = strip_serial d; sno = map_option g_strstrip sno;
          result = g_strcmp0 (Some (serial_num d)) sno
      in if result = 0 then
           (if isgateway d then
              (let d = d\<lparr>playbackurl := g_strstrip (playbackurl d)\<rparr> in
               if length (playbackurl d) < OUTPLAYURL_SIZE then
                 (let url = playbackurl d @ live_suffix in
                  if length url < OUTPLAYURL_SIZE then Inr (d # ds, sno, True, url)
                  else Inl Out_of_bounds)
               else Inr (d # ds, sno, False, []))
            else Inr (d # ds, sno, True, url))
         else if result > 0 then Inr (d # ds, sno, False, url)
         else bind_outcome (check_loop ds sno url) (\<lambda>(ds, r). Inr (d # ds, r)))"

definition checkDeviceExists ::
  "string option \<Rightarrow> string \<Rightarrow> disc_state \<Rightarrow> (bool \<times> string \<times> string option \<times> disc_state) outcome" where
  "checkDeviceExists sno outPlayUrl st =
     bind_outcome (check_loop (xdevlist st) sno outPlayUrl)
       (\<lambda>(ds, sno, retval, url). Inr (retval, url, sno, st\<lparr>xdevlist := ds\<rparr>))"

subsection \<open>Deletion\<close>

definition wl_delete :: "disc_env \<Rightarrow> string \<Rightarrow> disc_state \<Rightarrow> disc_state outcome" where
  "wl_delete E ip st =
     (case inet_aton E ip of
        None \<Rightarrow> Inr st
      | Some s_addr \<Rightarrow>
          bind_outcome (dpnode_delete (dp st) (ucast s_addr) '' '' (junk_stat E) (junk_pindex E))
            (\<lambda>wl. Inr (st\<lparr>dp := wl\<rparr>)))"

text \<open>What \<open>delete_gwyitem\<close> does for a device before it takes it out of the list.\<close>

definition forget_device :: "disc_env \<Rightarrow> GwyDeviceData \<Rightarrow> disc_state \<Rightarrow> disc_state outcome" where
  "forget_device E d st =
     (if isgateway d then
        (if CLIENT_XCAL_SERVER (flags E) then
           (let st = (if gatewayDetected st \<noteq> 0 then st\<lparr>gatewayDetected := gatewayDetected st - 1\<rparr> else st) in
            if BROADBAND (flags E) \<and> rfc_enabled E \<and> g_strrstr (g_strstrip (devicetype d)) ''XG'' \<and>
               isDevRefactored d
            then wl_delete E (gwyip d) st else Inr st)
         else Inr st)
      else
        (if BROADBAND (flags E) \<and> rfc_enabled E \<and>
            (g_strrstr (g_strstrip (devicetype d)) ''XID'' \<or> g_strrstr (g_strstrip (devicetype d)) ''XI3'') \<and>
            isDevRefactored d
         then wl_delete E (clientip d) st else Inr st))"

definition delete_gwyitem ::
  "disc_env \<Rightarrow> string option \<Rightarrow> disc_state \<Rightarrow> (bool \<times> string option \<times> disc_state) outcome" where
  "delete_gwyitem E serial st =
     (case g_list_find_custom g_list_find_sno (xdevlist st) serial of
        (ds, serial, None) \<Rightarrow> Inr (False, serial, st\<lparr>xdevlist := ds\<rparr>)
      | (ds, serial, Some i) \<Rightarrow>
          (let gwdata = ds ! i in
           bind_outcome (forget_device E gwdata (st\<lparr>xdevlist := ds\<rparr>)) (\<lambda>st.
           Inr (True, serial,
             emit (Free_device (addr gwdata) (free_gwydata gwdata)) (st\<lparr>xdevlist := g_list_remove_link (xdevlist st) i\<rparr>)))))"

subsection \<open>Update\<close>

text \<open>A change of the device at an address, wherever the list holds it.\<close>

definition modify_dev :: "nat \<Rightarrow> (GwyDeviceData \<Rightarrow> GwyDeviceData) \<Rightarrow> disc_state \<Rightarrow> disc_state" where
  "modify_dev a f st = st\<lparr>xdevlist := map (\<lambda>d. if addr d = a then f d else d) (xdevlist st)\<rparr>"

definition wl_insert :: "disc_env \<Rightarrow> string \<Rightarrow> string \<Rightarrow> disc_state \<Rightarrow> disc_state outcome" where
  "wl_insert E ip mac st =
     (case inet_aton E ip of
        None \<Rightarrow> Inr st
      | Some s_addr \<Rightarrow>
          bind_outcome (dpnode_insert (dp st) (ucast s_addr) mac (junk_stat E) (junk_pindex E))
            (\<lambda>(wstatus, wl). Inr (st\<lparr>dp := wl\<rparr>)))"

definition enrol_device :: "disc_env \<Rightarrow> GwyDeviceData \<Rightarrow> disc_state \<Rightarrow> disc_state outcome" where
  "enrol_device E d st =
     (if BROADBAND (flags E) \<and> rfc_enabled E \<and> isDevRefactored d then
        (let t = g_strstrip (devicetype d);
             st = modify_dev (addr d) (\<lambda>d. d\<lparr>devicetype := t\<rparr>) st
         in if g_strrstr t ''XG'' then wl_insert E (gwyip d) (bcastmacaddress d) st
            else if g_strrstr t ''XID'' \<or> g_strrstr t ''XI3''
            then wl_insert E (clientip d) (bcastmacaddress d) st
            else Inr st)
      else Inr st)"

text \<open>
  The old entry goes. \<open>sno\<close> is the device's own string, so stripping it strips the device's
  number. The command that clears a route names the new address of the device.
\<close>

definition route_del :: "string \<Rightarrow> string" where
  "route_del ip = ''route del default gw '' @ ip"

definition remove_old ::
  "disc_env \<Rightarrow> GwyDeviceData \<Rightarrow> disc_state \<Rightarrow> (bool \<times> GwyDeviceData \<times> disc_state) outcome" where
  "remove_old E gwydata st =
     (case g_list_find_custom g_list_find_sno (xdevlist st) (Some (serial_num gwydata)) of
        (ds, sno, hit) \<Rightarrow>
      let gwydata = gwydata\<lparr>serial_num := the sno\<rparr>; st = st\<lparr>xdevlist := ds\<rparr>
      in case hit of
           None \<Rightarrow> Inr (True, gwydata, st)
         | Some i \<Rightarrow>
             (let oldip = g_strstrip (gwyip (ds ! i));
                  gwydata = gwydata\<lparr>gwyip := g_strstrip (gwyip gwydata)\<rparr>;
                  st = st\<lparr>xdevlist := ds[i := (ds ! i)\<lparr>gwyip := oldip\<rparr>]\<rparr>;
                  st = (if ENABLE_ROUTE (flags E) \<and> enableGwSetup (disConf E) \<and> isRouteSet gwydata \<and>
                           strcmp oldip (gwyip gwydata) \<noteq> 0
                        then emit (System (route_del (gwyip gwydata))) st else st)
              in bind_outcome (delete_gwyitem E (Some (serial_num gwydata)) st)
                   (\<lambda>(ok, sno, st). Inr (ok, gwydata\<lparr>serial_num := the sno\<rparr>, st))))"

definition insert_new :: "disc_env \<Rightarrow> GwyDeviceData \<Rightarrow> disc_state \<Rightarrow> (bool \<times> disc_state) outcome" where
  "insert_new E gwydata st =
     bind_outcome
       (enrol_device E gwydata
          (st\<lparr>xdevlist := g_list_insert_sorted_with_data g_list_compare_sno (xdevlist st) gwydata\<rparr>))
       (\<lambda>st. bind_outcome (sendDiscoveryResult E st) (\<lambda>(r, st). Inr (True, st)))"

definition update_gwylist :: "disc_env \<Rightarrow> GwyDeviceData \<Rightarrow> disc_state \<Rightarrow> (bool \<times> disc_state) outcome" where
  "update_gwylist E gwydata st =
     bind_outcome (remove_old E gwydata st)
       (\<lambda>(ok, gwydata, st). if \<not> ok then Inr (False, st) else insert_new E gwydata st)"

subsection \<open>Cleaning up\<close>

text \<open>
  The loop of \<open>delOldItemsFromList\<close>: the devices that stay, the number deleted, the effects.
\<close>

fun del_old_loop ::
  "disc_env \<Rightarrow> bool \<Rightarrow> GwyDeviceData list \<Rightarrow> disc_state \<Rightarrow> GwyDeviceData list \<times> nat \<times> disc_state" where
  "del_old_loop E bDeleteAll [] st = ([], 0, st)"
| "del_old_loop E bDeleteAll (d # ds) st =
     (if \<not> isOwnGateway d \<and> (\<not> devFoundFlag d \<or> bDeleteAll) then
        (let st = (if ENABLE_ROUTE (flags E) \<and> enableGwSetup (disConf E) \<and> isRouteSet d then
                     (case checkvalidip (inet_pton4 E) (inet_pton6 E) (gwyip d) of (ok, ip) \<Rightarrow>
                        if ok then emit (System (route_del ip)) st else st)
                   else st);
             (ds, n, st) = del_old_loop E bDeleteAll ds (emit (Free_device (addr d) (free_gwydata d)) st)
         in (ds, Suc n, st))
      else (let (ds, n, st) = del_old_loop E bDeleteAll ds st in (d # ds, n, st)))"

definition delOldItemsFromList :: "disc_env \<Rightarrow> bool \<Rightarrow> disc_state \<Rightarrow> disc_state outcome" where
  "delOldItemsFromList E bDeleteAll st =
     (case del_old_loop E bDeleteAll (xdevlist st) st of (ds, n, st) \<Rightarrow>
        let st = st\<lparr>xdevlist := ds\<rparr> in
        if n > 0 then bind_outcome (sendDiscoveryResult E st) (\<lambda>(r, st). Inr st) else Inr st)"

subsection \<open>The invariant of the list\<close>

definition list_inv :: "disc_state \<Rightarrow> bool" where
  "list_inv st \<longleftrightarrow> sno_sorted serial_num (xdevlist st) \<and>
     distinct (map addr (xdevlist st)) \<and> (\<forall>d \<in> set (xdevlist st). addr d < next_addr st)"

definition devices :: "disc_state \<Rightarrow> string set" where
  "devices st = set (serials serial_num (xdevlist st))"

lemma list_invI:
  assumes "sno_sorted serial_num (xdevlist st)" "distinct (map addr (xdevlist st))"
    "addr ` set (xdevlist st) \<subseteq> {a. a < next_addr st}"
  shows "list_inv st"
  using assms by (auto simp: list_inv_def)

lemma map_update_same: "i < length ds \<Longrightarrow> f x = f (ds ! i) \<Longrightarrow> map f (ds[i := x]) = map f ds"
  by (simp add: map_update list_update_same_conv)

lemma list_inv_cong:
  assumes "serials serial_num (xdevlist st') = serials serial_num (xdevlist st)"
    "map addr (xdevlist st') = map addr (xdevlist st)" "next_addr st' = next_addr st"
  shows "list_inv st' = list_inv st" "devices st' = devices st"
proof -
  have "addr ` set (xdevlist st') = addr ` set (xdevlist st)"
    using assms(2) by (metis set_map)
  then have "(\<forall>d \<in> set (xdevlist st'). addr d < next_addr st') =
      (\<forall>d \<in> set (xdevlist st). addr d < next_addr st)"
    using assms(3) by (metis (mono_tags, lifting) imageE image_eqI)
  then show "list_inv st' = list_inv st" "devices st' = devices st"
    using assms serials_cong [OF assms(1)] by (simp_all add: list_inv_def devices_def)
qed

lemma strip_serial_simps [simp]:
  "addr (strip_serial d) = addr d" "serial_num (strip_serial d) = g_strstrip (serial_num d)"
  "isgateway (strip_serial d) = isgateway d" "strip_serial (strip_serial d) = strip_serial d"
  "devicetype (strip_serial d) = devicetype d" "gwyip (strip_serial d) = gwyip d"
  "clientip (strip_serial d) = clientip d" "isDevRefactored (strip_serial d) = isDevRefactored d"
  by (simp_all add: strip_serial_def)

lemma find_addrs:
  assumes "g_list_find_custom g_list_find_sno ds k = (ds', k', h)"
  shows "map addr ds' = map addr ds"
proof (cases h)
  case None
  have "ds' = map strip_serial ds"
    using assms None gwl.find_absent [OF gwl.find_None [OF assms [unfolded None]]] by simp
  then show ?thesis by simp
next
  case (Some i)
  then have "ds' = map strip_serial (take (Suc i) ds) @ drop (Suc i) ds"
    using gwl.find_Some [OF assms [unfolded Some]] by blast
  then have "map addr ds' = map addr (take (Suc i) ds @ drop (Suc i) ds)"
    by (simp del: append_take_drop_id)
  then show ?thesis by simp
qed

lemma sendDiscoveryResult_inv [inv_intros]:
  assumes "sendDiscoveryResult E st = Inr (r, st')"
  shows "list_inv st' = list_inv st" "devices st' = devices st"
  using list_inv_cong same_devices_serials sendDiscoveryResult_frame(1,5) [OF assms] by blast+

subsection \<open>Deletion and update of the list\<close>

lemma wl_delete_frame:
  assumes "wl_delete E ip st = Inr st'"
  shows "xdevlist st' = xdevlist st \<and> next_addr st' = next_addr st \<and> deviceAddNo st' = deviceAddNo st
    \<and> gatewayDetected st' = gatewayDetected st \<and> ipaddress st' = ipaddress st"
  using assms by (auto simp: wl_delete_def bind_outcome_Inr_iff split: option.splits)

lemma wl_insert_frame:
  assumes "wl_insert E ip mac st = Inr st'"
  shows "xdevlist st' = xdevlist st \<and> next_addr st' = next_addr st \<and> deviceAddNo st' = deviceAddNo st
    \<and> gatewayDetected st' = gatewayDetected st \<and> ipaddress st' = ipaddress st"
  using assms by (auto simp: wl_insert_def bind_outcome_Inr_iff split: option.splits)

lemma forget_device_frame:
  assumes "forget_device E d st = Inr st'"
  shows "xdevlist st' = xdevlist st" "next_addr st' = next_addr st" "deviceAddNo st' = deviceAddNo st"
    "ipaddress st' = ipaddress st"
    "gatewayDetected st' = (if isgateway d \<and> CLIENT_XCAL_SERVER (flags E) \<and> gatewayDetected st \<noteq> 0
       then gatewayDetected st - 1 else gatewayDetected st)"
  using assms
  by (auto simp: forget_device_def Let_def split: if_splits dest!: wl_delete_frame)

text \<open>
  The devices of builds that do not enrol in the white list are forgotten without a fault.
\<close>

definition no_whitelist :: "disc_env \<Rightarrow> bool" where
  "no_whitelist E \<longleftrightarrow> \<not> (BROADBAND (flags E) \<and> rfc_enabled E)"

lemma forget_device_returns: "no_whitelist E \<Longrightarrow> \<exists>st'. forget_device E d st = Inr st'"
  by (auto simp: forget_device_def no_whitelist_def Let_def)

lemma delete_gwyitem_absent:
  assumes "\<forall>s \<in> devices st. map_option g_strstrip k \<noteq> Some s"
  shows "\<exists>k' st'. delete_gwyitem E k st = Inr (False, k', st') \<and>
    st' = st\<lparr>xdevlist := map strip_serial (xdevlist st)\<rparr>"
  using gwl.find_absent [of "xdevlist st" k] assms by (simp add: delete_gwyitem_def devices_def)

lemma delete_gwyitem_result:
  assumes "delete_gwyitem E k st = Inr (ok, k', st')" "list_inv st"
  shows "list_inv st'" "ok \<longleftrightarrow> (\<exists>s \<in> devices st. map_option g_strstrip k = Some s)"
    "devices st' = devices st - {s. map_option g_strstrip k = Some s}"
    "next_addr st' = next_addr st" "deviceAddNo st' = deviceAddNo st" "ipaddress st' = ipaddress st"
    "set (map addr (xdevlist st')) \<subseteq> set (map addr (xdevlist st))"
    "ok \<longrightarrow> k' = map_option g_strstrip k"
    "ok \<longrightarrow> length (xdevlist st) = Suc (length (xdevlist st'))"
proof -
  obtain ds k1 h where f: "g_list_find_custom g_list_find_sno (xdevlist st) k = (ds, k1, h)"
    by (cases "g_list_find_custom g_list_find_sno (xdevlist st) k")
  note ser = gwl.find_finds [OF f] and adr = find_addrs [OF f]
  let ?P = "list_inv st' \<and> (ok \<longleftrightarrow> (\<exists>s \<in> devices st. map_option g_strstrip k = Some s)) \<and>
    devices st' = devices st - {s. map_option g_strstrip k = Some s} \<and>
    next_addr st' = next_addr st \<and> deviceAddNo st' = deviceAddNo st \<and> ipaddress st' = ipaddress st \<and>
    set (map addr (xdevlist st')) \<subseteq> set (map addr (xdevlist st)) \<and>
    (ok \<longrightarrow> k' = map_option g_strstrip k) \<and>
    (ok \<longrightarrow> length (xdevlist st) = Suc (length (xdevlist st')))"
  have "?P"
  proof (cases h)
    case None
    then have st': "st' = st\<lparr>xdevlist := ds\<rparr>" "\<not> ok"
      using assms(1) f by (simp_all add: delete_gwyitem_def)
    have "list_inv st' = list_inv st" "devices st' = devices st"
      using list_inv_cong [of st' st] ser adr st'(1) by simp_all
    then show ?thesis
      using assms(2) None ser(3) st' adr by (auto simp: devices_def simp flip: set_map)
  next
    case (Some i)
    note hit = gwl.find_Some [OF f [unfolded Some]]
    obtain st1 where st1: "forget_device E (ds ! i) (st\<lparr>xdevlist := ds\<rparr>) = Inr st1"
      and ok: "ok" "k' = k1"
      and st': "st' = emit (Free_device (addr (ds ! i)) (free_gwydata (ds ! i))) (st1\<lparr>xdevlist := g_list_remove_link (xdevlist st1) i\<rparr>)"
      using assms(1) f Some by (auto simp: delete_gwyitem_def Let_def bind_outcome_Inr_iff)
    have x: "xdevlist st' = g_list_remove_link ds i"
      and fr: "next_addr st' = next_addr st" "deviceAddNo st' = deviceAddNo st" "ipaddress st' = ipaddress st"
      using forget_device_frame [OF st1] st' by simp_all
    have i: "i < length ds" using hit ser(2) by simp
    have srt: "sno_sorted serial_num ds"
      using assms(2) serials_cong [OF ser(1)] by (simp add: list_inv_def)
    have sub: "set (map addr (xdevlist st')) \<subseteq> set (map addr ds)"
      unfolding x g_list_remove_link_def using set_take_subset set_drop_subset by fastforce
    have dist: "distinct (map addr (xdevlist st'))"
    proof -
      have "distinct (map addr (take i ds @ ds ! i # drop (Suc i) ds))"
        using assms(2) adr i by (simp add: list_inv_def flip: id_take_nth_drop)
      then show ?thesis unfolding x g_list_remove_link_def by auto
    qed
    have key: "g_strstrip (serial_num (ds ! i)) = g_strstrip (serial_num (xdevlist st ! i))"
      using ser(1) i ser(2) by (metis length_map nth_map serials_def)
    have k: "map_option g_strstrip k = Some (g_strstrip (serial_num (xdevlist st ! i)))"
      using hit by simp
    have dev: "devices st' = devices st - {s. map_option g_strstrip k = Some s}"
      using set_serials_remove_link [OF srt i] ser(1) key k by (auto simp: devices_def x)
    have "list_inv st'"
      using sno_sorted_remove_link [OF srt] dist sub assms(2) adr fr(1)
      by (auto simp: list_inv_def x)
    moreover have "g_strstrip (serial_num (xdevlist st ! i)) \<in> devices st"
      using hit by (auto simp: devices_def serials_def)
    moreover have "k1 = map_option g_strstrip k" using hit by simp
    moreover have "length (xdevlist st) = Suc (length (xdevlist st'))"
      using i ser(2) by (simp add: x g_list_remove_link_def)
    ultimately show ?thesis using dev ok fr sub adr k by auto
  qed
  then show "list_inv st'" "ok \<longleftrightarrow> (\<exists>s \<in> devices st. map_option g_strstrip k = Some s)"
    "devices st' = devices st - {s. map_option g_strstrip k = Some s}"
    "next_addr st' = next_addr st" "deviceAddNo st' = deviceAddNo st" "ipaddress st' = ipaddress st"
    "set (map addr (xdevlist st')) \<subseteq> set (map addr (xdevlist st))"
    "ok \<longrightarrow> k' = map_option g_strstrip k"
    "ok \<longrightarrow> length (xdevlist st) = Suc (length (xdevlist st'))"
    by blast+
qed

lemma delete_gwyitem_returns:
  "no_whitelist E \<Longrightarrow> \<exists>r. delete_gwyitem E k st = Inr r"
  using forget_device_returns
  by (fastforce simp: delete_gwyitem_def Let_def bind_outcome_Inr_iff split: prod.splits option.splits)

lemma modify_dev_serials:
  assumes "\<And>d. serial_num (f d) = serial_num d" "\<And>d. addr (f d) = addr d"
  shows "serials serial_num (xdevlist (modify_dev a f st)) = serials serial_num (xdevlist st)"
    "map addr (xdevlist (modify_dev a f st)) = map addr (xdevlist st)"
    "next_addr (modify_dev a f st) = next_addr st" "deviceAddNo (modify_dev a f st) = deviceAddNo st"
    "ipaddress (modify_dev a f st) = ipaddress st" "gatewayDetected (modify_dev a f st) = gatewayDetected st"
    "outputcontents (modify_dev a f st) = outputcontents st"
  using assms by (simp_all add: modify_dev_def serials_def)

lemma enrol_device_frame:
  assumes "enrol_device E d st = Inr st'"
  shows "serials serial_num (xdevlist st') = serials serial_num (xdevlist st)"
    "map addr (xdevlist st') = map addr (xdevlist st)" "next_addr st' = next_addr st"
    "deviceAddNo st' = deviceAddNo st" "ipaddress st' = ipaddress st"
    "gatewayDetected st' = gatewayDetected st"
  using assms modify_dev_serials [of "\<lambda>e. e\<lparr>devicetype := g_strstrip (devicetype d)\<rparr>"]
  by (auto simp: enrol_device_def Let_def split: if_splits dest!: wl_insert_frame)

lemma enrol_device_returns: "no_whitelist E \<Longrightarrow> enrol_device E d st = Inr st"
  by (auto simp: enrol_device_def no_whitelist_def)

lemma insert_addr_set:
  "addr ` set (g_list_insert_sorted_with_data g_list_compare_sno ds x) = insert (addr x) (addr ` set ds)"
  by (induction ds arbitrary: x) (auto simp: gwl.insert_Cons simp del: g_list_insert_sorted_with_data.simps(2))

lemma insert_addrs:
  "set (map addr (g_list_insert_sorted_with_data g_list_compare_sno ds x)) = insert (addr x) (set (map addr ds))"
  "distinct (map addr (g_list_insert_sorted_with_data g_list_compare_sno ds x)) \<longleftrightarrow>
     distinct (map addr ds) \<and> addr x \<notin> set (map addr ds)"
  "length (g_list_insert_sorted_with_data g_list_compare_sno ds x) = Suc (length ds)"
proof -
  show "set (map addr (g_list_insert_sorted_with_data g_list_compare_sno ds x)) = insert (addr x) (set (map addr ds))"
    by (simp add: insert_addr_set)
  show "distinct (map addr (g_list_insert_sorted_with_data g_list_compare_sno ds x)) \<longleftrightarrow>
     distinct (map addr ds) \<and> addr x \<notin> set (map addr ds)"
  proof (induction ds arbitrary: x)
    case (Cons d ds)
    have "distinct (map addr (g_list_insert_sorted_with_data g_list_compare_sno ds (strip_serial x))) \<longleftrightarrow>
        distinct (map addr ds) \<and> addr x \<notin> addr ` set ds"
      using Cons.IH [of "strip_serial x"] by simp
    moreover define A where "A = addr ` set ds"
    ultimately show ?case
    proof (cases "Sno (g_strstrip (serial_num x)) \<le> Sno (g_strstrip (serial_num d))")
      case True
      then show ?thesis
        by (simp add: gwl.insert_Cons A_def [symmetric] del: g_list_insert_sorted_with_data.simps(2)) blast
    next
      case False
      then show ?thesis
        using \<open>distinct (map addr (g_list_insert_sorted_with_data g_list_compare_sno ds (strip_serial x))) \<longleftrightarrow>
          distinct (map addr ds) \<and> addr x \<notin> addr ` set ds\<close>
        by (simp add: insert_addr_set gwl.insert_Cons A_def [symmetric] del: g_list_insert_sorted_with_data.simps(2))
           metis
    qed
  qed simp
  show "length (g_list_insert_sorted_with_data g_list_compare_sno ds x) = Suc (length ds)"
    by (induction ds arbitrary: x) (auto simp: gwl.insert_Cons simp del: g_list_insert_sorted_with_data.simps(2))
qed

text \<open>The state of \<open>update_gwylist\<close> when the old entry, if there was one, is gone.\<close>

definition old_gone :: "GwyDeviceData \<Rightarrow> disc_state \<Rightarrow> GwyDeviceData \<Rightarrow> disc_state \<Rightarrow> bool" where
  "old_gone d st d1 st1 \<longleftrightarrow> list_inv st1 \<and> devices st1 = devices st - {g_strstrip (serial_num d)} \<and>
     g_strstrip (serial_num d1) = g_strstrip (serial_num d) \<and> addr d1 = addr d \<and>
     isgateway d1 = isgateway d \<and> isDevRefactored d1 = isDevRefactored d \<and>
     devicetype d1 = devicetype d \<and> g_strstrip (gwyip d1) = g_strstrip (gwyip d) \<and>
     clientip d1 = clientip d \<and> bcastmacaddress d1 = bcastmacaddress d \<and> receiverid d1 = receiverid d \<and>
     next_addr st1 = next_addr st \<and> deviceAddNo st1 = deviceAddNo st \<and> ipaddress st1 = ipaddress st \<and>
     set (map addr (xdevlist st1)) \<subseteq> set (map addr (xdevlist st))"

lemma remove_old_result:
  assumes "remove_old E d st = Inr (ok, d1, st1)" "list_inv st"
  shows "ok \<and> old_gone d st d1 st1"
proof -
  obtain ds k1 h where f: "g_list_find_custom g_list_find_sno (xdevlist st) (Some (serial_num d)) = (ds, k1, h)"
    by (cases "g_list_find_custom g_list_find_sno (xdevlist st) (Some (serial_num d))")
  note ser = gwl.find_finds [OF f] and adr = find_addrs [OF f]
  define d0 where "d0 = d\<lparr>serial_num := the k1\<rparr>"
  have inv: "list_inv (st\<lparr>xdevlist := ds\<rparr>)" "devices (st\<lparr>xdevlist := ds\<rparr>) = devices st"
    using list_inv_cong [of "st\<lparr>xdevlist := ds\<rparr>" st] ser(1) adr assms(2) by simp_all
  show ?thesis
  proof (cases h)
    case None
    have absent: "\<forall>s \<in> set (serials serial_num (xdevlist st)). map_option g_strstrip (Some (serial_num d)) \<noteq> Some s"
      using ser(3) None by simp
    then have "k1 = (if xdevlist st = [] then Some (serial_num d) else Some (g_strstrip (serial_num d)))"
      using gwl.find_absent [OF absent] f by (simp split: if_splits)
    then have "old_gone d st d0 (st\<lparr>xdevlist := ds\<rparr>)"
      using inv absent adr by (auto simp: old_gone_def d0_def devices_def simp flip: set_map)
    then show ?thesis
      using assms(1) by (simp add: remove_old_def f None d0_def)
  next
    case (Some i)
    note hit = gwl.find_Some [OF f [unfolded Some]]
    define ip where "ip = g_strstrip (gwyip d0)"
    define sa where "sa = st\<lparr>xdevlist := ds[i := (ds ! i)\<lparr>gwyip := g_strstrip (gwyip (ds ! i))\<rparr>]\<rparr>"
    define st2 where "st2 = (if ENABLE_ROUTE (flags E) \<and> enableGwSetup (disConf E) \<and> isRouteSet d0 \<and>
        strcmp (g_strstrip (gwyip (ds ! i))) ip \<noteq> 0
      then emit (System (route_del ip)) sa else sa)"
    have x: "xdevlist st2 = ds[i := (ds ! i)\<lparr>gwyip := g_strstrip (gwyip (ds ! i))\<rparr>]"
      and fr: "next_addr st2 = next_addr st" "deviceAddNo st2 = deviceAddNo st" "ipaddress st2 = ipaddress st"
      by (simp_all add: sa_def st2_def)
    have i: "i < length ds" using hit ser(2) by simp
    have same: "serials serial_num (xdevlist st2) = serials serial_num (xdevlist st)"
        "map addr (xdevlist st2) = map addr (xdevlist st)"
      using i ser(1) adr by (simp_all add: x serials_def map_update_same)
    have inv2: "list_inv st2" "devices st2 = devices st"
      using list_inv_cong [OF same] fr(1) assms(2) by simp_all
    have "remove_old E d st = bind_outcome (delete_gwyitem E (Some (serial_num d0)) st2)
        (\<lambda>(ok, sno, st). Inr (ok, d0\<lparr>gwyip := ip, serial_num := the sno\<rparr>, st))"
      by (simp add: remove_old_def f Some Let_def d0_def sa_def st2_def ip_def)
    from assms(1) [unfolded this] obtain k2 where
      del: "delete_gwyitem E (Some (serial_num d0)) st2 = Inr (ok, k2, st1)"
      and d1: "d1 = d0\<lparr>gwyip := ip, serial_num := the k2\<rparr>"
      by (auto simp: bind_outcome_Inr_iff)
    have k1: "k1 = Some (g_strstrip (serial_num d))" using hit by simp
    note D = delete_gwyitem_result [OF del inv2(1)]
    have "g_strstrip (serial_num d) \<in> devices st"
      using hit by (auto simp: devices_def serials_def)
    then have ok using D(2) inv2(2) by (simp add: d0_def k1)
    have sd1: "g_strstrip (serial_num d1) = g_strstrip (serial_num d)"
      using D(8) \<open>ok\<close> by (simp add: d1 d0_def k1)
    have "devices st1 = devices st - {g_strstrip (serial_num d)}"
      using D(3) inv2(2) by (simp add: d0_def k1)
    moreover have "set (map addr (xdevlist st1)) \<subseteq> set (map addr (xdevlist st))"
      using D(7) same(2) by simp
    ultimately have "old_gone d st d1 st1"
      using D(1,4-6) fr sd1 by (simp add: old_gone_def d1 d0_def ip_def)
    with \<open>ok\<close> show ?thesis by simp
  qed
qed

lemma update_gwylist_cases:
  assumes "update_gwylist E d st = Inr (ok, st')" "list_inv st"
  obtains d1 st1 st2 where "ok" "old_gone d st d1 st1"
    "enrol_device E d1 (st1\<lparr>xdevlist := g_list_insert_sorted_with_data g_list_compare_sno (xdevlist st1) d1\<rparr>) = Inr st2"
    "sendDiscoveryResult E st2 = Inr (file_write_ok E, st')"
proof -
  obtain b d1 st1 where r: "remove_old E d st = Inr (b, d1, st1)"
    using assms(1) by (auto simp: update_gwylist_def bind_outcome_Inr_iff)
  note R = remove_old_result [OF r assms(2)]
  then have "insert_new E d1 st1 = Inr (ok, st')"
    using assms(1) r by (simp add: update_gwylist_def)
  then obtain st2 w where
    e: "enrol_device E d1 (st1\<lparr>xdevlist := g_list_insert_sorted_with_data g_list_compare_sno (xdevlist st1) d1\<rparr>) = Inr st2"
    and s: "sendDiscoveryResult E st2 = Inr (w, st')" and ok
    by (auto simp: insert_new_def bind_outcome_Inr_iff)
  moreover have "w = file_write_ok E" by (rule sendDiscoveryResult_frame(9) [OF s])
  ultimately show thesis using R that by blast
qed

lemma update_gwylist_result:
  assumes "update_gwylist E d st = Inr (ok, st')" "list_inv st"
    "addr d \<notin> set (map addr (xdevlist st))" "addr d < next_addr st"
  shows "ok" "list_inv st'" "devices st' = insert (g_strstrip (serial_num d)) (devices st)"
    "next_addr st' = next_addr st" "deviceAddNo st' = deviceAddNo st" "ipaddress st' = ipaddress st"
    "addr d \<in> set (map addr (xdevlist st'))"
proof -
  obtain d1 st1 st2 where ok and old: "old_gone d st d1 st1"
    and e: "enrol_device E d1 (st1\<lparr>xdevlist := g_list_insert_sorted_with_data g_list_compare_sno (xdevlist st1) d1\<rparr>) = Inr st2"
    and s: "sendDiscoveryResult E st2 = Inr (file_write_ok E, st')"
    by (rule update_gwylist_cases [OF assms(1,2)])
  note O = old [unfolded old_gone_def]
  let ?ins = "st1\<lparr>xdevlist := g_list_insert_sorted_with_data g_list_compare_sno (xdevlist st1) d1\<rparr>"
  have fresh: "g_strstrip (serial_num d1) \<notin> set (serials serial_num (xdevlist st1))"
    using O by (auto simp: devices_def)
  have "addr d1 \<notin> set (map addr (xdevlist st1))" using O assms(3) by auto
  then have "list_inv ?ins"
  proof (intro list_invI)
    show "sno_sorted serial_num (xdevlist ?ins)"
      using O gwl.insert_sorted [OF _ fresh] by (simp add: list_inv_def)
    show "distinct (map addr (xdevlist ?ins))"
      using \<open>addr d1 \<notin> set (map addr (xdevlist st1))\<close> O insert_addrs(2) [of "xdevlist st1" d1]
      by (simp add: list_inv_def)
    have "addr ` set (xdevlist st1) \<subseteq> {a. a < next_addr st}"
      using O by (auto simp: list_inv_def)
    then show "addr ` set (xdevlist ?ins) \<subseteq> {a. a < next_addr ?ins}"
      using O assms(4) by (simp add: insert_addr_set)
  qed
  moreover have "devices ?ins = insert (g_strstrip (serial_num d)) (devices st)"
    using O by (auto simp: devices_def gwl.insert_set)
  moreover have "list_inv st2 = list_inv ?ins" "devices st2 = devices ?ins"
    using list_inv_cong [OF enrol_device_frame(1-3) [OF e]] by simp_all
  ultimately have "list_inv st'" "devices st' = insert (g_strstrip (serial_num d)) (devices st)"
    using sendDiscoveryResult_inv [OF s] by simp_all
  moreover have "addr d \<in> set (map addr (xdevlist st'))"
    using enrol_device_frame(2) [OF e] same_devices_serials(2) [OF sendDiscoveryResult_frame(1) [OF s]]
      insert_addrs(1) [of "xdevlist st1" d1] O by (simp del: set_map)
  moreover have "next_addr st' = next_addr st" "deviceAddNo st' = deviceAddNo st" "ipaddress st' = ipaddress st"
    using sendDiscoveryResult_frame [OF s] enrol_device_frame [OF e] O by simp_all
  ultimately show "ok" "list_inv st'" "devices st' = insert (g_strstrip (serial_num d)) (devices st)"
    "next_addr st' = next_addr st" "deviceAddNo st' = deviceAddNo st" "ipaddress st' = ipaddress st"
    "addr d \<in> set (map addr (xdevlist st'))"
    using \<open>ok\<close> by blast+
qed

lemma update_gwylist_returns:
  assumes "no_whitelist E" "report_safe E" "list_inv st"
  shows "\<exists>st'. update_gwylist E d st = Inr (True, st')"
proof -
  have "\<exists>r. remove_old E d st = Inr r"
    using delete_gwyitem_returns [OF assms(1)]
    by (fastforce simp: remove_old_def Let_def bind_outcome_Inr_iff split: prod.splits option.splits)
  then obtain ok d1 st1 where r: "remove_old E d st = Inr (ok, d1, st1)" by auto
  then have "ok" using remove_old_result [OF r assms(3)] by simp
  moreover obtain st2 where "sendDiscoveryResult E (st1\<lparr>xdevlist :=
      g_list_insert_sorted_with_data g_list_compare_sno (xdevlist st1) d1\<rparr>) = Inr (file_write_ok E, st2)"
    using sendDiscoveryResult_returns [OF assms(2)] by blast
  ultimately show ?thesis
    by (simp add: update_gwylist_def r insert_new_def enrol_device_returns [OF assms(1)])
qed

lemma disc_start_inv [simp]: "list_inv (disc_start ip)" "devices (disc_start ip) = {}"
  by (simp_all add: list_inv_def disc_start_def devices_def)

subsection \<open>The walk of checkDeviceExists\<close>

lemma check_loop_absent:
  assumes "g_strstrip s \<notin> set (serials serial_num ds)"
  shows "\<exists>ds' k. check_loop ds (Some s) url = Inr (ds', k, False, url) \<and>
    serials serial_num ds' = serials serial_num ds \<and> map addr ds' = map addr ds"
  using assms
proof (induction ds arbitrary: s)
  case (Cons d ds)
  have "\<exists>ds' k. check_loop ds (Some (g_strstrip s)) url = Inr (ds', k, False, url) \<and>
    serials serial_num ds' = serials serial_num ds \<and> map addr ds' = map addr ds"
    using Cons by simp
  then show ?case using Cons.prems by (auto simp: Let_def)
qed simp

definition found_outcome ::
  "GwyDeviceData \<Rightarrow> GwyDeviceData list \<Rightarrow> string option \<Rightarrow> string
     \<Rightarrow> (GwyDeviceData list \<times> string option \<times> bool \<times> string) outcome" where
  "found_outcome d ds k url =
     (let p = g_strstrip (playbackurl d) in
      if \<not> isgateway d then Inr (ds, k, True, url)
      else if 180 \<le> length p then Inr (ds, k, False, [])
      else if 161 \<le> length p then Inl Out_of_bounds
      else Inr (ds, k, True, p @ live_suffix))"

lemma found_outcome_step:
  "bind_outcome (found_outcome d ds k url) (\<lambda>(ds, r). Inr (e # ds, r)) = found_outcome d (e # ds) k url"
  by (simp add: found_outcome_def Let_def)

lemma check_loop_present:
  assumes "sno_sorted serial_num ds" "i < length ds" "g_strstrip (serial_num (ds ! i)) = g_strstrip s"
  shows "\<exists>ds' k. serials serial_num ds' = serials serial_num ds \<and> map addr ds' = map addr ds \<and>
    check_loop ds (Some s) url = found_outcome (ds ! i) ds' k url"
  using assms
proof (induction ds arbitrary: i s)
  case (Cons d ds)
  show ?case
  proof (cases i)
    case 0
    let ?d = "if isgateway d then (strip_serial d)\<lparr>playbackurl := g_strstrip (playbackurl d)\<rparr> else strip_serial d"
    have "serials serial_num (?d # ds) = serials serial_num (d # ds)" "map addr (?d # ds) = map addr (d # ds)"
      by (simp_all add: strip_serial_def)
    then show ?thesis using 0 Cons.prems(3)
      by (intro exI [of _ "?d # ds"] exI [of _ "Some (g_strstrip s)"])
         (simp add: found_outcome_def Let_def OUTPLAYURL_SIZE_def live_suffix_def strip_serial_def)
  next
    case (Suc j)
    then have j: "j < length ds" "g_strstrip (serial_num (ds ! j)) = g_strstrip (g_strstrip s)"
      using Cons.prems by simp_all
    then have "g_strstrip s \<in> set (serials serial_num ds)"
      by (simp add: serials_def) (metis image_eqI nth_mem)
    then have less: "strcmp (g_strstrip (serial_num d)) (g_strstrip s) < 0"
      using Cons.prems(1) by (auto simp: less_Sno)
    then have ne: "g_strstrip (serial_num d) \<noteq> g_strstrip s" by auto
    have srt: "sno_sorted serial_num ds" using Cons.prems(1) by simp
    obtain ds' k where
      "serials serial_num ds' = serials serial_num ds" "map addr ds' = map addr ds"
      and eq: "check_loop ds (Some (g_strstrip s)) url = found_outcome (ds ! j) ds' k url"
      using Cons.IH [OF srt j] by blast
    moreover have "check_loop (d # ds) (Some s) url = found_outcome ((d # ds) ! i) (strip_serial d # ds') k url"
      using less ne Suc by (simp add: Let_def eq found_outcome_step)
    ultimately show ?thesis
      by (intro exI [of _ "strip_serial d # ds'"] exI [of _ k]) simp
  qed
qed simp

lemma device_index:
  assumes "s \<in> devices st"
  obtains i where "i < length (xdevlist st)" "g_strstrip (serial_num (xdevlist st ! i)) = s"
  using assms by (auto simp: devices_def serials_def in_set_conv_nth)

lemma checkDeviceExists_keeps:
  assumes "checkDeviceExists k url st = Inr (r, url', k', st')" "list_inv st"
  shows "list_inv st'" "devices st' = devices st" "next_addr st' = next_addr st"
    "deviceAddNo st' = deviceAddNo st" "ipaddress st' = ipaddress st"
    "map addr (xdevlist st') = map addr (xdevlist st)"
proof -
  have loop: "serials serial_num ds' = serials serial_num ds \<and> map addr ds' = map addr ds"
    if "check_loop ds k url = Inr (ds', k', r, url')" for ds ds' k k' r
    using that
    by (induction ds arbitrary: ds' k)
       (auto simp: Let_def bind_outcome_Inr_iff strip_serial_def split: if_splits)
  obtain ds' where ds': "check_loop (xdevlist st) k url = Inr (ds', k', r, url')"
      and st': "st' = st\<lparr>xdevlist := ds'\<rparr>"
    using assms(1) by (auto simp: checkDeviceExists_def bind_outcome_Inr_iff)
  have "serials serial_num (xdevlist st') = serials serial_num (xdevlist st)"
      "map addr (xdevlist st') = map addr (xdevlist st)" "next_addr st' = next_addr st"
    using loop [OF ds'] st' by simp_all
  then show "list_inv st'" "devices st' = devices st" "next_addr st' = next_addr st"
    "map addr (xdevlist st') = map addr (xdevlist st)"
    using list_inv_cong [of st' st] assms(2) by blast+
  show "deviceAddNo st' = deviceAddNo st" "ipaddress st' = ipaddress st"
    using st' by simp_all
qed

subsection \<open>Cleaning up\<close>

lemma del_old_loop_filter:
  "del_old_loop E b ds st = (ds', n, st') \<Longrightarrow>
     ds' = filter (\<lambda>d. isOwnGateway d \<or> (devFoundFlag d \<and> \<not> b)) ds \<and> n = length ds - length ds' \<and>
     xdevlist st' = xdevlist st \<and> next_addr st' = next_addr st \<and> deviceAddNo st' = deviceAddNo st \<and>
     ipaddress st' = ipaddress st"
proof (induction ds arbitrary: ds' n st st')
  case (Cons d ds)
  show ?case
  proof (cases "\<not> isOwnGateway d \<and> (\<not> devFoundFlag d \<or> b)")
    case True
    define st1 where "st1 = (if ENABLE_ROUTE (flags E) \<and> enableGwSetup (disConf E) \<and> isRouteSet d then
                     (case checkvalidip (inet_pton4 E) (inet_pton6 E) (gwyip d) of (ok, ip) \<Rightarrow>
                        if ok then emit (System (route_del ip)) st else st)
                   else st)"
    obtain m where m: "del_old_loop E b ds (emit (Free_device (addr d) (free_gwydata d)) st1) = (ds', m, st')" "n = Suc m"
      using Cons.prems True by (auto simp: Let_def st1_def case_prod_beta prod_eq_iff)
    have "xdevlist st1 = xdevlist st \<and> next_addr st1 = next_addr st \<and> deviceAddNo st1 = deviceAddNo st \<and>
        ipaddress st1 = ipaddress st"
      by (simp add: st1_def case_prod_beta)
    then show ?thesis using Cons.IH [OF m(1)] True m(2) length_filter_le [of _ ds]
      by (auto simp: Suc_diff_le)
  next
    case False
    then obtain es where "del_old_loop E b ds st = (es, n, st')" "ds' = d # es"
      using Cons.prems by (auto simp: case_prod_beta prod_eq_iff)
    with Cons.IH [of st es n st'] False show ?thesis by auto
  qed
qed simp

lemma sno_sorted_filter: "sno_sorted serial_num ds \<Longrightarrow> sno_sorted serial_num (filter P ds)"
  by (induction ds) (auto simp: serials_def)

subsection \<open>Properties\<close>

text \<open>
  C12. \<open>update_gwylist\<close> on a well-formed list with a device that is not in it yet as an object:
  if it returns, it answers TRUE, the list is sorted by serial number without duplicates, and
  the devices known are those known before and the new one. On a build without white list and
  telemetry it returns, if the service can read its serial number.
\<close>

theorem update_gwylist_correct:
  assumes "list_inv st" "addr d \<notin> set (map addr (xdevlist st))" "addr d < next_addr st"
  shows "(\<forall>ok st'. update_gwylist E d st = Inr (ok, st') \<longrightarrow>
       ok \<and> list_inv st' \<and> devices st' = insert (g_strstrip (serial_num d)) (devices st) \<and>
       distinct (serials serial_num (xdevlist st')) \<and>
       outputcontents st' \<noteq> []) \<and>
    (no_whitelist E \<and> report_safe E \<longrightarrow>
       (\<exists>st'. update_gwylist E d st = Inr (True, st')))"
proof (intro conjI allI impI)
  fix ok st' assume u: "update_gwylist E d st = Inr (ok, st')"
  note R = update_gwylist_result [OF u assms]
  then show ok "list_inv st'" "devices st' = insert (g_strstrip (serial_num d)) (devices st)"
    by blast+
  show "distinct (serials serial_num (xdevlist st'))"
    using R(2) by (simp add: list_inv_def sno_sorted_distinct)
  obtain st2 where "sendDiscoveryResult E st2 = Inr (file_write_ok E, st')"
    using update_gwylist_cases [OF u assms(1)] by blast
  then show "outputcontents st' \<noteq> []"
    using sendDiscoveryResult_frame(8) by (simp add: report_def json_open_def)
next
  assume "no_whitelist E \<and> report_safe E"
  then show "\<exists>st'. update_gwylist E d st = Inr (True, st')"
    using update_gwylist_returns assms(1) by blast
qed

definition sample_device :: GwyDeviceData where
  "sample_device = (init_gwydata 0)\<lparr>serial_num := ''M11'', receiverid := ''P11'', isgateway := True\<rparr>"

theorem update_gwylist_correct_witness:
  "\<exists>st'. update_gwylist sample_env sample_device (disc_start ''10.0.0.1'') = Inr (True, st') \<and>
     list_inv st' \<and> devices st' = {''M11''}"
proof -
  have pre: "list_inv (disc_start ''10.0.0.1'')" "addr sample_device \<notin> set (map addr (xdevlist (disc_start ''10.0.0.1'')))"
      "addr sample_device < next_addr (disc_start ''10.0.0.1'')"
    by simp_all (simp_all add: disc_start_def sample_device_def init_gwydata_def)
  have "g_strstrip ''M11'' = ''M11''"
    by (rule g_strstrip_stripped) (simp add: stripped_def g_ascii_isspace_def)
  then show ?thesis
    using update_gwylist_correct [OF pre, of sample_env]
    by (auto simp: no_whitelist_def sample_env_def sample_flags_def report_safe_def serial_safe_def sample_device_def)
qed




definition sample_list :: disc_state where
  "sample_list = (disc_start ''10.0.0.1'')\<lparr>xdevlist := [sample_device]\<rparr>"

lemma sample_list: "list_inv sample_list" "xdevlist sample_list = [sample_device]"
  by (simp_all add: sample_list_def list_inv_def sample_device_def init_gwydata_def disc_start_def)


text \<open>
  A gateway that announces a play URL of 161 to 179 characters overruns the 180 bytes the
  callers of \<open>checkDeviceExists\<close> provide: the URL passes \<open>strcpy_s\<close>, and \<open>strcat\<close> appends 19
  characters more.
\<close>

theorem checkDeviceExists_overflow:
  assumes "list_inv st" "i < length (xdevlist st)"
    and "g_strstrip (serial_num (xdevlist st ! i)) = g_strstrip s" "isgateway (xdevlist st ! i)"
    and "161 \<le> length (g_strstrip (playbackurl (xdevlist st ! i)))"
    and "length (g_strstrip (playbackurl (xdevlist st ! i))) < 180"
  shows "checkDeviceExists (Some s) url st = Inl Out_of_bounds"
proof -
  have srt: "sno_sorted serial_num (xdevlist st)" using assms(1) by (simp add: list_inv_def)
  obtain ds k where "check_loop (xdevlist st) (Some s) url = found_outcome (xdevlist st ! i) ds k url"
    using check_loop_present [OF srt assms(2,3)] by blast
  then show ?thesis using assms(4-6) by (simp add: checkDeviceExists_def found_outcome_def Let_def)
qed

definition long_url_list :: disc_state where
  "long_url_list = (disc_start ''10.0.0.1'')
     \<lparr>xdevlist := [sample_device\<lparr>playbackurl := replicate 170 (CHR ''u'')\<rparr>]\<rparr>"

theorem checkDeviceExists_overflow_witness:
  "checkDeviceExists (Some ''M11'') [] long_url_list = Inl Out_of_bounds"
proof -
  have "g_strstrip (replicate 170 (CHR ''u'')) = replicate 170 (CHR ''u'')"
    by (rule g_strstrip_stripped) (simp add: stripped_def g_ascii_isspace_def)
  moreover have "list_inv long_url_list"
    by (simp add: long_url_list_def list_inv_def sample_device_def init_gwydata_def disc_start_def)
  ultimately show ?thesis
    using checkDeviceExists_overflow [of long_url_list 0 "''M11''" "[]"]
    by (simp add: long_url_list_def sample_device_def init_gwydata_def)
qed

text \<open>
  A device that leaves while its address is not in the white list takes the process out of
  the table: \<open>delete_gwyitem\<close> of a refactored XG gateway whose bucket another device holds
  accesses the shared table out of bounds, although its insertion had answered success.
\<close>

theorem delete_gwyitem_collision_faults:
  assumes "BROADBAND (flags E)" "CLIENT_XCAL_SERVER (flags E)" "rfc_enabled E"
    and "list_inv st" "xdevlist st = [d]" "isgateway d" "isDevRefactored d"
    and "sublist ''XG'' (g_strstrip (devicetype d))" "inet_aton E (gwyip d) = Some a"
    and "dp_inv (dp st)" "bucket_taken (dp_abs (dp st)) (ucast a)"
  shows "delete_gwyitem E (Some (serial_num d)) st = Inl Out_of_bounds"
proof -
  have "dpnode_delete (dp st) (ucast a) '' '' (junk_stat E) (junk_pindex E) = Inl Out_of_bounds"
    by (rule dpnode_delete_unlisted [OF assms(10) bucket_taken_unlisted [OF assms(10,11)]])
  then show ?thesis
    using assms(1-9)
    by (simp add: delete_gwyitem_def gwl.find_Cons Let_def forget_device_def wl_delete_def
        g_strrstr_iff del: g_list_find_custom.simps(2))
qed

definition client_env :: disc_env where
  "client_env = sample_env\<lparr>flags := sample_flags\<lparr>CLIENT_XCAL_SERVER := True\<rparr>\<rparr>"

definition broadband_env :: disc_env where
  "broadband_env = sample_env\<lparr>flags := sample_flags\<lparr>BROADBAND := True, CLIENT_XCAL_SERVER := True\<rparr>,
     rfc_enabled := True, inet_aton := (\<lambda>s. if s = ''169.254.0.5'' then Some 0x0500FEA9 else None)\<rparr>"

definition colliding_list :: disc_state where
  "colliding_list = (disc_start ''10.0.0.1'')\<lparr>dp := dp_with_first,
     xdevlist := [sample_device\<lparr>devicetype := ''XG1'', isDevRefactored := True, gwyip := ''169.254.0.5''\<rparr>]\<rparr>"

theorem delete_gwyitem_collision_faults_witness:
  "delete_gwyitem broadband_env (Some ''M11'') colliding_list = Inl Out_of_bounds"
proof -
  have "g_strstrip ''XG1'' = ''XG1''"
    by (rule g_strstrip_stripped) (simp add: stripped_def g_ascii_isspace_def)
  moreover have "list_inv colliding_list"
    by (simp add: colliding_list_def list_inv_def sample_device_def init_gwydata_def disc_start_def)
  ultimately show ?thesis
    using delete_gwyitem_collision_faults [of broadband_env colliding_list
        "sample_device\<lparr>devicetype := ''XG1'', isDevRefactored := True, gwyip := ''169.254.0.5''\<rparr>" "0x0500FEA9"]
      dp_with_first
    by (simp add: broadband_env_def colliding_list_def sample_device_def init_gwydata_def sample_flags_def report_safe_def serial_safe_def)
qed

text \<open>
  \<open>delOldItemsFromList\<close> keeps exactly the own gateway and, unless it deletes all, the devices
  marked as found, in their order; the list stays well-formed.
\<close>

theorem delOldItemsFromList_keeps:
  assumes "delOldItemsFromList E bDeleteAll st = Inr st'" "list_inv st"
  shows "map addr (xdevlist st') =
      map addr (filter (\<lambda>d. isOwnGateway d \<or> (devFoundFlag d \<and> \<not> bDeleteAll)) (xdevlist st)) \<and>
    list_inv st'"
proof -
  let ?ds = "filter (\<lambda>d. isOwnGateway d \<or> (devFoundFlag d \<and> \<not> bDeleteAll)) (xdevlist st)"
  obtain ds n st1 where l0: "del_old_loop E bDeleteAll (xdevlist st) st = (ds, n, st1)"
    by (cases "del_old_loop E bDeleteAll (xdevlist st) st")
  note F = del_old_loop_filter [OF l0]
  have l: "del_old_loop E bDeleteAll (xdevlist st) st = (?ds, n, st1)" and fr: "next_addr st1 = next_addr st"
    using l0 F by (blast, blast)
  let ?st = "st1\<lparr>xdevlist := ?ds\<rparr>"
  have inv: "list_inv ?st"
  proof (rule list_invI)
    show "sno_sorted serial_num (xdevlist ?st)"
      using assms(2) by (simp add: list_inv_def sno_sorted_filter)
    show "distinct (map addr (xdevlist ?st))"
      using assms(2) by (simp add: list_inv_def distinct_map_filter)
    show "addr ` set (xdevlist ?st) \<subseteq> {a. a < next_addr ?st}"
      using assms(2) fr by (auto simp: list_inv_def)
  qed
  show ?thesis
  proof (cases "n > 0")
    case True
    then obtain r where s: "sendDiscoveryResult E ?st = Inr (r, st')"
      using assms(1) l by (auto simp: delOldItemsFromList_def Let_def bind_outcome_Inr_iff)
    show ?thesis
      using sendDiscoveryResult_inv(1) [OF s] inv
        same_devices_serials(2) [OF sendDiscoveryResult_frame(1) [OF s]] by simp
  next
    case False
    then have "st' = ?st" using assms(1) l by (simp add: delOldItemsFromList_def)
    then show ?thesis using inv by simp
  qed
qed

theorem delOldItemsFromList_keeps_witness:
  "\<exists>st'. delOldItemsFromList sample_env False sample_list = Inr st' \<and> xdevlist st' = []"
proof -
  have l: "del_old_loop sample_env False (xdevlist sample_list) sample_list =
      ([], 1, emit (Free_device 0 (free_gwydata sample_device)) sample_list)"
    by (simp add: sample_list sample_device_def init_gwydata_def sample_env_def sample_flags_def report_safe_def serial_safe_def)
  have t: "report_safe sample_env"
    by (simp add: sample_env_def sample_flags_def report_safe_def serial_safe_def)
  obtain st' where "sendDiscoveryResult sample_env ((emit (Free_device 0 (free_gwydata sample_device)) sample_list)\<lparr>xdevlist := []\<rparr>) =
      Inr (file_write_ok sample_env, st')"
    by (rule sendDiscoveryResult_returns [OF t])
  then have s: "delOldItemsFromList sample_env False sample_list = Inr st'"
    by (simp add: delOldItemsFromList_def l)
  show ?thesis
    using delOldItemsFromList_keeps [OF s sample_list(1)] s
    by (simp add: sample_list sample_device_def init_gwydata_def)
qed

text \<open>
  The counter of gateways does not count gateways: every report adds the gateways of the
  list to it and a deletion takes one away. After two reports and the deletion of a gateway it
  is ahead of the list, so the recovery of \<open>verify_devices\<close> that waits for zero never runs.
\<close>

theorem gatewayDetected_overcounts:
  assumes "CLIENT_XCAL_SERVER (flags E)" "gatewayDetected st \<ge> 0"
    and "sendDiscoveryResult E st = Inr (r1, st1)" "sendDiscoveryResult E st1 = Inr (r2, st2)"
    and "delete_gwyitem E (Some s) st2 = Inr (True, k, st3)"
    and "xdevlist st = [d]" "isgateway d"
  shows "xdevlist st3 = [] \<and> gatewayDetected st3 = gatewayDetected st + 1"
proof -
  have l1: "list_all2 same_device (xdevlist st) (xdevlist st1)"
      and l2: "list_all2 same_device (xdevlist st1) (xdevlist st2)"
    using sendDiscoveryResult_frame(1) assms(3,4) by blast+
  obtain d1 where d1: "xdevlist st1 = [d1]" "isgateway d1"
    using l1 assms(6,7) by (auto simp: list_all2_Cons1 same_device_def)
  obtain d2 where d2: "xdevlist st2 = [d2]" "isgateway d2"
    using l2 d1 by (auto simp: list_all2_Cons1 same_device_def)
  have g: "gatewayDetected st2 = gatewayDetected st + 2"
    using sendDiscoveryResult_frame(7) [OF assms(3)] sendDiscoveryResult_frame(7) [OF assms(4)]
      assms(1,6,7) d1 by (simp add: gw_count_def)
  obtain st' where st': "forget_device E (strip_serial d2) (st2\<lparr>xdevlist := [strip_serial d2]\<rparr>) = Inr st'"
      and st3: "st3 = emit (Free_device (addr d2) (free_gwydata (strip_serial d2))) (st'\<lparr>xdevlist := []\<rparr>)"
    using assms(5) d2(1) forget_device_frame(1)
    by (auto simp: delete_gwyitem_def gwl.find_Cons Let_def bind_outcome_Inr_iff g_list_remove_link_def
        simp del: g_list_find_custom.simps(2) split: if_splits)
  show ?thesis
    using forget_device_frame(5) [OF st'] st3 g assms(1,2) d2(2) by simp
qed

theorem gatewayDetected_overcounts_witness:
  "\<exists>r1 st1 r2 st2 k st3. sendDiscoveryResult client_env sample_list = Inr (r1, st1) \<and>
     sendDiscoveryResult client_env st1 = Inr (r2, st2) \<and>
     delete_gwyitem client_env (Some ''M11'') st2 = Inr (True, k, st3) \<and> gatewayDetected st3 = 1"
proof -
  have E: "no_whitelist client_env" "report_safe client_env"
      "CLIENT_XCAL_SERVER (flags client_env)"
    by (simp_all add: client_env_def sample_env_def sample_flags_def report_safe_def serial_safe_def no_whitelist_def)
  obtain st1 where 1: "sendDiscoveryResult client_env sample_list = Inr (file_write_ok client_env, st1)"
    by (rule sendDiscoveryResult_returns [OF E(2)])
  obtain st2 where 2: "sendDiscoveryResult client_env st1 = Inr (file_write_ok client_env, st2)"
    by (rule sendDiscoveryResult_returns [OF E(2)])
  have inv: "list_inv st2" "devices st2 = devices sample_list"
    using sendDiscoveryResult_inv [OF 1] sendDiscoveryResult_inv [OF 2] sample_list(1) by simp_all
  obtain ok k st3 where 3: "delete_gwyitem client_env (Some ''M11'') st2 = Inr (ok, k, st3)"
    using delete_gwyitem_returns [OF E(1)] by (metis prod_cases3)
  have "g_strstrip ''M11'' = ''M11''"
    by (rule g_strstrip_stripped) (simp add: stripped_def g_ascii_isspace_def)
  then have ok using delete_gwyitem_result(2) [OF 3 inv(1)] inv(2)
    by (simp add: devices_def sample_list sample_device_def)
  then show ?thesis
    using gatewayDetected_overcounts [OF E(3) _ 1 2, of "''M11''" k st3 sample_device] 1 2 3
    by (auto simp: sample_list) (simp_all add: sample_list_def disc_start_def sample_device_def)
qed

end
