(* ===== verification/Services.thy ===== *)
theory Services
  imports Gwy_List
begin

text \<open>
  The services of a discovered device, read through its UPnP proxies: \<open>processStringRequest\<close>,
  \<open>processBooleanRequest\<close>, \<open>processIntRequest\<close> and the \<open>process_gw_services\<close> family of
  \<open>src/xdiscovery.c\<close>, which copy the answers into the device record one action at a time.
\<close>

subsection \<open>Actions\<close>

datatype gvalue = G_STRING string | G_BOOLEAN bool | G_INT c_uint

text \<open>
  A proxy, as the UPnP library offers it: the action with its arguments either fails or has
  output values by name. The three requests fail when the action fails, or when it has no
  output of that name and type.
\<close>

type_synonym service_proxy = "string \<Rightarrow> (string \<times> gvalue) list \<Rightarrow> (string \<Rightarrow> gvalue option) option"

definition send_action ::
  "service_proxy \<Rightarrow> string \<Rightarrow> (string \<times> gvalue) list \<Rightarrow> string \<Rightarrow> gvalue option" where
  "send_action sp request args response =
     (case sp request args of None \<Rightarrow> None | Some outs \<Rightarrow> outs response)"

definition processBooleanRequest :: "service_proxy \<Rightarrow> string \<Rightarrow> string \<Rightarrow> bool option" where
  "processBooleanRequest sp requestFn responseFn =
     (case send_action sp requestFn [] responseFn of Some (G_BOOLEAN b) \<Rightarrow> Some b | _ \<Rightarrow> None)"

definition processStringRequest :: "service_proxy \<Rightarrow> string \<Rightarrow> string \<Rightarrow> string option" where
  "processStringRequest sp requestFn responseFn =
     (case send_action sp requestFn [] responseFn of Some (G_STRING s) \<Rightarrow> Some s | _ \<Rightarrow> None)"

definition processIntRequest :: "service_proxy \<Rightarrow> string \<Rightarrow> string \<Rightarrow> c_uint option" where
  "processIntRequest sp requestFn responseFn =
     (case send_action sp requestFn [] responseFn of Some (G_INT i) \<Rightarrow> Some i | _ \<Rightarrow> None)"

text \<open>A request whose failure leaves the field alone.\<close>

definition read_str ::
  "service_proxy \<Rightarrow> string \<Rightarrow> string \<Rightarrow> ((string \<Rightarrow> string) \<Rightarrow> GwyDeviceData \<Rightarrow> GwyDeviceData)
     \<Rightarrow> GwyDeviceData \<Rightarrow> GwyDeviceData" where
  "read_str sp requestFn responseFn assign gwData =
     (case processStringRequest sp requestFn responseFn of
        Some temp \<Rightarrow> assign (\<lambda>_. temp) gwData | None \<Rightarrow> gwData)"

definition read_int ::
  "service_proxy \<Rightarrow> string \<Rightarrow> string \<Rightarrow> ((c_uint \<Rightarrow> c_uint) \<Rightarrow> GwyDeviceData \<Rightarrow> GwyDeviceData)
     \<Rightarrow> GwyDeviceData \<Rightarrow> GwyDeviceData" where
  "read_int sp requestFn responseFn assign gwData =
     (case processIntRequest sp requestFn responseFn of
        Some temp_i \<Rightarrow> assign (\<lambda>_. temp_i) gwData | None \<Rightarrow> gwData)"

definition read_bool ::
  "service_proxy \<Rightarrow> string \<Rightarrow> string \<Rightarrow> ((bool \<Rightarrow> bool) \<Rightarrow> GwyDeviceData \<Rightarrow> GwyDeviceData)
     \<Rightarrow> GwyDeviceData \<Rightarrow> GwyDeviceData" where
  "read_bool sp requestFn responseFn assign gwData =
     (case processBooleanRequest sp requestFn responseFn of
        Some temp_b \<Rightarrow> assign (\<lambda>_. temp_b) gwData | None \<Rightarrow> gwData)"

text \<open>A mandatory request: its failure ends the processing.\<close>

definition need_str ::
  "service_proxy \<Rightarrow> string \<Rightarrow> string \<Rightarrow> ((string \<Rightarrow> string) \<Rightarrow> GwyDeviceData \<Rightarrow> GwyDeviceData)
     \<Rightarrow> GwyDeviceData \<Rightarrow> GwyDeviceData option" where
  "need_str sp requestFn responseFn assign gwData =
     map_option (\<lambda>temp. assign (\<lambda>_. temp) gwData) (processStringRequest sp requestFn responseFn)"

text \<open>What the callers send along: the account, the MAC address and the address of this host.\<close>

record own_identity =
  accountId :: string
  bcastmac :: string

subsection \<open>The legacy service\<close>

definition gw_services_common ::
  "own_identity \<Rightarrow> string \<Rightarrow> service_proxy \<Rightarrow> GwyDeviceData \<Rightarrow> GwyDeviceData option" where
  "gw_services_common own own_ip sp d =
     (case send_action sp ''GetIsGateway''
             [(''deviceProtection'', G_BOOLEAN False), (''macAddr'', G_STRING (bcastmac own)),
              (''ipAddr'', G_STRING own_ip)] ''IsGateway'' of
        Some (G_BOOLEAN temp_b) \<Rightarrow>
          (let d = d\<lparr>isgateway := temp_b\<rparr>;
               d = read_str sp ''GetRecvDevType'' ''RecvDevType'' recvdevtype_update d;
               d = read_str sp ''GetBuildVersion'' ''BuildVersion'' buildversion_update d;
               d = read_str sp ''GetDeviceName'' ''DeviceName'' devicename_update d;
               d = read_str sp ''GetDeviceType'' ''DeviceType'' devicetype_update d
           in need_str sp ''GetBcastMacAddress'' ''BcastMacAddress'' bcastmacaddress_update d)
      | _ \<Rightarrow> None)"

definition gw_services_urls :: "service_proxy \<Rightarrow> GwyDeviceData \<Rightarrow> GwyDeviceData option" where
  "gw_services_urls sp d =
     (case need_str sp ''GetBaseUrl'' ''BaseUrl'' baseurl_update d of
        None \<Rightarrow> None
      | Some d \<Rightarrow>
     (case need_str sp ''GetBaseTrmUrl'' ''BaseTrmUrl'' basetrmurl_update d of
        None \<Rightarrow> None
      | Some d \<Rightarrow>
          (let d = read_str sp ''GetGatewayIP'' ''GatewayIP'' gwyip_update d;
               d = read_str sp ''GetClientIP'' ''ClientIP'' clientip_update d;
               d = read_str sp ''GetGatewayIPv6'' ''GatewayIPv6'' gwyipv6_update d;
               d = read_str sp ''GetGatewayStbIP'' ''GatewayStbIP'' gatewaystbip_update d;
               d = read_str sp ''GetIpv6Prefix'' ''Ipv6Prefix'' ipv6prefix_update d;
               d = read_str sp ''GetDnsConfig'' ''DnsConfig'' dnsconfig_update d
           in need_str sp ''GetPlaybackUrl'' ''PlaybackUrl'' playbackurl_update d)))"

definition gw_services_rest :: "service_proxy \<Rightarrow> GwyDeviceData \<Rightarrow> GwyDeviceData option" where
  "gw_services_rest sp d =
     (let d = read_str sp ''GetSystemIds'' ''SystemIds'' systemids_update d;
          d = read_str sp ''GetTimeZone'' ''TimeZone'' dsgtimezone_update d;
          d = read_str sp ''GetHosts'' ''Hosts'' etchosts_update d
      in case processBooleanRequest sp ''GetRequiresTRM'' ''RequiresTRM'' of
           None \<Rightarrow> None
         | Some temp_b \<Rightarrow>
             (let d = d\<lparr>requirestrm := temp_b\<rparr>;
                  d = read_str sp ''GetHostMacAddress'' ''HostMacAddress'' hostmacaddress_update d;
                  d = read_int sp ''GetRawOffSet'' ''RawOffSet'' rawoffset_update d;
                  d = read_int sp ''GetDSTSavings'' ''DSTSavings'' dstsavings_update d;
                  d = read_bool sp ''GetUsesDaylightTime'' ''UsesDaylightTime'' usesdaylighttime_update d;
                  d = read_int sp ''GetDSTOffset'' ''DSTOffset'' dstoffset_update d
              in Some d))"

definition gw_services_read ::
  "own_identity \<Rightarrow> string \<Rightarrow> service_proxy \<Rightarrow> GwyDeviceData \<Rightarrow> GwyDeviceData option" where
  "gw_services_read own own_ip sp d =
     (case gw_services_common own own_ip sp d of
        None \<Rightarrow> None
      | Some d \<Rightarrow>
          (let d = d\<lparr>devicetype := g_strstrip (devicetype d)\<rparr> in
           if \<not> strcasestr (devicetype d) ''XI'' then
             (case gw_services_urls sp d of None \<Rightarrow> None | Some d \<Rightarrow> gw_services_rest sp d)
           else Some (read_str sp ''GetDataGatewayIPaddress'' ''DataGatewayIPaddress''
                        dataGatewayIPaddress_update d)))"

text \<open>
  A device that shares its address with this host gets local URLs. \<open>process_gw_services\<close> and
  \<open>process_gw_services_qam_config\<close> do this alike.
\<close>

definition localise ::
  "disc_env \<Rightarrow> GwyDeviceData \<Rightarrow> disc_state \<Rightarrow> (GwyDeviceData \<times> disc_state) outcome" where
  "localise E d st =
     (if \<not> CLIENT_XCAL_SERVER (flags E) \<and> \<not> isOwnGateway d then
        bind_outcome (replace_local_device_ip d (ipaddress st))
          (\<lambda>(b, d, ip). Inr (d, st\<lparr>ipaddress := ip\<rparr>))
      else Inr (d, st))"

text \<open>
  The answer of \<open>process_gw_services\<close>, the device (which is in the list when the answer is TRUE)
  and the state.
\<close>

definition process_gw_services ::
  "disc_env \<Rightarrow> own_identity \<Rightarrow> service_proxy \<Rightarrow> GwyDeviceData \<Rightarrow> disc_state \<Rightarrow> (bool \<times> disc_state) outcome" where
  "process_gw_services E own sp d st =
     (case gw_services_read own (ipaddress st) sp d of
        None \<Rightarrow> Inr (False, st)
      | Some d \<Rightarrow>
          bind_outcome (localise E d st) (\<lambda>(d, st).
            update_gwylist E (d\<lparr>devFoundFlag := True, isDevRefactored := False\<rparr>) st))"

subsection \<open>The refactored services\<close>

definition process_gw_services_identity ::
  "own_identity \<Rightarrow> string \<Rightarrow> service_proxy \<Rightarrow> GwyDeviceData \<Rightarrow> GwyDeviceData" where
  "process_gw_services_identity own own_ip sp d =
     (let d = (case send_action sp ''GetAccountId''
                      [(''SAccountId'', G_STRING (accountId own)), (''macAddr'', G_STRING (bcastmac own)),
                       (''ipAddr'', G_STRING own_ip)] ''GAccountId'' of
                 Some (G_STRING temp) \<Rightarrow> d\<lparr>accountid := temp\<rparr> | _ \<Rightarrow> d);
          d = read_str sp ''GetRecvDevType'' ''RecvDevType'' recvdevtype_update d;
          d = read_str sp ''GetBuildVersion'' ''BuildVersion'' buildversion_update d;
          d = read_str sp ''GetDeviceName'' ''DeviceName'' devicename_update d;
          d = read_str sp ''GetDeviceType'' ''DeviceType'' devicetype_update d;
          d = read_str sp ''GetModelClass'' ''ModelClass'' modelclass_update d;
          d = read_str sp ''GetModelNumber'' ''ModelNumber'' modelnumber_update d;
          d = read_str sp ''GetDeviceId'' ''DeviceId'' deviceid_update d;
          d = read_str sp ''GetHardwareRevision'' ''HardwareRevision'' hardwarerevision_update d;
          d = read_str sp ''GetSoftwareRevision'' ''SoftwareRevision'' softwarerevision_update d;
          d = read_str sp ''GetManagementUrl'' ''ManagementURL'' managementurl_update d;
          d = read_str sp ''GetMake'' ''Make'' make_str_update d;
          d = read_str sp ''GetReceiverId'' ''ReceiverId'' receiverid_update d;
          d = read_str sp ''GetClientIP'' ''ClientIP'' clientip_update d
      in read_str sp ''GetBcastMacAddress'' ''BcastMacAddress'' bcastmacaddress_update d)"

definition process_gw_services_media_config :: "service_proxy \<Rightarrow> GwyDeviceData \<Rightarrow> GwyDeviceData" where
  "process_gw_services_media_config sp d =
     read_str sp ''GetPlaybackUrl'' ''PlaybackUrl'' playbackurl_update d"

definition process_gw_services_time_config :: "service_proxy \<Rightarrow> GwyDeviceData \<Rightarrow> GwyDeviceData" where
  "process_gw_services_time_config sp d =
     (let d = read_str sp ''GetTimeZone'' ''TimeZone'' dsgtimezone_update d;
          d = read_int sp ''GetRawOffSet'' ''RawOffSet'' rawoffset_update d;
          d = read_int sp ''GetDSTSavings'' ''DSTSavings'' dstsavings_update d;
          d = read_bool sp ''GetUsesDaylightTime'' ''UsesDaylightTime'' usesdaylighttime_update d
      in read_int sp ''GetDSTOffset'' ''DSTOffset'' dstoffset_update d)"

definition addRouteToMocaBridge :: "string \<Rightarrow> disc_state \<Rightarrow> disc_state" where
  "addRouteToMocaBridge subnetip st =
     emit (System (''/etc/Xupnp/addRouteToMocaBridge.sh '' @ subnetip @ '' &'')) st"

definition gateway_config_read :: "service_proxy \<Rightarrow> GwyDeviceData \<Rightarrow> GwyDeviceData" where
  "gateway_config_read sp d =
     (let d = read_str sp ''GetDataGatewayIPaddress'' ''DataGatewayIPaddress'' dataGatewayIPaddress_update d;
          d = read_str sp ''GetGatewayStbIP'' ''GatewayStbIP'' gatewaystbip_update d;
          d = read_str sp ''GetIpv6Prefix'' ''Ipv6Prefix'' ipv6prefix_update d;
          d = read_str sp ''GetDnsConfig'' ''DnsConfig'' dnsconfig_update d;
          d = read_str sp ''GetDeviceName'' ''DeviceName'' devicename_update d;
          d = read_str sp ''GetBcastMacAddress'' ''BcastMacAddress'' bcastmacaddress_update d;
          d = read_str sp ''GetGatewayIPv6'' ''GatewayIPv6'' gwyipv6_update d;
          d = read_str sp ''GetGatewayIP'' ''GatewayIP'' gwyip_update d;
          d = read_str sp ''GetHostMacAddress'' ''HostMacAddress'' hostmacaddress_update d
      in read_str sp ''GetHosts'' ''Hosts'' etchosts_update d)"

definition process_gw_services_gateway_config ::
  "service_proxy \<Rightarrow> GwyDeviceData \<Rightarrow> disc_state \<Rightarrow> bool \<times> GwyDeviceData \<times> disc_state" where
  "process_gw_services_gateway_config sp d st =
     (let d = gateway_config_read sp d in
      case send_action sp ''GetIsGateway'' [(''deviceProtection'', G_BOOLEAN True)] ''IsGateway'' of
        Some (G_BOOLEAN temp_b) \<Rightarrow>
          (let d = d\<lparr>isgateway := temp_b\<rparr> in
           case processStringRequest sp ''GetIPSubNet'' ''IPSubNet'' of
             Some temp \<Rightarrow>
               (True, d\<lparr>ipSubNet := temp\<rparr>, if temp \<noteq> [] then addRouteToMocaBridge temp st else st)
           | None \<Rightarrow> (True, d, st))
      | _ \<Rightarrow> (False, d, st))"

definition process_gw_services_qam_config ::
  "disc_env \<Rightarrow> service_proxy \<Rightarrow> GwyDeviceData \<Rightarrow> disc_state \<Rightarrow> (GwyDeviceData \<times> disc_state) outcome" where
  "process_gw_services_qam_config E sp d st =
     (let d = read_str sp ''GetBaseTrmUrl'' ''BaseTrmUrl'' basetrmurl_update d;
          d = read_str sp ''GetSystemIds'' ''SystemIds'' systemids_update d;
          d = read_bool sp ''GetRequiresTRM'' ''RequiresTRM'' requirestrm_update d
      in localise E d st)"

subsection \<open>What reading leaves alone\<close>

lemma read_frame [simp, frame_simps]:
  "(\<And>f d. serial_num (u f d) = serial_num d) \<Longrightarrow> serial_num (read_str sp a b u d) = serial_num d"
  "(\<And>f d. addr (u f d) = addr d) \<Longrightarrow> addr (read_str sp a b u d) = addr d"
  "(\<And>f d. isOwnGateway (u f d) = isOwnGateway d) \<Longrightarrow> isOwnGateway (read_str sp a b u d) = isOwnGateway d"
  "(\<And>f d. sproxy (u f d) = sproxy d) \<Longrightarrow> sproxy (read_str sp a b u d) = sproxy d"
  "(\<And>f d. serial_num (v f d) = serial_num d) \<Longrightarrow> serial_num (read_int sp a b v d) = serial_num d"
  "(\<And>f d. addr (v f d) = addr d) \<Longrightarrow> addr (read_int sp a b v d) = addr d"
  "(\<And>f d. isOwnGateway (v f d) = isOwnGateway d) \<Longrightarrow> isOwnGateway (read_int sp a b v d) = isOwnGateway d"
  "(\<And>f d. serial_num (w f d) = serial_num d) \<Longrightarrow> serial_num (read_bool sp a b w d) = serial_num d"
  "(\<And>f d. addr (w f d) = addr d) \<Longrightarrow> addr (read_bool sp a b w d) = addr d"
  "(\<And>f d. isOwnGateway (w f d) = isOwnGateway d) \<Longrightarrow> isOwnGateway (read_bool sp a b w d) = isOwnGateway d"
  by (simp_all add: read_str_def read_int_def read_bool_def split: option.splits)

lemma need_str_Some:
  "need_str sp a b u d = Some d' \<longleftrightarrow> (\<exists>t. processStringRequest sp a b = Some t \<and> d' = u (\<lambda>_. t) d)"
  by (auto simp: need_str_def)

lemma need_str_None: "need_str sp a b u d = None \<longleftrightarrow> processStringRequest sp a b = None"
  by (simp add: need_str_def)

lemma gw_services_common_frame:
  assumes "gw_services_common own ip sp d = Some d'"
  shows "serial_num d' = serial_num d" "addr d' = addr d" "isOwnGateway d' = isOwnGateway d"
  using assms
  by (auto simp: gw_services_common_def Let_def need_str_Some split: option.splits gvalue.splits)

lemma gw_services_urls_frame:
  assumes "gw_services_urls sp d = Some d'"
  shows "serial_num d' = serial_num d" "addr d' = addr d" "isOwnGateway d' = isOwnGateway d"
  using assms by (auto simp: gw_services_urls_def Let_def need_str_Some split: option.splits)

lemma gw_services_rest_frame:
  assumes "gw_services_rest sp d = Some d'"
  shows "serial_num d' = serial_num d" "addr d' = addr d" "isOwnGateway d' = isOwnGateway d"
  using assms by (auto simp: gw_services_rest_def Let_def split: option.splits)

lemma gw_services_read_frame:
  assumes "gw_services_read own ip sp d = Some d'"
  shows "serial_num d' = serial_num d" "addr d' = addr d" "isOwnGateway d' = isOwnGateway d"
  using assms gw_services_common_frame gw_services_urls_frame gw_services_rest_frame
  by (fastforce simp: gw_services_read_def Let_def split: option.splits if_splits)+

lemma identity_frame [simp, frame_simps]:
  "serial_num (process_gw_services_identity own ip sp d) = serial_num d"
  "addr (process_gw_services_identity own ip sp d) = addr d"
  "isOwnGateway (process_gw_services_identity own ip sp d) = isOwnGateway d"
  by (simp_all add: process_gw_services_identity_def Let_def split: option.splits gvalue.splits)

lemma media_frame [simp, frame_simps]:
  "serial_num (process_gw_services_media_config sp d) = serial_num d"
  "addr (process_gw_services_media_config sp d) = addr d"
  "isOwnGateway (process_gw_services_media_config sp d) = isOwnGateway d"
  by (simp_all add: process_gw_services_media_config_def)

lemma time_frame [simp, frame_simps]:
  "serial_num (process_gw_services_time_config sp d) = serial_num d"
  "addr (process_gw_services_time_config sp d) = addr d"
  "isOwnGateway (process_gw_services_time_config sp d) = isOwnGateway d"
  by (simp_all add: process_gw_services_time_config_def Let_def)

lemma gateway_config_read_frame [simp, frame_simps]:
  "serial_num (gateway_config_read sp d) = serial_num d"
  "addr (gateway_config_read sp d) = addr d"
  "isOwnGateway (gateway_config_read sp d) = isOwnGateway d"
  by (simp_all add: gateway_config_read_def Let_def)

text \<open>The parts of the state no reading of services changes.\<close>

definition same_list :: "disc_state \<Rightarrow> disc_state \<Rightarrow> bool" where
  "same_list st st' \<longleftrightarrow> xdevlist st' = xdevlist st \<and> next_addr st' = next_addr st \<and>
     deviceAddNo st' = deviceAddNo st \<and> gatewayDetected st' = gatewayDetected st \<and> dp st' = dp st \<and>
     g_strstrip (ipaddress st') = g_strstrip (ipaddress st)"

lemma same_list_refl [simp]: "same_list st st"
  by (simp add: same_list_def)

lemma same_list_inv:
  "same_list st st' \<Longrightarrow> list_inv st' = list_inv st" "same_list st st' \<Longrightarrow> devices st' = devices st"
  using list_inv_cong [of st' st] by (simp_all add: same_list_def)

lemma addRouteToMocaBridge_same [simp]: "same_list st (addRouteToMocaBridge s st)"
  by (simp add: addRouteToMocaBridge_def same_list_def)

lemma gateway_config_frame:
  assumes "process_gw_services_gateway_config sp d st = (ok, d', st')"
  shows "serial_num d' = serial_num d" "addr d' = addr d" "isOwnGateway d' = isOwnGateway d"
    "same_list st st'"
  using assms
  by (auto simp: process_gw_services_gateway_config_def Let_def split: option.splits gvalue.splits if_splits)

lemma localise_frame:
  assumes "localise E d st = Inr (d', st')"
  shows "serial_num d' = serial_num d" "addr d' = addr d" "same_list st st'"
  using assms replace_local_device_ip_frame
  by (fastforce simp: localise_def bind_outcome_Inr_iff same_list_def split: if_splits)+

lemma localise_returns:
  "g_strstrip (ipaddress st) \<noteq> [] \<Longrightarrow> \<exists>r. localise E d st = Inr r"
  using replace_local_device_ip_returns [of "ipaddress st" d] by (auto simp: localise_def)

lemma qam_frame:
  assumes "process_gw_services_qam_config E sp d st = Inr (d', st')"
  shows "serial_num d' = serial_num d" "addr d' = addr d" "same_list st st'"
  using localise_frame [OF assms [unfolded process_gw_services_qam_config_def Let_def]] by simp_all

lemma qam_returns:
  "g_strstrip (ipaddress st) \<noteq> [] \<Longrightarrow> \<exists>r. process_gw_services_qam_config E sp d st = Inr r"
  using localise_returns by (simp add: process_gw_services_qam_config_def Let_def)

lemma process_gw_services_result:
  assumes "process_gw_services E own sp d st = Inr (ok, st')" "list_inv st"
    "addr d \<notin> set (map addr (xdevlist st))" "addr d < next_addr st"
  shows "list_inv st'" "next_addr st' = next_addr st" "deviceAddNo st' = deviceAddNo st"
    "ok \<longleftrightarrow> gw_services_read own (ipaddress st) sp d \<noteq> None"
    "devices st' = (if ok then insert (g_strstrip (serial_num d)) (devices st) else devices st)"
    "\<not> ok \<longrightarrow> st' = st" "ok \<longrightarrow> addr d \<in> set (map addr (xdevlist st'))"
    "g_strstrip (ipaddress st') = g_strstrip (ipaddress st)"
proof -
  let ?P = "list_inv st' \<and> next_addr st' = next_addr st \<and> deviceAddNo st' = deviceAddNo st \<and>
    (ok \<longleftrightarrow> gw_services_read own (ipaddress st) sp d \<noteq> None) \<and>
    devices st' = (if ok then insert (g_strstrip (serial_num d)) (devices st) else devices st) \<and>
    (\<not> ok \<longrightarrow> st' = st) \<and> (ok \<longrightarrow> addr d \<in> set (map addr (xdevlist st'))) \<and>
    g_strstrip (ipaddress st') = g_strstrip (ipaddress st)"
  have ?P
  proof (cases "gw_services_read own (ipaddress st) sp d")
    case None
    with assms(1,2) show ?thesis by (simp add: process_gw_services_def)
  next
    case (Some d1)
    note F = gw_services_read_frame [OF Some]
    obtain d2 st2 where l: "localise E d1 st = Inr (d2, st2)"
      and u: "update_gwylist E (d2\<lparr>devFoundFlag := True, isDevRefactored := False\<rparr>) st2 = Inr (ok, st')"
      using assms(1) Some by (auto simp: process_gw_services_def bind_outcome_Inr_iff)
    note L = localise_frame [OF l]
    note I = same_list_inv [OF L(3)]
    note U = update_gwylist_result [OF u]
    show ?thesis
      using U assms(2-4) F L I Some by (simp add: same_list_def)
  qed
  then show "list_inv st'" "next_addr st' = next_addr st" "deviceAddNo st' = deviceAddNo st"
    "ok \<longleftrightarrow> gw_services_read own (ipaddress st) sp d \<noteq> None"
    "devices st' = (if ok then insert (g_strstrip (serial_num d)) (devices st) else devices st)"
    "\<not> ok \<longrightarrow> st' = st" "ok \<longrightarrow> addr d \<in> set (map addr (xdevlist st'))"
    "g_strstrip (ipaddress st') = g_strstrip (ipaddress st)"
    by blast+
qed

lemma process_gw_services_returns:
  assumes "no_whitelist E" "report_safe E" "list_inv st"
    "g_strstrip (ipaddress st) \<noteq> []"
  shows "\<exists>r. process_gw_services E own sp d st = Inr r"
proof (cases "gw_services_read own (ipaddress st) sp d")
  case (Some d1)
  obtain d2 st2 where l: "localise E d1 st = Inr (d2, st2)"
    using localise_returns [OF assms(4)] by (metis surj_pair)
  then have "list_inv st2" using same_list_inv(1) localise_frame(3) assms(3) by blast
  then show ?thesis
    using update_gwylist_returns [OF assms(1,2)] Some l by (simp add: process_gw_services_def) blast
next
  case None
  then show ?thesis by (intro exI [of _ "(False, st)"]) (simp add: process_gw_services_def)
qed

subsection \<open>Properties\<close>

text \<open>The answers a legacy device must give, by its type.\<close>

definition isgateway_of :: "own_identity \<Rightarrow> string \<Rightarrow> service_proxy \<Rightarrow> gvalue option" where
  "isgateway_of own ip sp = send_action sp ''GetIsGateway''
     [(''deviceProtection'', G_BOOLEAN False), (''macAddr'', G_STRING (bcastmac own)),
      (''ipAddr'', G_STRING ip)] ''IsGateway''"

definition legacy_answers :: "own_identity \<Rightarrow> string \<Rightarrow> service_proxy \<Rightarrow> string \<Rightarrow> bool" where
  "legacy_answers own ip sp dtype \<longleftrightarrow>
     (\<exists>b. isgateway_of own ip sp = Some (G_BOOLEAN b)) \<and>
     processStringRequest sp ''GetBcastMacAddress'' ''BcastMacAddress'' \<noteq> None \<and>
     (\<not> strcasestr (g_strstrip dtype) ''XI'' \<longrightarrow>
        processStringRequest sp ''GetBaseUrl'' ''BaseUrl'' \<noteq> None \<and>
        processStringRequest sp ''GetBaseTrmUrl'' ''BaseTrmUrl'' \<noteq> None \<and>
        processStringRequest sp ''GetPlaybackUrl'' ''PlaybackUrl'' \<noteq> None \<and>
        processBooleanRequest sp ''GetRequiresTRM'' ''RequiresTRM'' \<noteq> None)"

lemma devicetype_read [simp]:
  "(\<And>f d. devicetype (u f d) = devicetype d) \<Longrightarrow> devicetype (read_str sp a b u d) = devicetype d"
  by (simp add: read_str_def split: option.splits)

lemma gw_services_common_type:
  "gw_services_common own ip sp d = Some d' \<Longrightarrow>
     devicetype d' = (case processStringRequest sp ''GetDeviceType'' ''DeviceType'' of
        Some t \<Rightarrow> t | None \<Rightarrow> devicetype d)"
  by (auto simp: gw_services_common_def Let_def need_str_Some read_str_def split: option.splits gvalue.splits)

lemma gw_services_common_Some:
  "gw_services_common own ip sp d \<noteq> None \<longleftrightarrow>
     (\<exists>b. isgateway_of own ip sp = Some (G_BOOLEAN b)) \<and>
     processStringRequest sp ''GetBcastMacAddress'' ''BcastMacAddress'' \<noteq> None"
  by (auto simp: gw_services_common_def isgateway_of_def Let_def need_str_Some need_str_None
      split: option.splits gvalue.splits)

lemma gw_services_urls_Some:
  "gw_services_urls sp d \<noteq> None \<longleftrightarrow>
     processStringRequest sp ''GetBaseUrl'' ''BaseUrl'' \<noteq> None \<and>
     processStringRequest sp ''GetBaseTrmUrl'' ''BaseTrmUrl'' \<noteq> None \<and>
     processStringRequest sp ''GetPlaybackUrl'' ''PlaybackUrl'' \<noteq> None"
  by (auto simp: gw_services_urls_def Let_def need_str_def split: option.splits)

lemma gw_services_rest_Some:
  "gw_services_rest sp d \<noteq> None \<longleftrightarrow> processBooleanRequest sp ''GetRequiresTRM'' ''RequiresTRM'' \<noteq> None"
  by (auto simp: gw_services_rest_def Let_def split: option.splits)

lemma gw_services_read_Some:
  "gw_services_read own ip sp d \<noteq> None \<longleftrightarrow>
     legacy_answers own ip sp (case processStringRequest sp ''GetDeviceType'' ''DeviceType'' of
        Some t \<Rightarrow> t | None \<Rightarrow> devicetype d)"
proof (cases "gw_services_common own ip sp d")
  case None
  then show ?thesis using gw_services_common_Some [of own ip sp d]
    by (auto simp: gw_services_read_def legacy_answers_def)
next
  case (Some d1)
  note T = gw_services_common_type [OF Some]
  have C: "(\<exists>b. isgateway_of own ip sp = Some (G_BOOLEAN b)) \<and>
     processStringRequest sp ''GetBcastMacAddress'' ''BcastMacAddress'' \<noteq> None"
    using gw_services_common_Some [of own ip sp d] Some by simp
  define d2 where "d2 = d1\<lparr>devicetype := g_strstrip (devicetype d1)\<rparr>"
  have R: "gw_services_read own ip sp d \<noteq> None \<longleftrightarrow>
      (\<not> strcasestr (g_strstrip (devicetype d1)) ''XI'' \<longrightarrow>
         (case gw_services_urls sp d2 of None \<Rightarrow> False | Some d \<Rightarrow> gw_services_rest sp d \<noteq> None))"
    by (simp add: gw_services_read_def Some Let_def d2_def split: option.splits)
  show ?thesis
    unfolding R legacy_answers_def T [symmetric]
    using C gw_services_urls_Some [of sp d2] gw_services_rest_Some [of sp]
    by (auto split: option.splits)
qed


text \<open>A device that answers only some of the mandatory questions.\<close>

definition silent_proxy :: service_proxy where
  "silent_proxy request args =
     (if request = ''GetDeviceType'' then Some (\<lambda>n. if n = ''DeviceType'' then Some (G_STRING ''XG1'') else None)
      else if request = ''GetIsGateway'' then Some (\<lambda>n. if n = ''IsGateway'' then Some (G_BOOLEAN True) else None)
      else None)"


text \<open>
  \<open>process_gw_services_gateway_config\<close> of a refactored device fails exactly when the device
  does not say whether it is a gateway. A non-empty subnet it announces becomes part of a shell
  command as it is.
\<close>

theorem gateway_config_fails_only_without_isgateway:
  "(let (ok, d', st') = process_gw_services_gateway_config sp d st in
     (ok \<longleftrightarrow> (\<exists>b. send_action sp ''GetIsGateway'' [(''deviceProtection'', G_BOOLEAN True)] ''IsGateway'' =
              Some (G_BOOLEAN b))) \<and>
     xdevlist st' = xdevlist st \<and>
     effects st' = effects st @
       (case processStringRequest sp ''GetIPSubNet'' ''IPSubNet'' of
          Some net \<Rightarrow> if ok \<and> net \<noteq> [] then [System (''/etc/Xupnp/addRouteToMocaBridge.sh '' @ net @ '' &'')] else []
        | None \<Rightarrow> []))"
  by (auto simp: process_gw_services_gateway_config_def Let_def addRouteToMocaBridge_def
      split: option.splits gvalue.splits)

text \<open>
  A device that turns out to share the address of this host gets URLs with the loopback
  address and is marked as the own gateway; any other device keeps its URLs. The address of
  this host must not be empty for this to return at all.
\<close>

theorem localise_correct:
  assumes "\<not> CLIENT_XCAL_SERVER (flags E)" "\<not> isOwnGateway d" "g_strstrip (ipaddress st) \<noteq> []"
  shows "\<exists>d' st'. localise E d st = Inr (d', st') \<and>
    (if g_strstrip (gwyip d) = g_strstrip (ipaddress st) then
       isOwnGateway d' \<and>
       playbackurl d' = replaced (g_strstrip (gwyip d)) localHostIP (playbackurl d) \<and>
       baseurl d' = replaced (g_strstrip (gwyip d)) localHostIP (baseurl d) \<and>
       basetrmurl d' = replaced (g_strstrip (gwyip d)) localHostIP (basetrmurl d)
     else \<not> isOwnGateway d' \<and> playbackurl d' = playbackurl d \<and> baseurl d' = baseurl d \<and>
       basetrmurl d' = basetrmurl d)"
  using assms
  by (simp add: localise_def replace_local_device_ip_def Let_def replace_hn_with_local_replaced)

theorem localise_correct_witness:
  "\<exists>d' st'. localise sample_env (sample_device\<lparr>gwyip := ''10.0.0.1'', playbackurl := ''http://10.0.0.1/p''\<rparr>)
     (disc_start ''10.0.0.1'') = Inr (d', st') \<and> playbackurl d' = ''http://127.0.0.1/p''"
proof -
  have ip: "g_strstrip ''10.0.0.1'' = ''10.0.0.1''"
    by (rule g_strstrip_stripped) (simp add: stripped_def g_ascii_isspace_def)
  show ?thesis
    using localise_correct [of sample_env "sample_device\<lparr>gwyip := ''10.0.0.1'', playbackurl := ''http://10.0.0.1/p''\<rparr>"
        "disc_start ''10.0.0.1''"]
    by (auto simp: sample_env_def sample_flags_def report_safe_def serial_safe_def disc_start_def sample_device_def init_gwydata_def ip localHostIP_def)
qed

end
