(* ===== verification/Callbacks.thy ===== *)
theory Callbacks
  imports Services
begin

text \<open>
  The callbacks the UPnP control points of \<open>src/xdiscovery.c\<close> run when a device appears,
  disappears or announces a change: the four pairs of \<open>device_proxy_available_cb*\<close> and
  \<open>device_proxy_unavailable_cb*\<close>, and \<open>on_last_change\<close>.
\<close>

subsection \<open>Devices of the network\<close>

datatype service = XDISC_SERVICE | XDISC_SERVICE_IDENTITY | XDISC_SERVICE_MEDIA
  | XDISC_SERVICE_TIME | XDISC_SERVICE_GW_CFG | XDISC_SERVICE_QAM_CFG

text \<open>
  What the library says of a device: its serial number, UDN and UPC if it has them, its
  services, whether a service is there at all, and whether a service reports itself subscribed
  before and after it was asked to be. Requests to an absent service are answered by the
  library as well, so \<open>di_proxy\<close> is total.
\<close>

record device_info =
  di_serial :: "string option"
  di_udn :: "string option"
  di_upc :: "string option"
  di_has :: "service \<Rightarrow> bool"
  di_proxy :: "service \<Rightarrow> service_proxy"
  di_was_subscribed :: "service \<Rightarrow> bool"
  di_subscribes :: "service \<Rightarrow> bool"

text \<open>The receiver id: the UDN without its first five characters, if it holds \<open>uuid:\<close> anywhere.\<close>

definition receiver_of :: "string option \<Rightarrow> string option" where
  "receiver_of udn = (case udn of None \<Rightarrow> None
     | Some u \<Rightarrow> if g_strrstr u ''uuid:'' then Some (drop 5 u) else None)"

definition enter_cb :: "disc_state \<Rightarrow> disc_state" where
  "enter_cb st = st\<lparr>deviceAddNo := deviceAddNo st + 1\<rparr>"

definition leave_cb :: "disc_state \<Rightarrow> disc_state" where
  "leave_cb st = st\<lparr>deviceAddNo := deviceAddNo st - 1\<rparr>"

text \<open>\<open>g_new (GwyDeviceData, 1)\<close> takes the next free address.\<close>

definition new_device :: "disc_state \<Rightarrow> GwyDeviceData \<times> disc_state" where
  "new_device st = (init_gwydata (next_addr st), st\<lparr>next_addr := next_addr st + 1\<rparr>)"

text \<open>The fields of a device object, whether the list holds it or only a local variable does.\<close>

definition current :: "GwyDeviceData \<Rightarrow> disc_state \<Rightarrow> GwyDeviceData" where
  "current d st = (case filter (\<lambda>e. addr e = addr d) (xdevlist st) of [] \<Rightarrow> d | e # _ \<Rightarrow> e)"

text \<open>The device is known already: only its IPv6 prefix is refreshed.\<close>

definition refresh_prefix ::
  "disc_env \<Rightarrow> service_proxy \<Rightarrow> nat \<Rightarrow> disc_state \<Rightarrow> disc_state outcome" where
  "refresh_prefix E sp i st =
     (case processStringRequest sp ''GetIpv6Prefix'' ''Ipv6Prefix'' of
        None \<Rightarrow> Inr st
      | Some temp \<Rightarrow>
          (let temp = g_strstrip temp; d = xdevlist st ! i in
           if strcmp temp (ipv6prefix d) \<noteq> 0 then
             bind_outcome (sendDiscoveryResult E (st\<lparr>xdevlist := (xdevlist st)[i := d\<lparr>ipv6prefix := temp\<rparr>]\<rparr>))
               (\<lambda>(r, st). Inr st)
           else Inr st))"

definition notify_legacy :: "GwyDeviceData \<Rightarrow> disc_state \<Rightarrow> disc_state" where
  "notify_legacy d st =
     (let d = current d st; t = g_strstrip (devicetype d);
          st = modify_dev (addr d) (\<lambda>e. e\<lparr>devicetype := t\<rparr>) st in
      if g_strrstr t ''XB'' then st
      else if \<not> g_strrstr t ''XI'' then
        emit (Add_notify (addr d) ''sproxy'' ''TimeZone'')
          (emit (Add_notify (addr d) ''sproxy'' ''DnsConfig'')
            (emit (Add_notify (addr d) ''sproxy'' ''SystemIds'')
              (emit (Add_notify (addr d) ''sproxy'' ''PlaybackUrl'') st)))
      else emit (Add_notify (addr d) ''sproxy'' ''DataGatewayIPaddress'') st)"

subsection \<open>Devices that leave\<close>

definition is_self :: "string option \<Rightarrow> disc_state \<Rightarrow> bool \<times> disc_state" where
  "is_self sno st =
     (let own = g_strstrip (ownSerialNo st) in
      (g_strcmp0 (Some own) sno = 0, st\<lparr>ownSerialNo := own\<rparr>))"

text \<open>A device was looked up or not; delete it and publish the list.\<close>

definition delete_and_send :: "disc_env \<Rightarrow> string option \<Rightarrow> disc_state \<Rightarrow> disc_state outcome" where
  "delete_and_send E sno st =
     bind_outcome (delete_gwyitem E sno st) (\<lambda>(ok, sno, st).
       if ok then bind_outcome (sendDiscoveryResult E st) (\<lambda>(r, st). Inr st) else Inr st)"

text \<open>
  What the two callbacks that ask the device itself do: a device that still answers at its play
  URL stays.
\<close>

definition check_and_delete :: "disc_env \<Rightarrow> string option \<Rightarrow> disc_state \<Rightarrow> disc_state outcome" where
  "check_and_delete E sno st =
     bind_outcome (checkDeviceExists sno [] st) (\<lambda>(found, url, sno, st).
       if found then
         (if url \<noteq> [] \<and> head_ok E url then Inr st else delete_and_send E sno st)
       else Inr st)"

definition device_proxy_unavailable_cb ::
  "disc_env \<Rightarrow> device_info \<Rightarrow> disc_state \<Rightarrow> disc_state outcome" where
  "device_proxy_unavailable_cb E dev st =
     (case is_self (di_serial dev) st of (self, st) \<Rightarrow>
      if self then Inr st
      else
        (let st = (if di_was_subscribed dev XDISC_SERVICE
                   then emit (Remove_notify ''SystemIds'') (emit (Remove_notify ''PlaybackUrl'')
                          (emit (Unsubscribe ''sproxy'') st))
                   else st)
         in check_and_delete E (di_serial dev) st))"

definition device_proxy_unavailable_cb_gw ::
  "disc_env \<Rightarrow> device_info \<Rightarrow> disc_state \<Rightarrow> disc_state outcome" where
  "device_proxy_unavailable_cb_gw E dev st =
     (case is_self (di_serial dev) st of (self, st) \<Rightarrow>
      if self then Inr st
      else
        (let st = (if di_was_subscribed dev XDISC_SERVICE_MEDIA
                   then emit (Remove_notify ''PlaybackUrl'') (emit (Unsubscribe ''sproxy_m'') st) else st)
         in check_and_delete E (di_serial dev) st))"

definition device_proxy_unavailable_cb_client ::
  "disc_env \<Rightarrow> device_info \<Rightarrow> disc_state \<Rightarrow> disc_state outcome" where
  "device_proxy_unavailable_cb_client E dev st =
     (case is_self (di_serial dev) st of (self, st) \<Rightarrow>
      if self then Inr st
      else delete_and_send E (di_serial dev)
             (if di_was_subscribed dev XDISC_SERVICE_MEDIA then emit (Unsubscribe ''sproxy_m'') st else st))"

definition device_proxy_unavailable_cb_bgw ::
  "disc_env \<Rightarrow> device_info \<Rightarrow> disc_state \<Rightarrow> disc_state outcome" where
  "device_proxy_unavailable_cb_bgw E dev st =
     (case is_self (di_serial dev) st of (self, st) \<Rightarrow>
      if self then Inr st else delete_and_send E (di_serial dev) st)"

subsection \<open>Devices that arrive\<close>

text \<open>
  What the three control points of refactored devices do with a new device. The steps between the receiver id and
  \<open>update_gwylist\<close> differ; their result is the answer of the last service, whether a failure
  counts as a partial discovery, the device and the state.
\<close>

definition enlist ::
  "disc_env \<Rightarrow> GwyDeviceData \<Rightarrow> disc_state \<Rightarrow> (bool \<times> GwyDeviceData \<times> disc_state) outcome" where
  "enlist E d st =
     (let d = d\<lparr>isDevRefactored := True\<rparr> in
      bind_outcome (update_gwylist E d st) (\<lambda>(ok, st). Inr (ok, d, st)))"

datatype verdict = Go_on | Give_up bool | Not_listed

definition client_services ::
  "disc_env \<Rightarrow> own_identity \<Rightarrow> device_info \<Rightarrow> GwyDeviceData \<Rightarrow> disc_state
     \<Rightarrow> (verdict \<times> GwyDeviceData \<times> disc_state) outcome" where
  "client_services E own dev d st =
     (let d = process_gw_services_identity own (ipaddress st) (di_proxy dev XDISC_SERVICE_IDENTITY) d;
          d = process_gw_services_media_config (di_proxy dev XDISC_SERVICE_MEDIA) d
      in bind_outcome (enlist E d st) (\<lambda>(ok, d, st). Inr (if ok then Go_on else Not_listed, d, st)))"

definition gw_services ::
  "disc_env \<Rightarrow> own_identity \<Rightarrow> device_info \<Rightarrow> GwyDeviceData \<Rightarrow> disc_state
     \<Rightarrow> (verdict \<times> GwyDeviceData \<times> disc_state) outcome" where
  "gw_services E own dev d st =
     (let d = process_gw_services_identity own (ipaddress st) (di_proxy dev XDISC_SERVICE_IDENTITY) d;
          d = process_gw_services_media_config (di_proxy dev XDISC_SERVICE_MEDIA) d;
          d = process_gw_services_time_config (di_proxy dev XDISC_SERVICE_TIME) d
      in case process_gw_services_gateway_config (di_proxy dev XDISC_SERVICE_GW_CFG) d st of (ok, d, st) \<Rightarrow>
         if \<not> ok then Inr (Give_up True, d, st)
         else
           bind_outcome (process_gw_services_qam_config E (di_proxy dev XDISC_SERVICE_QAM_CFG) d st) (\<lambda>(d, st).
           bind_outcome (enlist E d st) (\<lambda>(ok, d, st). Inr (if ok then Go_on else Not_listed, d, st))))"

definition bgw_services ::
  "disc_env \<Rightarrow> own_identity \<Rightarrow> device_info \<Rightarrow> GwyDeviceData \<Rightarrow> disc_state
     \<Rightarrow> (verdict \<times> GwyDeviceData \<times> disc_state) outcome" where
  "bgw_services E own dev d st =
     (let d = process_gw_services_identity own (ipaddress st) (di_proxy dev XDISC_SERVICE_IDENTITY) d;
          d = process_gw_services_time_config (di_proxy dev XDISC_SERVICE_TIME) d
      in case process_gw_services_gateway_config (di_proxy dev XDISC_SERVICE_GW_CFG) d st of (ok, d, st) \<Rightarrow>
         if \<not> ok then Inr (Give_up False, d, st)
         else bind_outcome (enlist E d st) (\<lambda>(ok, d, st). Inr (if ok then Go_on else Not_listed, d, st)))"

text \<open>
  The frame of the four callbacks: the device object with its serial number and receiver id,
  the services, and the three ways out. A device without serial number or receiver id skips
  the services. The exit after a failed \<open>update_gwylist\<close> does not count the call down.
\<close>

definition serve_new ::
  "(GwyDeviceData \<Rightarrow> disc_state \<Rightarrow> (verdict \<times> GwyDeviceData \<times> disc_state) outcome)
     \<Rightarrow> string option \<Rightarrow> string option \<Rightarrow> GwyDeviceData \<Rightarrow> disc_state
     \<Rightarrow> (verdict \<times> GwyDeviceData \<times> disc_state) outcome" where
  "serve_new services sno udn d st =
     (case sno of
        None \<Rightarrow> Inr (Go_on, d, st)
      | Some s \<Rightarrow>
          (let d = d\<lparr>serial_num := s\<rparr> in
           case receiver_of udn of
             None \<Rightarrow> Inr (Go_on, d, st)
           | Some r \<Rightarrow> services (d\<lparr>receiverid := r\<rparr>) st))"

definition close_call ::
  "(GwyDeviceData \<Rightarrow> disc_state \<Rightarrow> disc_state) \<Rightarrow> verdict \<times> GwyDeviceData \<times> disc_state \<Rightarrow> disc_state" where
  "close_call finish = (\<lambda>(v, d, st).
     case v of
       Go_on \<Rightarrow> leave_cb (finish d st)
     | Give_up partial \<Rightarrow>
         (let st = leave_cb (emit (Free_device (addr d) (free_gwydata d)) st) in
          if partial then st\<lparr>partialDiscovery := True\<rparr> else st)
     | Not_listed \<Rightarrow> st)"

definition with_new_device ::
  "(GwyDeviceData \<Rightarrow> disc_state \<Rightarrow> (verdict \<times> GwyDeviceData \<times> disc_state) outcome)
     \<Rightarrow> (GwyDeviceData \<Rightarrow> disc_state \<Rightarrow> disc_state) \<Rightarrow> string option \<Rightarrow> string option
     \<Rightarrow> GwyDeviceData \<Rightarrow> disc_state \<Rightarrow> disc_state outcome" where
  "with_new_device services finish sno udn d st =
     bind_outcome (serve_new services sno udn d st) (\<lambda>r. Inr (close_call finish r))"

text \<open>
  What all of them do with a device they were told of: one that is known by its serial number
  is passed to \<open>known\<close>; for another one an object is made, its proxies are noted by \<open>mark\<close>, and
  the services are read if the device is \<open>ready\<close>. An object that is not ready is left behind.
\<close>

definition arrive ::
  "(nat \<Rightarrow> disc_state \<Rightarrow> disc_state outcome) \<Rightarrow> (GwyDeviceData \<Rightarrow> GwyDeviceData) \<Rightarrow> (GwyDeviceData \<Rightarrow> bool)
     \<Rightarrow> (GwyDeviceData \<Rightarrow> disc_state \<Rightarrow> (verdict \<times> GwyDeviceData \<times> disc_state) outcome)
     \<Rightarrow> (GwyDeviceData \<Rightarrow> disc_state \<Rightarrow> disc_state) \<Rightarrow> device_info \<Rightarrow> disc_state \<Rightarrow> disc_state outcome" where
  "arrive known mark ready services finish dev st =
     (case g_list_find_custom g_list_find_sno (xdevlist st) (di_serial dev) of
        (ds, sno, Some i) \<Rightarrow>
          bind_outcome (known i (st\<lparr>xdevlist := ds\<rparr>)) (\<lambda>st. Inr (leave_cb st))
      | (ds, sno, None) \<Rightarrow>
          (case new_device (st\<lparr>xdevlist := ds\<rparr>) of (d, st) \<Rightarrow>
             if \<not> ready (mark d) then Inr (leave_cb st)
             else with_new_device services finish sno (di_udn dev) (mark d) st))"

text \<open>
  \<open>device_proxy_available_cb\<close>, the callback of legacy devices. The arguments are the
  environment, the own identity, whether the two pointers are not NULL, and the device.
\<close>

definition legacy_services ::
  "disc_env \<Rightarrow> own_identity \<Rightarrow> device_info \<Rightarrow> GwyDeviceData \<Rightarrow> disc_state
     \<Rightarrow> (verdict \<times> GwyDeviceData \<times> disc_state) outcome" where
  "legacy_services E own dev d st =
     bind_outcome (process_gw_services E own (di_proxy dev XDISC_SERVICE) d st)
       (\<lambda>(ok, st). Inr (if ok then Go_on else Give_up True, d, st))"

definition legacy_finish :: "device_info \<Rightarrow> GwyDeviceData \<Rightarrow> disc_state \<Rightarrow> disc_state" where
  "legacy_finish dev d st =
     (let st = notify_legacy d st;
          st = emit (Set_subscribed (addr d) ''sproxy'' True) st
      in if \<not> di_subscribes dev XDISC_SERVICE
         then modify_dev (addr d) (\<lambda>e. e\<lparr>sproxy := False\<rparr>) (emit (Unref (addr d) ''sproxy'') st)
         else st)"

definition device_proxy_available_cb ::
  "disc_env \<Rightarrow> own_identity \<Rightarrow> bool \<Rightarrow> device_info \<Rightarrow> disc_state \<Rightarrow> disc_state outcome" where
  "device_proxy_available_cb E own ptrs dev st =
     (let st = enter_cb st in
      if \<not> ptrs then Inr (leave_cb st)
      else if rfc_enabled E \<and> di_upc dev = Some ''10000'' then Inr (leave_cb st)
      else arrive (refresh_prefix E (di_proxy dev XDISC_SERVICE))
             (\<lambda>d. d\<lparr>sproxy := di_has dev XDISC_SERVICE\<rparr>)
             sproxy (legacy_services E own dev) (legacy_finish dev) dev st)"

definition device_proxy_available_cb_client ::
  "disc_env \<Rightarrow> own_identity \<Rightarrow> bool \<Rightarrow> device_info \<Rightarrow> disc_state \<Rightarrow> disc_state outcome" where
  "device_proxy_available_cb_client E own ptrs dev st =
     (let st = enter_cb st in
      if \<not> ptrs then Inr (leave_cb st)
      else arrive (\<lambda>i st. Inr st)
             (\<lambda>d. d\<lparr>sproxy_i := di_has dev XDISC_SERVICE_IDENTITY, sproxy_m := di_has dev XDISC_SERVICE_MEDIA\<rparr>)
             (\<lambda>d. True) (client_services E own dev) (\<lambda>d st. st) dev st)"

definition gw_finish :: "device_info \<Rightarrow> GwyDeviceData \<Rightarrow> disc_state \<Rightarrow> disc_state" where
  "gw_finish dev d st =
     (let a = addr d; t = g_strstrip (devicetype (current d st));
          st = modify_dev a (\<lambda>e. e\<lparr>devicetype := t\<rparr>) st;
          st = (if \<not> strcasestr t ''XI'' then
                  emit (Add_notify a ''sproxy_q'' ''VideoBaseUrl'')
                    (emit (Add_notify a ''sproxy_t'' ''TimeZone'')
                      (emit (Add_notify a ''sproxy_g'' ''DnsConfig'')
                        (emit (Add_notify a ''sproxy_q'' ''SystemIds'')
                          (emit (Add_notify a ''sproxy_m'' ''PlaybackUrl'') st))))
                else st);
          st = emit (Set_subscribed a ''sproxy_m'' True) st;
          st = emit (Set_subscribed a ''sproxy_t'' True) st;
          st = emit (Set_subscribed a ''sproxy_g'' True) st;
          st = emit (Set_subscribed a ''sproxy_q'' True) st;
          st = emit (Add_notify a ''sproxy_m'' ''FogTsbUrl'') st
      in if \<not> di_subscribes dev XDISC_SERVICE_MEDIA \<and> \<not> di_subscribes dev XDISC_SERVICE_TIME \<and>
            \<not> di_subscribes dev XDISC_SERVICE_GW_CFG \<and> \<not> di_subscribes dev XDISC_SERVICE_QAM_CFG
         then emit (Unref a ''sproxy_q'') (emit (Unref a ''sproxy_g'')
                (emit (Unref a ''sproxy_t'') (emit (Unref a ''sproxy_m'') st)))
         else st)"

definition device_proxy_available_cb_gw ::
  "disc_env \<Rightarrow> own_identity \<Rightarrow> bool \<Rightarrow> device_info \<Rightarrow> disc_state \<Rightarrow> disc_state outcome" where
  "device_proxy_available_cb_gw E own ptrs dev st =
     (let st = enter_cb st in
      if \<not> ptrs then Inr (leave_cb st)
      else arrive (refresh_prefix E (di_proxy dev XDISC_SERVICE_GW_CFG))
             (\<lambda>d. d\<lparr>sproxy_i := di_has dev XDISC_SERVICE_IDENTITY, sproxy_m := di_has dev XDISC_SERVICE_MEDIA,
                     sproxy_t := di_has dev XDISC_SERVICE_TIME, sproxy_g := di_has dev XDISC_SERVICE_GW_CFG,
                     sproxy_q := di_has dev XDISC_SERVICE_QAM_CFG\<rparr>)
             (\<lambda>d. True) (gw_services E own dev) (gw_finish dev) dev st)"

definition bgw_finish :: "device_info \<Rightarrow> GwyDeviceData \<Rightarrow> disc_state \<Rightarrow> disc_state" where
  "bgw_finish dev d st =
     (let a = addr d;
          st = emit (Set_subscribed a ''sproxy_i'' True) st;
          st = emit (Set_subscribed a ''sproxy_t'' True) st;
          st = emit (Set_subscribed a ''sproxy_g'' True) st
      in if \<not> di_subscribes dev XDISC_SERVICE_IDENTITY \<and> \<not> di_subscribes dev XDISC_SERVICE_TIME \<and>
            \<not> di_subscribes dev XDISC_SERVICE_GW_CFG
         then emit (Unref a ''sproxy_g'') (emit (Unref a ''sproxy_t'') (emit (Unref a ''sproxy_i'') st))
         else st)"

definition device_proxy_available_cb_bgw ::
  "disc_env \<Rightarrow> own_identity \<Rightarrow> bool \<Rightarrow> device_info \<Rightarrow> disc_state \<Rightarrow> disc_state outcome" where
  "device_proxy_available_cb_bgw E own ptrs dev st =
     (let st = enter_cb st in
      if \<not> ptrs then Inr (leave_cb st)
      else arrive (\<lambda>i st. Inr st)
             (\<lambda>d. d\<lparr>sproxy_i := di_has dev XDISC_SERVICE_IDENTITY, sproxy_t := di_has dev XDISC_SERVICE_TIME,
                     sproxy_g := di_has dev XDISC_SERVICE_GW_CFG\<rparr>)
             (\<lambda>d. True) (bgw_services E own dev) (bgw_finish dev) dev st)"

subsection \<open>Change notifications\<close>

text \<open>
  One variable of \<open>on_last_change\<close>: the new value is stripped and compared with the field; a
  different value is stored. The result tells whether it was.
\<close>

definition changed ::
  "(GwyDeviceData \<Rightarrow> string) \<Rightarrow> ((string \<Rightarrow> string) \<Rightarrow> GwyDeviceData \<Rightarrow> GwyDeviceData) \<Rightarrow> string
     \<Rightarrow> GwyDeviceData \<Rightarrow> GwyDeviceData option" where
  "changed get assign v d =
     (let v = g_strstrip v in if strcmp v (get d) \<noteq> 0 then Some (assign (\<lambda>_. v) d) else None)"

definition store_device :: "nat \<Rightarrow> GwyDeviceData \<Rightarrow> disc_state \<Rightarrow> disc_state" where
  "store_device i d st = st\<lparr>xdevlist := (xdevlist st)[i := d]\<rparr>"

definition apply_change ::
  "disc_env \<Rightarrow> string \<Rightarrow> string \<Rightarrow> nat \<Rightarrow> disc_state \<Rightarrow> (bool \<times> disc_state) outcome" where
  "apply_change E variable_name v i st =
     (let d = xdevlist st ! i;
          plain = (\<lambda>get assign. case changed get assign v d of
             None \<Rightarrow> Inr (False, st) | Some d \<Rightarrow> Inr (True, store_device i d st))
      in if variable_name = ''PlaybackUrl'' then
           (case changed playbackurl playbackurl_update v d of
              None \<Rightarrow> Inr (False, st)
            | Some d \<Rightarrow>
                bind_outcome (replace_local_device_ip d (ipaddress st))
                  (\<lambda>(b, d, ip). Inr (True, (store_device i d st)\<lparr>ipaddress := ip\<rparr>)))
         else if variable_name = ''SystemIds'' then plain systemids systemids_update
         else if variable_name = ''DataGatewayIPaddress'' then
           plain dataGatewayIPaddress dataGatewayIPaddress_update
         else if variable_name = ''DnsConfig'' then plain dnsconfig dnsconfig_update
         else if variable_name = ''TimeZone'' then
           (case changed dsgtimezone dsgtimezone_update v d of
              None \<Rightarrow> Inr (False, st)
            | Some d \<Rightarrow>
                Inr (True,
                  let st = store_device i d st in
                  if USE_XUPNP_TZ_UPDATE (flags E) \<and> strcmp (dsgtimezone d) ''null'' \<noteq> 0
                  then broadcastTimeZoneChange E d st else st))
         else if variable_name = ''IPSubNet'' then
           (case changed ipSubNet ipSubNet_update v d of
              None \<Rightarrow> Inr (False, st)
            | Some d \<Rightarrow>
                Inr (True,
                  let st = store_device i d st in
                  if ipSubNet d \<noteq> [] then addRouteToMocaBridge (ipSubNet d) st else st))
         else Inr (False, st))"

definition on_last_change ::
  "disc_env \<Rightarrow> string option \<Rightarrow> string \<Rightarrow> string \<Rightarrow> disc_state \<Rightarrow> disc_state outcome" where
  "on_last_change E udn variable_name v st =
     (case receiver_of udn of
        None \<Rightarrow> Inr st
      | Some receiver \<Rightarrow>
          (case g_list_find_custom g_list_find_udn (xdevlist st) (Some receiver) of
             (ds, r, None) \<Rightarrow> Inr (st\<lparr>xdevlist := ds\<rparr>)
           | (ds, r, Some i) \<Rightarrow>
               bind_outcome (apply_change E (g_strstrip variable_name) v i (st\<lparr>xdevlist := ds\<rparr>))
                 (\<lambda>(bUpdateDiscoveryResult, st).
                    if bUpdateDiscoveryResult
                    then bind_outcome (sendDiscoveryResult E st) (\<lambda>(r, st). Inr st)
                    else Inr st)))"

subsection \<open>What every callback keeps\<close>

definition keeps :: "disc_state \<Rightarrow> disc_state \<Rightarrow> bool" where
  "keeps st st' \<longleftrightarrow> (list_inv st \<longrightarrow> list_inv st') \<and> deviceAddNo st' = deviceAddNo st \<and>
     next_addr st \<le> next_addr st' \<and> g_strstrip (ipaddress st') = g_strstrip (ipaddress st)"

lemma keeps_refl [simp]: "keeps st st"
  by (simp add: keeps_def)

lemma keeps_trans [trans]: "keeps st st1 \<Longrightarrow> keeps st1 st2 \<Longrightarrow> keeps st st2"
  by (auto simp: keeps_def)

lemma keepsI:
  assumes "serials serial_num (xdevlist st') = serials serial_num (xdevlist st)"
    "map addr (xdevlist st') = map addr (xdevlist st)" "next_addr st' = next_addr st"
    "deviceAddNo st' = deviceAddNo st" "g_strstrip (ipaddress st') = g_strstrip (ipaddress st)"
  shows "keeps st st'"
  using list_inv_cong(1) [OF assms(1-3)] assms(3-5) by (simp add: keeps_def)

lemma keeps_find:
  assumes "g_list_find_custom g_list_find_sno (xdevlist st) k = (ds, k', h)"
  shows "keeps st (st\<lparr>xdevlist := ds\<rparr>)"
  using gwl.find_finds(1) [OF assms] find_addrs [OF assms] by (intro keepsI) simp_all

lemma keeps_send: "sendDiscoveryResult E st = Inr (r, st') \<Longrightarrow> keeps st st'"
  using same_devices_serials sendDiscoveryResult_frame by (intro keepsI) metis+

lemma keeps_same_list: "same_list st st' \<Longrightarrow> keeps st st'"
  by (intro keepsI) (simp_all add: same_list_def)

lemma keeps_emit [simp]: "keeps st (emit e st)"
  by (intro keepsI) simp_all

lemma keeps_modify:
  "(\<And>d. serial_num (f d) = serial_num d) \<Longrightarrow> (\<And>d. addr (f d) = addr d) \<Longrightarrow> keeps st (modify_dev a f st)"
  using modify_dev_serials [of f a st] by (intro keepsI) simp_all

lemma keeps_store:
  assumes "i < length (xdevlist st)" "serial_num d = serial_num (xdevlist st ! i)" "addr d = addr (xdevlist st ! i)"
  shows "keeps st (store_device i d st)"
  using assms by (intro keepsI) (simp_all add: store_device_def serials_def map_update_same)

lemma keeps_tz [simp]: "keeps st (broadcastTimeZoneChange E d st)"
  by (intro keepsI) simp_all

lemma keeps_add_route [simp]: "keeps st (addRouteToMocaBridge s st)"
  by (intro keeps_same_list) simp

lemma keeps_refresh:
  assumes "refresh_prefix E sp i st = Inr st'" "i < length (xdevlist st)"
  shows "keeps st st'"
proof -
  have "keeps st (st\<lparr>xdevlist := (xdevlist st)[i := (xdevlist st ! i)\<lparr>ipv6prefix := p\<rparr>]\<rparr>)" for p
    using keeps_store [OF assms(2), of "(xdevlist st ! i)\<lparr>ipv6prefix := p\<rparr>"] by (simp add: store_device_def)
  then show ?thesis
    using assms(1) keeps_trans keeps_send
    by (auto simp: refresh_prefix_def Let_def bind_outcome_Inr_iff split: option.splits if_splits; blast)
qed

lemma keeps_delete:
  assumes "delete_gwyitem E k st = Inr (ok, k', st')" "list_inv st"
  shows "keeps st st'"
  using delete_gwyitem_result [OF assms] by (simp add: keeps_def)

lemma keeps_delete_and_send:
  assumes "delete_and_send E k st = Inr st'" "list_inv st"
  shows "keeps st st'"
proof -
  obtain ok k1 st1 where d: "delete_gwyitem E k st = Inr (ok, k1, st1)"
      and s: "if ok then \<exists>r. sendDiscoveryResult E st1 = Inr (r, st') else st' = st1"
    using assms(1) by (auto simp: delete_and_send_def bind_outcome_Inr_iff split: if_splits)
  have "keeps st st1" by (rule keeps_delete [OF d assms(2)])
  moreover have "keeps st1 st'" using s keeps_send by (auto split: if_splits)
  ultimately show ?thesis by (rule keeps_trans)
qed

lemma keeps_check_and_delete:
  assumes "check_and_delete E k st = Inr st'" "list_inv st"
  shows "keeps st st'"
proof -
  obtain found url k1 st1 where c: "checkDeviceExists k [] st = Inr (found, url, k1, st1)"
      and d: "st' = st1 \<or> delete_and_send E k1 st1 = Inr st'"
    using assms(1) by (auto simp: check_and_delete_def bind_outcome_Inr_iff split: if_splits)
  note C = checkDeviceExists_keeps [OF c assms(2)]
  then have "keeps st st1" by (simp add: keeps_def)
  moreover have "keeps st1 st'" using d keeps_delete_and_send C(1) by auto
  ultimately show ?thesis by (rule keeps_trans)
qed

lemma keeps_is_self: "is_self k st = (b, st') \<Longrightarrow> keeps st st'"
  by (intro keepsI) (auto simp: is_self_def Let_def)

lemma keeps_notify_legacy: "keeps st (notify_legacy d st)"
proof -
  define a where "a = addr (current d st)"
  define t where "t = g_strstrip (devicetype (current d st))"
  have m: "keeps st (modify_dev a (\<lambda>e. e\<lparr>devicetype := t\<rparr>) st)" by (rule keeps_modify) simp_all
  show ?thesis
    unfolding notify_legacy_def Let_def a_def [symmetric] t_def [symmetric]
    using m keeps_trans [OF m keeps_emit] keeps_trans keeps_emit by (simp; blast)
qed

lemma keeps_gw_finish: "keeps st (gw_finish dev d st)"
proof -
  define t where "t = g_strstrip (devicetype (current d st))"
  have "keeps st (modify_dev (addr d) (\<lambda>e. e\<lparr>devicetype := t\<rparr>) st)" by (rule keeps_modify) simp_all
  then show ?thesis
    unfolding gw_finish_def Let_def t_def [symmetric] by (simp add: keeps_def list_inv_def)
qed

lemma keeps_bgw_finish: "keeps st (bgw_finish dev d st)"
  by (simp add: bgw_finish_def Let_def keeps_def list_inv_def)

lemma keeps_leave_enter:
  assumes "keeps (enter_cb st) st'"
  shows "keeps st (leave_cb st')"
  using assms list_inv_cong(1) [of "leave_cb st'" st'] list_inv_cong(1) [of "enter_cb st" st]
  by (simp add: keeps_def enter_cb_def leave_cb_def)

subsection \<open>A new device\<close>

text \<open>The device object a callback works on: at an address the list does not use.\<close>

definition fresh_in :: "GwyDeviceData \<Rightarrow> disc_state \<Rightarrow> bool" where
  "fresh_in d st \<longleftrightarrow> addr d \<notin> set (map addr (xdevlist st)) \<and> addr d < next_addr st"

lemma new_device_fresh:
  assumes "new_device st = (d, st')" "list_inv st"
  shows "fresh_in d st'" "list_inv st'" "keeps st st'" "devices st' = devices st" "serial_num d = []"
proof -
  have d: "d = init_gwydata (next_addr st)" "st' = st\<lparr>next_addr := next_addr st + 1\<rparr>"
    using assms(1) by (simp_all add: new_device_def)
  have "\<forall>e \<in> set (xdevlist st). addr e < next_addr st" using assms(2) by (simp add: list_inv_def)
  then show "fresh_in d st'" by (auto simp: fresh_in_def d init_gwydata_def)
  show i: "list_inv st'" using assms(2) by (auto simp: list_inv_def d)
  then show "keeps st st'" by (simp add: keeps_def d)
  show "devices st' = devices st" by (simp add: d devices_def)
  show "serial_num d = []" by (simp add: d init_gwydata_def)
qed

lemma fresh_in_same:
  "addr d' = addr d \<Longrightarrow> same_list st st' \<Longrightarrow> fresh_in d st \<Longrightarrow> fresh_in d' st'"
  by (simp add: fresh_in_def same_list_def)

text \<open>What the three service readers promise to the frame of the callbacks.\<close>

definition serves ::
  "(GwyDeviceData \<Rightarrow> disc_state \<Rightarrow> (verdict \<times> GwyDeviceData \<times> disc_state) outcome) \<Rightarrow> bool" where
  "serves services \<longleftrightarrow> (\<forall>d st v d' st'. services d st = Inr (v, d', st') \<longrightarrow> list_inv st \<longrightarrow> fresh_in d st \<longrightarrow>
     v \<noteq> Not_listed \<and> keeps st st' \<and>
     devices st' = (if v = Go_on then insert (g_strstrip (serial_num d)) (devices st) else devices st))"

lemma enlist_serves:
  assumes "enlist E d st = Inr (ok, d', st')" "list_inv st" "fresh_in d st"
  shows "ok" "keeps st st'" "devices st' = insert (g_strstrip (serial_num d)) (devices st)"
proof -
  have u: "update_gwylist E (d\<lparr>isDevRefactored := True\<rparr>) st = Inr (ok, st')"
    using assms(1) by (auto simp: enlist_def Let_def bind_outcome_Inr_iff)
  note R = update_gwylist_result [OF u assms(2)]
  show "ok" "keeps st st'" "devices st' = insert (g_strstrip (serial_num d)) (devices st)"
    using R assms(3) by (simp_all add: fresh_in_def keeps_def)
qed

lemma client_serves: "serves (client_services E own dev)"
  unfolding serves_def
proof (intro allI impI)
  fix d st v d' st'
  assume a: "client_services E own dev d st = Inr (v, d', st')" "list_inv st" "fresh_in d st"
  define d1 where "d1 = process_gw_services_media_config (di_proxy dev XDISC_SERVICE_MEDIA)
      (process_gw_services_identity own (ipaddress st) (di_proxy dev XDISC_SERVICE_IDENTITY) d)"
  obtain ok where e: "enlist E d1 st = Inr (ok, d', st')" and v: "v = (if ok then Go_on else Not_listed)"
    using a(1) by (auto simp: client_services_def Let_def d1_def bind_outcome_Inr_iff)
  have "fresh_in d1 st" using a(3) by (simp add: fresh_in_def d1_def)
  from enlist_serves [OF e a(2) this] v
  show "v \<noteq> Not_listed \<and> keeps st st' \<and>
     devices st' = (if v = Go_on then insert (g_strstrip (serial_num d)) (devices st) else devices st)"
    by (simp add: d1_def)
qed

lemma gw_serves: "serves (gw_services E own dev)"
  unfolding serves_def
proof (intro allI impI)
  fix d st v d' st'
  assume a: "gw_services E own dev d st = Inr (v, d', st')" "list_inv st" "fresh_in d st"
  define d1 where "d1 = process_gw_services_time_config (di_proxy dev XDISC_SERVICE_TIME)
      (process_gw_services_media_config (di_proxy dev XDISC_SERVICE_MEDIA)
      (process_gw_services_identity own (ipaddress st) (di_proxy dev XDISC_SERVICE_IDENTITY) d))"
  obtain ok2 d2 st2 where g: "process_gw_services_gateway_config (di_proxy dev XDISC_SERVICE_GW_CFG) d1 st = (ok2, d2, st2)"
    by (metis prod_cases3)
  note G = gateway_config_frame [OF g]
  note I = same_list_inv [OF G(4)]
  show "v \<noteq> Not_listed \<and> keeps st st' \<and>
     devices st' = (if v = Go_on then insert (g_strstrip (serial_num d)) (devices st) else devices st)"
  proof (cases ok2)
    case False
    then have "v = Give_up True" "st' = st2"
      using a(1) g by (simp_all add: gw_services_def Let_def d1_def)
    then show ?thesis using keeps_same_list [OF G(4)] I(2) by simp
  next
    case True
    then obtain d3 st3 ok where q: "process_gw_services_qam_config E (di_proxy dev XDISC_SERVICE_QAM_CFG) d2 st2 = Inr (d3, st3)"
      and e: "enlist E d3 st3 = Inr (ok, d', st')" and v: "v = (if ok then Go_on else Not_listed)"
      using a(1) g by (auto simp: gw_services_def Let_def d1_def bind_outcome_Inr_iff)
    note Q = qam_frame [OF q]
    note J = same_list_inv [OF Q(3)]
    have "fresh_in d2 st2" using a(3) G by (intro fresh_in_same [OF _ G(4)]) (simp_all add: d1_def fresh_in_def)
    then have "fresh_in d3 st3" by (rule fresh_in_same [OF Q(2,3)])
    moreover have "list_inv st3" using a(2) I J by simp
    ultimately have "ok" "keeps st3 st'" "devices st' = insert (g_strstrip (serial_num d3)) (devices st3)"
      using enlist_serves [OF e] by blast+
    then show ?thesis
      using v I J G Q keeps_trans [OF keeps_trans [OF keeps_same_list [OF G(4)] keeps_same_list [OF Q(3)]]]
      by (simp add: d1_def)
  qed
qed

lemma bgw_serves: "serves (bgw_services E own dev)"
  unfolding serves_def
proof (intro allI impI)
  fix d st v d' st'
  assume a: "bgw_services E own dev d st = Inr (v, d', st')" "list_inv st" "fresh_in d st"
  define d1 where "d1 = process_gw_services_time_config (di_proxy dev XDISC_SERVICE_TIME)
      (process_gw_services_identity own (ipaddress st) (di_proxy dev XDISC_SERVICE_IDENTITY) d)"
  obtain ok2 d2 st2 where g: "process_gw_services_gateway_config (di_proxy dev XDISC_SERVICE_GW_CFG) d1 st = (ok2, d2, st2)"
    by (metis prod_cases3)
  note G = gateway_config_frame [OF g]
  note I = same_list_inv [OF G(4)]
  show "v \<noteq> Not_listed \<and> keeps st st' \<and>
     devices st' = (if v = Go_on then insert (g_strstrip (serial_num d)) (devices st) else devices st)"
  proof (cases ok2)
    case False
    then have "v = Give_up False" "st' = st2"
      using a(1) g by (simp_all add: bgw_services_def Let_def d1_def)
    then show ?thesis using keeps_same_list [OF G(4)] I(2) by simp
  next
    case True
    then obtain ok where e: "enlist E d2 st2 = Inr (ok, d', st')" and v: "v = (if ok then Go_on else Not_listed)"
      using a(1) g by (auto simp: bgw_services_def Let_def d1_def bind_outcome_Inr_iff)
    have "fresh_in d2 st2" using a(3) G by (intro fresh_in_same [OF _ G(4)]) (simp_all add: d1_def fresh_in_def)
    moreover have "list_inv st2" using a(2) I by simp
    ultimately have "ok" "keeps st2 st'" "devices st' = insert (g_strstrip (serial_num d2)) (devices st2)"
      using enlist_serves [OF e] by blast+
    then show ?thesis
      using v I G keeps_trans [OF keeps_same_list [OF G(4)]] by (simp add: d1_def)
  qed
qed

subsection \<open>The frame of the three control points\<close>

text \<open>
  The callbacks rely on two things only: what the services promise, and that the subscriptions
  change neither the list nor the counters.
\<close>

locale control_point =
  fixes services :: "GwyDeviceData \<Rightarrow> disc_state \<Rightarrow> (verdict \<times> GwyDeviceData \<times> disc_state) outcome"
    and finish :: "GwyDeviceData \<Rightarrow> disc_state \<Rightarrow> disc_state"
  assumes services: "serves services"
    and finish_keeps: "keeps st (finish d st)"
    and finish_devices: "devices (finish d st) = devices st"

context control_point
begin

lemma serve_new_result:
  assumes "serve_new services sno udn d st = Inr (v, d2, st2)" "list_inv st" "fresh_in d st"
  shows "v \<noteq> Not_listed \<and> keeps st st2 \<and>
    (devices st2 = devices st \<or>
     v = Go_on \<and> (\<exists>s. sno = Some s \<and> devices st2 = insert (g_strstrip s) (devices st)))"
proof (cases "\<exists>s r. sno = Some s \<and> receiver_of udn = Some r")
  case True
  then obtain s r where sr: "sno = Some s" "receiver_of udn = Some r" by blast
  then have "services (d\<lparr>serial_num := s, receiverid := r\<rparr>) st = Inr (v, d2, st2)"
    using assms(1) by (simp add: serve_new_def)
  moreover have "fresh_in (d\<lparr>serial_num := s, receiverid := r\<rparr>) st" using assms(3) by (simp add: fresh_in_def)
  ultimately have "v \<noteq> Not_listed \<and> keeps st st2 \<and> devices st2 =
      (if v = Go_on then insert (g_strstrip s) (devices st) else devices st)"
    using services assms(2) unfolding serves_def by fastforce
  then show ?thesis using sr(1) by simp
next
  case False
  then show ?thesis using assms(1) by (auto simp: serve_new_def split: option.splits)
qed

text \<open>After the call the counter is one less; with the counter put back, the call kept the list.\<close>

lemma close_call_result:
  assumes "v \<noteq> Not_listed"
  shows "keeps st (enter_cb (close_call finish (v, d, st)))" "devices (close_call finish (v, d, st)) = devices st"
proof -
  have put: "enter_cb (leave_cb s) = s" for s by (simp add: enter_cb_def leave_cb_def)
  have dl: "devices (leave_cb s) = devices s" for s by (simp add: leave_cb_def devices_def)
  have "keeps st (enter_cb (close_call finish (v, d, st))) \<and> devices (close_call finish (v, d, st)) = devices st"
  proof (cases v)
    case Go_on
    then show ?thesis using finish_keeps finish_devices by (simp add: close_call_def put dl)
  next
    case (Give_up partial)
    then show ?thesis
      by (simp add: close_call_def Let_def keeps_def list_inv_def devices_def enter_cb_def leave_cb_def)
  qed (use assms in simp)
  then show "keeps st (enter_cb (close_call finish (v, d, st)))" "devices (close_call finish (v, d, st)) = devices st"
    by blast+
qed

lemma with_new_device_result:
  assumes "with_new_device services finish sno udn d st = Inr st'" "list_inv st" "fresh_in d st"
  shows "keeps st (enter_cb st')"
    "devices st' = devices st \<or> (\<exists>s. sno = Some s \<and> devices st' = insert (g_strstrip s) (devices st))"
proof -
  obtain v d2 st2 where s: "serve_new services sno udn d st = Inr (v, d2, st2)"
      and st': "st' = close_call finish (v, d2, st2)"
    using assms(1) by (auto simp: with_new_device_def bind_outcome_Inr_iff)
  note S = serve_new_result [OF s assms(2,3)]
  then have "keeps st st2" "v \<noteq> Not_listed" by blast+
  note C = close_call_result [OF this(2), where st = st2 and d = d2]
  show "keeps st (enter_cb st')" using keeps_trans [OF \<open>keeps st st2\<close> C(1)] st' by simp
  show "devices st' = devices st \<or> (\<exists>s. sno = Some s \<and> devices st' = insert (g_strstrip s) (devices st))"
    using S C(2) st' by auto
qed

end

interpretation client_cp: control_point "client_services E own dev" "\<lambda>d st. st"
  by unfold_locales (simp_all add: client_serves)

lemma devices_gw_finish [simp]: "devices (gw_finish dev d st) = devices st"
proof -
  define t where "t = g_strstrip (devicetype (current d st))"
  have "devices (modify_dev (addr d) (\<lambda>e. e\<lparr>devicetype := t\<rparr>) st) = devices st"
    by (simp add: devices_def modify_dev_serials)
  then show ?thesis unfolding gw_finish_def Let_def t_def [symmetric] by (simp add: devices_def)
qed

lemma devices_bgw_finish [simp]: "devices (bgw_finish dev d st) = devices st"
  by (simp add: bgw_finish_def Let_def devices_def)

interpretation gw_cp: control_point "gw_services E own dev" "gw_finish dev"
  by unfold_locales (simp_all add: gw_serves keeps_gw_finish)

interpretation bgw_cp: control_point "bgw_services E own dev" "bgw_finish dev"
  by unfold_locales (simp_all add: bgw_serves keeps_bgw_finish)

text \<open>The outcome of an available callback: the list, the counter and the devices known.\<close>

definition arrived :: "string option \<Rightarrow> disc_state \<Rightarrow> disc_state \<Rightarrow> bool" where
  "arrived sno st st' \<longleftrightarrow> keeps st st' \<and>
     (devices st' = devices st \<or> (\<exists>s. sno = Some s \<and> devices st' = insert (g_strstrip s) (devices st)))"

lemma enter_keeps_find:
  assumes "g_list_find_custom g_list_find_sno (xdevlist (enter_cb st)) k = (ds, k', h)" "list_inv st"
  shows "list_inv ((enter_cb st)\<lparr>xdevlist := ds\<rparr>)" "devices ((enter_cb st)\<lparr>xdevlist := ds\<rparr>) = devices st"
    "keeps (enter_cb st) ((enter_cb st)\<lparr>xdevlist := ds\<rparr>)"
proof -
  have "list_inv (enter_cb st)" using assms(2) by (simp add: list_inv_def enter_cb_def)
  then show "list_inv ((enter_cb st)\<lparr>xdevlist := ds\<rparr>)"
    "keeps (enter_cb st) ((enter_cb st)\<lparr>xdevlist := ds\<rparr>)"
    using keeps_find [OF assms(1)] by (simp_all add: keeps_def)
  show "devices ((enter_cb st)\<lparr>xdevlist := ds\<rparr>) = devices st"
    using gwl.find_finds(1) [OF assms(1)] by (simp add: devices_def enter_cb_def)
qed

lemma leave_arrived:
  assumes "keeps (enter_cb st) st1" "devices st1 = devices st"
  shows "arrived k st (leave_cb st1)"
  using keeps_leave_enter [OF assms(1)] assms(2) by (simp add: arrived_def leave_cb_def devices_def)

lemma enter_leave_arrived: "arrived k st (leave_cb (enter_cb st))"
  by (rule leave_arrived) (simp_all add: devices_def enter_cb_def)

lemma new_device_arrived:
  assumes "control_point services finish" "list_inv st"
    and f: "g_list_find_custom g_list_find_sno (xdevlist (enter_cb st)) k = (ds, k', None)"
    and "new_device ((enter_cb st)\<lparr>xdevlist := ds\<rparr>) = (d0, st1)"
    and "addr d = addr d0"
    and "with_new_device services finish k' udn d st1 = Inr st'"
  shows "arrived k st st'"
proof -
  note F = enter_keeps_find [OF f assms(2)]
  note N = new_device_fresh [OF assms(4) F(1)]
  have "fresh_in d st1" using N(1) assms(5) by (simp add: fresh_in_def)
  note w = control_point.with_new_device_result [OF assms(1,6) N(2) this]
  have "keeps (enter_cb st) (enter_cb st')"
    by (rule keeps_trans [OF keeps_trans [OF F(3) N(3)] w(1)])
  then have "keeps st (leave_cb (enter_cb st'))" by (rule keeps_leave_enter)
  moreover have "leave_cb (enter_cb st') = st'" by (simp add: leave_cb_def enter_cb_def)
  moreover have "\<exists>s. k = Some s \<and> g_strstrip s = g_strstrip t" if "k' = Some t" for t
    using that gwl.find_absent [OF gwl.find_None [OF f]] f by (cases k) (auto split: if_splits)
  ultimately show ?thesis using w(2) N(4) F(2) by (fastforce simp: arrived_def)
qed

lemma keeps_legacy_finish: "keeps st (legacy_finish dev d st)"
proof -
  have "keeps st (emit (Set_subscribed (addr d) ''sproxy'' True) (notify_legacy d st))"
    by (rule keeps_trans [OF keeps_notify_legacy keeps_emit])
  moreover have "keeps s (modify_dev (addr d) (\<lambda>e. e\<lparr>sproxy := False\<rparr>) (emit (Unref (addr d) ''sproxy'') s))" for s
    by (rule keeps_trans [OF keeps_emit keeps_modify]) simp_all
  ultimately show ?thesis using keeps_trans by (simp add: legacy_finish_def Let_def)
qed

lemma devices_modify:
  "(\<And>d. serial_num (f d) = serial_num d) \<Longrightarrow> devices (modify_dev a f st) = devices st"
  by (simp add: devices_def modify_dev_def serials_def comp_def image_image if_distrib cong: if_cong)

lemma devices_emit [simp]: "devices (emit e st) = devices st"
  by (simp add: devices_def)

lemma devices_notify_legacy [simp]: "devices (notify_legacy d st) = devices st"
  by (simp add: notify_legacy_def Let_def devices_modify)

lemma devices_legacy_finish [simp]: "devices (legacy_finish dev d st) = devices st"
  by (simp add: legacy_finish_def Let_def devices_modify)

lemma legacy_serves: "serves (legacy_services E own dev)"
  unfolding serves_def
proof (intro allI impI)
  fix d st v d' st'
  assume a: "legacy_services E own dev d st = Inr (v, d', st')" "list_inv st" "fresh_in d st"
  obtain ok where p: "process_gw_services E own (di_proxy dev XDISC_SERVICE) d st = Inr (ok, st')"
      and v: "v = (if ok then Go_on else Give_up True)"
    using a(1) by (auto simp: legacy_services_def bind_outcome_Inr_iff)
  have f: "addr d \<notin> set (map addr (xdevlist st))" "addr d < next_addr st"
    using a(3) by (simp_all add: fresh_in_def)
  note P = process_gw_services_result [OF p a(2) f]
  then show "v \<noteq> Not_listed \<and> keeps st st' \<and>
     devices st' = (if v = Go_on then insert (g_strstrip (serial_num d)) (devices st) else devices st)"
    using v by (simp add: keeps_def)
qed

interpretation legacy_cp: control_point "legacy_services E own dev" "legacy_finish dev"
  by unfold_locales (simp_all add: legacy_serves keeps_legacy_finish)

lemma refresh_prefix_devices:
  assumes "refresh_prefix E sp i st = Inr st'" "i < length (xdevlist st)" "list_inv st"
  shows "devices st' = devices st"
proof -
  have same: "devices (st\<lparr>xdevlist := (xdevlist st)[i := (xdevlist st ! i)\<lparr>ipv6prefix := p\<rparr>]\<rparr>) = devices st" for p
    using assms(2) by (simp add: devices_def serials_def map_update_same flip: set_map)
  show ?thesis
    using assms(1) sendDiscoveryResult_inv(2) same
    by (auto simp: refresh_prefix_def Let_def bind_outcome_Inr_iff split: option.splits if_splits)
qed

lemma refresh_arrived:
  assumes "g_list_find_custom g_list_find_sno (xdevlist (enter_cb st)) k = (ds, k', Some i)" "list_inv st"
    and "refresh_prefix E sp i ((enter_cb st)\<lparr>xdevlist := ds\<rparr>) = Inr st1"
  shows "arrived k st (leave_cb st1)"
proof -
  note F = enter_keeps_find [OF assms(1,2)]
  have i: "i < length (xdevlist ((enter_cb st)\<lparr>xdevlist := ds\<rparr>))"
    using gwl.find_Some [OF assms(1)] gwl.find_finds(2) [OF assms(1)] by simp
  show ?thesis
    using keeps_trans [OF F(3) keeps_refresh [OF assms(3) i]] refresh_prefix_devices [OF assms(3) i F(1)] F(2)
    by (intro leave_arrived) simp_all
qed

lemma found_arrived:
  assumes "g_list_find_custom g_list_find_sno (xdevlist (enter_cb st)) k = (ds, k', Some i)" "list_inv st"
  shows "arrived k st (leave_cb ((enter_cb st)\<lparr>xdevlist := ds\<rparr>))"
  using enter_keeps_find [OF assms] by (intro leave_arrived) simp_all

lemma arrive_arrived:
  assumes "arrive known mark ready services finish dev (enter_cb st) = Inr st'" "list_inv st"
    and "control_point services finish" "\<And>d. addr (mark d) = addr d"
    and known: "(\<exists>E sp. known = refresh_prefix E sp) \<or> known = (\<lambda>i st. Inr st)"
  shows "arrived (di_serial dev) st st'"
proof -
  obtain ds k h where f: "g_list_find_custom g_list_find_sno (xdevlist (enter_cb st)) (di_serial dev) = (ds, k, h)"
    by (metis prod_cases3)
  obtain d st1 where n: "new_device ((enter_cb st)\<lparr>xdevlist := ds\<rparr>) = (d, st1)" by fastforce
  consider (there) i where "h = Some i" | (new) "h = None" "ready (mark d)" | (left) "h = None" "\<not> ready (mark d)"
    by blast
  then show ?thesis
  proof cases
    case there
    then obtain st2 where "known i ((enter_cb st)\<lparr>xdevlist := ds\<rparr>) = Inr st2" "st' = leave_cb st2"
      using assms(1) f by (auto simp: arrive_def bind_outcome_Inr_iff)
    then show ?thesis
      using known refresh_arrived [OF f [unfolded there] assms(2)] found_arrived [OF f [unfolded there] assms(2)] by auto
  next
    case new
    then have "with_new_device services finish k (di_udn dev) (mark d) st1 = Inr st'"
      using assms(1) f n by (simp add: arrive_def)
    then show ?thesis
      by (rule new_device_arrived [OF assms(3,2) f [unfolded new(1)] n assms(4)])
  next
    case left
    note F = enter_keeps_find [OF f assms(2)]
    note N = new_device_fresh [OF n F(1)]
    have "arrived (di_serial dev) st (leave_cb st1)"
      using keeps_trans [OF F(3) N(3)] N(4) F(2) by (intro leave_arrived) simp_all
    then show ?thesis using assms(1) f n left by (simp add: arrive_def)
  qed
qed

lemmas cp_axioms = legacy_cp.control_point_axioms client_cp.control_point_axioms
  gw_cp.control_point_axioms bgw_cp.control_point_axioms

lemma available_arrived:
  "device_proxy_available_cb E own ptrs dev st = Inr st' \<Longrightarrow> list_inv st \<Longrightarrow> arrived (di_serial dev) st st'"
  "device_proxy_available_cb_client E own ptrs dev st = Inr st' \<Longrightarrow> list_inv st \<Longrightarrow> arrived (di_serial dev) st st'"
  "device_proxy_available_cb_gw E own ptrs dev st = Inr st' \<Longrightarrow> list_inv st \<Longrightarrow> arrived (di_serial dev) st st'"
  "device_proxy_available_cb_bgw E own ptrs dev st = Inr st' \<Longrightarrow> list_inv st \<Longrightarrow> arrived (di_serial dev) st st'"
  by (auto simp: device_proxy_available_cb_def device_proxy_available_cb_client_def
      device_proxy_available_cb_gw_def device_proxy_available_cb_bgw_def Let_def enter_leave_arrived
      split: if_splits intro!: cp_axioms elim!: arrive_arrived)

subsection \<open>Devices that leave and values that change\<close>

definition departed :: "string option \<Rightarrow> disc_state \<Rightarrow> disc_state \<Rightarrow> bool" where
  "departed sno st st' \<longleftrightarrow> keeps st st' \<and>
     (devices st' = devices st \<or> (\<exists>s. sno = Some s \<and> devices st' = devices st - {g_strstrip s}))"

lemma delete_and_send_departed:
  assumes "delete_and_send E k st = Inr st'" "list_inv st"
  shows "departed k st st'"
proof -
  obtain ok k1 st1 where d: "delete_gwyitem E k st = Inr (ok, k1, st1)"
      and s: "if ok then \<exists>r. sendDiscoveryResult E st1 = Inr (r, st') else st' = st1"
    using assms(1) by (auto simp: delete_and_send_def bind_outcome_Inr_iff split: if_splits)
  have "devices st' = devices st1" using s sendDiscoveryResult_inv(2) by (auto split: if_splits)
  moreover have "devices st1 = devices st - {s. map_option g_strstrip k = Some s}"
    by (rule delete_gwyitem_result(3) [OF d assms(2)])
  ultimately show ?thesis
    using keeps_delete_and_send [OF assms] by (cases k) (auto simp: departed_def)
qed

lemma check_and_delete_departed:
  assumes "check_and_delete E k st = Inr st'" "list_inv st"
  shows "departed k st st'"
proof -
  obtain found url k1 st1 where c: "checkDeviceExists k [] st = Inr (found, url, k1, st1)"
      and d: "st' = st1 \<or> found \<and> delete_and_send E k1 st1 = Inr st'"
    using assms(1) by (auto simp: check_and_delete_def bind_outcome_Inr_iff split: if_splits)
  note C = checkDeviceExists_keeps [OF c assms(2)]
  have k1: "map_option g_strstrip k1 = map_option g_strstrip k" if "check_loop ds k [] = Inr (ds', k1, f, u)"
    for ds ds' k k1 f u
    using that
    by (induction ds arbitrary: ds' k)
       (auto simp: Let_def bind_outcome_Inr_iff option.map_comp comp_def split: if_splits)
  have "map_option g_strstrip k1 = map_option g_strstrip k"
    using c k1 by (auto simp: checkDeviceExists_def bind_outcome_Inr_iff)
  moreover have "departed k1 st1 st'" if "st' \<noteq> st1"
    using d that delete_and_send_departed C(1) by blast
  moreover have "devices st' = devices st" if "st' = st1" using that C(2) by simp
  ultimately show ?thesis
    using keeps_check_and_delete [OF assms] C(2)
    by (cases "st' = st1"; cases k; cases k1) (auto simp: departed_def)
qed

lemma departed_after:
  assumes "departed k st1 st'" "keeps st st1" "devices st1 = devices st"
  shows "departed k st st'"
  using assms keeps_trans by (auto simp: departed_def)

lemma is_self_keeps:
  assumes "is_self k st = (b, st1)" "list_inv st"
  shows "keeps st st1" "list_inv st1" "devices st1 = devices st"
  using keeps_is_self [OF assms(1)] assms by (auto simp: keeps_def is_self_def Let_def devices_def)

definition emitted :: "disc_state \<Rightarrow> disc_state \<Rightarrow> bool" where
  "emitted st st' \<longleftrightarrow> (\<exists>es. st' = st\<lparr>effects := es\<rparr>)"

lemma emitted_intros [simp, intro]: "emitted st st" "emitted st s \<Longrightarrow> emitted st (emit e s)"
  by (auto simp: emitted_def emit_def intro: exI [of _ "effects st"])

lemma emitted_keeps:
  "emitted st st' \<Longrightarrow> keeps st st' \<and> list_inv st' = list_inv st \<and> devices st' = devices st"
  by (auto simp: emitted_def keeps_def list_inv_def devices_def)

lemma unavailable_departed:
  "device_proxy_unavailable_cb E dev st = Inr st' \<Longrightarrow> list_inv st \<Longrightarrow> departed (di_serial dev) st st'"
  "device_proxy_unavailable_cb_gw E dev st = Inr st' \<Longrightarrow> list_inv st \<Longrightarrow> departed (di_serial dev) st st'"
  "device_proxy_unavailable_cb_client E dev st = Inr st' \<Longrightarrow> list_inv st \<Longrightarrow> departed (di_serial dev) st st'"
  "device_proxy_unavailable_cb_bgw E dev st = Inr st' \<Longrightarrow> list_inv st \<Longrightarrow> departed (di_serial dev) st st'"
proof -
  assume inv: "list_inv st"
  obtain self st1 where s: "is_self (di_serial dev) st = (self, st1)" by fastforce
  note S = is_self_keeps [OF s inv]
  have same: "departed (di_serial dev) st st1" using S by (simp add: departed_def)
  have pre: "keeps st st2 \<and> list_inv st2 \<and> devices st2 = devices st" if "emitted st1 st2" for st2
    using emitted_keeps [OF that] S keeps_trans by blast
  have C: "departed (di_serial dev) st st'"
    if "check_and_delete E (di_serial dev) st2 = Inr st'" "emitted st1 st2" for st2
    using departed_after [OF check_and_delete_departed [OF that(1)]] pre [OF that(2)] by blast
  have D: "departed (di_serial dev) st st'"
    if "delete_and_send E (di_serial dev) st2 = Inr st'" "emitted st1 st2" for st2
    using departed_after [OF delete_and_send_departed [OF that(1)]] pre [OF that(2)] by blast
  show "device_proxy_unavailable_cb E dev st = Inr st' \<Longrightarrow> departed (di_serial dev) st st'"
    "device_proxy_unavailable_cb_gw E dev st = Inr st' \<Longrightarrow> departed (di_serial dev) st st'"
    using s same
    by (auto simp: device_proxy_unavailable_cb_def device_proxy_unavailable_cb_gw_def Let_def
        split: if_splits elim!: C)
  show "device_proxy_unavailable_cb_client E dev st = Inr st' \<Longrightarrow> departed (di_serial dev) st st'"
    "device_proxy_unavailable_cb_bgw E dev st = Inr st' \<Longrightarrow> departed (di_serial dev) st st'"
    using s same
    by (auto simp: device_proxy_unavailable_cb_client_def device_proxy_unavailable_cb_bgw_def
        split: if_splits elim!: D)
qed

lemma find_udn_Cons:
  "g_list_find_custom g_list_find_udn (d # ds) k =
     (if g_strcmp0 (Some (g_strstrip (receiverid d))) (map_option g_strstrip k) = 0
      then (d\<lparr>receiverid := g_strstrip (receiverid d)\<rparr> # ds, map_option g_strstrip k, Some 0)
      else case g_list_find_custom g_list_find_udn ds (map_option g_strstrip k) of
        (ds', k', h) \<Rightarrow> (d\<lparr>receiverid := g_strstrip (receiverid d)\<rparr> # ds', k', map_option Suc h))"
  by (simp add: g_list_find_custom.simps(2) g_list_find_udn_def [of d k] Let_def)

lemma find_udn_same:
  "g_list_find_custom g_list_find_udn ds k = (ds', k', h) \<Longrightarrow>
     serials serial_num ds' = serials serial_num ds \<and> map addr ds' = map addr ds \<and>
     (\<forall>i. h = Some i \<longrightarrow> i < length ds')"
proof (induction ds arbitrary: k ds' k' h)
  case (Cons d ds)
  show ?case
  proof (cases "g_strcmp0 (Some (g_strstrip (receiverid d))) (map_option g_strstrip k) = 0")
    case True
    with Cons.prems show ?thesis by (auto simp: find_udn_Cons)
  next
    case False
    then obtain es h' where "g_list_find_custom g_list_find_udn ds (map_option g_strstrip k) = (es, k', h')"
        "ds' = d\<lparr>receiverid := g_strstrip (receiverid d)\<rparr> # es" "h = map_option Suc h'"
      using Cons.prems by (auto simp: find_udn_Cons split: prod.splits)
    with Cons.IH [of "map_option g_strstrip k" es k' h'] show ?thesis by auto
  qed
qed simp

lemma changed_frame:
  assumes "changed get assign v d = Some d'"
    "\<And>f d. serial_num (assign f d) = serial_num d" "\<And>f d. addr (assign f d) = addr d"
  shows "serial_num d' = serial_num d \<and> addr d' = addr d"
  using assms by (auto simp: changed_def Let_def split: if_splits)

lemma keeps_ipaddress: "keeps st (st\<lparr>ipaddress := g_strstrip (ipaddress st)\<rparr>)"
  by (intro keepsI) simp_all

lemma keeps_apply_change:
  assumes "apply_change E n v i st = Inr (b, st')" "i < length (xdevlist st)"
  shows "keeps st st'"
proof -
  let ?d = "xdevlist st ! i"
  have store: "keeps st (store_device i d st)" if "serial_num d = serial_num ?d" "addr d = addr ?d" for d
    using keeps_store [OF assms(2)] that by simp
  have url: "keeps st ((store_device i d' st)\<lparr>ipaddress := ip\<rparr>)"
    if "replace_local_device_ip d (ipaddress st) = Inr (w, d', ip)" "serial_num d = serial_num ?d" "addr d = addr ?d"
    for d d' w ip
  proof -
    note F = replace_local_device_ip_frame [OF that(1)]
    have k: "keeps st (store_device i d' st)" using store F that by simp
    moreover have "ipaddress (store_device i d' st) = ipaddress st" by (simp add: store_device_def)
    ultimately show ?thesis using F(6) keeps_trans [OF k keeps_ipaddress] by simp
  qed
  show ?thesis
    using assms(1) store url keeps_trans [OF store keeps_tz] keeps_trans [OF store keeps_add_route]
    by (auto simp: apply_change_def Let_def bind_outcome_Inr_iff
        split: if_splits option.splits dest!: changed_frame)
qed

lemma keeps_on_last_change:
  assumes "on_last_change E udn n v st = Inr st'"
  shows "keeps st st'"
proof (cases "receiver_of udn")
  case None
  with assms show ?thesis by (simp add: on_last_change_def)
next
  case (Some r)
  obtain ds k h where f: "g_list_find_custom g_list_find_udn (xdevlist st) (Some r) = (ds, k, h)"
    by (metis prod_cases3)
  note F = find_udn_same [OF f]
  have k: "keeps st (st\<lparr>xdevlist := ds\<rparr>)" using F by (intro keepsI) simp_all
  show ?thesis
  proof (cases h)
    case None
    with assms Some f k show ?thesis by (simp add: on_last_change_def)
  next
    case hit: (Some i)
    then obtain b st1 where a: "apply_change E (g_strstrip n) v i (st\<lparr>xdevlist := ds\<rparr>) = Inr (b, st1)"
        and s: "if b then \<exists>r. sendDiscoveryResult E st1 = Inr (r, st') else st' = st1"
      using assms Some f by (auto simp: on_last_change_def bind_outcome_Inr_iff split: if_splits)
    have "keeps (st\<lparr>xdevlist := ds\<rparr>) st1" using keeps_apply_change [OF a] F hit by simp
    moreover have "keeps st1 st'" using s keeps_send by (auto split: if_splits)
    ultimately show ?thesis using k keeps_trans by blast
  qed
qed

subsection \<open>Runs of the service\<close>

datatype event =
    Available own_identity bool device_info
  | Available_client own_identity bool device_info
  | Available_gw own_identity bool device_info
  | Available_bgw own_identity bool device_info
  | Unavailable device_info
  | Unavailable_client device_info
  | Unavailable_gw device_info
  | Unavailable_bgw device_info
  | Last_change "string option" string string
  | Clean_up bool

fun handle :: "disc_env \<Rightarrow> event \<Rightarrow> disc_state \<Rightarrow> disc_state outcome" where
  "handle E (Available own ptrs dev) st = device_proxy_available_cb E own ptrs dev st"
| "handle E (Available_client own ptrs dev) st = device_proxy_available_cb_client E own ptrs dev st"
| "handle E (Available_gw own ptrs dev) st = device_proxy_available_cb_gw E own ptrs dev st"
| "handle E (Available_bgw own ptrs dev) st = device_proxy_available_cb_bgw E own ptrs dev st"
| "handle E (Unavailable dev) st = device_proxy_unavailable_cb E dev st"
| "handle E (Unavailable_client dev) st = device_proxy_unavailable_cb_client E dev st"
| "handle E (Unavailable_gw dev) st = device_proxy_unavailable_cb_gw E dev st"
| "handle E (Unavailable_bgw dev) st = device_proxy_unavailable_cb_bgw E dev st"
| "handle E (Last_change udn n v) st = on_last_change E udn n v st"
| "handle E (Clean_up all) st = delOldItemsFromList E all st"

text \<open>
  A step: an event in some environment whose handler returns. The build and the configuration
  stay, the rest of the environment may answer differently each time.
\<close>

inductive disc_step :: "disc_state \<Rightarrow> disc_state \<Rightarrow> bool" where
  step: "handle E ev st = Inr st' \<Longrightarrow> disc_step st st'"

inductive disc_reachable :: "disc_state \<Rightarrow> disc_state \<Rightarrow> bool" for st0 where
  start: "disc_reachable st0 st0"
| next_step: "disc_reachable st0 st \<Longrightarrow> disc_step st st' \<Longrightarrow> disc_reachable st0 st'"

inductive_cases disc_stepE: "disc_step st st'"

lemma keeps_clean_up:
  assumes "delOldItemsFromList E b st = Inr st'" "list_inv st"
  shows "keeps st st'"
proof -
  obtain ds n st1 where l: "del_old_loop E b (xdevlist st) st = (ds, n, st1)"
    by (cases "del_old_loop E b (xdevlist st) st")
  note F = del_old_loop_filter [OF l]
  let ?st = "st1\<lparr>xdevlist := ds\<rparr>"
  have "list_inv ?st"
  proof (rule list_invI)
    show "sno_sorted serial_num (xdevlist ?st)"
      using F assms(2) by (simp add: list_inv_def sno_sorted_filter)
    show "distinct (map addr (xdevlist ?st))"
      using F assms(2) by (simp add: list_inv_def distinct_map_filter)
    show "addr ` set (xdevlist ?st) \<subseteq> {a. a < next_addr ?st}"
      using F assms(2) by (auto simp: list_inv_def)
  qed
  then have k: "keeps st ?st" using F by (simp add: keeps_def)
  show ?thesis
  proof (cases "n > 0")
    case True
    then obtain r where s: "sendDiscoveryResult E ?st = Inr (r, st')"
      using assms(1) l by (auto simp: delOldItemsFromList_def Let_def bind_outcome_Inr_iff)
    show ?thesis by (rule keeps_trans [OF k keeps_send [OF s]])
  next
    case False
    then have "st' = ?st" using assms(1) l by (simp add: delOldItemsFromList_def)
    then show ?thesis using k by simp
  qed
qed

lemma handle_keeps: "handle E ev st = Inr st' \<Longrightarrow> list_inv st \<Longrightarrow> keeps st st'"
  by (cases ev)
     (auto simp: arrived_def departed_def keeps_on_last_change keeps_clean_up
       dest!: available_arrived unavailable_departed)

lemma disc_reachable_keeps: "disc_reachable st0 st \<Longrightarrow> list_inv st0 \<Longrightarrow> list_inv st \<and> keeps st0 st"
proof (induction rule: disc_reachable.induct)
  case (next_step st st')
  then obtain E ev where "handle E ev st = Inr st'" by (auto elim: disc_stepE)
  with next_step have "keeps st st'" using handle_keeps by blast
  with next_step show ?case using keeps_trans by (auto simp: keeps_def)
qed simp

subsection \<open>Properties\<close>

definition sample_dev_info :: device_info where
  "sample_dev_info = \<lparr>di_serial = Some ''M11'', di_udn = Some ''uuid:P11'', di_upc = None,
     di_has = (\<lambda>s. True), di_proxy = (\<lambda>s. silent_proxy), di_was_subscribed = (\<lambda>s. False),
     di_subscribes = (\<lambda>s. True)\<rparr>"

definition sample_own :: own_identity where
  "sample_own = \<lparr>accountId = [], bcastmac = []\<rparr>"

lemma sample_client_step:
  "\<exists>st'. handle sample_env (Available_client sample_own True sample_dev_info) (disc_start ''10.0.0.1'') = Inr st' \<and>
     devices st' = {''M11''}"
proof -
  have strip: "g_strstrip ''M11'' = ''M11''"
    by (rule g_strstrip_stripped) (simp add: stripped_def g_ascii_isspace_def)
  define st1 where "st1 = (enter_cb (disc_start ''10.0.0.1''))\<lparr>next_addr := Suc (Suc 0)\<rparr>"
  define d where "d = (init_gwydata 1)\<lparr>sproxy_i := True, sproxy_m := True, serial_num := ''M11'', receiverid := ''P11''\<rparr>"
  define d1 where "d1 = (process_gw_services_media_config silent_proxy
      (process_gw_services_identity sample_own ''10.0.0.1'' silent_proxy d))\<lparr>isDevRefactored := True\<rparr>"
  have inv: "list_inv st1" "devices st1 = {}"
    by (simp_all add: st1_def list_inv_def devices_def enter_cb_def disc_start_def)
  have E: "no_whitelist sample_env" "report_safe sample_env"
    by (simp_all add: no_whitelist_def sample_env_def sample_flags_def report_safe_def serial_safe_def)
  obtain st2 where u: "update_gwylist sample_env d1 st1 = Inr (True, st2)"
    using update_gwylist_returns [OF E inv(1)] by blast
  have r: "receiver_of (Some ''uuid:P11'') = Some ''P11''"
    by (simp add: receiver_of_def g_strrstr_def)
  have "handle sample_env (Available_client sample_own True sample_dev_info) (disc_start ''10.0.0.1'') = Inr (leave_cb st2)"
    using u r
    by (simp add: device_proxy_available_cb_client_def Let_def arrive_def new_device_def with_new_device_def
        serve_new_def client_services_def enlist_def close_call_def sample_dev_info_def d1_def d_def st1_def
        enter_cb_def disc_start_def)
  moreover have "devices (leave_cb st2) = {''M11''}"
  proof -
    have a: "addr d1 \<notin> set (map addr (xdevlist st1))" "addr d1 < next_addr st1"
      by (simp_all add: d1_def d_def st1_def init_gwydata_def enter_cb_def disc_start_def)
    show ?thesis
      using update_gwylist_result(3) [OF u inv(1) a] inv(2) strip by (simp add: leave_cb_def devices_def d1_def d_def)
  qed
  ultimately show ?thesis by blast
qed



end
