(* ===== verification/Net_Lib.thy ===== *)
theory Net_Lib
  imports Glib
begin

text \<open>
  The host's network interfaces as the services ask for them: the two copies of \<open>getipaddress\<close>
  in \<open>src/xdiscovery.c\<close> and \<open>src/idm_library.c\<close>, and \<open>getmacaddress\<close>. What the operating system
  answers is an argument.
\<close>

subsection \<open>Interface addresses\<close>

text \<open>
  What \<open>getifaddrs\<close> lists: the name of an interface and its address, if it has one, with the
  text \<open>inet_ntop\<close> gives for it.
\<close>

datatype sockaddr = AF_INET string | AF_INET6 string | AF_OTHER

record ifaddrs =
  ifa_name :: string
  ifa_addr :: "sockaddr option"

text \<open>
  The loops of the two copies of \<open>getipaddress\<close>. The buffer is written for each address of the
  right family, before the name of the interface is compared.
\<close>

fun getip_loop :: "bool \<Rightarrow> string \<Rightarrow> ifaddrs list \<Rightarrow> string \<Rightarrow> int \<times> string" where
  "getip_loop ipv6Enabled ifname [] buf = (0, buf)"
| "getip_loop ipv6Enabled ifname (ifa # ifas) buf =
     (case ifa_addr ifa of
        None \<Rightarrow> getip_loop ipv6Enabled ifname ifas buf
      | Some (AF_INET6 a) \<Rightarrow>
          if ipv6Enabled then
            (if strcmp (ifa_name ifa) ifname = 0 then (1, a) else getip_loop ipv6Enabled ifname ifas a)
          else getip_loop ipv6Enabled ifname ifas buf
      | Some (AF_INET a) \<Rightarrow>
          if strcmp (ifa_name ifa) ifname = 0 then (1, a) else getip_loop ipv6Enabled ifname ifas a
      | Some AF_OTHER \<Rightarrow> getip_loop ipv6Enabled ifname ifas buf)"

definition getipaddress :: "ifaddrs list option \<Rightarrow> string \<Rightarrow> string \<Rightarrow> bool \<Rightarrow> int \<times> string" where
  "getipaddress addrs ifname buf ipv6Enabled =
     (case addrs of None \<Rightarrow> (-1, buf) | Some ifas \<Rightarrow> getip_loop ipv6Enabled ifname ifas buf)"

fun idm_getip_loop :: "bool \<Rightarrow> string \<Rightarrow> ifaddrs list \<Rightarrow> string \<Rightarrow> int \<times> string" where
  "idm_getip_loop ipv6Enabled ifname [] buf = (0, buf)"
| "idm_getip_loop ipv6Enabled ifname (ifa # ifas) buf =
     (case ifa_addr ifa of
        None \<Rightarrow> idm_getip_loop ipv6Enabled ifname ifas buf
      | Some addr \<Rightarrow>
          if ipv6Enabled then
            (case addr of
               AF_INET6 a \<Rightarrow>
                 if strcmp (ifa_name ifa) ifname = 0 then (1, a) else idm_getip_loop ipv6Enabled ifname ifas buf
             | _ \<Rightarrow> idm_getip_loop ipv6Enabled ifname ifas buf)
          else
            (case addr of
               AF_INET a \<Rightarrow>
                 if strcmp (ifa_name ifa) ifname = 0 then (1, a) else idm_getip_loop ipv6Enabled ifname ifas a
             | _ \<Rightarrow> idm_getip_loop ipv6Enabled ifname ifas buf))"

text \<open>This copy does not check the result of \<open>getifaddrs\<close>; a failure leaves an empty list.\<close>

definition idm_getipaddress :: "ifaddrs list option \<Rightarrow> string \<Rightarrow> string \<Rightarrow> bool \<Rightarrow> int \<times> string" where
  "idm_getipaddress addrs ifname buf ipv6Enabled =
     idm_getip_loop ipv6Enabled ifname (case addrs of None \<Rightarrow> [] | Some ifas \<Rightarrow> ifas) buf"

subsection \<open>Hardware addresses\<close>

definition hex_digit :: "nat \<Rightarrow> char" where
  "hex_digit n = (if n < 10 then char_of (48 + n) else char_of (87 + n))"

definition hex2 :: "8 word \<Rightarrow> string" where
  "hex2 b = [hex_digit (unat b div 16), hex_digit (unat b mod 16)]"

text \<open>
  \<open>getmacaddress\<close>: no text when there is no socket, otherwise the first six bytes of
  \<open>ifr_hwaddr\<close>, which are whatever the structure held before when \<open>ioctl\<close> fails.
\<close>

definition getmacaddress :: "bool \<Rightarrow> 8 word list option \<Rightarrow> 8 word list \<Rightarrow> string" where
  "getmacaddress socket_ok hwaddr junk =
     (if \<not> socket_ok then []
      else (let mac = (case hwaddr of Some m \<Rightarrow> m | None \<Rightarrow> junk) in
            hex2 (mac ! 0) @ '':'' @ hex2 (mac ! 1) @ '':'' @ hex2 (mac ! 2) @ '':'' @
            hex2 (mac ! 3) @ '':'' @ hex2 (mac ! 4) @ '':'' @ hex2 (mac ! 5)))"

subsection \<open>Which address is found\<close>

definition usable :: "bool \<Rightarrow> ifaddrs \<Rightarrow> string option" where
  "usable ipv6Enabled ifa =
     (case ifa_addr ifa of
        Some (AF_INET a) \<Rightarrow> Some a
      | Some (AF_INET6 a) \<Rightarrow> if ipv6Enabled then Some a else None
      | _ \<Rightarrow> None)"

definition of_interface :: "bool \<Rightarrow> string \<Rightarrow> ifaddrs list \<Rightarrow> string list" where
  "of_interface ipv6Enabled ifname ifas =
     List.map_filter (usable ipv6Enabled) (filter (\<lambda>ifa. ifa_name ifa = ifname) ifas)"

lemma getip_loop_spec:
  "getip_loop v6 ifname ifas buf =
     (case of_interface v6 ifname ifas of
        a # _ \<Rightarrow> (1, a)
      | [] \<Rightarrow> (0, last (buf # List.map_filter (usable v6) ifas)))"
  by (induction ifas arbitrary: buf)
     (auto simp: of_interface_def usable_def List.map_filter_simps split: option.splits sockaddr.splits list.splits)

definition usable_idm :: "bool \<Rightarrow> ifaddrs \<Rightarrow> string option" where
  "usable_idm ipv6Enabled ifa =
     (case ifa_addr ifa of
        Some (AF_INET a) \<Rightarrow> if ipv6Enabled then None else Some a
      | Some (AF_INET6 a) \<Rightarrow> if ipv6Enabled then Some a else None
      | _ \<Rightarrow> None)"

definition of_interface_idm :: "bool \<Rightarrow> string \<Rightarrow> ifaddrs list \<Rightarrow> string list" where
  "of_interface_idm ipv6Enabled ifname ifas =
     List.map_filter (usable_idm ipv6Enabled) (filter (\<lambda>ifa. ifa_name ifa = ifname) ifas)"

lemma idm_getip_loop_spec:
  "idm_getip_loop v6 ifname ifas buf =
     (case of_interface_idm v6 ifname ifas of
        a # _ \<Rightarrow> (1, a)
      | [] \<Rightarrow> (0, if v6 then buf else last (buf # List.map_filter (usable_idm v6) ifas)))"
proof (induction ifas arbitrary: buf)
  case (Cons ifa ifas)
  then show ?case
    by (cases v6)
       (auto simp: of_interface_idm_def usable_idm_def List.map_filter_simps
         split: option.splits sockaddr.splits list.splits)
next
  case Nil
  have "of_interface_idm v6 ifname [] = []" by (simp add: of_interface_idm_def List.map_filter_simps)
  then show ?case by (simp add: List.map_filter_simps)
qed

subsection \<open>Properties\<close>

text \<open>
  Both copies of \<open>getipaddress\<close> find the first address of the interface, of a family they
  look for, and answer 1; the copy of \<open>xdiscovery.c\<close> takes an IPv4 address also when IPv6 is
  asked for. When the interface has none they answer 0, with the address of some other interface
  left in the buffer (for the copy of \<open>idm_library.c\<close> only in the IPv4 case). When the addresses
  cannot be listed, one answers -1 and the other 0.
\<close>

theorem getipaddress_finds:
  "getipaddress (Some ifas) ifname buf v6 =
     (case of_interface v6 ifname ifas of
        a # _ \<Rightarrow> (1, a) | [] \<Rightarrow> (0, last (buf # List.map_filter (usable v6) ifas))) \<and>
   idm_getipaddress (Some ifas) ifname buf v6 =
     (case of_interface_idm v6 ifname ifas of
        a # _ \<Rightarrow> (1, a)
      | [] \<Rightarrow> (0, if v6 then buf else last (buf # List.map_filter (usable_idm v6) ifas))) \<and>
   getipaddress None ifname buf v6 = (-1, buf) \<and> idm_getipaddress None ifname buf v6 = (0, buf)"
  by (simp_all add: getipaddress_def idm_getipaddress_def getip_loop_spec idm_getip_loop_spec
    of_interface_idm_def List.map_filter_simps split: list.splits)

end
