(* ===== verification/Startup.thy ===== *)
theory Startup
  imports Callbacks Net_Lib
begin

text \<open>
  The start of the discovery service and its background thread in \<open>src/xdiscovery.c\<close>: the
  configuration, the remote settings, the choice of the network interface, \<open>main\<close> up to its
  main loop, and the rounds of \<open>verify_devices\<close>.
\<close>

subsection \<open>Configuration\<close>

text \<open>
  A key file as the GLib parser gives it: strings, the integer and the boolean of a group and a
  key; a missing integer is 0 and a missing boolean FALSE.
\<close>

record keyfile =
  kf_string :: "string \<Rightarrow> string \<Rightarrow> string option"
  kf_integer :: "string \<Rightarrow> string \<Rightarrow> int"
  kf_boolean :: "string \<Rightarrow> string \<Rightarrow> bool"

record conf =
  discIf :: "string option"
  cf_gwIf :: "string option"
  cf_gwSetupFile :: "string option"
  logFile :: "string option"
  cf_outputJsonFile :: "string option"
  disCertFile :: "string option"
  disCertPath :: "string option"
  disKeyPath :: "string option"
  disKeyFile :: "string option"
  cf_enableGwSetup :: bool
  cf_GwPriority :: int

text \<open>
  \<open>readconffile\<close>: the configuration, if the file names the interfaces to discover on; a file that
  cannot be loaded makes \<open>g_error\<close> end the process, so the branch of \<open>main\<close> for it is not reached. The four certificate settings stay unset memory when the refactored discovery is
  off; nothing reads them then.
\<close>

definition readconffile :: "bool \<Rightarrow> keyfile option \<Rightarrow> conf option outcome" where
  "readconffile rfc configfile =
     (case configfile of
        None \<Rightarrow> Inl Fatal_error
      | Some k \<Rightarrow>
          (let s = kf_string k; d = (\<lambda>key. if rfc then s ''DataFiles'' key else None);
               c = \<lparr>discIf = s ''Network'' ''discIf'', cf_gwIf = s ''Network'' ''GwIf'',
                    cf_gwSetupFile = s ''DataFiles'' ''gwSetupFile'', logFile = s ''DataFiles'' ''LogFile'',
                    cf_outputJsonFile = s ''DataFiles'' ''outputJsonFile'',
                    disCertFile = d ''certFile'', disCertPath = d ''certPath'',
                    disKeyPath = d ''keyPath'', disKeyFile = d ''keyFile'',
                    cf_enableGwSetup = kf_boolean k ''Flags'' ''enableGwSetup'',
                    cf_GwPriority = kf_integer k ''Network'' ''GwPriority''\<rparr>
           in if discIf c = None then Inr None else Inr (Some c)))"

text \<open>The three remote settings; \<open>None\<close> is a look-up that failed.\<close>

definition check_rfc :: "build \<Rightarrow> bool \<Rightarrow> string option \<Rightarrow> bool" where
  "check_rfc b ENABLE_RFC answer =
     (case answer of
        None \<Rightarrow> False
      | Some v \<Rightarrow>
          if \<not> BROADBAND b then ENABLE_RFC \<and> strncmp v ''true'' 4 = 0
          else strcmp ''true'' v = 0)"

definition xPKI_check_rfc :: "bool \<Rightarrow> string option \<Rightarrow> bool" where
  "xPKI_check_rfc ENABLE_RFC answer =
     (case answer of None \<Rightarrow> False | Some v \<Rightarrow> ENABLE_RFC \<and> strcmp v ''true'' = 0)"

definition getAccountId :: "build \<Rightarrow> bool \<Rightarrow> string option \<Rightarrow> string \<Rightarrow> bool \<times> string" where
  "getAccountId b ENABLE_RFC answer outValue =
     (if BROADBAND b \<or> ENABLE_RFC then
        (case answer of Some v \<Rightarrow> (True, take 29 v) | None \<Rightarrow> (False, outValue))
      else (False, outValue))"

subsection \<open>Choice of the interface\<close>

text \<open>
  The addresses are listed once per attempt, with an answer of their own each time. Each
  interface gets one attempt and three more; any result but 0 counts as success.
\<close>

fun try_interface ::
  "(nat \<Rightarrow> ifaddrs list option) \<Rightarrow> string \<Rightarrow> nat \<Rightarrow> nat \<Rightarrow> string \<Rightarrow> bool \<times> nat \<times> string" where
  "try_interface addrs ifname 0 k buf = (False, k, buf)"
| "try_interface addrs ifname (Suc n) k buf =
     (case getipaddress (addrs k) ifname buf False of (result, buf) \<Rightarrow>
        if result \<noteq> 0 then (True, Suc k, buf) else try_interface addrs ifname n (Suc k) buf)"

fun select_interface ::
  "(nat \<Rightarrow> ifaddrs list option) \<Rightarrow> string list \<Rightarrow> nat \<Rightarrow> string \<Rightarrow> string option \<times> string" where
  "select_interface addrs [] k buf = (None, buf)"
| "select_interface addrs (t # ts) k buf =
     (let t = g_strstrip t in
      if length t > 0 then
        (case try_interface addrs t 4 k buf of (ready, k, buf) \<Rightarrow>
           if ready then (Some t, buf) else select_interface addrs ts k buf)
      else select_interface addrs ts k buf)"

text \<open>
  The chosen name is copied over both settings, which are as long as their values were; a missing
  \<open>GwIf\<close> is refused by \<open>g_stpcpy\<close>.
\<close>

definition g_stpcpy :: "string option \<Rightarrow> string \<Rightarrow> string option outcome" where
  "g_stpcpy dest src =
     (case dest of
        None \<Rightarrow> Inr None
      | Some d \<Rightarrow> if length src \<le> length d then Inr (Some src) else Inl Out_of_bounds)"

definition choose_interface ::
  "(nat \<Rightarrow> ifaddrs list option) \<Rightarrow> conf \<Rightarrow> string \<Rightarrow> (conf \<times> string) option outcome" where
  "choose_interface addrs c buf =
     (case select_interface addrs (g_strsplit_set (the (discIf c)) '','') 0 buf of
        (None, buf) \<Rightarrow> Inr None
      | (Some t, buf) \<Rightarrow>
          bind_outcome (g_stpcpy (discIf c) t) (\<lambda>d.
          bind_outcome (g_stpcpy (cf_gwIf c) t) (\<lambda>g.
          Inr (Some (c\<lparr>discIf := d, cf_gwIf := g\<rparr>, buf)))))"

subsection \<open>Start of the service\<close>

text \<open>What the world answers while the service starts.\<close>

record startup_env =
  su_disc :: disc_env
  su_keyfile :: "keyfile option"
  su_ENABLE_RFC :: bool
  su_refactor :: "string option"
  su_xpki :: "string option"
  su_account :: "string option"
  su_addrs :: "nat \<Rightarrow> ifaddrs list option"
  su_socket :: bool
  su_hwaddr :: "8 word list option"
  su_hwjunk :: "8 word list"
  su_context :: bool
  su_dp_context :: bool
  su_bus_init :: bool
  su_bus_connect :: bool
  su_exists :: "string \<Rightarrow> bool"
  su_absolute :: "string option \<Rightarrow> bool"
  su_build_filename :: "string option \<Rightarrow> string option \<Rightarrow> string"
  su_shm :: shm_env

record running =
  r_conf :: conf
  r_own :: own_identity
  r_rfc :: bool
  r_files :: "string \<times> string"
  r_iarm :: bool
  r_watched :: "string list"
  r_state :: disc_state

datatype main_result = Exit_failure | Running running

definition XUPnP_IARM_Init :: "startup_env \<Rightarrow> bool" where
  "XUPnP_IARM_Init S = (USE_XUPNP_IARM_BUS (flags (su_disc S)) \<and> su_bus_init S \<and> su_bus_connect S)"

text \<open>The files for the handshake: the fixed ones of xPKI, or the configured ones.\<close>

definition cert_path :: "startup_env \<Rightarrow> string option \<Rightarrow> string option \<Rightarrow> string" where
  "cert_path S path f = (if su_absolute S f then (case f of Some n \<Rightarrow> n | None \<Rightarrow> []) else su_build_filename S path f)"

definition handshake_files :: "startup_env \<Rightarrow> conf \<Rightarrow> string \<times> string" where
  "handshake_files S c =
     (if \<not> BROADBAND (flags (su_disc S)) \<and> xPKI_check_rfc (su_ENABLE_RFC S) (su_xpki S)
      then (''/tmp/xpki_cert'', ''/tmp/xpki_key'')
      else (cert_path S (disCertPath c) (disCertFile c), cert_path S (disKeyPath c) (disKeyFile c)))"

definition ca_File :: string where "ca_File = ''/tmp/UPnP_CA''"

definition device_protection_types :: "string list" where
  "device_protection_types =
     [''urn:schemas-upnp-org:device:X1Renderer:1'',
      ''urn:schemas-upnp-org:device:X1VideoGateway:1'',
      ''urn:schemas-upnp-org:device:X1BroadbandGateway:1'']"

definition basic_type :: string where
  "basic_type = ''urn:schemas-upnp-org:device:BasicDevice:1''"

text \<open>
  The secure part of \<open>main\<close>: it ends with \<open>rfc_enabled\<close> on and three active control points, or
  with \<open>rfc_enabled\<close> off and none. The result of \<open>dp_wlistInit\<close> is only logged.
\<close>

definition start_device_protection ::
  "startup_env \<Rightarrow> conf \<Rightarrow> bool \<Rightarrow> disc_state \<Rightarrow> (bool \<times> (string \<times> string) \<times> string \<times> string list \<times> disc_state) outcome" where
  "start_device_protection S c rfc st =
     (if \<not> rfc then Inr (False, ([], []), [], [], st)
      else (case getAccountId (flags (su_disc S)) (su_ENABLE_RFC S) (su_account S) [] of (got, acc) \<Rightarrow>
        (case handshake_files S c of (cert, key) \<Rightarrow>
          (if su_exists S cert \<and> su_exists S key \<and> su_exists S ca_File then
             (if \<not> su_dp_context S then Inr (False, (cert, key), acc, [], st)
              else bind_outcome
                (if BROADBAND (flags (su_disc S))
                 then bind_outcome (dp_wlistInit (su_shm S) (dp st)) (\<lambda>(ret, d). Inr (st\<lparr>dp := d\<rparr>))
                 else Inr st)
                (\<lambda>st. Inr (True, (cert, key), acc, device_protection_types, st)))
           else Inr (False, (cert, key), acc, [], st)))))"

definition disc_main :: "startup_env \<Rightarrow> string list \<Rightarrow> main_result outcome" where
  "disc_main S argv =
     (if length argv < 2 then Inr Exit_failure
      else let rfc = check_rfc (flags (su_disc S)) (su_ENABLE_RFC S) (su_refactor S) in
      bind_outcome (readconffile rfc (su_keyfile S)) (\<lambda>conf.
      (case conf of
         None \<Rightarrow> Inr Exit_failure
       | Some c \<Rightarrow>
           bind_outcome (choose_interface (su_addrs S) c []) (\<lambda>chosen.
           (case chosen of
              None \<Rightarrow> Inr Exit_failure
            | Some (c, ip) \<Rightarrow>
                (let mac = getmacaddress (su_socket S) (su_hwaddr S) (su_hwjunk S) in
                 if \<not> su_context S then Inr Exit_failure
                 else let iarm = XUPnP_IARM_Init S in
                 bind_outcome (start_device_protection S c rfc (disc_start ip)) (\<lambda>(rfc, files, acc, cps, st).
                 bind_outcome (fetch_serialnum (su_disc S) st) (\<lambda>st.
                 Inr (Running \<lparr>r_conf = c, r_own = \<lparr>accountId = acc, bcastmac = mac\<rparr>, r_rfc = rfc,
                   r_files = files, r_iarm = iarm, r_watched = cps @ [basic_type], r_state = st\<rparr>)))))))))"

subsection \<open>The verifying thread\<close>

text \<open>
  The locals of \<open>verify_devices\<close>, and what one round of its loop asks of the control points. \<open>None\<close>
  is the exit for a restart of the service.
\<close>

record verify_locals =
  sleepCounter :: c_uint
  browserDisableEnableCounter :: c_uint
  selfDiscoveryFailCount :: c_uint

datatype browser_call = Rescan string | Set_active bool

definition verify_round ::
  "disc_env \<Rightarrow> bool \<Rightarrow> bool \<Rightarrow> verify_locals \<Rightarrow> disc_state \<Rightarrow> (verify_locals \<times> disc_state \<times> browser_call list) option" where
  "verify_round E marker_exists marker_created v st =
     (if deviceAddNo st \<noteq> 0 then Some (v\<lparr>sleepCounter := sleepCounter v + 1\<rparr>, st, [])
      else let lost = \<not> BROADBAND (flags E) \<and> \<not> selfDeviceDiscovered st \<and> \<not> marker_exists in
      if lost \<and> selfDiscoveryFailCount v \<ge> 20 \<and> marker_created then None
      else let v = (if lost \<and> \<not> selfDiscoveryFailCount v \<ge> 20
                    then v\<lparr>selfDiscoveryFailCount := selfDiscoveryFailCount v + 1\<rparr> else v)\<lparr>sleepCounter := 0\<rparr> in
      if CLIENT_XCAL_SERVER (flags E) \<and> partialDiscovery st \<and> gatewayDetected st = 0 \<and>
         browserDisableEnableCounter v \<le> 2 then
        Some (v\<lparr>browserDisableEnableCounter := browserDisableEnableCounter v + 1\<rparr>,
              st\<lparr>partialDiscovery := False\<rparr>, [Set_active False, Set_active True])
      else Some (v, st, (if rfc_enabled E then map Rescan device_protection_types else []) @ [Rescan basic_type]))"

definition verify_start :: verify_locals where
  "verify_start = \<lparr>sleepCounter = 0, browserDisableEnableCounter = 0, selfDiscoveryFailCount = 0\<rparr>"

text \<open>Rounds of the thread, each in an environment and a state of the service of its own.\<close>

fun verify_rounds ::
  "(disc_env \<times> bool \<times> bool \<times> disc_state) list \<Rightarrow> verify_locals \<Rightarrow> (verify_locals \<times> browser_call list) option" where
  "verify_rounds [] v = Some (v, [])"
| "verify_rounds ((E, marker_exists, marker_created, st) # rounds) v =
     (case verify_round E marker_exists marker_created v st of
        None \<Rightarrow> None
      | Some (v, st, acts) \<Rightarrow> map_option (\<lambda>(v, more). (v, acts @ more)) (verify_rounds rounds v))"

subsection \<open>What the start leaves\<close>

lemma start_device_protection_result:
  assumes "start_device_protection S c rfc st = Inr (rfc', (cert, key), acc, cps, st')"
  shows "xdevlist st' = xdevlist st \<and> deviceAddNo st' = deviceAddNo st \<and> next_addr st' = next_addr st \<and>
    ipaddress st' = ipaddress st \<and> cps = (if rfc' then device_protection_types else []) \<and>
    (rfc' \<longrightarrow> rfc \<and> su_exists S cert \<and> su_exists S key \<and> su_exists S ca_File)"
  using assms
  by (auto simp: start_device_protection_def bind_outcome_Inr_iff split: if_splits prod.splits)

lemma try_interface_const:
  assumes "\<And>i. addrs i = Some ifas"
  shows "fst (try_interface addrs t (Suc n) k buf) = (of_interface False t ifas \<noteq> [])"
  using assms
  by (induction n arbitrary: k buf) (auto simp: getipaddress_def getip_loop_spec split: list.splits prod.splits)

lemma select_interface_const:
  assumes "\<And>i. addrs i = Some ifas"
  shows "fst (select_interface addrs ts k buf) =
    List.find (\<lambda>t. t \<noteq> [] \<and> of_interface False t ifas \<noteq> []) (map g_strstrip ts)"
proof (induction ts arbitrary: k buf)
  case (Cons t ts)
  let ?t = "g_strstrip t"
  obtain ready k' buf' where t: "try_interface addrs ?t 4 k buf = (ready, k', buf')"
    by (cases "try_interface addrs ?t 4 k buf")
  have "ready = (of_interface False ?t ifas \<noteq> [])"
    using try_interface_const [of addrs ifas ?t 3 k buf, OF assms] t by (simp add: numeral_eq_Suc)
  then show ?case using Cons t by (simp add: Let_def)
qed simp

lemma select_interface_unlisted:
  assumes "\<And>i. addrs i = None"
  shows "select_interface addrs ts k buf =
    (List.find (\<lambda>t. t \<noteq> []) (map g_strstrip ts), buf)"
  by (induction ts arbitrary: k buf) (auto simp: Let_def getipaddress_def assms numeral_eq_Suc)

lemma disc_main_Running:
  assumes "disc_main S argv = Inr (Running r)"
  shows "\<exists>c c0 ip acc rfc cps cert key st1.
    readconffile (check_rfc (flags (su_disc S)) (su_ENABLE_RFC S) (su_refactor S)) (su_keyfile S) = Inr (Some c0) \<and>
    choose_interface (su_addrs S) c0 [] = Inr (Some (c, ip)) \<and>
    start_device_protection S c (check_rfc (flags (su_disc S)) (su_ENABLE_RFC S) (su_refactor S)) (disc_start ip)
      = Inr (rfc, (cert, key), acc, cps, st1) \<and>
    fetch_serialnum (su_disc S) st1 = Inr (r_state r) \<and>
    r_rfc r = rfc \<and> r_files r = (cert, key) \<and> r_watched r = cps @ [basic_type] \<and> r_conf r = c"
  using assms
  by (simp add: disc_main_def Let_def bind_outcome_Inr_iff split: if_splits option.splits prod.splits)
     fastforce

lemma disc_main_state:
  assumes "disc_main S argv = Inr (Running r)"
  shows "xdevlist (r_state r) = [] \<and> deviceAddNo (r_state r) = 0"
proof -
  obtain c c0 ip acc rfc cps cert key st1 where
      "start_device_protection S c (check_rfc (flags (su_disc S)) (su_ENABLE_RFC S) (su_refactor S)) (disc_start ip)
        = Inr (rfc, (cert, key), acc, cps, st1)"
      "fetch_serialnum (su_disc S) st1 = Inr (r_state r)"
    using disc_main_Running [OF assms] by blast
  then show ?thesis
    using start_device_protection_result fetch_serialnum_frame
    by (fastforce simp: disc_start_def)
qed

subsection \<open>Rounds of the verifying thread\<close>

text \<open>What one round does to the counters.\<close>

definition lost_round :: "disc_env \<times> bool \<times> bool \<times> disc_state \<Rightarrow> bool" where
  "lost_round = (\<lambda>(E, marker_exists, marker_created, st).
     deviceAddNo st = 0 \<and> \<not> BROADBAND (flags E) \<and> \<not> selfDeviceDiscovered st \<and> \<not> marker_exists)"

lemma counter_bump: "(c :: c_uint) < 20 \<Longrightarrow> unat (c + 1) = Suc (unat c)"
  by (simp add: unat_word_ariths word_less_nat_alt)

lemma reset_bump: "(c :: c_uint) \<le> 2 \<Longrightarrow> unat (c + 1) = Suc (unat c)"
  by (simp add: unat_word_ariths word_le_nat_alt)

lemma bump_bound: "(c :: c_uint) < 20 \<Longrightarrow> c + 1 \<le> 20"
  using counter_bump [of c] by (simp add: word_le_nat_alt word_less_nat_alt)

lemma verify_round_shape:
  assumes "verify_round E me mc v st = Some (v', st', acts)"
  shows "selfDiscoveryFailCount v' = (if lost_round (E, me, mc, st) \<and> selfDiscoveryFailCount v < 20
       then selfDiscoveryFailCount v + 1 else selfDiscoveryFailCount v) \<and>
    (browserDisableEnableCounter v' = browserDisableEnableCounter v \<and> Set_active True \<notin> set acts \<or>
     browserDisableEnableCounter v' = browserDisableEnableCounter v + 1 \<and>
       browserDisableEnableCounter v \<le> 2 \<and> acts = [Set_active False, Set_active True])"
proof (cases "deviceAddNo st = 0")
  case False
  then show ?thesis using assms by (auto simp: verify_round_def lost_round_def)
next
  case True
  note z = True
  let ?lost = "lost_round (E, me, mc, st)"
  let ?v = "(if ?lost \<and> \<not> selfDiscoveryFailCount v \<ge> 20
      then v\<lparr>selfDiscoveryFailCount := selfDiscoveryFailCount v + 1\<rparr> else v)\<lparr>sleepCounter := 0\<rparr>"
  have l: "(\<not> BROADBAND (flags E) \<and> \<not> selfDeviceDiscovered st \<and> \<not> me) = ?lost"
    using z by (simp add: lost_round_def)
  have f: "selfDiscoveryFailCount ?v = (if ?lost \<and> selfDiscoveryFailCount v < 20
       then selfDiscoveryFailCount v + 1 else selfDiscoveryFailCount v)"
    "browserDisableEnableCounter ?v = browserDisableEnableCounter v"
    by (simp_all add: not_le)
  have eq: "verify_round E me mc v st =
     (if ?lost \<and> selfDiscoveryFailCount v \<ge> 20 \<and> mc then None
      else if CLIENT_XCAL_SERVER (flags E) \<and> partialDiscovery st \<and> gatewayDetected st = 0 \<and>
         browserDisableEnableCounter ?v \<le> 2 then
        Some (?v\<lparr>browserDisableEnableCounter := browserDisableEnableCounter ?v + 1\<rparr>,
              st\<lparr>partialDiscovery := False\<rparr>, [Set_active False, Set_active True])
      else Some (?v, st, (if rfc_enabled E then map Rescan device_protection_types else []) @ [Rescan basic_type]))"
    using z unfolding verify_round_def Let_def l by simp
  consider (reset) "v' = ?v\<lparr>browserDisableEnableCounter := browserDisableEnableCounter ?v + 1\<rparr>"
      "acts = [Set_active False, Set_active True]" "browserDisableEnableCounter ?v \<le> 2"
    | (scan) "v' = ?v" "acts = (if rfc_enabled E then map Rescan device_protection_types else []) @ [Rescan basic_type]"
    using assms unfolding eq by (simp split: if_split_asm)
  then show ?thesis
  proof cases
    case reset
    then show ?thesis using f by simp
  next
    case scan
    then show ?thesis using f by auto
  qed
qed

lemma verify_round_counts:
  assumes "verify_round E me mc v st = Some (v', st', acts)" "selfDiscoveryFailCount v \<le> 20"
  shows "unat (selfDiscoveryFailCount v') =
      (if lost_round (E, me, mc, st) \<and> selfDiscoveryFailCount v < 20
       then Suc (unat (selfDiscoveryFailCount v)) else unat (selfDiscoveryFailCount v)) \<and>
    unat (browserDisableEnableCounter v') =
      unat (browserDisableEnableCounter v) + length (filter (\<lambda>a. a = Set_active True) acts) \<and>
    (filter (\<lambda>a. a = Set_active True) acts \<noteq> [] \<longrightarrow>
       browserDisableEnableCounter v \<le> 2 \<and> length (filter (\<lambda>a. a = Set_active True) acts) = 1) \<and>
    selfDiscoveryFailCount v' \<le> 20"
proof -
  note S = verify_round_shape [OF assms(1)]
  have none: "Set_active True \<notin> set acts \<Longrightarrow> filter (\<lambda>a. a = Set_active True) acts = []"
    by (auto simp: filter_empty_conv)
  show ?thesis
    using S none assms(2) counter_bump [of "selfDiscoveryFailCount v"] bump_bound [of "selfDiscoveryFailCount v"]
      reset_bump [of "browserDisableEnableCounter v"] by fastforce
qed

lemma verify_round_None:
  "verify_round E me mc v st = None \<longleftrightarrow>
     lost_round (E, me, mc, st) \<and> selfDiscoveryFailCount v \<ge> 20 \<and> mc"
  by (auto simp: verify_round_def lost_round_def Let_def)

lemma verify_rounds_lost:
  assumes "\<forall>x \<in> set rounds. lost_round x \<and> fst (snd (snd x))" "selfDiscoveryFailCount v \<le> 20"
  shows "verify_rounds rounds v = None \<longleftrightarrow> unat (selfDiscoveryFailCount v) + length rounds > 20"
  using assms
proof (induction rounds arbitrary: v)
  case Nil
  then show ?case by (simp add: word_le_nat_alt)
next
  case (Cons x rounds)
  obtain E me mc st where x: "x = (E, me, mc, st)" by (cases x) auto
  have l: "lost_round (E, me, mc, st)" "mc" using Cons.prems(1) x by auto
  show ?case
  proof (cases "verify_round E me mc v st")
    case None
    then have "selfDiscoveryFailCount v \<ge> 20" by (simp add: verify_round_None)
    then show ?thesis using None x by (simp add: word_le_nat_alt)
  next
    case (Some y)
    obtain v' st' acts where y: "y = (v', st', acts)" by (cases y) auto
    have lt: "selfDiscoveryFailCount v < 20"
      using Some l verify_round_None [of E me mc v st] by (auto simp: not_le)
    note C = verify_round_counts [OF Some [unfolded y] Cons.prems(2)]
    have "verify_rounds rounds v' = None \<longleftrightarrow> unat (selfDiscoveryFailCount v') + length rounds > 20"
      using Cons.IH [of v'] Cons.prems(1) C by auto
    then show ?thesis using Some y x C l lt by auto
  qed
qed

lemma verify_rounds_resets:
  "verify_rounds rounds v = Some (v', acts) \<Longrightarrow> selfDiscoveryFailCount v \<le> 20 \<Longrightarrow>
   unat (browserDisableEnableCounter v) \<le> 3 \<Longrightarrow>
     unat (browserDisableEnableCounter v') =
       unat (browserDisableEnableCounter v) + length (filter (\<lambda>a. a = Set_active True) acts) \<and>
     unat (browserDisableEnableCounter v') \<le> 3"
proof (induction rounds arbitrary: v acts)
  case (Cons x rounds)
  obtain E me mc st where x: "x = (E, me, mc, st)" by (cases x) auto
  obtain v1 st1 acts1 more where r: "verify_round E me mc v st = Some (v1, st1, acts1)"
      "verify_rounds rounds v1 = Some (v', more)" "acts = acts1 @ more"
    using Cons.prems(1) x by (auto split: option.splits)
  note C = verify_round_counts [OF r(1) Cons.prems(2)]
  have "browserDisableEnableCounter v \<le> 2 \<Longrightarrow> unat (browserDisableEnableCounter v) \<le> 2"
    by (simp add: word_le_nat_alt)
  then have "unat (browserDisableEnableCounter v1) \<le> 3"
    using C Cons.prems(3) by (cases "filter (\<lambda>a. a = Set_active True) acts1 = []") auto
  with Cons.IH [OF r(2)] C r(3) show ?case by simp
qed simp

subsection \<open>Properties\<close>

text \<open>
  When the addresses do not change while \<open>main\<close> chooses, it takes the first interface of the
  list, stripped of white space, that has an IPv4 address; when the system cannot list addresses,
  the first name is taken with an empty address, as the error code counts as a success.
\<close>

theorem interface_choice:
  "fst (select_interface (\<lambda>_. Some ifas) ts k buf) =
     List.find (\<lambda>t. t \<noteq> [] \<and> of_interface False t ifas \<noteq> []) (map g_strstrip ts) \<and>
   select_interface (\<lambda>_. None) ts k buf = (List.find (\<lambda>t. t \<noteq> []) (map g_strstrip ts), buf)"
  using select_interface_const [of "\<lambda>_. Some ifas" ifas ts k buf]
    select_interface_unlisted [of "\<lambda>_. None" ts k buf] by simp

text \<open>
  C18. When \<open>main\<close> ends up with the refactored discovery on, the three secure control points are
  active beside the basic one, the certificate, the key and the authority exist, and the remote
  setting asked for it; otherwise the basic control point alone is active. The device list is
  empty and no addition is running.
\<close>

theorem main_watches:
  assumes "disc_main S argv = Inr (Running r)"
  shows "r_watched r = (if r_rfc r then device_protection_types else []) @ [basic_type] \<and>
    (r_rfc r \<longrightarrow> check_rfc (flags (su_disc S)) (su_ENABLE_RFC S) (su_refactor S) \<and>
       su_exists S (fst (r_files r)) \<and> su_exists S (snd (r_files r)) \<and> su_exists S ca_File) \<and>
    xdevlist (r_state r) = [] \<and> deviceAddNo (r_state r) = 0"
proof -
  obtain c c0 ip acc rfc cps cert key st1 where
      "start_device_protection S c (check_rfc (flags (su_disc S)) (su_ENABLE_RFC S) (su_refactor S)) (disc_start ip)
        = Inr (rfc, (cert, key), acc, cps, st1)"
      "r_rfc r = rfc" "r_files r = (cert, key)" "r_watched r = cps @ [basic_type]"
    using disc_main_Running [OF assms] by blast
  with disc_main_state [OF assms] start_device_protection_result show ?thesis by fastforce
qed

definition sample_startup :: startup_env where
  "sample_startup = \<lparr>su_disc = sample_env,
     su_keyfile = Some \<lparr>kf_string = (\<lambda>g k. if k = ''discIf'' then Some ''eth1'' else if k = ''GwIf'' then Some ''eth'' else None),
       kf_integer = (\<lambda>g k. 50), kf_boolean = (\<lambda>g k. True)\<rparr>,
     su_ENABLE_RFC = True, su_refactor = Some ''true'', su_xpki = Some ''true'', su_account = Some ''42'',
     su_addrs = (\<lambda>_. Some [\<lparr>ifa_name = ''eth1'', ifa_addr = Some (AF_INET ''10.0.0.1'')\<rparr>]),
     su_socket = True, su_hwaddr = Some [1, 2, 3, 4, 5, 6], su_hwjunk = [0, 0, 0, 0, 0, 0],
     su_context = True, su_dp_context = True, su_bus_init = True, su_bus_connect = True,
     su_exists = (\<lambda>f. True), su_absolute = (\<lambda>f. False), su_build_filename = (\<lambda>p f. []), su_shm = shm_zero\<rparr>"

definition good_startup :: startup_env where
  "good_startup = sample_startup\<lparr>su_keyfile := Some
     \<lparr>kf_string = (\<lambda>g k. if k = ''discIf'' then Some ''eth1'' else if k = ''GwIf'' then Some ''eth1'' else None),
       kf_integer = (\<lambda>g k. 50), kf_boolean = (\<lambda>g k. True)\<rparr>\<rparr>"

lemma strip_eth1: "g_strstrip ''eth1'' = ''eth1''"
  by (rule g_strstrip_stripped) (simp add: stripped_def g_ascii_isspace_def)

lemma sample_selection:
  "select_interface (su_addrs sample_startup) (g_strsplit_set ''eth1'' '','') 0 [] = (Some ''eth1'', ''10.0.0.1'')"
  by (simp add: sample_startup_def g_strsplit_set_def strip_eth1 Let_def getipaddress_def numeral_eq_Suc)

lemma good_startup_runs: "\<exists>r. disc_main good_startup [''xdiscovery'', ''xdiscovery.conf''] = Inr (Running r) \<and> r_rfc r"
proof -
  have "su_addrs good_startup = su_addrs sample_startup" by (simp add: good_startup_def)
  then show ?thesis
    using sample_selection
    by (simp add: disc_main_def good_startup_def readconffile_def choose_interface_def Let_def g_stpcpy_def)
       (simp add: sample_startup_def check_rfc_def strncmp_def sample_env_def sample_flags_def
         start_device_protection_def fetch_serialnum_def getserialnum_def case_prod_beta Let_def
         getAccountId_def handshake_files_def xPKI_check_rfc_def)
qed

theorem main_watches_witness:
  "\<exists>r. disc_main good_startup [''xdiscovery'', ''xdiscovery.conf''] = Inr (Running r) \<and>
     r_watched r = device_protection_types @ [basic_type]"
proof -
  obtain r where r: "disc_main good_startup [''xdiscovery'', ''xdiscovery.conf''] = Inr (Running r)" "r_rfc r"
    using good_startup_runs by blast
  from main_watches [OF r(1)] r show ?thesis by auto
qed

text \<open>
  A chosen interface with a longer name than the configured gateway interface overruns the
  string of the latter.
\<close>

theorem interface_name_overrun:
  assumes "select_interface addrs (g_strsplit_set d '','') 0 buf = (Some t, ip)"
    "discIf c = Some d" "cf_gwIf c = Some g" "length g < length t"
  shows "choose_interface addrs c buf = Inl Out_of_bounds"
  using assms by (simp add: choose_interface_def g_stpcpy_def)

theorem interface_name_overrun_witness:
  "disc_main sample_startup [''xdiscovery'', ''xdiscovery.conf''] = Inl Out_of_bounds"
proof -
  obtain c where c: "readconffile (check_rfc (flags (su_disc sample_startup)) (su_ENABLE_RFC sample_startup)
        (su_refactor sample_startup)) (su_keyfile sample_startup) = Inr (Some c)"
      and d: "discIf c = Some ''eth1''" "cf_gwIf c = Some ''eth''"
    by (simp add: sample_startup_def readconffile_def Let_def)
  have "choose_interface (su_addrs sample_startup) c [] = Inl Out_of_bounds"
    by (rule interface_name_overrun [OF sample_selection d]) simp
  with c show ?thesis by (simp add: disc_main_def Let_def)
qed



end
