(* ===== verification/Idm_Server.thy ===== *)
theory Idm_Server
  imports Services Net_Lib "HOL-Library.Sublist"
begin

text \<open>
  The server side of the interdevice manager, \<open>src/idm_server.c\<close>, with \<open>getAccountId\<close> of
  \<open>src/idm_library.c\<close>: the device description and its two nodes, the receiver id, the handlers
  of the service and the start of the server.
\<close>

subsection \<open>Build and state\<close>

definition MAC_ADDR_SIZE :: nat where "MAC_ADDR_SIZE = 18"
definition IPv4_ADDR_SIZE :: nat where "IPv4_ADDR_SIZE = 16"
definition IPv6_ADDR_SIZE :: nat where "IPv6_ADDR_SIZE = 128"
definition ACCOUNTID_SIZE :: nat where "ACCOUNTID_SIZE = 30"

record idm_server =
  clientIp :: string
  bcastMacaddress :: string
  gwyIpv6 :: string
  s_interface :: string
  s_accountId :: string
  uUid :: string
  recv_id :: string
  s_serial_num :: string

subsection \<open>The account\<close>

text \<open>
  \<open>getAccountId\<close> of \<open>idm_library.c\<close>: at most 29 characters of the configured account are copied
  over the caller's buffer, which the callers have cleared. On a broadband build \<open>syscfg_get\<close> has
  cut the value to the size of its own buffer before. \<open>None\<close> is a failed look-up.
\<close>

definition idm_getAccountId :: "string option \<Rightarrow> string \<Rightarrow> bool \<times> string" where
  "idm_getAccountId answer outValue =
     (case answer of Some a \<Rightarrow> (True, take (ACCOUNTID_SIZE - 1) a) | None \<Rightarrow> (False, outValue))"

subsection \<open>The service\<close>

text \<open>
  The handlers connected to the service in \<open>idm_server_start\<close>: each sets the output of its action.
  The secure service has an action for the account, which is looked up anew for each call.
\<close>

definition get_bcastmacaddress_cb :: "idm_server \<Rightarrow> string \<Rightarrow> gvalue option" where
  "get_bcastmacaddress_cb s = [''BcastMacAddress'' \<mapsto> G_STRING (bcastMacaddress s)]"

definition get_client_ip_cb :: "idm_server \<Rightarrow> string \<Rightarrow> gvalue option" where
  "get_client_ip_cb s = [''ClientIP'' \<mapsto> G_STRING (clientIp s)]"

definition get_gwyipv6_cb :: "idm_server \<Rightarrow> string \<Rightarrow> gvalue option" where
  "get_gwyipv6_cb s = [''GatewayIPv6'' \<mapsto> G_STRING (gwyIpv6 s)]"

definition get_account_id_cb :: "string option \<Rightarrow> idm_server \<Rightarrow> (string \<Rightarrow> gvalue option) \<times> idm_server" where
  "get_account_id_cb account s =
     (let s = s\<lparr>s_accountId := snd (idm_getAccountId account [])\<rparr>
      in ([''AccountId'' \<mapsto> G_STRING (s_accountId s)], s))"

definition query_bcastmacaddress_cb :: "idm_server \<Rightarrow> gvalue" where
  "query_bcastmacaddress_cb s = G_STRING (bcastMacaddress s)"

definition query_client_ip_cb :: "idm_server \<Rightarrow> gvalue" where
  "query_client_ip_cb s = G_STRING (clientIp s)"

definition query_gwyipv6_cb :: "idm_server \<Rightarrow> gvalue" where
  "query_gwyipv6_cb s = G_STRING (gwyIpv6 s)"

definition query_account_id_cb :: "idm_server \<Rightarrow> gvalue" where
  "query_account_id_cb s = G_STRING (s_accountId s)"

definition idm_service :: "bool \<Rightarrow> string option \<Rightarrow> idm_server \<Rightarrow> service_proxy" where
  "idm_service IDM_DEBUG account s action args =
     (if action = ''GetBcastMacAddress'' then Some (get_bcastmacaddress_cb s)
      else if action = ''GetClientIP'' then Some (get_client_ip_cb s)
      else if action = ''GetGatewayIPv6'' then Some (get_gwyipv6_cb s)
      else if action = ''GetAccountId'' \<and> \<not> IDM_DEBUG then Some (fst (get_account_id_cb account s))
      else None)"

subsection \<open>The device description\<close>

text \<open>
  A description as the XML library holds it: elements with their children, and text nodes, whose
  name is \<open>text\<close>.
\<close>

datatype xml = Elem string "xml list" | Text string

fun xml_name :: "xml \<Rightarrow> string" where
  "xml_name (Elem n cs) = n"
| "xml_name (Text s) = ''text''"

text \<open>
  \<open>get_node_by_name\<close> walks a list of siblings and, before the next sibling, the children of each:
  the answer is the path of the node found. \<open>strcmp_s\<close> refuses an empty name.
\<close>

fun get_node_by_name :: "xml list \<Rightarrow> string \<Rightarrow> nat list option" where
  "get_node_by_name [] node_name = None"
| "get_node_by_name (Text s # rest) node_name =
     (if node_name = ''text'' then Some [0]
      else map_option (\<lambda>p. Suc (hd p) # tl p) (get_node_by_name rest node_name))"
| "get_node_by_name (Elem n cs # rest) node_name =
     (if n \<noteq> [] \<and> n = node_name then Some [0]
      else (case get_node_by_name cs node_name of
              Some p \<Rightarrow> Some (0 # p)
            | None \<Rightarrow> map_option (\<lambda>p. Suc (hd p) # tl p) (get_node_by_name rest node_name)))"

fun xmlNodeSetContent :: "xml list \<Rightarrow> nat list \<Rightarrow> string \<Rightarrow> xml list" where
  "xmlNodeSetContent (Elem n cs # rest) [0] v = Elem n [Text v] # rest"
| "xmlNodeSetContent (Text s # rest) [0] v = Text v # rest"
| "xmlNodeSetContent (Elem n cs # rest) (0 # p) v = Elem n (xmlNodeSetContent cs p v) # rest"
| "xmlNodeSetContent (x # rest) (Suc i # p) v = x # xmlNodeSetContent rest (i # p) v"
| "xmlNodeSetContent xs p v = xs"

definition set_content :: "xml list \<Rightarrow> string \<Rightarrow> string \<Rightarrow> int \<times> xml list" where
  "set_content doc node_name new_value =
     (case get_node_by_name doc node_name of
        None \<Rightarrow> (1, doc)
      | Some p \<Rightarrow> (0, xmlNodeSetContent doc p new_value))"

text \<open>
  \<open>updatexmldata\<close>: the answer and the contents of the file afterwards. The file is emptied when
  it is opened for writing; the dump may fail after that.
\<close>

record xml_file =
  xml_parsed :: "xml list option"
  xml_openable :: bool
  xml_dump_ok :: bool

definition updatexmldata :: "xml_file \<Rightarrow> string \<Rightarrow> string \<Rightarrow> bool \<times> xml list option" where
  "updatexmldata f struuid serialno =
     (case xml_parsed f of
        None \<Rightarrow> (False, None)
      | Some doc0 \<Rightarrow>
          (case set_content doc0 ''UDN'' struuid of (r, doc) \<Rightarrow>
             if r \<noteq> 0 then (False, Some doc0)
             else (case set_content doc ''serialNumber'' serialno of (r, doc) \<Rightarrow>
               if r \<noteq> 0 then (False, Some doc0)
               else if \<not> xml_openable f then (False, Some doc0)
               else if \<not> xml_dump_ok f then (False, None)
               else (True, Some doc))))"

subsection \<open>The receiver id\<close>

text \<open>
  \<open>getUidfromRecvId\<close> reads six tokens of the address whenever there is one. The array ends with
  a NULL, which \<open>g_strstrip\<close> hands on and \<open>g_string_printf\<close> prints as \<open>(null)\<close>; after it the array
  is over.
\<close>

definition token_at :: "string list \<Rightarrow> nat \<Rightarrow> string outcome" where
  "token_at tokens i =
     (if i < length tokens then Inr (g_strstrip (tokens ! i))
      else if i = length tokens then Inr ''(null)'' else Inl Out_of_bounds)"

fun tokens_from :: "string list \<Rightarrow> nat \<Rightarrow> nat \<Rightarrow> string outcome" where
  "tokens_from tokens i 0 = Inr []"
| "tokens_from tokens i (Suc n) =
     bind_outcome (token_at tokens i) (\<lambda>t.
       bind_outcome (tokens_from tokens (Suc i) n) (\<lambda>ts. Inr (t @ ts)))"

definition uid_prefix :: string where "uid_prefix = ''ebf5a0a0-1dd1-11b2-a90f-''"

definition getUidfromRecvId :: "idm_server \<Rightarrow> (bool \<times> idm_server) outcome" where
  "getUidfromRecvId s =
     (let tokens = g_strsplit_set (bcastMacaddress s) [CHR 0x27, CHR '':'', CHR 0x0A] in
      if tokens = [] then Inr (False, s)
      else bind_outcome (tokens_from tokens 0 6) (\<lambda>ts.
             Inr (True, s\<lparr>recv_id := uid_prefix @ ts\<rparr>)))"

definition getUUID :: "idm_server \<Rightarrow> (bool \<times> idm_server) outcome" where
  "getUUID s =
     bind_outcome (getUidfromRecvId s) (\<lambda>(ok, s).
       if ok \<and> recv_id s \<noteq> [] then Inr (True, s\<lparr>uUid := ''uuid:'' @ recv_id s\<rparr>)
       else Inr (False, s))"

subsection \<open>The own serial number\<close>

text \<open>
  Where the number comes from: the build, the vendor file, the hardware layer and the manufacturer
  library, whose answer may be empty.
\<close>

record serial_env =
  sn_client :: bool
  sn_broadband :: bool
  sn_vendor_file :: "string option"
  sn_hal :: "string option"
  sn_mfr :: "string option"

text \<open>
  \<open>getserialnum\<close> of \<open>src/idm_library.c\<close>, on the string of the caller; the flag it sets as well is not
  read in this library. In the broadband build of a client a hardware layer without a number makes
  \<open>g_error\<close> end the process.
\<close>

definition idm_getserialnum :: "serial_env \<Rightarrow> string \<Rightarrow> (bool \<times> string) outcome" where
  "idm_getserialnum S sno =
     (if \<not> sn_client S then
        (case sn_vendor_file S of
           None \<Rightarrow> Inr (False, sno)
         | Some contents \<Rightarrow>
             (let tokens = g_strsplit_set contents [CHR '' '', CHR 0x0A, CHR 0x09, CHR 0x08]
              in case scan_tokens tokens (length tokens) 0 of (result, v, found) \<Rightarrow>
                Inr (result, case v of Some s \<Rightarrow> s | None \<Rightarrow> sno)))
      else if sn_broadband S then
        (case sn_hal S of Some s \<Rightarrow> Inr (True, s) | None \<Rightarrow> Inl Fatal_error)
      else (case sn_mfr S of Some s \<Rightarrow> Inr (True, s) | None \<Rightarrow> Inr (False, sno)))"

lemma idm_getserialnum_fatal:
  "idm_getserialnum S sno = Inl e \<longleftrightarrow> e = Fatal_error \<and> sn_client S \<and> sn_broadband S \<and> sn_hal S = None"
  by (auto simp: idm_getserialnum_def Let_def split: option.splits prod.splits)

subsection \<open>Start of the server\<close>

record idm_server_env =
  se_addrs :: "nat \<Rightarrow> ifaddrs list option"
  se_serial :: serial_env
  se_files :: bool
  se_context :: bool
  se_service :: bool
  se_xml :: xml_file

text \<open>
  The interface name is copied into 16 bytes; \<open>strcpy_s\<close> refuses an address that does not fit and
  leaves an empty string. The result is 1 when the insecure build gets no
  context or no service. The third component is the description written, the last tells whether
  the service is on the network.
\<close>

definition idm_server_start ::
  "bool \<Rightarrow> idm_server_env \<Rightarrow> string \<Rightarrow> string \<Rightarrow> idm_server \<Rightarrow> (int \<times> idm_server \<times> xml list option \<times> bool) outcome" where
  "idm_server_start IDM_DEBUG E Interface base_mac s =
     (if length Interface \<ge> IPv4_ADDR_SIZE then Inl Out_of_bounds
      else bind_outcome (idm_getserialnum (se_serial E) []) (\<lambda>(_, sno).
      let s = s\<lparr>s_interface := Interface,
                    clientIp := snd (idm_getipaddress (se_addrs E 0) Interface (clientIp s) False),
                    s_serial_num := sno,
                    gwyIpv6 := snd (idm_getipaddress (se_addrs E 1) Interface (gwyIpv6 s) True)\<rparr> in
      let s = s\<lparr>bcastMacaddress := (if length base_mac < MAC_ADDR_SIZE then base_mac else [])\<rparr>;
          xml0 = xml_parsed (se_xml E) in
      if \<not> IDM_DEBUG then
        (if \<not> se_files E then Inr (0, s, xml0, False)
         else let s = s\<lparr>bcastMacaddress := g_strstrip (bcastMacaddress s)\<rparr>;
                  doc = snd (updatexmldata (se_xml E) (''uuid:'' @ bcastMacaddress s) (s_serial_num s)) in
              Inr (0, s, doc, se_context E \<and> se_service E))
      else bind_outcome (getUUID (s\<lparr>recv_id := []\<rparr>)) (\<lambda>(ok, s).
             let doc = snd (updatexmldata (se_xml E) (uUid s) (s_serial_num s)) in
             if \<not> se_context E then Inr (1, s, doc, False)
             else if \<not> se_service E then Inr (1, s, doc, False)
             else Inr (0, s, doc, True))))"

subsection \<open>Finding and changing a node\<close>

fun preorder :: "xml list \<Rightarrow> (nat list \<times> string) list" where
  "preorder [] = []"
| "preorder (Text s # rest) =
     ([0], ''text'') # map (\<lambda>(p, m). (Suc (hd p) # tl p, m)) (preorder rest)"
| "preorder (Elem n cs # rest) =
     ([0], n) # map (\<lambda>(p, m). (0 # p, m)) (preorder cs)
       @ map (\<lambda>(p, m). (Suc (hd p) # tl p, m)) (preorder rest)"

fun node_at :: "xml list \<Rightarrow> nat list \<Rightarrow> xml option" where
  "node_at [] p = None"
| "node_at xs [] = None"
| "node_at (x # xs) [0] = Some x"
| "node_at (Text s # xs) (0 # i # p) = None"
| "node_at (Elem n cs # xs) (0 # i # p) = node_at cs (i # p)"
| "node_at (x # xs) (Suc i # p) = node_at xs (i # p)"

fun xml_content :: "xml \<Rightarrow> string" where
  "xml_content (Elem n cs) = concat (map xml_content cs)"
| "xml_content (Text s) = s"

lemma find_append: "List.find P (xs @ ys) = (case List.find P xs of Some x \<Rightarrow> Some x | None \<Rightarrow> List.find P ys)"
  by (induction xs) auto

lemma find_map: "List.find P (map f xs) = map_option f (List.find (P \<circ> f) xs)"
  by (induction xs) auto

lemma get_node_preorder:
  "get_node_by_name doc nm = map_option fst (List.find (\<lambda>(p, m). m \<noteq> [] \<and> m = nm) (preorder doc))"
proof (induction doc nm rule: get_node_by_name.induct)
  have *: "((\<lambda>(p, m). m \<noteq> [] \<and> m = nm) \<circ> (\<lambda>(p, m). (f p, m))) = (\<lambda>(p, m). m \<noteq> [] \<and> m = nm)"
    for f :: "nat list \<Rightarrow> nat list" and nm :: string
    by (auto simp: fun_eq_iff)
  case (2 s rest nm)
  then show ?case by (auto simp: find_map * option.map_comp comp_def case_prod_beta)
next
  have *: "((\<lambda>(p, m). m \<noteq> [] \<and> m = nm) \<circ> (\<lambda>(p, m). (f p, m))) = (\<lambda>(p, m). m \<noteq> [] \<and> m = nm)"
    for f :: "nat list \<Rightarrow> nat list" and nm :: string
    by (auto simp: fun_eq_iff)
  case (3 n cs rest nm)
  then show ?case
    by (auto simp: find_append find_map * option.map_comp comp_def case_prod_beta split: option.splits)
qed simp

lemma get_node_at:
  "get_node_by_name doc nm = Some p \<Longrightarrow> p \<noteq> [] \<and> (\<exists>x. node_at doc p = Some x \<and> xml_name x = nm)"
proof (induction doc nm arbitrary: p rule: get_node_by_name.induct)
  case (2 s rest nm)
  show ?case
  proof (cases "nm = ''text''")
    case False
    with "2.prems" obtain q where q: "get_node_by_name rest nm = Some q" "p = Suc (hd q) # tl q" by auto
    with "2.IH" [OF False q(1)] show ?thesis by (cases q) auto
  qed (use "2.prems" in auto)
next
  case (3 n cs rest nm)
  show ?case
  proof (cases "n \<noteq> [] \<and> n = nm")
    case False
    note F = False
    show ?thesis
    proof (cases "get_node_by_name cs nm")
      case None
      with "3.prems" F obtain q where q: "get_node_by_name rest nm = Some q" "p = Suc (hd q) # tl q" by auto
      with "3.IH"(2) [OF F None q(1)] show ?thesis by (cases q) auto
    next
      case (Some q)
      with "3.IH"(1) [OF F Some] "3.prems" F show ?thesis by (cases q) auto
    qed
  qed (use "3.prems" in auto)
qed simp

lemma set_content_at:
  "node_at doc p = Some x \<Longrightarrow> p \<noteq> [] \<Longrightarrow>
     \<exists>y. node_at (xmlNodeSetContent doc p v) p = Some y \<and> xml_name y = xml_name x \<and> xml_content y = v"
  by (induction doc p v arbitrary: x rule: xmlNodeSetContent.induct) auto

lemma set_content_elsewhere:
  "\<not> prefix p q \<Longrightarrow> \<not> prefix q p \<Longrightarrow> node_at (xmlNodeSetContent doc p v) q = node_at doc q"
proof (induction doc p v arbitrary: q rule: xmlNodeSetContent.induct)
  case (1 n cs rest v)
  then show ?case by (cases q; cases "hd q") auto
next
  case (2 s rest v)
  then show ?case by (cases q; cases "hd q") auto
next
  case (3 n cs rest i p v)
  show ?case
  proof (cases q)
    case (Cons j q')
    show ?thesis
    proof (cases j)
      case 0
      with Cons "3.prems" have "\<not> prefix (i # p) q'" "\<not> prefix q' (i # p)" by auto
      with "3.IH" [OF this] Cons 0 show ?thesis by (cases q') auto
    qed (simp add: Cons)
  qed (use "3.prems" in simp)
next
  case (4 x rest i p v)
  show ?case
  proof (cases q)
    case (Cons j q')
    show ?thesis
    proof (cases j)
      case (Suc k)
      with Cons "4.prems" have "\<not> prefix (i # p) (k # q')" "\<not> prefix (k # q') (i # p)" by auto
      with "4.IH" [OF this] Cons Suc show ?thesis by simp
    qed (use Cons in \<open>cases x; cases q'; simp\<close>)
  qed (use "4.prems" in simp)
qed (simp_all)

lemma tokens_from_spec:
  "tokens_from tokens i n =
     (if i + n \<le> length tokens then Inr (concat (map g_strstrip (take n (drop i tokens))))
      else if i + n = length tokens + 1 \<and> n > 0 then Inr (concat (map g_strstrip (drop i tokens)) @ ''(null)'')
      else if n = 0 then Inr [] else Inl Out_of_bounds)"
proof (induction n arbitrary: i)
  case (Suc n)
  show ?case
  proof (cases "i < length tokens")
    case True
    then have d: "drop i tokens = tokens ! i # drop (Suc i) tokens" by (simp add: Cons_nth_drop_Suc)
    show ?thesis using True by (auto simp: Suc.IH token_at_def d)
  qed (auto simp: Suc.IH token_at_def)
qed simp

lemma set_content_Some:
  "set_content doc n v = (0, doc') \<Longrightarrow>
     \<exists>p. get_node_by_name doc n = Some p \<and> doc' = xmlNodeSetContent doc p v"
  by (auto simp: set_content_def split: option.splits)

subsection \<open>Properties\<close>

text \<open>
  \<open>get_node_by_name\<close> finds the first node of that name in document order, and \<open>set_content\<close>
  gives exactly that node the new content: it keeps its name, and the nodes neither above nor
  below it are as before.
\<close>

theorem set_content_first_node:
  assumes "set_content doc node_name v = (0, doc')"
  shows "\<exists>p y. map_option fst (List.find (\<lambda>(p, m). m \<noteq> [] \<and> m = node_name) (preorder doc)) = Some p \<and>
    node_at doc' p = Some y \<and> xml_name y = node_name \<and> xml_content y = v \<and>
    (\<forall>q. prefix p q \<or> prefix q p \<or> node_at doc' q = node_at doc q)"
proof -
  obtain p where p: "get_node_by_name doc node_name = Some p" "doc' = xmlNodeSetContent doc p v"
    using set_content_Some [OF assms] by blast
  obtain x where "p \<noteq> []" "node_at doc p = Some x" "xml_name x = node_name"
    using get_node_at [OF p(1)] by blast
  with set_content_at [of doc p x v] p show ?thesis
    using set_content_elsewhere [of p _ doc v] by (fastforce simp: get_node_preorder [symmetric])
qed

definition sample_description :: "xml list" where
  "sample_description = [Elem ''root'' [Text [], Elem ''device''
     [Elem ''serialNumber'' [Text ''1''], Elem ''UDN'' [Text ''uuid:0''], Elem ''UDN'' [Text ''uuid:1'']]]]"

theorem set_content_first_node_witness:
  "\<exists>y. node_at (snd (set_content sample_description ''UDN'' ''uuid:9'')) [0, 1, 1] = Some y \<and>
     xml_content y = ''uuid:9''"
proof -
  have s: "set_content sample_description ''UDN'' ''uuid:9'' =
      (0, snd (set_content sample_description ''UDN'' ''uuid:9''))"
    by (simp add: sample_description_def set_content_def)
  from set_content_first_node [OF s] show ?thesis
    by (auto simp: sample_description_def)
qed

text \<open>
  The receiver id is built from the first six tokens of the hardware address: with six or more
  it is the fixed prefix and the tokens, with five the text \<open>(null)\<close> stands for the sixth, with
  one to four the code reads past the end of the array, and an empty address gives none.
\<close>

theorem getUidfromRecvId_needs_six_tokens:
  "getUidfromRecvId s =
     (let toks = g_strsplit_set (bcastMacaddress s) [CHR 0x27, CHR '':'', CHR 0x0A] in
      if length toks \<ge> 6
      then Inr (True, s\<lparr>recv_id := uid_prefix @ concat (map g_strstrip (take 6 toks))\<rparr>)
      else if length toks = 5
      then Inr (True, s\<lparr>recv_id := uid_prefix @ concat (map g_strstrip toks) @ ''(null)''\<rparr>)
      else if toks = [] then Inr (False, s) else Inl Out_of_bounds)"
  by (auto simp: getUidfromRecvId_def Let_def tokens_from_spec)

end
