(* ===== verification/Idm_Client.thy ===== *)
theory Idm_Client
  imports Idm_Server
begin

text \<open>
  The client side of the interdevice manager, \<open>src/idm_client.c\<close> and \<open>src/idm_client.h\<close>: the list
  of peers and the callback that reports them, the arrival handlers of the secure and the insecure
  build, departures, start, stop and restart, and the thread that listens to the WAN status.
\<close>

subsection \<open>Devices and state\<close>

record idm_gwydata =
  i_serial_num :: string
  i_gwyipv6 :: string
  i_bcastmacaddress :: string
  i_receiverid :: string
  i_clientip :: string
  i_sproxy :: bool
  i_sproxy_i :: bool

definition idm_init_gwydata :: idm_gwydata where
  "idm_init_gwydata = \<lparr>i_serial_num = [], i_gwyipv6 = [], i_bcastmacaddress = [], i_receiverid = [],
     i_clientip = [], i_sproxy = False, i_sproxy_i = False\<rparr>"

text \<open>
  The arguments of the callback: the bytes of each buffer, as far as they were written.
  \<open>strncpy\<close> fills its buffer and ends it only when the string is shorter; \<open>strcpy\<close> writes the
  string and its end, wherever the buffer ends.
\<close>

record device_info_t =
  Ipv4 :: string
  Ipv6 :: string
  mac :: string

definition NUL :: char where "NUL = CHR 0x00"

definition strncpy_buf :: "nat \<Rightarrow> string \<Rightarrow> string" where
  "strncpy_buf n s = take n s @ replicate (n - length s) NUL"

definition strcpy_buf :: "nat \<Rightarrow> string \<Rightarrow> string outcome" where
  "strcpy_buf n s = (if length s < n then Inr (s @ [NUL]) else Inl Out_of_bounds)"

definition c_string :: "string \<Rightarrow> string option" where
  "c_string buf = (if NUL \<in> set buf then Some (takeWhile (\<lambda>c. c \<noteq> NUL) buf) else None)"

datatype idm_effect =
    Device_callback device_info_t nat nat
  | Free_gwydata idm_gwydata

record idm_state =
  idm_list :: "idm_gwydata list"
  idm_ownSerialNo :: string
  idm_accountId :: string
  idm_deviceAddNo :: c_uint
  idm_effects :: "idm_effect list"

definition idm_emit :: "idm_effect \<Rightarrow> idm_state \<Rightarrow> idm_state" where
  "idm_emit e st = st\<lparr>idm_effects := idm_effects st @ [e]\<rparr>"

text \<open>What the UPnP library tells of a device: number, name, and the service's proxy.\<close>

record idm_device =
  id_serial :: "string option"
  id_udn :: "string option"
  id_service :: "service_proxy option"

subsection \<open>The list\<close>

definition idm_strip :: "idm_gwydata \<Rightarrow> idm_gwydata" where
  "idm_strip d = d\<lparr>i_serial_num := g_strstrip (i_serial_num d)\<rparr>"

definition idm_list_compare_sno :: "idm_gwydata \<Rightarrow> idm_gwydata \<Rightarrow> int \<times> idm_gwydata \<times> idm_gwydata" where
  "idm_list_compare_sno d1 d2 =
     (let d1 = idm_strip d1; d2 = idm_strip d2 in (strcmp (i_serial_num d1) (i_serial_num d2), d1, d2))"

definition idm_list_find_sno :: "idm_gwydata \<Rightarrow> string option \<Rightarrow> int \<times> idm_gwydata \<times> string option" where
  "idm_list_find_sno gwData sno =
     (let gwData = idm_strip gwData; sno = map_option g_strstrip sno in
      if g_strcmp0 (Some (i_serial_num gwData)) sno = 0 then (0, gwData, sno) else (1, gwData, sno))"

interpretation idml: device_list i_serial_num idm_strip idm_list_find_sno idm_list_compare_sno
proof unfold_locales
  fix d k
  show "idm_list_find_sno d k =
    (if map_option g_strstrip k = Some (g_strstrip (i_serial_num d)) then 0 else 1,
     idm_strip d, map_option g_strstrip k)"
    by (cases k) (auto simp: idm_list_find_sno_def idm_strip_def Let_def)
qed (simp_all add: idm_list_compare_sno_def idm_strip_def Let_def)

subsection \<open>Departures\<close>

definition idm_delete_gwyitem :: "string option \<Rightarrow> idm_state \<Rightarrow> (bool \<times> idm_state) outcome" where
  "idm_delete_gwyitem snr st =
     (case g_list_find_custom idm_list_find_sno (idm_list st) snr of (ds, sno, hit) \<Rightarrow>
        (case hit of
           None \<Rightarrow> Inr (False, st\<lparr>idm_list := ds\<rparr>)
         | Some i \<Rightarrow>
             (let gwydata = ds ! i; st = st\<lparr>idm_list := g_list_remove_link ds i\<rparr> in
              bind_outcome (strcpy_buf IPv4_ADDR_SIZE (i_clientip gwydata)) (\<lambda>ip.
              bind_outcome (strcpy_buf MAC_ADDR_SIZE (i_bcastmacaddress gwydata)) (\<lambda>m.
              bind_outcome (strcpy_buf IPv6_ADDR_SIZE (i_gwyipv6 gwydata)) (\<lambda>ip6.
              Inr (True, idm_emit (Free_gwydata gwydata)
                (idm_emit (Device_callback \<lparr>Ipv4 = ip, Ipv6 = ip6, mac = m\<rparr> 0 0) st))))))))"

definition idm_unavailable :: "idm_device \<Rightarrow> idm_state \<Rightarrow> idm_state outcome" where
  "idm_unavailable dev st =
     (let st = st\<lparr>idm_ownSerialNo := g_strstrip (idm_ownSerialNo st)\<rparr> in
      if g_strcmp0 (Some (idm_ownSerialNo st)) (id_serial dev) = 0 then Inr st
      else bind_outcome (idm_delete_gwyitem (id_serial dev) st) (\<lambda>(r, st). Inr st))"

subsection \<open>Arrivals\<close>

text \<open>
  A request to the service. Without a service the library refuses the call and reports no
  error, so the request succeeds with the result pointer as it was, which is NULL.
\<close>

definition idm_request :: "service_proxy option \<Rightarrow> string \<Rightarrow> string \<Rightarrow> string option option" where
  "idm_request svc requestFn responseFn =
     (case svc of
        None \<Rightarrow> Some None
      | Some sp \<Rightarrow> map_option Some (processStringRequest sp requestFn responseFn))"

definition idm_field :: "service_proxy option \<Rightarrow> string \<Rightarrow> string \<Rightarrow> string" where
  "idm_field svc requestFn responseFn =
     (case idm_request svc requestFn responseFn of Some (Some temp) \<Rightarrow> temp | _ \<Rightarrow> [])"

text \<open>
  The three fields, which are empty before, and the buffers for the callback, which are zero
  before: a request that fails leaves both as they are.
\<close>

definition idm_read_fields :: "service_proxy option \<Rightarrow> idm_gwydata \<Rightarrow> idm_gwydata \<times> device_info_t" where
  "idm_read_fields svc d =
     (let ip = idm_field svc ''GetClientIP'' ''ClientIP'';
          m = idm_field svc ''GetBcastMacAddress'' ''BcastMacAddress'';
          ip6 = idm_field svc ''GetGatewayIPv6'' ''GatewayIPv6''
      in (d\<lparr>i_clientip := ip, i_bcastmacaddress := m, i_gwyipv6 := ip6\<rparr>,
          \<lparr>Ipv4 = strncpy_buf IPv4_ADDR_SIZE ip, Ipv6 = strncpy_buf IPv6_ADDR_SIZE ip6,
           mac = strncpy_buf MAC_ADDR_SIZE m\<rparr>))"

definition valid_account :: "string \<Rightarrow> bool" where
  "valid_account temp \<longleftrightarrow> list_all (\<lambda>c. \<not> (of_char c < (48 :: nat) \<or> of_char c > (57 :: nat))) temp"

definition idm_insert :: "idm_gwydata \<Rightarrow> idm_state \<Rightarrow> idm_state" where
  "idm_insert gwydata st =
     st\<lparr>idm_list := g_list_insert_sorted_with_data idm_list_compare_sno (idm_list st) gwydata\<rparr>"

text \<open>
  The prefix of both arrival handlers: the counter, the null pointers, the search by number and
  the new record with the number and the receiver id. The rest of the handler runs for a device
  that has both.
\<close>

definition idm_leave :: "idm_state \<Rightarrow> idm_state" where
  "idm_leave st = st\<lparr>idm_deviceAddNo := idm_deviceAddNo st - 1\<rparr>"

definition idm_arrive ::
  "(idm_gwydata \<Rightarrow> idm_state \<Rightarrow> idm_state outcome) \<Rightarrow> (idm_gwydata \<Rightarrow> idm_gwydata) \<Rightarrow> bool
     \<Rightarrow> bool \<Rightarrow> idm_device \<Rightarrow> idm_state \<Rightarrow> idm_state outcome" where
  "idm_arrive serve mark serviced params dev st =
     (let st = st\<lparr>idm_deviceAddNo := idm_deviceAddNo st + 1\<rparr> in
      if \<not> params then Inr (idm_leave st)
      else (case g_list_find_custom idm_list_find_sno (idm_list st) (id_serial dev) of (ds, sno, hit) \<Rightarrow>
        (let st = st\<lparr>idm_list := ds\<rparr> in
         if hit \<noteq> None then Inr (idm_leave st)
         else if \<not> serviced then Inr (idm_leave st)
         else (case (sno, id_udn dev) of
             (Some sno, Some udn) \<Rightarrow>
               if g_strrstr udn ''uuid:'' then
                 bind_outcome (serve ((mark idm_init_gwydata)\<lparr>i_serial_num := sno, i_receiverid := drop 5 udn\<rparr>) st)
                   (\<lambda>st. Inr (idm_leave st))
               else Inr (idm_leave st)
           | _ \<Rightarrow> Inr (idm_leave st)))))"

text \<open>The secure build: the account of the device must be a number, and the own one.\<close>

definition idm_serve_secure :: "idm_device \<Rightarrow> idm_gwydata \<Rightarrow> idm_state \<Rightarrow> idm_state outcome" where
  "idm_serve_secure dev gwydata st =
     (case idm_read_fields (id_service dev) gwydata of (gwydata, di) \<Rightarrow>
        (case idm_request (id_service dev) ''GetAccountId'' ''AccountId'' of
           None \<Rightarrow> Inr st
         | Some None \<Rightarrow> Inl Null_deref
         | Some (Some temp) \<Rightarrow>
             (if valid_account temp then
                (let st = st\<lparr>idm_accountId := g_strstrip (idm_accountId st)\<rparr> in
                 if strcmp (idm_accountId st) temp = 0
                 then Inr (idm_emit (Device_callback di 1 1) (idm_insert gwydata st))
                 else Inr st)
              else Inr st)))"

definition idm_available_bgw :: "bool \<Rightarrow> idm_device \<Rightarrow> idm_state \<Rightarrow> idm_state outcome" where
  "idm_available_bgw params dev st =
     idm_arrive (idm_serve_secure dev) (\<lambda>d. d\<lparr>i_sproxy_i := id_service dev \<noteq> None\<rparr>) True params dev st"

text \<open>The insecure build: every device with a service.\<close>

definition idm_serve_debug :: "idm_device \<Rightarrow> idm_gwydata \<Rightarrow> idm_state \<Rightarrow> idm_state outcome" where
  "idm_serve_debug dev gwydata st =
     (case idm_read_fields (id_service dev) gwydata of (gwydata, di) \<Rightarrow>
        Inr (idm_emit (Device_callback di 1 0) (idm_insert gwydata st)))"

definition idm_available :: "bool \<Rightarrow> idm_device \<Rightarrow> idm_state \<Rightarrow> idm_state outcome" where
  "idm_available params dev st =
     idm_arrive (idm_serve_debug dev) (\<lambda>d. d\<lparr>i_sproxy := True\<rparr>) (id_service dev \<noteq> None) params dev st"

subsection \<open>Restart\<close>

text \<open>
  \<open>remove_entries_in_list\<close> takes the first link out of the list, frees its device and goes on with
  the link's successor. \<open>g_list_remove_link\<close> has cleared that, so the loop ends after one round.
\<close>

definition remove_entries_in_list :: "idm_state \<Rightarrow> idm_state" where
  "remove_entries_in_list st =
     (case idm_list st of
        [] \<Rightarrow> st
      | gwydata # rest \<Rightarrow> idm_emit (Free_gwydata gwydata) (st\<lparr>idm_list := rest\<rparr>))"

subsection \<open>Starting and stopping\<close>

record discovery_config_t =
  dc_interface :: string
  dc_port :: c_uint
  dc_interval :: c_uint
  dc_window :: c_uint
  dc_base_mac :: string

record idm_env =
  ie_server :: idm_server_env
  ie_files :: bool
  ie_context :: bool

record idm_session =
  ses_active :: bool
  ses_sleep :: c_uint
  ses_interval :: c_uint
  ses_server :: idm_server
  ses_published :: bool

datatype idm_start =
    Missing_values
  | Waiting_for_account
  | Server_failed
  | Context_failed
  | Started idm_session idm_state

text \<open>
  The answers of \<open>getAccountId\<close> in turn, one each 30 seconds, until one is not \<open>unknown\<close>.
\<close>

fun wait_account :: "string option list \<Rightarrow> string \<Rightarrow> string option" where
  "wait_account [] acc = None"
| "wait_account (a # as) acc =
     (let acc = snd (idm_getAccountId a acc) in
      if map tolower acc = ''unknown'' then wait_account as acc else Some acc)"

text \<open>
  \<open>start_discovery\<close> up to its main loop. The interface is an array, so the test of its address
  never fails. The waiting time and the interval are computed in 32 bits.
\<close>

definition start_discovery ::
  "bool \<Rightarrow> idm_env \<Rightarrow> string option list \<Rightarrow> discovery_config_t \<Rightarrow> idm_server \<Rightarrow> idm_state \<Rightarrow> idm_start outcome" where
  "start_discovery IDM_DEBUG E accounts dc_obj srv st =
     (if dc_port dc_obj = 0 \<or> dc_interval dc_obj = 0 \<or> dc_window dc_obj = 0 then Inr Missing_values
      else bind_outcome (idm_getserialnum (se_serial (ie_server E)) []) (\<lambda>(_, sno).
      let st = st\<lparr>idm_ownSerialNo := sno\<rparr> in
      (case (if IDM_DEBUG then Some (idm_accountId st) else wait_account accounts []) of
         None \<Rightarrow> Inr Waiting_for_account
       | Some acc \<Rightarrow>
           (let st = st\<lparr>idm_accountId := acc\<rparr> in
            bind_outcome (idm_server_start IDM_DEBUG (ie_server E) (dc_interface dc_obj) (dc_base_mac dc_obj) srv)
              (\<lambda>(rvalue, srv, doc, published).
                if rvalue = 1 then Inr Server_failed
                else if IDM_DEBUG \<and> \<not> ie_context E then Inr Context_failed
                else Inr (Started
                  \<lparr>ses_active = (IDM_DEBUG \<or> (ie_files E \<and> ie_context E)),
                   ses_sleep = (dc_window dc_obj + 8) * 1000000,
                   ses_interval = dc_interval dc_obj * 1000,
                   ses_server = srv, ses_published = published\<rparr> st))))))"

text \<open>
  After the main loop: deactivating the control point makes the library report the departure of
  the devices it knows, then the entries are removed.
\<close>

fun depart_all :: "idm_device list \<Rightarrow> idm_state \<Rightarrow> idm_state outcome" where
  "depart_all [] st = Inr st"
| "depart_all (dev # devs) st = bind_outcome (idm_unavailable dev st) (depart_all devs)"

definition finish_discovery :: "idm_device list \<Rightarrow> idm_state \<Rightarrow> idm_state outcome" where
  "finish_discovery known st =
     bind_outcome (depart_all known st) (\<lambda>st. Inr (remove_entries_in_list st))"

subsection \<open>The threads\<close>

text \<open>One round of \<open>verify_devices\<close>: whether it asks for a rescan, and its counter.\<close>

definition idm_verify_round :: "c_uint \<Rightarrow> c_uint \<Rightarrow> bool \<times> c_uint" where
  "idm_verify_round addNo sleepCounter = (if addNo \<noteq> 0 then (False, sleepCounter + 1) else (True, 0))"

text \<open>What \<open>select\<close> and \<open>SE_msg_receive\<close> bring to \<open>EventListen\<close>.\<close>

datatype se_event = Se_none | Se_other | Se_notification string string

fun EventListen :: "se_event \<Rightarrow> int" where
  "EventListen (Se_notification name_str value_str) =
     (if strcmp name_str ''wan-status'' = 0 then
        (if strncmp value_str ''started'' 7 = 0 then 0
         else if strncmp value_str ''stopped'' 7 = 0 then -1 else -2)
      else -2)"
| "EventListen Se_none = -2"
| "EventListen Se_other = -2"

datatype se_effect = Set_cert_flags nat | Run_script string | Close_sysevent

text \<open>The loop over the events so far: its effects, and whether the thread has ended.\<close>

fun event_loop :: "se_event list \<Rightarrow> se_effect list \<times> bool" where
  "event_loop [] = ([], False)"
| "event_loop (e # es) =
     (if EventListen e = 0 then
        ([Set_cert_flags 0x1C, Run_script ''/etc/Xupnp/idm_certs.sh'', Close_sysevent], True)
      else if EventListen e = -1 then
        (case event_loop es of (acts, over) \<Rightarrow> (Set_cert_flags 0x10 # acts, over))
      else event_loop es)"

text \<open>
  \<open>EventHandler\<close>: the results of \<open>sysevent_setnotification\<close> until one is 0, the answer of
  \<open>sysevent_get\<close>, the events. \<open>wan_status\<close> is an array of 8, so the comparison of its address
  with 0 is always true: an empty status counts as started.
\<close>

definition EventHandler :: "int list \<Rightarrow> string option \<Rightarrow> se_event list \<Rightarrow> se_effect list \<times> bool" where
  "EventHandler rcs wan_status events =
     (if \<forall>rc \<in> set rcs. rc \<noteq> 0 then ([], False)
      else (case wan_status of
              None \<Rightarrow> ([], True)
            | Some w \<Rightarrow>
                if strncmp w ''stopped'' 7 = 0 then
                  (case event_loop events of (acts, over) \<Rightarrow> (Set_cert_flags 0x10 # acts, over))
                else ([Close_sysevent], True)))"

subsection \<open>The list and the callbacks\<close>

definition known :: "idm_state \<Rightarrow> string set" where
  "known st = set (serials i_serial_num (idm_list st))"

definition announced :: "nat \<Rightarrow> idm_state \<Rightarrow> nat" where
  "announced b st = length (filter (\<lambda>e. case e of Device_callback di f s \<Rightarrow> f = b | _ \<Rightarrow> False) (idm_effects st))"

text \<open>
  The invariant: the list is sorted by stripped serial numbers, and has as many entries as there
  were callbacks for arrivals, less those for departures.
\<close>

definition idm_inv :: "idm_state \<Rightarrow> bool" where
  "idm_inv st \<longleftrightarrow> sno_sorted i_serial_num (idm_list st) \<and>
     announced 1 st = announced 0 st + length (idm_list st)"

lemma idm_strip_simps [simp]:
  "i_serial_num (idm_strip d) = g_strstrip (i_serial_num d)"
  "i_clientip (idm_strip d) = i_clientip d"
  "i_bcastmacaddress (idm_strip d) = i_bcastmacaddress d"
  "i_gwyipv6 (idm_strip d) = i_gwyipv6 d"
  by (simp_all add: idm_strip_def)

lemma announced_emit [simp]:
  "announced b (idm_emit (Device_callback di f s) st) = announced b st + (if f = b then 1 else 0)"
  "announced b (idm_emit (Free_gwydata d) st) = announced b st"
  "announced b (st\<lparr>idm_list := ds\<rparr>) = announced b st"
  "announced b (st\<lparr>idm_accountId := a\<rparr>) = announced b st"
  "announced b (st\<lparr>idm_ownSerialNo := a\<rparr>) = announced b st"
  "announced b (st\<lparr>idm_deviceAddNo := n\<rparr>) = announced b st"
  by (simp_all add: announced_def idm_emit_def)

lemma idm_emit_simps [simp]:
  "idm_list (idm_emit e st) = idm_list st" "idm_deviceAddNo (idm_emit e st) = idm_deviceAddNo st"
  "idm_accountId (idm_emit e st) = idm_accountId st" "idm_effects (idm_emit e st) = idm_effects st @ [e]"
  "idm_ownSerialNo (idm_emit e st) = idm_ownSerialNo st"
  by (simp_all add: idm_emit_def)

lemma length_insert [simp]:
  "length (g_list_insert_sorted_with_data f ds x) = Suc (length ds)"
  by (induction ds arbitrary: x) (auto simp: g_list_insert_sorted_with_data.simps(2) split: prod.splits)

lemma length_remove_link: "i < length ds \<Longrightarrow> length (g_list_remove_link ds i) = length ds - 1"
  by (simp add: g_list_remove_link_def)

lemma idm_insert_inv:
  assumes "idm_inv st" "g_strstrip (i_serial_num d) \<notin> known st"
  shows "idm_inv (idm_emit (Device_callback di (Suc 0) s) (idm_insert d st))"
    "known (idm_insert d st) = insert (g_strstrip (i_serial_num d)) (known st)"
  using assms idml.insert_sorted
  by (simp_all add: idm_inv_def idm_insert_def known_def idml.insert_set)

lemma known_frame [simp]:
  "known (idm_emit e st) = known st" "known (st\<lparr>idm_accountId := a\<rparr>) = known st"
  "known (st\<lparr>idm_deviceAddNo := n\<rparr>) = known st" "known (st\<lparr>idm_ownSerialNo := a\<rparr>) = known st"
  "known (idm_leave st) = known st"
  by (simp_all add: known_def idm_leave_def)

lemma idm_inv_frame [simp]:
  "idm_inv (st\<lparr>idm_accountId := a\<rparr>) = idm_inv st" "idm_inv (st\<lparr>idm_deviceAddNo := n\<rparr>) = idm_inv st"
  "idm_inv (st\<lparr>idm_ownSerialNo := a\<rparr>) = idm_inv st" "idm_inv (idm_leave st) = idm_inv st"
  by (simp_all add: idm_inv_def idm_leave_def)

lemma idm_searched:
  assumes "g_list_find_custom idm_list_find_sno (idm_list st) k = (ds, k', h)"
  shows "idm_inv (st\<lparr>idm_list := ds\<rparr>) = idm_inv st" "known (st\<lparr>idm_list := ds\<rparr>) = known st"
    "(h = None) = (\<forall>s. k = Some s \<longrightarrow> g_strstrip s \<notin> known st)"
proof -
  note F = idml.find_finds [OF assms]
  show "idm_inv (st\<lparr>idm_list := ds\<rparr>) = idm_inv st"
    using serials_cong [OF F(1)] F(2) by (simp add: idm_inv_def)
  show "known (st\<lparr>idm_list := ds\<rparr>) = known st" using F(1) by (simp add: known_def)
  show "(h = None) = (\<forall>s. k = Some s \<longrightarrow> g_strstrip s \<notin> known st)"
    using F(3) by (cases k) (auto simp: known_def)
qed

subsection \<open>The handlers keep the invariant\<close>

text \<open>What a handler's part for a new device promises.\<close>

definition idm_serves :: "(idm_gwydata \<Rightarrow> idm_state \<Rightarrow> idm_state outcome) \<Rightarrow> bool" where
  "idm_serves serve \<longleftrightarrow> (\<forall>d st st'. serve d st = Inr st' \<longrightarrow> idm_inv st \<longrightarrow>
     g_strstrip (i_serial_num d) \<notin> known st \<longrightarrow>
     idm_inv st' \<and> idm_deviceAddNo st' = idm_deviceAddNo st \<and>
     (known st' = known st \<or> known st' = insert (g_strstrip (i_serial_num d)) (known st)))"

lemma idm_servesD:
  "idm_serves serve \<Longrightarrow> serve d st = Inr st' \<Longrightarrow> idm_inv st \<Longrightarrow> g_strstrip (i_serial_num d) \<notin> known st \<Longrightarrow>
     idm_inv st' \<and> idm_deviceAddNo st' = idm_deviceAddNo st \<and>
     (known st' = known st \<or> known st' = insert (g_strstrip (i_serial_num d)) (known st))"
  by (simp add: idm_serves_def)

lemma idm_read_fields_serial: "i_serial_num (fst (idm_read_fields svc d)) = i_serial_num d"
  by (simp add: idm_read_fields_def Let_def)

lemma idm_insert_deviceAddNo [simp]:
  "idm_deviceAddNo (idm_insert d st) = idm_deviceAddNo st"
  by (simp add: idm_insert_def)

lemma idm_serves_debug: "idm_serves (idm_serve_debug dev)"
  by (auto simp: idm_serves_def idm_serve_debug_def case_prod_beta idm_insert_inv idm_read_fields_serial)

lemma idm_serves_secure: "idm_serves (idm_serve_secure dev)"
  by (auto simp: idm_serves_def idm_serve_secure_def case_prod_beta Let_def idm_insert_inv
      idm_read_fields_serial split: option.splits if_splits)

lemma find_keeps_key:
  assumes "g_list_find_custom idm_list_find_sno ds k = (ds', k', None)"
  shows "k' = k \<or> k' = map_option g_strstrip k"
  using assms idml.find_absent [OF idml.find_None [OF assms]] by (simp split: if_splits)

lemma idm_arrive_keeps:
  assumes "idm_arrive serve mark serviced params dev st = Inr st'" "idm_serves serve" "idm_inv st"
  shows "idm_inv st' \<and> idm_deviceAddNo st' = idm_deviceAddNo st \<and>
    (known st' = known st \<or> (\<exists>s. id_serial dev = Some s \<and> known st' = insert (g_strstrip s) (known st)))"
proof -
  let ?st = "st\<lparr>idm_deviceAddNo := idm_deviceAddNo st + 1\<rparr>"
  obtain ds sno hit where f: "g_list_find_custom idm_list_find_sno (idm_list st) (id_serial dev) = (ds, sno, hit)"
    by (cases "g_list_find_custom idm_list_find_sno (idm_list st) (id_serial dev)")
  let ?st1 = "?st\<lparr>idm_list := ds\<rparr>"
  have f': "g_list_find_custom idm_list_find_sno (idm_list ?st) (id_serial dev) = (ds, sno, hit)"
    using f by simp
  note S = idm_searched [OF f']
  have inv1: "idm_inv ?st1" and known1: "known ?st1 = known st" using S(1,2) assms(3) by simp_all
  have add1: "idm_deviceAddNo (idm_leave ?st1) = idm_deviceAddNo st" by (simp add: idm_leave_def)
  consider (early) "st' = idm_leave ?st" | (no) "st' = idm_leave ?st1"
    | (new) sn udn st2 where "params" "hit = None" "sno = Some sn"
        "serve ((mark idm_init_gwydata)\<lparr>i_serial_num := sn, i_receiverid := drop 5 udn\<rparr>) ?st1 = Inr st2"
        "st' = idm_leave st2"
    using assms(1) f
    by (auto simp: idm_arrive_def Let_def bind_outcome_Inr_iff split: if_splits option.splits)
  then show ?thesis
  proof cases
    case early
    then show ?thesis using assms(3) by (simp add: idm_leave_def)
  next
    case no
    then show ?thesis using inv1 known1 add1 by simp
  next
    case new
    obtain s where s: "id_serial dev = Some s" "g_strstrip sn = g_strstrip s"
      using find_keeps_key f' new(2,3) by (cases "id_serial dev") fastforce+
    have nk: "g_strstrip sn \<notin> known ?st1" using S(3) new(2) s known1 by auto
    have "idm_inv st2 \<and> idm_deviceAddNo st2 = idm_deviceAddNo ?st1 \<and>
      (known st2 = known ?st1 \<or> known st2 = insert (g_strstrip sn) (known ?st1))"
      using idm_servesD [OF assms(2) new(4) inv1] nk by simp
    then show ?thesis using new(5) s known1 by (auto simp: idm_leave_def)
  qed
qed

lemma idm_delete_result:
  assumes "idm_delete_gwyitem snr st = Inr (r, st')" "idm_inv st"
  shows "idm_inv st' \<and> idm_deviceAddNo st' = idm_deviceAddNo st \<and>
    known st' = known st - (if r then {g_strstrip s |s. snr = Some s} else {}) \<and>
    (r \<longleftrightarrow> (\<exists>s. snr = Some s \<and> g_strstrip s \<in> known st))"
proof -
  obtain ds sno hit where f: "g_list_find_custom idm_list_find_sno (idm_list st) snr = (ds, sno, hit)"
    by (cases "g_list_find_custom idm_list_find_sno (idm_list st) snr")
  let ?st1 = "st\<lparr>idm_list := ds\<rparr>"
  note S = idm_searched [OF f]
  show ?thesis
  proof (cases hit)
    case None
    then have "r = False" "st' = ?st1" using assms(1) f by (auto simp: idm_delete_gwyitem_def)
    then show ?thesis using S None assms(2) by auto
  next
    case (Some i)
    note F = idml.find_Some [OF f [unfolded Some]]
    have len: "length ds = length (idm_list st)" using idml.find_finds(2) [OF f] .
    have at: "g_strstrip (i_serial_num (ds ! i)) = g_strstrip (i_serial_num (idm_list st ! i))"
    proof -
      have i: "i < length ds" "i < length (idm_list st)" using F len by simp_all
      have "serials i_serial_num ds ! i = serials i_serial_num (idm_list st) ! i"
        using idml.find_finds(1) [OF f] by simp
      then show ?thesis using i by (simp add: serials_def)
    qed
    obtain di where r: "r" and st': "st' = idm_emit (Free_gwydata (ds ! i)) (idm_emit (Device_callback di 0 0)
        (?st1\<lparr>idm_list := g_list_remove_link ds i\<rparr>))"
      using assms(1) f Some
      by (auto simp: idm_delete_gwyitem_def Let_def bind_outcome_Inr_iff)
    have i: "i < length ds" using F len by simp
    have sorted: "sno_sorted i_serial_num ds" using S(1) assms(2) by (simp add: idm_inv_def)
    obtain s where s: "snr = Some s" "g_strstrip s = g_strstrip (i_serial_num (ds ! i))"
      using F at by (cases snr) auto
    have k: "known st' = known st - {g_strstrip s}"
      using set_serials_remove_link [OF sorted i] st' s(2) S(2) by (simp add: known_def)
    have "announced 1 st' = announced 0 st' + length (idm_list st')"
      using S(1) assms(2) st' i by (auto simp: idm_inv_def length_remove_link)
    then have inv: "idm_inv st'"
      using sno_sorted_remove_link [OF sorted] st' by (simp add: idm_inv_def)
    show ?thesis using r inv k s S(3) Some st' by auto
  qed
qed

subsection \<open>Runs of the client\<close>

datatype idm_event =
    Idm_available_secure bool idm_device
  | Idm_available_plain bool idm_device
  | Idm_gone idm_device

fun idm_handle :: "idm_event \<Rightarrow> idm_state \<Rightarrow> idm_state outcome" where
  "idm_handle (Idm_available_secure params dev) st = idm_available_bgw params dev st"
| "idm_handle (Idm_available_plain params dev) st = idm_available params dev st"
| "idm_handle (Idm_gone dev) st = idm_unavailable dev st"

inductive idm_reachable :: "idm_state \<Rightarrow> idm_state \<Rightarrow> bool" for st0 where
  idm_start: "idm_reachable st0 st0"
| idm_next: "idm_reachable st0 st \<Longrightarrow> idm_handle ev st = Inr st' \<Longrightarrow> idm_reachable st0 st'"

lemma idm_handle_keeps:
  assumes "idm_handle ev st = Inr st'" "idm_inv st"
  shows "idm_inv st' \<and> idm_deviceAddNo st' = idm_deviceAddNo st"
proof (cases ev)
  case (Idm_available_secure params dev)
  then show ?thesis
    using assms idm_arrive_keeps [OF _ idm_serves_secure] by (auto simp: idm_available_bgw_def)
next
  case (Idm_available_plain params dev)
  then show ?thesis
    using assms idm_arrive_keeps [OF _ idm_serves_debug] by (auto simp: idm_available_def)
next
  case (Idm_gone dev)
  let ?st = "st\<lparr>idm_ownSerialNo := g_strstrip (idm_ownSerialNo st)\<rparr>"
  show ?thesis
  proof (cases "st' = ?st")
    case True
    then show ?thesis using assms(2) by simp
  next
    case False
    then obtain r where "idm_delete_gwyitem (id_serial dev) ?st = Inr (r, st')"
      using assms(1) Idm_gone
      by (auto simp: idm_unavailable_def Let_def bind_outcome_Inr_iff split: if_splits)
    then show ?thesis using idm_delete_result assms(2) by fastforce
  qed
qed

lemma idm_reachable_keeps:
  "idm_reachable st0 st \<Longrightarrow> idm_inv st0 \<Longrightarrow> idm_inv st \<and> idm_deviceAddNo st = idm_deviceAddNo st0"
  by (induction rule: idm_reachable.induct) (auto dest: idm_handle_keeps)

definition idm_fresh :: "string \<Rightarrow> idm_state" where
  "idm_fresh acc = \<lparr>idm_list = [], idm_ownSerialNo = [], idm_accountId = acc, idm_deviceAddNo = 0,
     idm_effects = []\<rparr>"

lemma idm_fresh_inv [simp]: "idm_inv (idm_fresh acc)" "idm_deviceAddNo (idm_fresh acc) = 0"
  by (simp_all add: idm_inv_def idm_fresh_def announced_def)

subsection \<open>Two peers\<close>

lemma c_string_strncpy:
  assumes "length s < n" "NUL \<notin> set s"
  shows "c_string (strncpy_buf n s) = Some s"
proof -
  have "takeWhile (\<lambda>c. c \<noteq> NUL) (s @ NUL # replicate (n - length s - 1) NUL) = s"
    using assms(2) by (auto simp: takeWhile_append)
  moreover have "strncpy_buf n s = s @ NUL # replicate (n - length s - 1) NUL"
    using assms(1) by (cases "n - length s") (simp_all add: strncpy_buf_def)
  ultimately show ?thesis by (simp add: c_string_def)
qed

lemma c_string_strncpy_full:
  assumes "n \<le> length s" "NUL \<notin> set s"
  shows "c_string (strncpy_buf n s) = None"
  using assms by (auto simp: c_string_def strncpy_buf_def dest: in_set_takeD)

lemma idm_service_fields:
  "idm_read_fields (Some (idm_service dbg account srv)) d =
     (d\<lparr>i_clientip := clientIp srv, i_bcastmacaddress := bcastMacaddress srv, i_gwyipv6 := gwyIpv6 srv\<rparr>,
      \<lparr>Ipv4 = strncpy_buf IPv4_ADDR_SIZE (clientIp srv), Ipv6 = strncpy_buf IPv6_ADDR_SIZE (gwyIpv6 srv),
       mac = strncpy_buf MAC_ADDR_SIZE (bcastMacaddress srv)\<rparr>)"
  by (simp add: idm_read_fields_def Let_def idm_field_def idm_request_def processStringRequest_def send_action_def
      idm_service_def get_bcastmacaddress_cb_def get_client_ip_cb_def get_gwyipv6_cb_def)

lemma idm_service_account:
  "idm_request (Some (idm_service False account srv)) ''GetAccountId'' ''AccountId'' =
     Some (Some (snd (idm_getAccountId account [])))"
  by (simp add: idm_request_def processStringRequest_def send_action_def idm_service_def get_account_id_cb_def)

definition readable :: "idm_server \<Rightarrow> bool" where
  "readable srv \<longleftrightarrow> length (clientIp srv) < IPv4_ADDR_SIZE \<and> NUL \<notin> set (clientIp srv) \<and>
     length (bcastMacaddress srv) < MAC_ADDR_SIZE \<and> NUL \<notin> set (bcastMacaddress srv) \<and>
     length (gwyIpv6 srv) < IPv6_ADDR_SIZE \<and> NUL \<notin> set (gwyIpv6 srv)"

text \<open>A device that is on the list already is passed over.\<close>

lemma idm_known_arrival:
  assumes "id_serial dev = Some s" "g_strstrip s \<in> known st"
  shows "\<exists>st'. idm_available_bgw params dev st = Inr st' \<and> known st' = known st \<and>
    idm_effects st' = idm_effects st"
proof -
  let ?st = "st\<lparr>idm_deviceAddNo := idm_deviceAddNo st + 1\<rparr>"
  obtain ds sno hit where f: "g_list_find_custom idm_list_find_sno (idm_list ?st) (id_serial dev) = (ds, sno, hit)"
    by (cases "g_list_find_custom idm_list_find_sno (idm_list ?st) (id_serial dev)")
  have "hit \<noteq> None" using idm_searched(3) [OF f] assms by auto
  with f have "idm_available_bgw params dev st =
      Inr (idm_leave (if params then ?st\<lparr>idm_list := ds\<rparr> else ?st))"
    by (simp add: idm_available_bgw_def idm_arrive_def Let_def)
  moreover have "known (idm_leave (if params then ?st\<lparr>idm_list := ds\<rparr> else ?st)) = known st"
    using idm_searched(2) [OF f] by simp
  moreover have "idm_effects (idm_leave (if params then ?st\<lparr>idm_list := ds\<rparr> else ?st)) = idm_effects st"
    by (simp add: idm_leave_def)
  ultimately show ?thesis by blast
qed

definition sample_idm_server :: idm_server where
  "sample_idm_server = \<lparr>clientIp = ''10.0.0.7'', bcastMacaddress = ''aa:bb'', gwyIpv6 = ''fe80::7'',
     s_interface = ''br0'', s_accountId = [], uUid = [], recv_id = [], s_serial_num = ''M7''\<rparr>"

definition sample_idm_device :: idm_device where
  "sample_idm_device = \<lparr>id_serial = Some ''M7'', id_udn = Some ''uuid:aa:bb'',
     id_service = Some (idm_service False (Some ''42'') sample_idm_server)\<rparr>"

lemma sample_idm_readable: "readable sample_idm_server"
  by (simp add: readable_def sample_idm_server_def NUL_def IPv4_ADDR_SIZE_def IPv6_ADDR_SIZE_def MAC_ADDR_SIZE_def)

lemma sample_strip: "g_strstrip ''M7'' = ''M7''" "g_strstrip ''42'' = ''42''"
  by (rule g_strstrip_stripped; simp add: stripped_def g_ascii_isspace_def)+

lemma sample_account: "snd (idm_getAccountId (Some ''42'') []) = ''42''" "valid_account ''42''"
  by (simp_all add: idm_getAccountId_def ACCOUNTID_SIZE_def valid_account_def)

subsection \<open>Properties\<close>

text \<open>
  C17. Along every run of arrivals and departures from a fresh start the IDM list is sorted by
  serial number, each number is in it once, and it has as many entries as the callback was told of
  arrivals less departures.
\<close>

theorem idm_list_matches_callbacks:
  assumes "idm_reachable (idm_fresh acc) st"
  shows "sno_sorted i_serial_num (idm_list st) \<and> distinct (serials i_serial_num (idm_list st)) \<and>
    announced 1 st = announced 0 st + length (idm_list st) \<and> idm_deviceAddNo st = 0"
  using idm_reachable_keeps [OF assms idm_fresh_inv(1)] sno_sorted_distinct [of i_serial_num "idm_list st"]
  by (simp add: idm_inv_def)

theorem idm_list_matches_callbacks_witness:
  "\<exists>st. idm_reachable (idm_fresh ''42'') st \<and> idm_list st \<noteq> [] \<and>
     announced 1 st = announced 0 st + length (idm_list st)"
proof -
  obtain st d where h: "idm_handle (Idm_available_plain True sample_idm_device) (idm_fresh ''42'') = Inr st"
      and l: "idm_list st = [d]"
    by (simp add: idm_available_def idm_arrive_def Let_def idm_fresh_def sample_idm_device_def g_strrstr_def
        idm_serve_debug_def case_prod_beta idm_insert_def idm_leave_def)
  have r: "idm_reachable (idm_fresh ''42'') st" by (rule idm_next [OF idm_start h])
  then show ?thesis using idm_list_matches_callbacks [OF r] l by (metis list.distinct(1))
qed

text \<open>
  C16. A peer that runs the IDM server, with addresses that fit their buffers and an account that is
  a number or missing, is put on the list and announced with its addresses exactly when its account
  is the client's; otherwise nothing changes. The device must be new, with a serial number and a
  unique name.
\<close>

theorem idm_peers_meet:
  assumes "id_serial dev = Some s" "g_strstrip s \<notin> known st"
    "id_udn dev = Some udn" "g_strrstr udn ''uuid:''"
    "id_service dev = Some (idm_service False account srv)" "readable srv"
    "valid_account (snd (idm_getAccountId account []))"
  shows "\<exists>st' di. idm_available_bgw True dev st = Inr st' \<and>
    c_string (Ipv4 di) = Some (clientIp srv) \<and> c_string (Ipv6 di) = Some (gwyIpv6 srv) \<and>
    c_string (mac di) = Some (bcastMacaddress srv) \<and>
    (if g_strstrip (idm_accountId st) = snd (idm_getAccountId account [])
     then known st' = insert (g_strstrip s) (known st) \<and>
       idm_effects st' = idm_effects st @ [Device_callback di 1 1]
     else known st' = known st \<and> idm_effects st' = idm_effects st)"
proof -
  let ?st = "st\<lparr>idm_deviceAddNo := idm_deviceAddNo st + 1\<rparr>"
  obtain ds sno hit where f: "g_list_find_custom idm_list_find_sno (idm_list ?st) (Some s) = (ds, sno, hit)"
    by (cases "g_list_find_custom idm_list_find_sno (idm_list ?st) (Some s)")
  note S = idm_searched [OF f]
  have hit: "hit = None" using S(3) assms(2) by simp
  then obtain sn where sn: "sno = Some sn" "g_strstrip sn = g_strstrip s"
    using find_keeps_key [OF f [unfolded hit]] by fastforce
  let ?di = "\<lparr>Ipv4 = strncpy_buf IPv4_ADDR_SIZE (clientIp srv), Ipv6 = strncpy_buf IPv6_ADDR_SIZE (gwyIpv6 srv),
       mac = strncpy_buf MAC_ADDR_SIZE (bcastMacaddress srv)\<rparr>"
  have di: "c_string (Ipv4 ?di) = Some (clientIp srv)" "c_string (Ipv6 ?di) = Some (gwyIpv6 srv)"
    "c_string (mac ?di) = Some (bcastMacaddress srv)"
    using assms(6) by (simp_all add: readable_def c_string_strncpy)
  have k: "set (serials i_serial_num ds) = known st" using S(2) by (simp add: known_def)
  let ?c = "g_strstrip (idm_accountId st) = snd (idm_getAccountId account [])"
  define st1 where "st1 = ?st\<lparr>idm_list := ds\<rparr>\<lparr>idm_accountId := g_strstrip (idm_accountId st)\<rparr>"
  define d where "d = idm_init_gwydata\<lparr>i_sproxy_i := True, i_serial_num := sn, i_receiverid := drop 5 udn,
      i_clientip := clientIp srv, i_bcastmacaddress := bcastMacaddress srv, i_gwyipv6 := gwyIpv6 srv\<rparr>"
  define st' where "st' = idm_leave (if ?c then idm_emit (Device_callback ?di 1 1) (idm_insert d st1) else st1)"
  have run: "idm_available_bgw True dev st = Inr st'"
    using f hit sn assms
    by (auto simp: idm_available_bgw_def idm_arrive_def Let_def idm_serve_secure_def idm_service_fields
        idm_service_account st'_def st1_def d_def)
  have d: "i_serial_num d = sn" by (simp add: d_def)
  have "if ?c
     then known st' = insert (g_strstrip s) (known st) \<and>
       idm_effects st' = idm_effects st @ [Device_callback ?di 1 1]
     else known st' = known st \<and> idm_effects st' = idm_effects st"
    using k sn d
    by (simp add: st'_def st1_def known_def idm_leave_def idm_insert_def idml.insert_set)
  with run di show ?thesis by blast
qed

theorem idm_peers_meet_witness:
  "\<exists>st' di. idm_available_bgw True sample_idm_device (idm_fresh ''42'') = Inr st' \<and>
     known st' = {''M7''} \<and> idm_effects st' = [Device_callback di 1 1] \<and> c_string (Ipv4 di) = Some ''10.0.0.7''"
proof -
  have "id_serial sample_idm_device = Some ''M7''" "g_strstrip ''M7'' \<notin> known (idm_fresh ''42'')"
    "id_udn sample_idm_device = Some ''uuid:aa:bb''" "g_strrstr ''uuid:aa:bb'' ''uuid:''"
    "id_service sample_idm_device = Some (idm_service False (Some ''42'') sample_idm_server)"
    "valid_account (snd (idm_getAccountId (Some ''42'') []))"
    by (simp_all add: sample_idm_device_def known_def idm_fresh_def g_strrstr_def sample_account)
  from idm_peers_meet [OF this(1-5) sample_idm_readable this(6)]
  show ?thesis
    by (simp add: idm_fresh_def known_def sample_account sample_strip sample_idm_server_def) blast
qed

text \<open>
  A device of the list that reported an IPv4 address of 16 characters or more cannot leave:
  its departure writes past the end of the callback's buffer.
\<close>

theorem idm_departure_overruns:
  assumes dev: "id_serial dev = Some s" and "idm_inv st" "d \<in> set (idm_list st)" "g_strstrip (i_serial_num d) = g_strstrip s"
    "length (i_clientip d) \<ge> 16" "g_strstrip (idm_ownSerialNo st) \<noteq> s"
  shows "idm_unavailable dev st = Inl Out_of_bounds"
proof -
  let ?st = "st\<lparr>idm_ownSerialNo := g_strstrip (idm_ownSerialNo st)\<rparr>"
  obtain ds sno hit where f: "g_list_find_custom idm_list_find_sno (idm_list ?st) (Some s) = (ds, sno, hit)"
    by (cases "g_list_find_custom idm_list_find_sno (idm_list ?st) (Some s)")
  have sorted: "sno_sorted i_serial_num (idm_list st)" using assms(2) by (simp add: idm_inv_def)
  have "g_strstrip s \<in> known ?st"
    using assms(3,4) by (auto simp: known_def serials_def rev_image_eqI)
  then obtain i where hit: "hit = Some i" using idm_searched(3) [OF f] by (cases hit) auto
  note F = idml.find_Some [OF f [unfolded hit]]
  have i: "i < length (idm_list st)" "g_strstrip s = g_strstrip (i_serial_num (idm_list st ! i))"
    using F by auto
  obtain j where j: "j < length (idm_list st)" "d = idm_list st ! j"
    using assms(3) by (metis in_set_conv_nth)
  have "serials i_serial_num (idm_list st) ! i = serials i_serial_num (idm_list st) ! j"
    using i j assms(4) by (simp add: serials_def)
  then have "i = j"
    using sno_sorted_distinct [OF sorted] i(1) j(1) by (simp add: nth_eq_iff_index_eq)
  have "ds ! i = idm_strip (idm_list st ! i)"
    using F i by (simp add: nth_append take_Suc_conv_app_nth min_def)
  then have "i_clientip (ds ! i) = i_clientip d" using \<open>i = j\<close> j by simp
  then show "idm_unavailable dev st = Inl Out_of_bounds"
    using f hit dev assms(5,6)
    by (simp add: idm_unavailable_def Let_def idm_delete_gwyitem_def strcpy_buf_def IPv4_ADDR_SIZE_def)
qed

definition long_ip_device :: idm_gwydata where
  "long_ip_device = idm_init_gwydata\<lparr>i_serial_num := ''M7'', i_clientip := ''1234567890123456''\<rparr>"

theorem idm_departure_overruns_witness:
  "idm_unavailable sample_idm_device
     ((idm_fresh ''42'')\<lparr>idm_list := [long_ip_device],
        idm_effects := [Device_callback \<lparr>Ipv4 = [], Ipv6 = [], mac = []\<rparr> 1 1]\<rparr>) = Inl Out_of_bounds"
  by (rule idm_departure_overruns [where s = "''M7''" and d = long_ip_device])
     (simp_all add: sample_idm_device_def idm_fresh_def idm_inv_def announced_def long_ip_device_def sample_strip)

text \<open>
  \<open>remove_entries_in_list\<close> removes one entry, so the other devices stay on the list over a
  restart of the discovery, and when such a device is found again it is taken for a known one: no
  callback reports it.
\<close>

theorem restart_keeps_stale_devices:
  assumes "idm_list st = d # rest" "e \<in> set rest" "id_serial dev = Some (i_serial_num e)"
  shows "\<exists>st'. idm_available_bgw params dev (remove_entries_in_list st) = Inr st' \<and>
    known st' = set (serials i_serial_num rest) \<and>
    idm_effects st' = idm_effects st @ [Free_gwydata d]"
proof -
  let ?st = "remove_entries_in_list st"
  have st: "known ?st = set (serials i_serial_num rest)" "idm_effects ?st = idm_effects st @ [Free_gwydata d]"
    using assms(1) by (simp_all add: remove_entries_in_list_def known_def)
  have "g_strstrip (i_serial_num e) \<in> known ?st"
    unfolding st serials_def using assms(2) by auto
  from idm_known_arrival [OF assms(3) this, of params] st show ?thesis by simp
qed

theorem restart_keeps_stale_devices_witness:
  "\<exists>st'. idm_available_bgw True sample_idm_device (remove_entries_in_list
       ((idm_fresh ''42'')\<lparr>idm_list := [idm_init_gwydata, idm_init_gwydata\<lparr>i_serial_num := ''M7''\<rparr>]\<rparr>)) = Inr st' \<and>
     known st' = {''M7''} \<and> idm_effects st' = [Free_gwydata idm_init_gwydata]"
  using restart_keeps_stale_devices [of "(idm_fresh ''42'')\<lparr>idm_list := [idm_init_gwydata, idm_init_gwydata\<lparr>i_serial_num := ''M7''\<rparr>]\<rparr>"
      idm_init_gwydata "[idm_init_gwydata\<lparr>i_serial_num := ''M7''\<rparr>]" "idm_init_gwydata\<lparr>i_serial_num := ''M7''\<rparr>"
      sample_idm_device True]
  by (simp add: sample_idm_device_def sample_strip) (simp add: idm_fresh_def)

end
