(* ===== verification/Text_Util.thy ===== *)
theory Text_Util
  imports Glib
begin

text \<open>
  The texts of the device service \<open>src/xcal-device.c\<close> that need no state: the checks of digits and
  letters, the C library's conversions it uses, the look-up of partner names and of time zones,
  the two escapes of the remote user interface, and the hardware address without its colons.
\<close>

subsection \<open>Characters and numbers\<close>

definition code :: "char \<Rightarrow> nat" where
  "code c = of_char c"

definition g_ascii_isdigit :: "char \<Rightarrow> bool" where
  "g_ascii_isdigit c \<longleftrightarrow> 48 \<le> code c \<and> code c \<le> 57"

definition g_ascii_isalpha :: "char \<Rightarrow> bool" where
  "g_ascii_isalpha c \<longleftrightarrow> 65 \<le> code c \<and> code c \<le> 90 \<or> 97 \<le> code c \<and> code c \<le> 122"

definition g_ascii_isalnum :: "char \<Rightarrow> bool" where
  "g_ascii_isalnum c \<longleftrightarrow> g_ascii_isdigit c \<or> g_ascii_isalpha c"

definition g_ascii_toupper :: "char \<Rightarrow> char" where
  "g_ascii_toupper c = (if 97 \<le> code c \<and> code c \<le> 122 then char_of (code c - 32) else c)"

text \<open>The loops of \<open>is_alphanum\<close> and \<open>is_num\<close> stop at the first character that fails.\<close>

fun is_alphanum :: "string \<Rightarrow> bool" where
  "is_alphanum [] = True"
| "is_alphanum (c # s) = (if \<not> g_ascii_isalnum c then False else is_alphanum s)"

fun is_num :: "string \<Rightarrow> bool" where
  "is_num [] = True"
| "is_num (c # s) = (if \<not> g_ascii_isdigit c then False else is_num s)"

text \<open>
  \<open>strtoul\<close> with base 10 and \<open>atoi\<close>: white space, a sign, digits. \<open>strtoul\<close> answers the largest value when the
  number does not fit, \<open>atoi\<close> is \<open>strtol\<close>, which keeps to the range of a long, cut to an int.
\<close>

definition c_isspace :: "char \<Rightarrow> bool" where
  "c_isspace c \<longleftrightarrow> code c = 32 \<or> 9 \<le> code c \<and> code c \<le> 13"

fun digits_value :: "nat \<Rightarrow> string \<Rightarrow> nat" where
  "digits_value n [] = n"
| "digits_value n (c # s) = digits_value (10 * n + (code c - 48)) s"

definition read_number :: "string \<Rightarrow> bool \<times> nat" where
  "read_number s =
     (case dropWhile c_isspace s of
        [] \<Rightarrow> (False, 0)
      | c # t \<Rightarrow>
          if c = CHR ''-'' then (True, digits_value 0 (takeWhile g_ascii_isdigit t))
          else if c = CHR ''+'' then (False, digits_value 0 (takeWhile g_ascii_isdigit t))
          else (False, digits_value 0 (takeWhile g_ascii_isdigit (c # t))))"

definition strtoul :: "string \<Rightarrow> 64 word" where
  "strtoul s = (case read_number s of (neg, n) \<Rightarrow>
     if n \<ge> 2 ^ 64 then - 1 else if neg then - of_nat n else of_nat n)"

definition atoi :: "string \<Rightarrow> 32 word" where
  "atoi s = (case read_number s of (neg, n) \<Rightarrow>
     if neg then word_of_int (- int (min n (2 ^ 63))) else word_of_int (int (min n (2 ^ 63 - 1))))"

definition show_ulong :: "64 word \<Rightarrow> string" where
  "show_ulong w = show_nat (unat w)"

lemma is_num_iff: "is_num s \<longleftrightarrow> (\<forall>c \<in> set s. g_ascii_isdigit c)"
  by (induction s) auto

lemma is_alphanum_iff: "is_alphanum s \<longleftrightarrow> (\<forall>c \<in> set s. g_ascii_isalnum c)"
  by (induction s) auto

lemma code_char_of [simp]: "n < 256 \<Longrightarrow> code (char_of n) = n"
  by (simp add: code_def)

lemma code_inject [simp]: "code c = code d \<longleftrightarrow> c = d"
  by (simp add: code_def)

lemma code_less [simp]: "code c < 256"
  by (simp add: code_def)

lemma char_of_code [simp]: "char_of (code c) = c"
  by (simp add: code_def)

lemma digits_value_append: "digits_value n (s @ t) = digits_value (digits_value n s) t"
  by (induction s arbitrary: n) auto

lemma is_num_show_nat [simp]: "is_num (show_nat n)"
proof (induction n rule: show_nat.induct)
  case (1 n)
  then show ?case
    by (subst show_nat.simps) (auto simp: is_num_iff g_ascii_isdigit_def)
qed

lemma show_nat_not_Nil [simp]: "show_nat n \<noteq> []"
  by (subst show_nat.simps) simp

lemma digits_value_show_nat: "digits_value 0 (show_nat n) = n"
proof (induction n rule: show_nat.induct)
  case (1 n)
  then show ?case
    by (subst show_nat.simps) (auto simp: digits_value_append)
qed

lemma digit_neq:
  "g_ascii_isdigit c \<Longrightarrow> \<not> c_isspace c \<and> c \<noteq> CHR ''-'' \<and> c \<noteq> CHR ''+'' \<and> c \<noteq> CHR '';'' \<and> c \<noteq> CHR '':''"
  by (auto simp: g_ascii_isdigit_def c_isspace_def code_def)

lemma takeWhile_is_num: "is_num s \<Longrightarrow> takeWhile g_ascii_isdigit s = s"
  by (simp add: is_num_iff takeWhile_eq_all_conv)

lemma read_number_is_num:
  assumes "is_num s"
  shows "read_number s = (False, digits_value 0 s)"
proof (cases s)
  case (Cons c t)
  with assms have c: "g_ascii_isdigit c" by (simp split: if_splits)
  from assms Cons c have tw: "takeWhile g_ascii_isdigit t = t" by (intro takeWhile_is_num) simp
  show ?thesis
    using c digit_neq [OF c] unfolding Cons read_number_def by (simp add: tw)
qed (simp add: read_number_def)

lemma strtoul_is_num:
  assumes "is_num s"
  shows "unat (strtoul s) = min (digits_value 0 s) (2 ^ 64 - 1)"
proof (cases "digits_value 0 s \<ge> 2 ^ 64")
  case True
  then have "unat (strtoul s) = unat (- 1 :: 64 word)"
    using assms by (simp add: strtoul_def read_number_is_num)
  also have "\<dots> = 2 ^ 64 - 1" by (simp add: unsigned_minus_1_eq_mask mask_eq_exp_minus_1)
  finally show ?thesis using True by simp
next
  case False
  then show ?thesis
    using assms by (simp add: strtoul_def read_number_is_num unat_of_nat take_bit_nat_eq_self)
qed

lemma strtoul_show_ulong [simp]: "strtoul (show_ulong w) = w"
proof -
  have "unat w < 2 ^ 64" using unsigned_less [of w] by simp
  then show ?thesis
    by (simp add: strtoul_def show_ulong_def read_number_is_num digits_value_show_nat)
qed

subsection \<open>Partner names\<close>

text \<open>\<open>strncasecmp\<close> compared with 0.\<close>

definition strncasecmp_eq :: "string \<Rightarrow> string \<Rightarrow> nat \<Rightarrow> bool" where
  "strncasecmp_eq s t n \<longleftrightarrow> map tolower (take n s) = map tolower (take n t)"

definition COMCAST_PARTNET_KEY :: string where "COMCAST_PARTNET_KEY = ''comcast''"
definition COX_PARTNET_KEY :: string where "COX_PARTNET_KEY = ''cox''"

type_synonym STRING_MAP = "(string \<times> string) list"

definition partnerNameMap :: STRING_MAP where
  "partnerNameMap = [(COMCAST_PARTNET_KEY, ''comcast''), (COX_PARTNET_KEY, ''cox'')]"

definition friendlyNameMap :: STRING_MAP where
  "friendlyNameMap = [(COMCAST_PARTNET_KEY, ''XFINITY''), (COX_PARTNET_KEY, ''Contour'')]"

definition productNameMap :: STRING_MAP where
  "productNameMap = [(COMCAST_PARTNET_KEY, ''xfinity''), (COX_PARTNET_KEY, ''contour'')]"

definition serviceNameMap :: STRING_MAP where
  "serviceNameMap = [(COMCAST_PARTNET_KEY, ''Comcast XFINITY Guide''), (COX_PARTNET_KEY, ''Cox Contour Guide'')]"

definition serviceDescriptionMap :: STRING_MAP where
  "serviceDescriptionMap =
     [(COMCAST_PARTNET_KEY, ''Comcast XFINITY Guide application''),
      (COX_PARTNET_KEY, ''Cox Contour Guide application'')]"

definition gatewayNameMap :: STRING_MAP where
  "gatewayNameMap = [(COMCAST_PARTNET_KEY, ''Comcast Gateway''), (COX_PARTNET_KEY, ''Cox Gateway'')]"

text \<open>The loop and, when it finds nothing, entry 0.\<close>

fun str_value_loop :: "string \<Rightarrow> STRING_MAP \<Rightarrow> string option" where
  "str_value_loop pszKey [] = None"
| "str_value_loop pszKey ((k, v) # m) =
     (if strncasecmp_eq k pszKey (length k) then Some v else str_value_loop pszKey m)"

definition getStrValueFromMap :: "string \<Rightarrow> STRING_MAP \<Rightarrow> string" where
  "getStrValueFromMap pszKey m =
     (case str_value_loop pszKey m of Some v \<Rightarrow> v | None \<Rightarrow> snd (m ! 0))"

subsection \<open>Time zones\<close>

record TZStruct =
  inputTZ :: string
  javaTZ :: string
  tz_rawOffset :: "32 word"
  usesDST :: bool

definition raw_hours :: "32 word \<Rightarrow> 32 word" where
  "raw_hours h = - h * 60 * 60 * 1000"

definition tz_entry :: "string \<Rightarrow> string \<Rightarrow> 32 word \<Rightarrow> TZStruct" where
  "tz_entry i j h = \<lparr>inputTZ = i, javaTZ = j, tz_rawOffset = raw_hours h, usesDST = True\<rparr>"

definition tzStruct :: "TZStruct list" where
  "tzStruct =
    [tz_entry ''HST11'' ''US/Hawaii'' 11,
     tz_entry ''HST11HDT,M3.2.0,M11.1.0'' ''US/Hawaii'' 11,
     tz_entry ''AKST'' ''US/Alaska'' 9,
     tz_entry ''AKST09AKDT'' ''US/Alaska'' 9,
     tz_entry ''PST08'' ''US/Pacific'' 8,
     tz_entry ''PST08PDT,M3.2.0,M11.1.0'' ''US/Pacific'' 8,
     tz_entry ''MST07'' ''US/Mountain'' 7,
     tz_entry ''MST07MDT,M3.2.0,M11.1.0'' ''US/Mountain'' 7,
     tz_entry ''CST06'' ''US/Central'' 6,
     tz_entry ''CST06CDT,M3.2.0,M11.1.0'' ''US/Central'' 6,
     tz_entry ''EST05'' ''US/Eastern'' 5,
     tz_entry ''EST05EDT,M3.2.0,M11.1.0'' ''US/Eastern'' 5]"

definition find_tzStruct :: "string \<Rightarrow> TZStruct option" where
  "find_tzStruct payload = List.find (\<lambda>t. g_strcmp0 (Some (inputTZ t)) (Some payload) = 0) tzStruct"

subsection \<open>Escaping\<close>

definition unreserved :: "char \<Rightarrow> bool" where
  "unreserved c \<longleftrightarrow> g_ascii_isalnum c \<or> c \<in> set ''-_.!~*()'' \<or> c = CHR 0x27"

definition hex_upper :: "nat \<Rightarrow> char" where
  "hex_upper n = (if n < 10 then char_of (48 + n) else char_of (55 + n))"

text \<open>What \<open>uriescape\<close> and \<open>xmlescape\<close> append to their output, which the callers give empty.\<close>

fun uriescape :: "string \<Rightarrow> string" where
  "uriescape [] = []"
| "uriescape (c # s) =
     (if unreserved c then c # uriescape s
      else CHR ''%'' # hex_upper (code c div 16) # hex_upper (code c mod 16) # uriescape s)"

fun xmlescape :: "string \<Rightarrow> string" where
  "xmlescape [] = []"
| "xmlescape (c # s) =
     (if c = CHR ''&'' then ''&amp;''
      else if c = CHR 0x22 then ''&guot;''
      else if c = CHR 0x27 then ''&apos;''
      else if c = CHR ''<'' then ''&lt;''
      else if c = CHR ''>'' then ''&gt;''
      else [c]) @ xmlescape s"

text \<open>
  The hardware address without the characters at the positions of its colons, in capitals, if it
  has the right length.
\<close>

definition get_eSTBMAC :: "string \<Rightarrow> string option" where
  "get_eSTBMAC hostmac =
     (if length hostmac = 17 then
        Some (map g_ascii_toupper (map ((!) hostmac)
          (filter (\<lambda>i. i \<noteq> 2 \<and> i \<noteq> 5 \<and> i \<noteq> 8 \<and> i \<noteq> 11 \<and> i \<noteq> 14) [0..<17])))
      else None)"

subsection \<open>What the escapes mean\<close>

text \<open>
  The readers of the two escapes, by their specifications: percent-encoding (RFC 2396) and the
  predefined entities of XML.
\<close>

definition hex_value :: "char \<Rightarrow> nat option" where
  "hex_value c =
     (if g_ascii_isdigit c then Some (code c - 48)
      else if 65 \<le> code c \<and> code c \<le> 70 then Some (code c - 55)
      else if 97 \<le> code c \<and> code c \<le> 102 then Some (code c - 87)
      else None)"

fun uridecode :: "string \<Rightarrow> string option" where
  "uridecode [] = Some []"
| "uridecode (c # s) =
     (if c = CHR ''%'' then
        (case s of
           h # l # t \<Rightarrow>
             (case (hex_value h, hex_value l) of
                (Some a, Some b) \<Rightarrow> map_option ((#) (char_of (16 * a + b))) (uridecode t)
              | _ \<Rightarrow> None)
         | _ \<Rightarrow> None)
      else map_option ((#) c) (uridecode s))"

definition xml_entities :: "(string \<times> char) list" where
  "xml_entities = [(''amp'', CHR ''&''), (''quot'', CHR 0x22), (''apos'', CHR 0x27),
                   (''lt'', CHR ''<''), (''gt'', CHR ''>'')]"

function xml_unescape :: "string \<Rightarrow> string option" where
  "xml_unescape [] = Some []"
| "xml_unescape (c # s) =
     (if c = CHR ''&'' then
        (case map_of xml_entities (takeWhile (\<lambda>x. x \<noteq> CHR '';'') s) of
           Some d \<Rightarrow> map_option ((#) d) (xml_unescape (tl (dropWhile (\<lambda>x. x \<noteq> CHR '';'') s)))
         | None \<Rightarrow> None)
      else if c = CHR ''<'' then None
      else map_option ((#) c) (xml_unescape s))"
  by pat_completeness auto
termination
proof (relation "measure length")
  fix c :: char and s :: string and d
  have "length (tl (dropWhile (\<lambda>x. x \<noteq> CHR '';'') s)) \<le> length s"
    using length_dropWhile_le [of "\<lambda>x. x \<noteq> CHR '';''" s] by simp
  then show "(tl (dropWhile (\<lambda>x. x \<noteq> CHR '';'') s), c # s) \<in> measure length"
    by simp
qed auto

lemma hex_value_upper: "n < 16 \<Longrightarrow> hex_value (hex_upper n) = Some n"
  by (auto simp: hex_value_def hex_upper_def g_ascii_isdigit_def)

lemma hex_upper_unreserved: "n < 16 \<Longrightarrow> unreserved (hex_upper n)"
  by (auto simp: unreserved_def hex_upper_def g_ascii_isalnum_def g_ascii_isalpha_def g_ascii_isdigit_def)

lemma not_unreserved [simp]: "\<not> unreserved CHR ''%'' \<and> \<not> unreserved CHR 0x22 \<and> \<not> unreserved CHR ''&''"
  by (simp add: unreserved_def g_ascii_isalnum_def g_ascii_isalpha_def g_ascii_isdigit_def code_def)

lemma code_split: "char_of (16 * (code c div 16) + code c mod 16) = c"
  by simp

lemma uridecode_uriescape: "uridecode (uriescape s) = Some s"
proof (induction s)
  case (Cons c s)
  have c: "code c < 16 * 16" using code_less [of c] by simp
  then have "code c div 16 < 16" by (simp add: less_mult_imp_div_less)
  with Cons show ?case by (auto simp: hex_value_upper code_split)
qed simp

lemma xml_unescape_guot: "xml_unescape (''&guot;'' @ t) = None"
  by (simp add: xml_entities_def)

lemma xml_unescape_xmlescape:
  "xml_unescape (xmlescape s) = (if CHR 0x22 \<in> set s then None else Some s)"
proof (induction s)
  case (Cons c s)
  then show ?case
    by (auto simp: xml_entities_def)
qed simp

lemma uriescape_set: "set (uriescape s) \<subseteq> insert CHR ''%'' {c. unreserved c}"
proof (induction s)
  case (Cons c s)
  have "code c < 16 * 16" using code_less [of c] by simp
  then have "code c div 16 < 16" by (simp add: less_mult_imp_div_less)
  with Cons show ?case by (auto intro!: hex_upper_unreserved)
qed simp

subsection \<open>Properties\<close>

text \<open>
  C33. \<open>uriescape\<close> loses nothing: percent-decoding its output gives the input back. The output
  holds unreserved characters and percent signs only, and it is at most three times as long as
  the input, which is what the caller reserves for it.
\<close>

theorem uriescape_roundtrip:
  "uridecode (uriescape s) = Some s \<and>
   set (uriescape s) \<subseteq> insert CHR ''%'' {c. unreserved c} \<and>
   length (uriescape s) \<le> 3 * length s"
proof (intro conjI)
  show "length (uriescape s) \<le> 3 * length s"
    by (induction s) auto
qed (rule uridecode_uriescape uriescape_set)+

text \<open>
  The output of \<open>xmlescape\<close> is text an XML reader turns back into the input, unless the input
  holds a double quote: for that character the code writes \<open>&guot;\<close>, which is no entity of XML,
  and the reader refuses the whole text.
\<close>

theorem xmlescape_roundtrip_but_quotes:
  "xml_unescape (xmlescape s) = (if CHR 0x22 \<in> set s then None else Some s)"
  by (rule xml_unescape_xmlescape)

text \<open>
  \<open>is_num\<close> and \<open>strtoul\<close>: a text \<open>is_num\<close> accepts is read as its decimal value, or as the
  largest unsigned long when that does not fit, and \<open>%lu\<close> prints it back: an identifier survives
  printing and reading.
\<close>

theorem identifier_roundtrip:
  "strtoul (show_ulong w) = w \<and> is_num (show_ulong w) \<and>
   (is_num s \<longrightarrow> unat (strtoul s) = min (digits_value 0 s) (2 ^ 64 - 1))"
  by (simp add: strtoul_is_num) (simp add: show_ulong_def)

theorem identifier_roundtrip_witness:
  "unat (strtoul ''20000000000000000000'') = 2 ^ 64 - 1"
  using identifier_roundtrip [of 0 "''20000000000000000000''"]
  by (simp add: g_ascii_isdigit_def code_def)

end
