(* ===== verification/Xcal_State.thy ===== *)
theory Xcal_State
  imports Text_Util Idm_Server
begin

text \<open>
  The state of the device service \<open>src/xcal-device.c\<close> with its configuration, the notifications it
  sends, and the functions that fill its variables from files and from the interfaces: DNS
  configuration, identifiers, time zone, serial number, hosts, device properties, device name,
  IPv6 prefix and addresses. \<open>g_file_get_contents\<close> is a function from names to contents, so a file
  that exists can be read. The strings of the configuration carry no outer white space, since the
  key file reader removes it. Variables that nothing reads (\<open>lan_ip\<close>, \<open>hostsFile\<close> and others) are left
  out of the records; \<open>gint\<close> variables are 32 bit words, whose arithmetic wraps.
\<close>

subsection \<open>Configuration and state\<close>

record xd_conf =
  dc_bcastIf :: "string option"
  dc_streamIf :: "string option"
  dc_trmIf :: "string option"
  dc_gwIf :: "string option"
  dc_cvpIf :: "string option"
  dc_ruiPath :: "string option"
  dc_uriOverride :: "string option"
  dc_hostMacIf :: "string option"
  dc_oemFile :: "string option"
  dc_dnsFile :: "string option"
  dc_dsgFile :: "string option"
  dc_diagFile :: "string option"
  dc_devXmlPath :: "string option"
  dc_devXmlFile :: "string option"
  dc_cvpXmlFile :: "string option"
  dc_logFile :: "string option"
  dc_devPropertyFile :: "string option"
  dc_ipv6FileLocation :: "string option"
  dc_ipv6PrefixFile :: "string option"
  dc_deviceNameFile :: "string option"
  dc_enableCVP2 :: bool
  dc_useIARM :: bool
  dc_allowGwy :: bool
  dc_enableTRM :: bool
  dc_useGliDiag :: bool
  dc_disableTuneReady :: bool
  dc_enableHostMacPblsh :: bool
  dc_rmfCrshSupp :: bool
  dc_wareHouseMode :: bool
  dc_bcastPort :: int
  dc_cvpPort :: int

text \<open>
  What leaves the service on its own: value notifications to the control points and the root
  device's presence on the network. \<open>x_dev\<close> and \<open>x_upnpService\<close> say whether the pointers are set.
\<close>

datatype xd_effect = Notify string gvalue | Set_available bool

record xd_state =
  x_url :: string
  x_trmurl :: string
  x_playbackurl :: string
  x_gwyip :: string
  x_gwyipv6 :: string
  x_gwystbip :: string
  x_ipv6prefix :: string
  x_dnsconfig :: string
  x_systemids :: string
  x_dsgtimezone :: string
  x_etchosts :: string
  x_serial_num :: string
  x_recv_id :: string
  x_partner_id :: string
  x_hostmacaddress :: string
  x_bcastmacaddress :: string
  x_devicename :: string
  x_buildversion :: string
  x_recvdevtype :: string
  x_devicetype :: string
  x_mocaIface :: string
  x_wifiIface :: string
  x_dataGatewayIPaddress :: string
  x_trmurlCVP2 :: string
  x_playbackurlCVP2 :: string
  x_gwyipCVP2 :: string
  x_ruiurl :: string
  x_channelmap_id :: "64 word"
  x_dac_id :: "64 word"
  x_plant_id :: "64 word"
  x_vodserver_id :: "64 word"
  x_isgateway :: bool
  x_requirestrm :: bool
  x_service_ready :: bool
  x_usesDaylightTime :: bool
  x_tune_ready :: int
  x_dstOffset :: "32 word"
  x_rawOffset :: "32 word"
  x_dstSavings :: "32 word"
  x_sysModeParam :: int
  x_dev :: bool
  x_upnpService :: bool
  x_sent :: "xd_effect list"

text \<open>The variables as \<open>main\<close> sets them first; \<open>dstOffset\<close> starts at 1, which is no offset.\<close>

definition xd_init :: "xd_state" where
  "xd_init = \<lparr>x_url = ''null'', x_trmurl = ''null'', x_playbackurl = ''null'', x_gwyip = ''null'',
     x_gwyipv6 = ''null'', x_gwystbip = ''null'', x_ipv6prefix = ''null'', x_dnsconfig = ''null'',
     x_systemids = ''null'', x_dsgtimezone = ''null'', x_etchosts = ''null'', x_serial_num = ''null'',
     x_recv_id = ''null'', x_partner_id = ''null'', x_hostmacaddress = ''null'',
     x_bcastmacaddress = ''null'', x_devicename = ''null'', x_buildversion = ''null'',
     x_recvdevtype = ''null'', x_devicetype = ''null'', x_mocaIface = ''null'', x_wifiIface = ''null'',
     x_dataGatewayIPaddress = ''null'', x_trmurlCVP2 = ''null'', x_playbackurlCVP2 = ''null'',
     x_gwyipCVP2 = ''null'', x_ruiurl = ''null'', x_channelmap_id = 0, x_dac_id = 0, x_plant_id = 0,
     x_vodserver_id = 0, x_isgateway = True, x_requirestrm = True, x_service_ready = False,
     x_usesDaylightTime = False, x_tune_ready = 0, x_dstOffset = 1, x_rawOffset = 0, x_dstSavings = 0,
     x_sysModeParam = 0, x_dev = False, x_upnpService = False, x_sent = []\<rparr>"

type_synonym files = "string \<Rightarrow> string option"

subsection \<open>Notifications\<close>

definition xd_emit :: "xd_effect \<Rightarrow> xd_state \<Rightarrow> xd_state" where
  "xd_emit e st = st\<lparr>x_sent := x_sent st @ [e]\<rparr>"

definition notify_value_change :: "string \<Rightarrow> string \<Rightarrow> xd_state \<Rightarrow> xd_state" where
  "notify_value_change varname strvalue st =
     (if \<not> x_service_ready st \<or> \<not> x_upnpService st then st
      else xd_emit (Notify varname (G_STRING strvalue)) st)"

definition notify_value_change_int :: "string \<Rightarrow> 32 word \<Rightarrow> xd_state \<Rightarrow> xd_state" where
  "notify_value_change_int varname intvalue st =
     (if \<not> x_service_ready st \<or> \<not> x_upnpService st then st
      else xd_emit (Notify varname (G_INT intvalue)) st)"

text \<open>\<open>gupnp_root_device_set_available\<close> on a root device that may not exist yet.\<close>

definition set_available :: "bool \<Rightarrow> xd_state \<Rightarrow> xd_state" where
  "set_available b st = (if x_dev st then xd_emit (Set_available b) st else st)"

text \<open>The comparison strips the time zone in place.\<close>

definition notify_timezone :: "xd_state \<Rightarrow> xd_state" where
  "notify_timezone st =
     (let st = st\<lparr>x_dsgtimezone := g_strstrip (x_dsgtimezone st)\<rparr>;
          st = (if g_strcmp0 (Some (x_dsgtimezone st)) (Some ''US/Mountain'') = 0 \<and> x_dstOffset st = 0
                then st\<lparr>x_dsgtimezone := ''US/Arizona''\<rparr>
                else if g_strcmp0 (Some (x_dsgtimezone st)) (Some ''US/Central'') = 0 \<and> x_dstOffset st = 0
                then st\<lparr>x_dsgtimezone := ''Canada/Saskatchewan''\<rparr> else st)
      in notify_value_change ''TimeZone'' (x_dsgtimezone st) st)"

definition mapTimeZoneToJavaFormat :: "string \<Rightarrow> xd_state \<Rightarrow> xd_state" where
  "mapTimeZoneToJavaFormat payload st =
     (case find_tzStruct payload of
        None \<Rightarrow> st
      | Some t \<Rightarrow>
          (let st = st\<lparr>x_dsgtimezone := javaTZ t\<rparr>;
               st = (if x_dstOffset st \<noteq> 1 then notify_timezone st else st)
           in st\<lparr>x_rawOffset := tz_rawOffset t, x_usesDaylightTime := usesDST t\<rparr>))"

subsection \<open>Identifiers\<close>

text \<open>The loop does not stop at a match: the last token with a successor decides.\<close>

fun diag_loop :: "string \<Rightarrow> string list \<Rightarrow> 64 word \<Rightarrow> 64 word" where
  "diag_loop diagparam [] diagid = diagid"
| "diag_loop diagparam (t # ts) diagid =
     (if g_strrstr (g_strstrip t) diagparam then
        (case ts of [] \<Rightarrow> diag_loop diagparam ts diagid
         | u # _ \<Rightarrow> diag_loop diagparam ts (strtoul u))
      else diag_loop diagparam ts diagid)"

definition getidfromdiagfile :: "string \<Rightarrow> string \<Rightarrow> 64 word" where
  "getidfromdiagfile diagparam contents = diag_loop diagparam (g_strsplit_set contents '':,{}'') 0"

definition ids_text :: "64 word \<Rightarrow> 64 word \<Rightarrow> 64 word \<Rightarrow> 64 word \<Rightarrow> string" where
  "ids_text c d p v =
     ''channelMapId:'' @ show_ulong c @ '';controllerId:'' @ show_ulong d @
     '';plantId:'' @ show_ulong p @ '';vodServerId:'' @ show_ulong v"

definition updatesystemids :: "xd_conf \<Rightarrow> files \<Rightarrow> xd_state \<Rightarrow> bool \<times> xd_state" where
  "updatesystemids C files st =
     (if dc_useGliDiag C then
        (True, st\<lparr>x_systemids := ids_text (x_channelmap_id st) (x_dac_id st) (x_plant_id st) (x_vodserver_id st)\<rparr>)
      else (case dc_diagFile C of
              None \<Rightarrow> (False, st)
            | Some f \<Rightarrow>
                (case files f of
                   None \<Rightarrow> (False, st\<lparr>x_systemids := ''channelMapId:0;controllerId:0;plantId:0;vodServerId:0''\<rparr>)
                 | Some d \<Rightarrow>
                     (True, st\<lparr>x_systemids :=
                        ids_text (getidfromdiagfile ''channelMapId'' d) (getidfromdiagfile ''controllerId'' d)
                                 (getidfromdiagfile ''plantId'' d) (getidfromdiagfile ''vodServerId'' d)\<rparr>))))"

subsection \<open>Values from files\<close>

fun dns_loop :: "string list \<Rightarrow> bool \<Rightarrow> string \<Rightarrow> string" where
  "dns_loop [] firsttok acc = acc"
| "dns_loop (t # ts) firsttok acc =
     (let t = g_strstrip t in
      if length t > 0 then
        (if \<not> firsttok then dns_loop ts firsttok (acc @ t @ '';'') else dns_loop ts False (t @ '';''))
      else dns_loop ts firsttok acc)"

definition getdnsconfig :: "xd_conf \<Rightarrow> files \<Rightarrow> xd_state \<Rightarrow> bool \<times> xd_state" where
  "getdnsconfig C files st =
     (case dc_dnsFile C of
        None \<Rightarrow> (False, st)
      | Some f \<Rightarrow>
          (case files f of
             None \<Rightarrow> (False, st)
           | Some contents \<Rightarrow> (True, st\<lparr>x_dnsconfig := dns_loop (g_strsplit_set contents [CHR 0x0A]) True []\<rparr>)))"

text \<open>The tokens after the first one that holds a key, which is where the loops below stop.\<close>

fun tokens_after :: "string \<Rightarrow> string list \<Rightarrow> string list option" where
  "tokens_after key [] = None"
| "tokens_after key (t # ts) = (if g_strrstr (g_strstrip t) key then Some ts else tokens_after key ts)"

definition gettimezone :: "xd_conf \<Rightarrow> files \<Rightarrow> xd_state \<Rightarrow> bool \<times> xd_state" where
  "gettimezone C files st =
     (case dc_dsgFile C of
        None \<Rightarrow> (False, st)
      | Some f \<Rightarrow>
          (case files f of
             None \<Rightarrow> (False, st)
           | Some contents \<Rightarrow>
               (case tokens_after ''DSGPROXY_HOST_TIME_ZONE'' (g_strsplit_set contents '',='') of
                  None \<Rightarrow> (False, st)
                | Some [] \<Rightarrow> (True, st)
                | Some (u # _) \<Rightarrow> (True, st\<lparr>x_dsgtimezone := g_strstrip u\<rparr>))))"

text \<open>
  The serial number: two tokens after the key, where the token at the end of the array is NULL and
  changes nothing; on a client build what the manufacturer library answers, if anything.
\<close>

definition xd_getserialnum :: "bool \<Rightarrow> files \<Rightarrow> string option \<Rightarrow> xd_state \<Rightarrow> bool \<times> xd_state" where
  "xd_getserialnum client files mfr st =
     (if client then
        (case mfr of Some s \<Rightarrow> (True, st\<lparr>x_serial_num := s\<rparr>) | None \<Rightarrow> (False, st))
      else
        (case files ''//etc//udhcpc.vendor_specific'' of
           None \<Rightarrow> (False, st)
         | Some contents \<Rightarrow>
             (case tokens_after ''SUBOPTION4''
                     (g_strsplit_set contents [CHR '' '', CHR 0x0A, CHR 0x09, CHR 0x08]) of
                None \<Rightarrow> (False, st)
              | Some (_ # v # _) \<Rightarrow> (True, st\<lparr>x_serial_num := g_strstrip v\<rparr>)
              | Some _ \<Rightarrow> (True, st))))"

fun hosts_loop :: "string \<Rightarrow> string list \<Rightarrow> string \<Rightarrow> string" where
  "hosts_loop gw [] acc = acc"
| "hosts_loop gw (t # ts) acc =
     (let t = g_strstrip t in
      if \<not> g_strrstr t ''127.0.0.1'' then
        (if length t > 0 then hosts_loop gw ts (acc @ gw @ '' '' @ t @ '';'') else hosts_loop gw ts acc)
      else hosts_loop gw ts acc)"

definition getetchosts :: "bool \<Rightarrow> files \<Rightarrow> xd_state \<Rightarrow> bool \<times> xd_state" where
  "getetchosts ipv6Enabled files st =
     (case files (if ipv6Enabled then ''//etc//xi-xconf-hosts.list'' else ''//etc//hosts'') of
        None \<Rightarrow> (False, st)
      | Some contents \<Rightarrow>
          (let tokens = g_strsplit_set contents [CHR 0x0A];
               head = (case tokens of
                         [] \<Rightarrow> []
                       | t # _ \<Rightarrow>
                           if length (g_strstrip t) > 0 \<and> \<not> g_strrstr (g_strstrip t) ''127.0.0.1''
                           then x_gwyip st @ '' '' @ g_strstrip t @ '';'' else [])
           in (True, st\<lparr>x_etchosts := hosts_loop (x_gwyip st) (drop 1 tokens) head\<rparr>)))"

text \<open>
  \<open>readDevFile\<close>: a key that is followed by a token sets a variable and counts; the fifth ends the
  loop. The first three keys exclude each other, the last two are looked for in any case.
\<close>

definition dev_found ::
  "((string \<Rightarrow> string) \<Rightarrow> xd_state \<Rightarrow> xd_state) \<Rightarrow> string list \<Rightarrow> nat \<Rightarrow> xd_state \<Rightarrow> nat \<times> xd_state \<times> bool" where
  "dev_found assign ts counter st =
     (case ts of
        [] \<Rightarrow> (counter, st, counter = 5)
      | u # _ \<Rightarrow> (Suc counter, assign (\<lambda>_. g_strstrip u) st, Suc counter = 5))"

fun dev_loop :: "string list \<Rightarrow> nat \<Rightarrow> xd_state \<Rightarrow> bool \<times> xd_state" where
  "dev_loop [] counter st = (False, st)"
| "dev_loop (t # ts) counter st =
     (let t = g_strstrip t in
      case (if g_strrstr t ''RECEIVER_DEVICETYPE'' then dev_found x_recvdevtype_update ts counter st
            else if g_strrstr t ''BUILD_VERSION'' then dev_found x_buildversion_update ts counter st
            else if g_strrstr t ''BOX_TYPE'' then dev_found x_devicetype_update ts counter st
            else (counter, st, False)) of (counter, st, full) \<Rightarrow>
      if full then (True, st) else
      case (if g_strrstr t ''MOCA_INTERFACE'' then dev_found x_mocaIface_update ts counter st
            else (counter, st, False)) of (counter, st, full) \<Rightarrow>
      if full then (True, st) else
      case (if g_strrstr t ''WIFI_INTERFACE'' then dev_found x_wifiIface_update ts counter st
            else (counter, st, False)) of (counter, st, full) \<Rightarrow>
      if full then (True, st) else dev_loop ts counter st)"

definition readDevFile :: "files \<Rightarrow> string option \<Rightarrow> xd_state \<Rightarrow> bool \<times> xd_state" where
  "readDevFile files deviceFile st =
     (case deviceFile of
        None \<Rightarrow> (False, st)
      | Some f \<Rightarrow>
          (case files f of
             None \<Rightarrow> (False, st)
           | Some contents \<Rightarrow>
               dev_loop (g_strsplit_set contents [CHR '','', CHR ''='', CHR 0x27, CHR 0x0A]) 0 st))"

text \<open>
  \<open>getdevicename\<close> takes the token after the key, which \<open>g_string_printf\<close> prints as \<open>(null)\<close> when the
  array ends there; the answer is TRUE whenever the file could be read.
\<close>

definition getdevicename :: "xd_conf \<Rightarrow> files \<Rightarrow> xd_state \<Rightarrow> bool \<times> xd_state" where
  "getdevicename C files st =
     (case dc_deviceNameFile C of
        None \<Rightarrow> (False, st)
      | Some f \<Rightarrow>
          (case files f of
             None \<Rightarrow> (False, st)
           | Some contents \<Rightarrow>
               (case tokens_after ''deviceName'' (g_strsplit_set contents [CHR 0x27, CHR ''='', CHR 0x0A]) of
                  None \<Rightarrow> (True, st)
                | Some [] \<Rightarrow> (True, st\<lparr>x_devicename := ''(null)''\<rparr>)
                | Some (u # _) \<Rightarrow> (True, st\<lparr>x_devicename := g_strstrip u\<rparr>))))"

subsection \<open>The IPv6 prefix\<close>

text \<open>
  The inner loop of \<open>getipv6prefix\<close> runs over the parts of a line from position \<open>k\<close> and takes the
  part before the first that holds \<open>/AddrPrefix\<close>; \<open>prev\<close> is that part as stored, and there is none
  before position 0. \<open>k\<close> is not reset between lines.
\<close>

fun prefix_scan :: "string option \<Rightarrow> string list \<Rightarrow> nat \<Rightarrow> (nat \<times> string option) outcome" where
  "prefix_scan prev [] k = Inr (k, None)"
| "prefix_scan prev (t # ts) k =
     (let t = g_strstrip t in
      if g_strrstr t ''/AddrPrefix'' then
        (case prev of None \<Rightarrow> Inl Out_of_bounds | Some p \<Rightarrow> Inr (k, Some p))
      else prefix_scan (Some t) ts (Suc k))"

fun prefix_lines :: "string option \<Rightarrow> string list \<Rightarrow> bool \<Rightarrow> nat \<Rightarrow> string option outcome" where
  "prefix_lines hostMacIf [] ifacematch k = Inr None"
| "prefix_lines hostMacIf (t # ts) ifacematch k =
     (let t = g_strstrip t in
      if \<not> ifacematch then
        prefix_lines hostMacIf ts
          (g_strrstr t ''ifacename'' \<and> (case hostMacIf of Some i \<Rightarrow> g_strrstr t i | None \<Rightarrow> False)) k
      else if g_strrstr t ''AddrPrefix'' then
        (let parts = g_strsplit_set t [CHR 0x27, CHR ''<'', CHR ''>'', CHR ''=''] in
         bind_outcome (prefix_scan (if k = 0 then None else Some (parts ! (k - 1))) (drop k parts) k)
           (\<lambda>(k, p). case p of Some p \<Rightarrow> Inr (Some p) | None \<Rightarrow> prefix_lines hostMacIf ts ifacematch k))
      else prefix_lines hostMacIf ts ifacematch k)"

definition getipv6prefix :: "xd_conf \<Rightarrow> files \<Rightarrow> xd_state \<Rightarrow> (bool \<times> xd_state) outcome" where
  "getipv6prefix C files st =
     (case dc_ipv6PrefixFile C of
        None \<Rightarrow> Inr (False, st)
      | Some f \<Rightarrow>
          (case files f of
             None \<Rightarrow> Inr (False, st)
           | Some contents \<Rightarrow>
               bind_outcome (prefix_lines (dc_hostMacIf C) (g_strsplit_set contents [CHR 0x27, CHR 0x0A]) False 0)
                 (\<lambda>p. case p of
                        Some p \<Rightarrow> Inr (True, st\<lparr>x_ipv6prefix := p\<rparr>)
                      | None \<Rightarrow> Inr (False, st))))"

subsection \<open>Interface addresses\<close>

text \<open>
  \<open>IN6_IS_ADDR_LINKLOCAL\<close> is an argument. The names of the configuration are compared after
  stripping. An IPv6 address counts if it is link local and the interface is the broadcast
  interface, or if it is not and the interface is the host's own.
\<close>

definition xd_wanted_v6 :: "(string \<Rightarrow> bool) \<Rightarrow> xd_conf \<Rightarrow> string \<Rightarrow> string \<Rightarrow> bool" where
  "xd_wanted_v6 linklocal C ifname a \<longleftrightarrow>
     g_strcmp0 (map_option g_strstrip (dc_bcastIf C)) (Some ifname) = 0 \<and> linklocal a \<or>
     \<not> linklocal a \<and> g_strcmp0 (map_option g_strstrip (dc_hostMacIf C)) (Some ifname) = 0"

fun xd_getip_loop ::
  "(string \<Rightarrow> bool) \<Rightarrow> xd_conf \<Rightarrow> bool \<Rightarrow> string \<Rightarrow> ifaddrs list \<Rightarrow> string \<Rightarrow> int \<times> string" where
  "xd_getip_loop ll C ipv6Enabled ifname [] buf = (0, buf)"
| "xd_getip_loop ll C ipv6Enabled ifname (ifa # ifas) buf =
     (let named = ifa_name ifa \<noteq> [] \<and> strcmp (ifa_name ifa) ifname = 0 in
      case ifa_addr ifa of
        None \<Rightarrow> xd_getip_loop ll C ipv6Enabled ifname ifas buf
      | Some sa \<Rightarrow>
          if ipv6Enabled then
            (case sa of
               AF_INET6 a \<Rightarrow>
                 if named then
                   (if xd_wanted_v6 ll C ifname a then (1, a) else xd_getip_loop ll C ipv6Enabled ifname ifas a)
                 else xd_getip_loop ll C ipv6Enabled ifname ifas buf
             | _ \<Rightarrow> xd_getip_loop ll C ipv6Enabled ifname ifas buf)
          else
            (case sa of
               AF_INET a \<Rightarrow> if named then (1, a) else xd_getip_loop ll C ipv6Enabled ifname ifas a
             | _ \<Rightarrow> xd_getip_loop ll C ipv6Enabled ifname ifas buf))"

definition xd_getipaddress ::
  "(string \<Rightarrow> bool) \<Rightarrow> xd_conf \<Rightarrow> ifaddrs list option \<Rightarrow> string \<Rightarrow> string \<Rightarrow> bool \<Rightarrow> int \<times> string" where
  "xd_getipaddress ll C addrs ifname buf ipv6Enabled =
     xd_getip_loop ll C ipv6Enabled ifname (case addrs of None \<Rightarrow> [] | Some ifas \<Rightarrow> ifas) buf"

text \<open>
  \<open>strcpy_s\<close> refuses a name of 15 characters or more, and the answer is then the empty text;
  otherwise the bytes are those of \<open>ioctl\<close> or, when it fails, whatever was there.
\<close>

definition xd_getmacaddress :: "string \<Rightarrow> 8 word list option \<Rightarrow> 8 word list \<Rightarrow> string" where
  "xd_getmacaddress ifname hwaddr junk =
     (if length ifname \<ge> 15 then [] else getmacaddress True hwaddr junk)"

end
