(* ===== verification/Xcal_Events.thy ===== *)
theory Xcal_Events
  imports Xcal_State
begin

text \<open>
  What the bus tells the device service \<open>src/xcal-device.c\<close> and what the service makes of it:
  \<open>_sysEventHandler\<close>, \<open>_routesysEventHandler\<close>, \<open>_SysModeChange\<close>, \<open>getRouteData\<close> and
  \<open>getSystemValues\<close>. The names and numbers of the system manager's headers are arguments.
\<close>

subsection \<open>System state events\<close>

text \<open>The system states the handler looks at, and the data of an event.\<close>

datatype SystemState =
    SYSSTATE_TUNEREADY | SYSSTATE_STB_SERIAL_NO | SYSSTATE_CHANNELMAP | SYSSTATE_DAC_ID
  | SYSSTATE_PLANT_ID | SYSSTATE_VOD_AD | SYSSTATE_TIME_ZONE | SYSSTATE_DST_OFFSET | SYSSTATE_OTHER

record sys_event =
  ev_stateId :: SystemState
  ev_state :: int
  ev_error :: bool
  ev_payload :: string

record iarm_names =
  SYSMGR_NAME :: string
  SYSMGR_EVENT_SYSTEMSTATE :: int
  SYS_MODE_WAREHOUSE :: int

definition publish_ids :: "xd_conf \<Rightarrow> files \<Rightarrow> xd_state \<Rightarrow> xd_state" where
  "publish_ids C files st =
     (let st = snd (updatesystemids C files st) in notify_value_change ''SystemIds'' (x_systemids st) st)"

definition publish_urls :: "xd_conf \<Rightarrow> files \<Rightarrow> xd_state \<Rightarrow> xd_state" where
  "publish_urls C files st =
     (let st = (if \<not> dc_useGliDiag C then publish_ids C files st else st)
      in notify_value_change ''PlaybackUrl'' (x_playbackurl st) st)"

text \<open>The branch of each of the four identifiers.\<close>

definition id_event ::
  "xd_conf \<Rightarrow> files \<Rightarrow> ((64 word \<Rightarrow> 64 word) \<Rightarrow> xd_state \<Rightarrow> xd_state) \<Rightarrow> sys_event \<Rightarrow> xd_state \<Rightarrow> xd_state" where
  "id_event C files assign e st =
     (if ev_error e then assign (\<lambda>_. 0) st
      else if ev_state e = 2 then
        (if length (ev_payload e) > 0 \<and> is_num (ev_payload e)
         then publish_ids C files (assign (\<lambda>_. strtoul (ev_payload e)) st) else st)
      else st)"

definition tune_event :: "xd_conf \<Rightarrow> files \<Rightarrow> int \<Rightarrow> xd_state \<Rightarrow> xd_state" where
  "tune_event C files state st =
     (if x_tune_ready st \<noteq> state then
        (let st = st\<lparr>x_tune_ready := state\<rparr> in
         if dc_rmfCrshSupp C then
           (if x_tune_ready st = 1 then publish_urls C files (set_available True st)
            else set_available False st)
         else publish_urls C files st)
      else st)"

definition set_dst_offset :: "string \<Rightarrow> xd_state \<Rightarrow> xd_state" where
  "set_dst_offset payload st =
     (let offset = atoi payload in st\<lparr>x_dstOffset := offset, x_dstSavings := offset * 60000\<rparr>)"

definition tell_timezone :: "xd_state \<Rightarrow> xd_state" where
  "tell_timezone st =
     (let st = st\<lparr>x_dsgtimezone := g_strstrip (x_dsgtimezone st)\<rparr> in
      if g_strcmp0 (Some (x_dsgtimezone st)) (Some ''null'') \<noteq> 0 then notify_timezone st else st)"

definition sysEventHandler ::
  "iarm_names \<Rightarrow> xd_conf \<Rightarrow> files \<Rightarrow> string \<Rightarrow> int \<Rightarrow> sys_event \<Rightarrow> xd_state \<Rightarrow> xd_state" where
  "sysEventHandler I C files owner eventId e st =
     (if eventId \<noteq> SYSMGR_EVENT_SYSTEMSTATE I \<or> owner = [] \<or> strcmp owner (SYSMGR_NAME I) \<noteq> 0 then st
      else (case ev_stateId e of
        SYSSTATE_TUNEREADY \<Rightarrow> tune_event C files (ev_state e) st
      | SYSSTATE_STB_SERIAL_NO \<Rightarrow> st\<lparr>x_serial_num := ev_payload e\<rparr>
      | SYSSTATE_CHANNELMAP \<Rightarrow> id_event C files x_channelmap_id_update e st
      | SYSSTATE_DAC_ID \<Rightarrow> id_event C files x_dac_id_update e st
      | SYSSTATE_PLANT_ID \<Rightarrow> id_event C files x_plant_id_update e st
      | SYSSTATE_VOD_AD \<Rightarrow> id_event C files x_vodserver_id_update e st
      | SYSSTATE_TIME_ZONE \<Rightarrow>
          (if ev_error e then st
           else if ev_state e = 2 \<and> length (ev_payload e) > 1 then mapTimeZoneToJavaFormat (ev_payload e) st
           else st)
      | SYSSTATE_DST_OFFSET \<Rightarrow>
          (if ev_error e then st
           else if ev_state e = 2 then tell_timezone (set_dst_offset (ev_payload e) st)
           else st)
      | SYSSTATE_OTHER \<Rightarrow> st))"

subsection \<open>Routes and modes\<close>

definition IARM_BUS_NM_SRV_MGR_NAME :: string where "IARM_BUS_NM_SRV_MGR_NAME = ''NET_SRV_MGR''"
definition EVENT_ROUTE_DATA :: int where "EVENT_ROUTE_DATA = 10"

definition routesysEventHandler :: "string \<Rightarrow> int \<Rightarrow> string \<Rightarrow> xd_state \<Rightarrow> xd_state" where
  "routesysEventHandler owner eventId routeIp st =
     (if owner \<noteq> [] \<and> strcmp owner IARM_BUS_NM_SRV_MGR_NAME = 0 \<and> eventId = EVENT_ROUTE_DATA then
        (let routeIp = g_strstrip routeIp in
         if strcmp routeIp (x_dataGatewayIPaddress st) \<noteq> 0 then
           notify_value_change ''DataGatewayIPaddress'' routeIp (st\<lparr>x_dataGatewayIPaddress := routeIp\<rparr>)
         else st)
      else st)"

text \<open>The answer of the route manager: its status and the route's address.\<close>

definition getRouteData :: "bool \<times> string \<Rightarrow> xd_state \<Rightarrow> xd_state" where
  "getRouteData param st = (if fst param then st\<lparr>x_dataGatewayIPaddress := snd param\<rparr> else st)"

definition SysModeChange :: "int \<Rightarrow> xd_state \<Rightarrow> xd_state" where
  "SysModeChange newMode st = st\<lparr>x_sysModeParam := newMode\<rparr>"

subsection \<open>The system values at the start\<close>

text \<open>The answer of the system manager: a state and a text for each value.\<close>

record system_states =
  ss_channel_map :: "int \<times> string"
  ss_dac_id :: "int \<times> string"
  ss_plant_id :: "int \<times> string"
  ss_vod_ad :: "int \<times> string"
  ss_time_zone :: "int \<times> string"
  ss_dst_offset :: "int \<times> string"
  ss_TuneReadyStatus :: int
  ss_stb_serial_no :: "string option"

definition take_id ::
  "((64 word \<Rightarrow> 64 word) \<Rightarrow> xd_state \<Rightarrow> xd_state) \<Rightarrow> int \<times> string \<Rightarrow> xd_state \<Rightarrow> xd_state" where
  "take_id assign p st =
     (if fst p = 2 \<and> length (snd p) > 0 \<and> is_num (snd p) then assign (\<lambda>_. strtoul (snd p)) st else st)"

definition take_dst_offset :: "int \<times> string \<Rightarrow> xd_state \<Rightarrow> xd_state" where
  "take_dst_offset p st =
     (if fst p = 2 then
        (let st = (if length (snd p) > 0 then st\<lparr>x_dstOffset := atoi (snd p)\<rparr> else st);
             st = st\<lparr>x_dstSavings := x_dstOffset st * 60000\<rparr>
         in tell_timezone st)
      else st)"

definition getSystemValues :: "system_states \<Rightarrow> xd_state \<Rightarrow> xd_state" where
  "getSystemValues param st =
     (let st = take_id x_channelmap_id_update (ss_channel_map param) st;
          st = take_id x_dac_id_update (ss_dac_id param) st;
          st = take_id x_plant_id_update (ss_plant_id param) st;
          st = take_id x_vodserver_id_update (ss_vod_ad param) st;
          st = (if fst (ss_time_zone param) = 2 \<and> length (snd (ss_time_zone param)) > 0
                then mapTimeZoneToJavaFormat (snd (ss_time_zone param)) st else st);
          st = take_dst_offset (ss_dst_offset param) st;
          st = (if x_tune_ready st \<noteq> ss_TuneReadyStatus param
                then (let st = st\<lparr>x_tune_ready := ss_TuneReadyStatus param\<rparr>
                      in notify_value_change ''PlaybackUrl'' (x_playbackurl st) st)
                else st)
      in case ss_stb_serial_no param of Some s \<Rightarrow> st\<lparr>x_serial_num := s\<rparr> | None \<Rightarrow> st)"

text \<open>Everything the bus can deliver.\<close>

datatype xd_event =
    Sys_event string int sys_event
  | Route_event string int string
  | Mode_change int

fun xd_handle :: "iarm_names \<Rightarrow> xd_conf \<Rightarrow> files \<Rightarrow> xd_event \<Rightarrow> xd_state \<Rightarrow> xd_state" where
  "xd_handle I C files (Sys_event owner eventId e) st = sysEventHandler I C files owner eventId e st"
| "xd_handle I C files (Route_event owner eventId ip) st = routesysEventHandler owner eventId ip st"
| "xd_handle I C files (Mode_change m) st = SysModeChange m st"

subsection \<open>What the steps leave alone\<close>

text \<open>
  The variables only the start of the service sets, and the ones each step may change. The laws
  are proved for the notification and handed on.
\<close>

definition same_static :: "xd_state \<Rightarrow> xd_state \<Rightarrow> bool" where
  "same_static st st' \<longleftrightarrow>
     x_url st' = x_url st \<and> x_playbackurl st' = x_playbackurl st \<and> x_gwyip st' = x_gwyip st \<and>
     x_recv_id st' = x_recv_id st \<and> x_bcastmacaddress st' = x_bcastmacaddress st \<and>
     x_isgateway st' = x_isgateway st \<and> x_requirestrm st' = x_requirestrm st \<and>
     x_service_ready st' = x_service_ready st \<and> x_upnpService st' = x_upnpService st \<and>
     x_dev st' = x_dev st \<and> x_trmurl st' = x_trmurl st"

lemma same_static_refl [simp]: "same_static st st"
  by (simp add: same_static_def)

lemma same_static_trans: "same_static a b \<Longrightarrow> same_static b c \<Longrightarrow> same_static a c"
  by (simp add: same_static_def)

lemma same_static_notify [simp]:
  "same_static a (notify_value_change n v st) \<longleftrightarrow> same_static a st"
  "same_static a (set_available b st) \<longleftrightarrow> same_static a st"
  "same_static a (snd (updatesystemids C files st)) \<longleftrightarrow> same_static a st"
  by (auto simp: same_static_def notify_value_change_def set_available_def xd_emit_def updatesystemids_def
      split: option.split)

lemma xd_notify_frame [simp, frame_simps]:
  "x_channelmap_id (notify_value_change n v st) = x_channelmap_id st"
  "x_dac_id (notify_value_change n v st) = x_dac_id st"
  "x_plant_id (notify_value_change n v st) = x_plant_id st"
  "x_vodserver_id (notify_value_change n v st) = x_vodserver_id st"
  "x_systemids (notify_value_change n v st) = x_systemids st"
  "x_dsgtimezone (notify_value_change n v st) = x_dsgtimezone st"
  "x_dstOffset (notify_value_change n v st) = x_dstOffset st"
  "x_dstSavings (notify_value_change n v st) = x_dstSavings st"
  "x_rawOffset (notify_value_change n v st) = x_rawOffset st"
  "x_usesDaylightTime (notify_value_change n v st) = x_usesDaylightTime st"
  "x_tune_ready (notify_value_change n v st) = x_tune_ready st"
  "x_serial_num (notify_value_change n v st) = x_serial_num st"
  "x_service_ready (notify_value_change n v st) = x_service_ready st"
  "x_upnpService (notify_value_change n v st) = x_upnpService st"
  "x_playbackurl (notify_value_change n v st) = x_playbackurl st"
  "x_dataGatewayIPaddress (notify_value_change n v st) = x_dataGatewayIPaddress st"
  by (simp_all add: notify_value_change_def xd_emit_def)

lemma set_available_frame [simp, frame_simps]:
  "x_channelmap_id (set_available b st) = x_channelmap_id st"
  "x_dac_id (set_available b st) = x_dac_id st"
  "x_plant_id (set_available b st) = x_plant_id st"
  "x_vodserver_id (set_available b st) = x_vodserver_id st"
  "x_systemids (set_available b st) = x_systemids st"
  "x_dsgtimezone (set_available b st) = x_dsgtimezone st"
  "x_dstOffset (set_available b st) = x_dstOffset st"
  "x_dstSavings (set_available b st) = x_dstSavings st"
  "x_rawOffset (set_available b st) = x_rawOffset st"
  "x_usesDaylightTime (set_available b st) = x_usesDaylightTime st"
  "x_tune_ready (set_available b st) = x_tune_ready st"
  "x_serial_num (set_available b st) = x_serial_num st"
  "x_service_ready (set_available b st) = x_service_ready st"
  "x_upnpService (set_available b st) = x_upnpService st"
  "x_playbackurl (set_available b st) = x_playbackurl st"
  "x_dataGatewayIPaddress (set_available b st) = x_dataGatewayIPaddress st"
  by (simp_all add: set_available_def xd_emit_def)

lemma updatesystemids_frame [simp, frame_simps]:
  "x_channelmap_id (snd (updatesystemids C files st)) = x_channelmap_id st"
  "x_dac_id (snd (updatesystemids C files st)) = x_dac_id st"
  "x_plant_id (snd (updatesystemids C files st)) = x_plant_id st"
  "x_vodserver_id (snd (updatesystemids C files st)) = x_vodserver_id st"
  "x_dsgtimezone (snd (updatesystemids C files st)) = x_dsgtimezone st"
  "x_dstOffset (snd (updatesystemids C files st)) = x_dstOffset st"
  "x_dstSavings (snd (updatesystemids C files st)) = x_dstSavings st"
  "x_rawOffset (snd (updatesystemids C files st)) = x_rawOffset st"
  "x_usesDaylightTime (snd (updatesystemids C files st)) = x_usesDaylightTime st"
  "x_tune_ready (snd (updatesystemids C files st)) = x_tune_ready st"
  "x_serial_num (snd (updatesystemids C files st)) = x_serial_num st"
  "x_service_ready (snd (updatesystemids C files st)) = x_service_ready st"
  "x_upnpService (snd (updatesystemids C files st)) = x_upnpService st"
  "x_playbackurl (snd (updatesystemids C files st)) = x_playbackurl st"
  "x_dataGatewayIPaddress (snd (updatesystemids C files st)) = x_dataGatewayIPaddress st"
  "x_sent (snd (updatesystemids C files st)) = x_sent st"
  by (simp_all add: updatesystemids_def split: option.split)

end
