(* ===== verification/Xcal_Runs.thy ===== *)
theory Xcal_Runs
  imports Xcal_Events
begin

text \<open>
  Runs of the device service \<open>src/xcal-device.c\<close>: sequences of bus events, each with the files as
  they are at that moment. What the control points were told last agrees with the variables, the
  time zone agrees with the offset, and where the code falls short of that.
\<close>

subsection \<open>Runs\<close>

definition xd_run :: "iarm_names \<Rightarrow> xd_conf \<Rightarrow> (files \<times> xd_event) list \<Rightarrow> xd_state \<Rightarrow> xd_state" where
  "xd_run I C es st = foldl (\<lambda>st (files, e). xd_handle I C files e st) st es"

lemma xd_run_simps [simp]:
  "xd_run I C [] st = st"
  "xd_run I C ((files, e) # es) st = xd_run I C es (xd_handle I C files e st)"
  by (simp_all add: xd_run_def)

lemma xd_run_invariant:
  assumes "\<And>files e st. P st \<Longrightarrow> ok e \<Longrightarrow> P (xd_handle I C files e st)"
  shows "P st \<Longrightarrow> list_all (\<lambda>(files, e). ok e) es \<Longrightarrow> P (xd_run I C es st)"
  by (induction es arbitrary: st) (auto simp: assms)

text \<open>An event the system manager's handler accepts.\<close>

definition from_sysmgr :: "iarm_names \<Rightarrow> string \<Rightarrow> int \<Rightarrow> bool" where
  "from_sysmgr I owner eventId \<longleftrightarrow>
     eventId = SYSMGR_EVENT_SYSTEMSTATE I \<and> owner \<noteq> [] \<and> strcmp owner (SYSMGR_NAME I) = 0"

lemma sysEventHandler_from:
  "sysEventHandler I C files owner eventId e st =
     (if from_sysmgr I owner eventId then
        (case ev_stateId e of
          SYSSTATE_TUNEREADY \<Rightarrow> tune_event C files (ev_state e) st
        | SYSSTATE_STB_SERIAL_NO \<Rightarrow> st\<lparr>x_serial_num := ev_payload e\<rparr>
        | SYSSTATE_CHANNELMAP \<Rightarrow> id_event C files x_channelmap_id_update e st
        | SYSSTATE_DAC_ID \<Rightarrow> id_event C files x_dac_id_update e st
        | SYSSTATE_PLANT_ID \<Rightarrow> id_event C files x_plant_id_update e st
        | SYSSTATE_VOD_AD \<Rightarrow> id_event C files x_vodserver_id_update e st
        | SYSSTATE_TIME_ZONE \<Rightarrow>
            (if \<not> ev_error e \<and> ev_state e = 2 \<and> length (ev_payload e) > 1
             then mapTimeZoneToJavaFormat (ev_payload e) st else st)
        | SYSSTATE_DST_OFFSET \<Rightarrow>
            (if \<not> ev_error e \<and> ev_state e = 2 then tell_timezone (set_dst_offset (ev_payload e) st) else st)
        | SYSSTATE_OTHER \<Rightarrow> st)
      else st)"
  by (simp add: sysEventHandler_def from_sysmgr_def split: SystemState.split)

subsection \<open>Identifiers\<close>

definition is_notify :: "string \<Rightarrow> xd_effect \<Rightarrow> bool" where
  "is_notify n e \<longleftrightarrow> (case e of Notify m v \<Rightarrow> m = n | Set_available b \<Rightarrow> False)"

text \<open>What the control points were told last about a variable.\<close>

definition last_told :: "string \<Rightarrow> xd_state \<Rightarrow> gvalue option" where
  "last_told n st =
     (case List.find (is_notify n) (rev (x_sent st)) of Some (Notify m v) \<Rightarrow> Some v | _ \<Rightarrow> None)"

definition ready :: "xd_state \<Rightarrow> bool" where
  "ready st \<longleftrightarrow> x_service_ready st \<and> x_upnpService st"

lemma last_told_notify [simp]:
  "last_told n (notify_value_change m v st) =
     (if ready st \<and> m = n then Some (G_STRING v) else last_told n st)"
  by (simp add: last_told_def notify_value_change_def xd_emit_def ready_def is_notify_def)

lemma last_told_set_available [simp]: "last_told n (set_available b st) = last_told n st"
  by (simp add: last_told_def set_available_def xd_emit_def is_notify_def)

lemma last_told_sent: "x_sent st' = x_sent st \<Longrightarrow> last_told n st' = last_told n st"
  by (simp add: last_told_def)

lemma ready_frame [simp, frame_simps]:
  "ready (notify_value_change m v st) = ready st"
  "ready (set_available b st) = ready st"
  "ready (snd (updatesystemids C files st)) = ready st"
  by (simp_all add: ready_def)

definition current_ids :: "xd_state \<Rightarrow> string" where
  "current_ids st = ids_text (x_channelmap_id st) (x_dac_id st) (x_plant_id st) (x_vodserver_id st)"

text \<open>The published text is the one of the variables, and it is what the control points know.\<close>

definition ids_inv :: "bool \<Rightarrow> xd_state \<Rightarrow> bool" where
  "ids_inv r st \<longleftrightarrow> ready st = r \<and> x_systemids st = current_ids st \<and>
     (last_told ''SystemIds'' st = None \<or> r \<and> last_told ''SystemIds'' st = Some (G_STRING (x_systemids st)))"

abbreviation ids_told :: "xd_state \<Rightarrow> bool" where
  "ids_told st \<equiv> ids_inv True st"

lemma ids_inv_cong:
  "ready st' = ready st \<Longrightarrow> x_systemids st' = x_systemids st \<Longrightarrow> current_ids st' = current_ids st \<Longrightarrow>
   last_told ''SystemIds'' st' = last_told ''SystemIds'' st \<Longrightarrow> ids_inv r st' = ids_inv r st"
  by (simp add: ids_inv_def)

lemma ids_inv_updates [simp]:
  "ids_inv r (st\<lparr>x_tune_ready := t\<rparr>) = ids_inv r st"
  "ids_inv r (st\<lparr>x_serial_num := s\<rparr>) = ids_inv r st"
  "ids_inv r (st\<lparr>x_dsgtimezone := s\<rparr>) = ids_inv r st"
  "ids_inv r (st\<lparr>x_rawOffset := w, x_usesDaylightTime := b\<rparr>) = ids_inv r st"
  "ids_inv r (st\<lparr>x_dstOffset := w, x_dstSavings := w'\<rparr>) = ids_inv r st"
  "ids_inv r (st\<lparr>x_dataGatewayIPaddress := s\<rparr>) = ids_inv r st"
  "ids_inv r (st\<lparr>x_sysModeParam := m\<rparr>) = ids_inv r st"
  by (simp_all add: ids_inv_def ready_def last_told_def current_ids_def)

lemma ids_inv_notify [simp]:
  "n \<noteq> ''SystemIds'' \<Longrightarrow> ids_inv r (notify_value_change n v st) = ids_inv r st"
  "ids_inv r (set_available b st) = ids_inv r st"
  by (simp_all add: ids_inv_def current_ids_def)

lemma ids_inv_publish:
  "dc_useGliDiag C \<Longrightarrow> ready st = r \<Longrightarrow> r \<or> last_told ''SystemIds'' st = None \<Longrightarrow>
     ids_inv r (publish_ids C files st)"
proof -
  assume C: "dc_useGliDiag C" "ready st = r" "r \<or> last_told ''SystemIds'' st = None"
  have "last_told n (snd (updatesystemids C files st)) = last_told n st" for n
    by (rule last_told_sent) simp
  moreover have "x_systemids (snd (updatesystemids C files st)) = current_ids st"
    using C(1) by (simp add: updatesystemids_def current_ids_def)
  ultimately show ?thesis
    using C by (auto simp: publish_ids_def ids_inv_def current_ids_def Let_def)
qed

lemma ids_inv_timezone [simp]:
  "ids_inv r (notify_timezone st) = ids_inv r st"
  "ids_inv r (tell_timezone st) = ids_inv r st"
  "ids_inv r (mapTimeZoneToJavaFormat p st) = ids_inv r st"
  by (simp_all add: notify_timezone_def tell_timezone_def mapTimeZoneToJavaFormat_def Let_def
      split: option.split)

lemma ids_inv_tune:
  "dc_useGliDiag C \<Longrightarrow> ids_inv r st \<Longrightarrow> ids_inv r (tune_event C files s st)"
  by (simp add: tune_event_def publish_urls_def Let_def)

lemma ids_inv_id_event:
  assumes "dc_useGliDiag C" "ids_inv r st" "\<not> ev_error e" "\<And>f. ready (assign f st) = ready st"
    "\<And>f. x_sent (assign f st) = x_sent st"
  shows "ids_inv r (id_event C files assign e st)"
proof -
  have "ids_inv r (publish_ids C files (assign f st))" for f
    using assms last_told_sent [OF assms(5)] by (intro ids_inv_publish) (auto simp: ids_inv_def)
  with assms(2,3) show ?thesis by (simp add: id_event_def)
qed

definition id_states :: "SystemState set" where
  "id_states = {SYSSTATE_CHANNELMAP, SYSSTATE_DAC_ID, SYSSTATE_PLANT_ID, SYSSTATE_VOD_AD}"

text \<open>An event that reports an error for one of the four identifiers.\<close>

definition id_error :: "iarm_names \<Rightarrow> xd_event \<Rightarrow> bool" where
  "id_error I ev \<longleftrightarrow> (case ev of Sys_event owner eventId e \<Rightarrow>
      from_sysmgr I owner eventId \<and> ev_stateId e \<in> id_states \<and> ev_error e | _ \<Rightarrow> False)"

lemma ids_inv_handle:
  assumes "dc_useGliDiag C" "ids_inv r st" "\<not> id_error I ev"
  shows "ids_inv r (xd_handle I C files ev st)"
proof (cases ev)
  case (Sys_event owner eventId e)
  have rd: "ready (x_channelmap_id_update f st) = ready st" "ready (x_dac_id_update f st) = ready st"
    "ready (x_plant_id_update f st) = ready st" "ready (x_vodserver_id_update f st) = ready st" for f
    by (simp_all add: ready_def)
  show ?thesis
    using assms Sys_event rd
    by (cases "ev_stateId e")
       (auto simp: sysEventHandler_from id_error_def id_states_def set_dst_offset_def Let_def
         intro!: ids_inv_tune ids_inv_id_event)
next
  case (Route_event owner eventId ip)
  with assms show ?thesis by (simp add: routesysEventHandler_def Let_def)
next
  case (Mode_change m)
  with assms show ?thesis by (simp add: SysModeChange_def)
qed

text \<open>
  Once the service is ready, and as long as the bus reports no error for an identifier, the
  published text of the identifiers is the one of the four variables, and it is what the control
  points were last told, after any sequence of events.
\<close>

theorem ids_told_in_runs:
  assumes "dc_useGliDiag C" "ids_told st" "list_all (\<lambda>(files, e). \<not> id_error I e) es"
  shows "ids_told (xd_run I C es st)"
  using xd_run_invariant [of ids_told "\<lambda>e. \<not> id_error I e" I C st es] ids_inv_handle assms by blast

definition sample_names :: iarm_names where
  "sample_names = \<lparr>SYSMGR_NAME = ''SYSMgr'', SYSMGR_EVENT_SYSTEMSTATE = 0, SYS_MODE_WAREHOUSE = 2\<rparr>"

definition sample_xd_conf :: xd_conf where
  "sample_xd_conf = \<lparr>dc_bcastIf = Some ''eth1'', dc_streamIf = None, dc_trmIf = None, dc_gwIf = None,
     dc_cvpIf = None, dc_ruiPath = None, dc_uriOverride = None, dc_hostMacIf = Some ''wan'',
     dc_oemFile = None, dc_dnsFile = None, dc_dsgFile = None, dc_diagFile = None,
     dc_devXmlPath = Some ''/opt/xupnp/'', dc_devXmlFile = Some ''BasicDevice.xml'', dc_cvpXmlFile = None,
     dc_logFile = None, dc_devPropertyFile = None, dc_ipv6FileLocation = None, dc_ipv6PrefixFile = None,
     dc_deviceNameFile = None, dc_enableCVP2 = False, dc_useIARM = True, dc_allowGwy = True,
     dc_enableTRM = True, dc_useGliDiag = True, dc_disableTuneReady = False,
     dc_enableHostMacPblsh = False, dc_rmfCrshSupp = False, dc_wareHouseMode = False,
     dc_bcastPort = 50755, dc_cvpPort = 0\<rparr>"

definition sample_ready :: xd_state where
  "sample_ready = xd_init\<lparr>x_systemids := ids_text 0 0 0 0, x_service_ready := True, x_upnpService := True\<rparr>"

definition sys_ev :: "SystemState \<Rightarrow> bool \<Rightarrow> string \<Rightarrow> xd_event" where
  "sys_ev s err p = Sys_event ''SYSMgr'' 0 \<lparr>ev_stateId = s, ev_state = 2, ev_error = err, ev_payload = p\<rparr>"

lemma sample_ready_told: "ids_told sample_ready"
  by (simp add: ids_inv_def sample_ready_def ready_def current_ids_def xd_init_def last_told_def)

theorem ids_told_in_runs_witness:
  "x_systemids (xd_run sample_names sample_xd_conf [(\<lambda>_. None, sys_ev SYSSTATE_PLANT_ID False ''77'')] sample_ready)
     = current_ids (xd_run sample_names sample_xd_conf [(\<lambda>_. None, sys_ev SYSSTATE_PLANT_ID False ''77'')] sample_ready)"
proof -
  have "ids_told (xd_run sample_names sample_xd_conf [(\<lambda>_. None, sys_ev SYSSTATE_PLANT_ID False ''77'')] sample_ready)"
    by (rule ids_told_in_runs)
       (simp_all add: sample_ready_told id_error_def sys_ev_def, simp add: sample_xd_conf_def)
  then show ?thesis by (simp only: ids_inv_def)
qed

text \<open>
  An error the bus reports for an identifier clears the variable, but the published text stays
  and nobody is told, whereas the action asked for the identifiers would answer the new text: the
  control points keep the old identifier when it was not 0.
\<close>

theorem identifier_error_untold:
  assumes "from_sysmgr I owner eventId" "ev_stateId e = SYSSTATE_PLANT_ID" "ev_error e"
    and "ids_told st" "x_plant_id st \<noteq> 0"
  shows "let st' = xd_handle I C files (Sys_event owner eventId e) st in
     x_plant_id st' = 0 \<and> x_sent st' = x_sent st \<and> x_systemids st' = x_systemids st \<and> \<not> ids_told st'"
proof -
  have n: "show_nat a = show_nat b \<longleftrightarrow> a = b" for a b
    using digits_value_show_nat by metis
  have "x_systemids st \<noteq> current_ids (st\<lparr>x_plant_id := 0\<rparr>)"
    using assms(4,5) unat_eq_zero [of "x_plant_id st"]
    by (auto simp: ids_inv_def current_ids_def ids_text_def show_ulong_def n)
  then show ?thesis
    using assms(1-3) by (simp add: sysEventHandler_from id_event_def Let_def ids_inv_def)
qed

theorem identifier_error_untold_witness:
  "\<not> ids_told (xd_handle sample_names sample_xd_conf (\<lambda>_. None) (sys_ev SYSSTATE_PLANT_ID True [])
       (publish_ids sample_xd_conf (\<lambda>_. None) (sample_ready\<lparr>x_plant_id := 5\<rparr>)))"
proof -
  let ?st = "publish_ids sample_xd_conf (\<lambda>_. None) (sample_ready\<lparr>x_plant_id := 5\<rparr>)"
  have t: "ids_told ?st"
    by (rule ids_inv_publish) (simp_all add: sample_xd_conf_def sample_ready_def ready_def)
  have p: "x_plant_id ?st \<noteq> 0"
    by (simp add: publish_ids_def Let_def)
  have f: "from_sysmgr sample_names ''SYSMgr'' 0"
    by (simp add: from_sysmgr_def sample_names_def)
  show ?thesis
    using identifier_error_untold [OF f _ _ t p, of "\<lparr>ev_stateId = SYSSTATE_PLANT_ID, ev_state = 2,
        ev_error = True, ev_payload = []\<rparr>" sample_xd_conf "\<lambda>_. None"]
    by (simp add: sys_ev_def Let_def)
qed

subsection \<open>Time zones\<close>

text \<open>The zones the service can publish, with their offsets from UTC.\<close>

definition zones :: "(string \<times> 32 word \<times> bool) set" where
  "zones = {(''US/Hawaii'', raw_hours 11, True), (''US/Alaska'', raw_hours 9, True),
     (''US/Pacific'', raw_hours 8, True), (''US/Mountain'', raw_hours 7, True),
     (''US/Arizona'', raw_hours 7, True), (''US/Central'', raw_hours 6, True),
     (''Canada/Saskatchewan'', raw_hours 6, True), (''US/Eastern'', raw_hours 5, True)}"

definition tz_inv :: "xd_state \<Rightarrow> bool" where
  "tz_inv st \<longleftrightarrow>
     (x_dsgtimezone st = ''null'' \<and> x_rawOffset st = 0 \<and> \<not> x_usesDaylightTime st \<or>
      (x_dsgtimezone st, x_rawOffset st, x_usesDaylightTime st) \<in> zones) \<and>
     (x_dstOffset st = 1 \<and> x_dstSavings st = 0 \<or> x_dstSavings st = x_dstOffset st * 60000)"

lemma g_strstrip_zone [simp]:
  "g_strstrip ''null'' = ''null''"
  "(n, r, u) \<in> zones \<Longrightarrow> g_strstrip n = n"
  by (auto simp: zones_def g_strstrip_stripped stripped_def g_ascii_isspace_def)

lemma tz_inv_strip: "tz_inv st \<Longrightarrow> g_strstrip (x_dsgtimezone st) = x_dsgtimezone st"
  by (auto simp: tz_inv_def)

lemma tz_inv_frame [simp]:
  "tz_inv (notify_value_change n v st) = tz_inv st"
  "tz_inv (set_available b st) = tz_inv st"
  "tz_inv (snd (updatesystemids C files st)) = tz_inv st"
  "tz_inv (st\<lparr>x_tune_ready := t\<rparr>) = tz_inv st"
  "tz_inv (st\<lparr>x_serial_num := s\<rparr>) = tz_inv st"
  "tz_inv (st\<lparr>x_dataGatewayIPaddress := s\<rparr>) = tz_inv st"
  "tz_inv (st\<lparr>x_sysModeParam := m\<rparr>) = tz_inv st"
  "tz_inv (x_channelmap_id_update f st) = tz_inv st"
  "tz_inv (x_dac_id_update f st) = tz_inv st"
  "tz_inv (x_plant_id_update f st) = tz_inv st"
  "tz_inv (x_vodserver_id_update f st) = tz_inv st"
  by (simp_all add: tz_inv_def)

lemma tzStruct_zones: "list_all (\<lambda>t. (javaTZ t, tz_rawOffset t, usesDST t) \<in> zones) tzStruct"
  by (simp add: tzStruct_def tz_entry_def zones_def)

lemma find_tzStruct_zone:
  "find_tzStruct p = Some t \<Longrightarrow> (javaTZ t, tz_rawOffset t, usesDST t) \<in> zones"
proof -
  assume "find_tzStruct p = Some t"
  then have "t \<in> set tzStruct"
    unfolding find_tzStruct_def find_Some_iff by (metis nth_mem)
  with tzStruct_zones show ?thesis by (simp add: list_all_iff)
qed

lemma notify_timezone_fields [simp]:
  "x_rawOffset (notify_timezone st) = x_rawOffset st"
  "x_usesDaylightTime (notify_timezone st) = x_usesDaylightTime st"
  "x_dstOffset (notify_timezone st) = x_dstOffset st"
  "x_dstSavings (notify_timezone st) = x_dstSavings st"
  by (simp_all add: notify_timezone_def Let_def)

lemma notify_timezone_zone:
  "(x_dsgtimezone st, r, u) \<in> zones \<Longrightarrow> (x_dsgtimezone (notify_timezone st), r, u) \<in> zones"
  by (auto simp: notify_timezone_def Let_def) (auto simp: zones_def)

lemma tz_inv_notify_timezone:
  "tz_inv st \<Longrightarrow> tz_inv (notify_timezone st)"
  using notify_timezone_zone [of st]
  by (auto simp: tz_inv_def) (auto simp: notify_timezone_def Let_def)

lemma tz_inv_map: "tz_inv st \<Longrightarrow> tz_inv (mapTimeZoneToJavaFormat p st)"
proof (cases "find_tzStruct p")
  case (Some t)
  assume "tz_inv st"
  have "(x_dsgtimezone (notify_timezone (st\<lparr>x_dsgtimezone := javaTZ t\<rparr>)), tz_rawOffset t, usesDST t) \<in> zones"
    by (rule notify_timezone_zone) (simp add: find_tzStruct_zone [OF Some])
  with \<open>tz_inv st\<close> Some find_tzStruct_zone [OF Some] show ?thesis
    by (auto simp: mapTimeZoneToJavaFormat_def Let_def tz_inv_def)
qed (simp add: mapTimeZoneToJavaFormat_def)

lemma tz_inv_tell: "tz_inv st \<Longrightarrow> tz_inv (tell_timezone st)"
  by (simp add: tell_timezone_def Let_def tz_inv_strip tz_inv_notify_timezone)

lemma tz_inv_offset: "tz_inv st \<Longrightarrow> tz_inv (set_dst_offset p st)"
  by (simp add: set_dst_offset_def Let_def tz_inv_def)

lemma tz_inv_id_event:
  "(\<And>f. tz_inv (assign f st) = tz_inv st) \<Longrightarrow> tz_inv (id_event C files assign e st) = tz_inv st"
  by (simp add: id_event_def publish_ids_def Let_def)

lemma tz_inv_tune: "tz_inv (tune_event C files s st) = tz_inv st"
  by (simp add: tune_event_def publish_urls_def publish_ids_def Let_def)

lemma tz_inv_handle: "tz_inv st \<Longrightarrow> tz_inv (xd_handle I C files ev st)"
proof (cases ev)
  case (Sys_event owner eventId e)
  assume "tz_inv st"
  with Sys_event show ?thesis
    by (cases "ev_stateId e")
       (simp_all add: sysEventHandler_from tz_inv_id_event tz_inv_tune tz_inv_map tz_inv_tell tz_inv_offset)
qed (simp_all add: routesysEventHandler_def SysModeChange_def Let_def)

lemma tz_inv_getSystemValues:
  assumes "tz_inv st" shows "tz_inv (getSystemValues param st)"
proof -
  have t: "tz_inv (take_id a p s) = tz_inv s" if "\<And>f. tz_inv (a f s) = tz_inv s" for a p s
    using that by (simp add: take_id_def)
  have a: "tz_inv (s\<lparr>x_dstOffset := w, x_dstSavings := w * 60000\<rparr>)"
    "tz_inv (s\<lparr>x_dstSavings := x_dstOffset s * 60000\<rparr>)" if "tz_inv s" for s w
    using that by (simp_all add: tz_inv_def)
  have d: "tz_inv (take_dst_offset p s)" if "tz_inv s" for p s
    using a [OF that] that by (simp add: take_dst_offset_def Let_def tz_inv_tell)
  show ?thesis
    using assms
    by (auto simp: getSystemValues_def Let_def t split: option.split intro!: d tz_inv_map)
qed


text \<open>An accepted report of a time zone.\<close>

definition tz_report :: "iarm_names \<Rightarrow> xd_event \<Rightarrow> bool" where
  "tz_report I ev \<longleftrightarrow> (case ev of Sys_event owner eventId e \<Rightarrow>
      from_sysmgr I owner eventId \<and> ev_stateId e = SYSSTATE_TIME_ZONE | _ \<Rightarrow> False)"

lemma zone_kept_id:
  "(\<And>f. x_dsgtimezone (assign f st) = x_dsgtimezone st) \<Longrightarrow>
     x_dsgtimezone (id_event C files assign e st) = x_dsgtimezone st"
  by (simp add: id_event_def publish_ids_def Let_def)

lemma zone_kept_tune: "x_dsgtimezone (tune_event C files s st) = x_dsgtimezone st"
  by (simp add: tune_event_def publish_urls_def publish_ids_def Let_def)

lemma arizona_handle:
  assumes "x_dsgtimezone st = ''US/Arizona''" "\<not> tz_report I ev"
  shows "x_dsgtimezone (xd_handle I C files ev st) = ''US/Arizona''"
proof (cases ev)
  case (Sys_event owner eventId e)
  have s: "g_strstrip ''US/Arizona'' = ''US/Arizona''"
    by (simp add: g_strstrip_stripped stripped_def g_ascii_isspace_def)
  show ?thesis
    using assms Sys_event
    by (cases "ev_stateId e")
       (auto simp: sysEventHandler_from zone_kept_id zone_kept_tune tz_report_def tell_timezone_def
         set_dst_offset_def notify_timezone_def Let_def s)
qed (use assms in \<open>simp_all add: routesysEventHandler_def SysModeChange_def Let_def\<close>)

text \<open>
  A daylight offset of 0 turns the Mountain zone into \<open>US/Arizona\<close>, and no later offset turns it
  back: until the next report of a time zone the service publishes \<open>US/Arizona\<close>, whatever
  offsets the bus reports in between.
\<close>

theorem arizona_sticks:
  assumes "from_sysmgr I owner eventId" "ev_stateId e = SYSSTATE_DST_OFFSET" "\<not> ev_error e" "ev_state e = 2"
    and "atoi (ev_payload e) = 0" "x_dsgtimezone st = ''US/Mountain''"
    and "list_all (\<lambda>(files, ev). \<not> tz_report I ev) es"
  shows "x_dsgtimezone (xd_run I C ((files, Sys_event owner eventId e) # es) st) = ''US/Arizona''"
proof -
  have s: "g_strstrip ''US/Mountain'' = ''US/Mountain''"
    by (simp add: g_strstrip_stripped stripped_def g_ascii_isspace_def)
  have "x_dsgtimezone (xd_handle I C files (Sys_event owner eventId e) st) = ''US/Arizona''"
    using assms(1-6)
    by (simp add: sysEventHandler_from set_dst_offset_def tell_timezone_def notify_timezone_def Let_def s)
  then show ?thesis
    using assms(7) xd_run_invariant [of "\<lambda>st. x_dsgtimezone st = ''US/Arizona''" "\<lambda>ev. \<not> tz_report I ev" I C]
    by (simp add: arizona_handle)
qed

theorem arizona_sticks_witness:
  "x_dsgtimezone (xd_run sample_names sample_xd_conf
     [(\<lambda>_. None, sys_ev SYSSTATE_DST_OFFSET False ''0''), (\<lambda>_. None, sys_ev SYSSTATE_DST_OFFSET False ''60'')]
     (sample_ready\<lparr>x_dsgtimezone := ''US/Mountain''\<rparr>)) = ''US/Arizona''"
proof -
  have "atoi ''0'' = 0"
    by (simp add: atoi_def read_number_def c_isspace_def g_ascii_isdigit_def code_def)
  then show ?thesis
    using arizona_sticks [of sample_names "''SYSMgr''" 0
        "\<lparr>ev_stateId = SYSSTATE_DST_OFFSET, ev_state = 2, ev_error = False, ev_payload = ''0''\<rparr>"
        "sample_ready\<lparr>x_dsgtimezone := ''US/Mountain''\<rparr>"
        "[(\<lambda>_. None, sys_ev SYSSTATE_DST_OFFSET False ''60'')]" sample_xd_conf "\<lambda>_. None"]
    by (simp add: sys_ev_def tz_report_def from_sysmgr_def sample_names_def)
qed

end
