(* ===== verification/Xcal_Files.thy ===== *)
theory Xcal_Files
  imports Xcal_State
begin

text \<open>
  What the readers of \<open>src/xcal-device.c\<close> make of their files: the lists of hosts and of DNS
  servers, the device properties, the IPv6 prefix, and the hardware address.
\<close>

subsection \<open>Lines of a file\<close>

definition lines_of :: "string \<Rightarrow> string list" where
  "lines_of contents = map g_strstrip (g_strsplit_set contents [CHR 0x0A])"

lemma hosts_loop_lines:
  "hosts_loop gw ts acc = acc @ concat (map (\<lambda>l. gw @ '' '' @ l @ '';'')
     (filter (\<lambda>l. l \<noteq> [] \<and> \<not> g_strrstr l ''127.0.0.1'') (map g_strstrip ts)))"
  by (induction ts arbitrary: acc) (auto simp: Let_def)

lemma dns_loop_lines:
  "dns_loop ts b acc =
     (let ls = filter (\<lambda>l. l \<noteq> []) (map g_strstrip ts) in
      if b \<and> ls \<noteq> [] then concat (map (\<lambda>l. l @ '';'') ls) else acc @ concat (map (\<lambda>l. l @ '';'') ls))"
  by (induction ts arbitrary: b acc) (auto simp: Let_def)

lemma getdnsconfig_lines:
  "getdnsconfig C files st =
     (case Option.bind (dc_dnsFile C) files of
        None \<Rightarrow> (False, st)
      | Some contents \<Rightarrow> (True, st\<lparr>x_dnsconfig :=
          concat (map (\<lambda>l. l @ '';'') (filter (\<lambda>l. l \<noteq> []) (lines_of contents)))\<rparr>))"
  by (auto simp: getdnsconfig_def dns_loop_lines lines_of_def Let_def split: option.split)

lemma getetchosts_lines:
  "getetchosts v6 files st =
     (case files (if v6 then ''//etc//xi-xconf-hosts.list'' else ''//etc//hosts'') of
        None \<Rightarrow> (False, st)
      | Some contents \<Rightarrow> (True, st\<lparr>x_etchosts :=
          concat (map (\<lambda>l. x_gwyip st @ '' '' @ l @ '';'')
            (filter (\<lambda>l. l \<noteq> [] \<and> \<not> g_strrstr l ''127.0.0.1'') (lines_of contents)))\<rparr>))"
proof -
  have "hosts_loop gw (drop 1 ts)
          (case ts of [] \<Rightarrow> [] | t # _ \<Rightarrow>
             if length (g_strstrip t) > 0 \<and> \<not> g_strrstr (g_strstrip t) ''127.0.0.1''
             then gw @ '' '' @ g_strstrip t @ '';'' else []) =
        concat (map (\<lambda>l. gw @ '' '' @ l @ '';'')
          (filter (\<lambda>l. l \<noteq> [] \<and> \<not> g_strrstr l ''127.0.0.1'') (map g_strstrip ts)))" for gw ts
    by (cases ts) (auto simp: hosts_loop_lines)
  then show ?thesis
    unfolding getetchosts_def lines_of_def Let_def by (cases v6) (simp_all split: option.split)
qed

text \<open>
  C36. The hosts list and the DNS configuration, when their files can be read, are the stripped
  non-empty lines, each ended by a semicolon; the hosts list leaves out every line that mentions
  127.0.0.1 and puts the gateway's address before the others. When a file cannot be read the
  old value stays.
\<close>

theorem hosts_and_dns_lists:
  "getetchosts v6 files st =
     (case files (if v6 then ''//etc//xi-xconf-hosts.list'' else ''//etc//hosts'') of
        None \<Rightarrow> (False, st)
      | Some contents \<Rightarrow> (True, st\<lparr>x_etchosts :=
          concat (map (\<lambda>l. x_gwyip st @ '' '' @ l @ '';'')
            (filter (\<lambda>l. l \<noteq> [] \<and> \<not> g_strrstr l ''127.0.0.1'') (lines_of contents)))\<rparr>)) \<and>
   getdnsconfig C files st =
     (case Option.bind (dc_dnsFile C) files of
        None \<Rightarrow> (False, st)
      | Some contents \<Rightarrow> (True, st\<lparr>x_dnsconfig :=
          concat (map (\<lambda>l. l @ '';'') (filter (\<lambda>l. l \<noteq> []) (lines_of contents)))\<rparr>))"
  by (rule conjI [OF getetchosts_lines getdnsconfig_lines])

subsection \<open>Device properties\<close>

text \<open>The assignments the tokens call for, in the order of the code.\<close>

definition token_hits ::
  "string \<Rightarrow> (((string \<Rightarrow> string) \<Rightarrow> xd_state \<Rightarrow> xd_state)) list" where
  "token_hits t =
     (if g_strrstr t ''RECEIVER_DEVICETYPE'' then [x_recvdevtype_update]
      else if g_strrstr t ''BUILD_VERSION'' then [x_buildversion_update]
      else if g_strrstr t ''BOX_TYPE'' then [x_devicetype_update] else []) @
     (if g_strrstr t ''MOCA_INTERFACE'' then [x_mocaIface_update] else []) @
     (if g_strrstr t ''WIFI_INTERFACE'' then [x_wifiIface_update] else [])"

fun dev_hits :: "string list \<Rightarrow> (((string \<Rightarrow> string) \<Rightarrow> xd_state \<Rightarrow> xd_state) \<times> string) list" where
  "dev_hits (t # u # ts) = map (\<lambda>f. (f, g_strstrip u)) (token_hits (g_strstrip t)) @ dev_hits (u # ts)"
| "dev_hits _ = []"

definition assign_all :: "(((string \<Rightarrow> string) \<Rightarrow> xd_state \<Rightarrow> xd_state) \<times> string) list \<Rightarrow> xd_state \<Rightarrow> xd_state" where
  "assign_all hs st = foldl (\<lambda>st (f, v). f (\<lambda>_. v) st) st hs"

lemma assign_all_simps [simp]:
  "assign_all [] st = st" "assign_all ((f, v) # hs) st = assign_all hs (f (\<lambda>_. v) st)"
  by (simp_all add: assign_all_def)

lemma take_Suc_diff: "n < 5 \<Longrightarrow> take (5 - n) (x # xs) = x # take (5 - Suc n) xs"
  by (simp add: Suc_diff_Suc [symmetric])

fun run_hits ::
  "(((string \<Rightarrow> string) \<Rightarrow> xd_state \<Rightarrow> xd_state) \<times> string) list \<Rightarrow> nat \<Rightarrow> xd_state \<Rightarrow> nat \<times> xd_state \<times> bool" where
  "run_hits [] n st = (n, st, False)"
| "run_hits ((f, v) # hs) n st =
     (if Suc n = 5 then (5, f (\<lambda>_. v) st, True) else run_hits hs (Suc n) (f (\<lambda>_. v) st))"

lemma run_hits_result:
  "n < 5 \<Longrightarrow> run_hits hs n st =
     (if length hs \<ge> 5 - n then (5, assign_all (take (5 - n) hs) st, True)
      else (n + length hs, assign_all hs st, False))"
proof (induction hs arbitrary: n st)
  case (Cons h hs)
  obtain f v where h: "h = (f, v)" by (cases h)
  show ?case
  proof (cases "Suc n = 5")
    case False
    with Cons.prems have "Suc n < 5" by simp
    with Cons h False show ?thesis by (auto simp: take_Suc_diff)
  qed (use h in simp)
qed simp

lemma dev_loop_run:
  "dev_loop (t # u # ts) n st =
     (case run_hits (map (\<lambda>f. (f, g_strstrip u)) (token_hits (g_strstrip t))) n st of
        (n, st, full) \<Rightarrow> if full then (True, st) else dev_loop (u # ts) n st)"
  unfolding dev_loop.simps(2) [of t "u # ts"] token_hits_def dev_found_def Let_def
  by (simp del: dev_loop.simps split del: if_split) (simp del: dev_loop.simps)

lemma dev_loop_hits:
  "n < 5 \<Longrightarrow> dev_loop ts n st =
     (length (dev_hits ts) \<ge> 5 - n, assign_all (take (5 - n) (dev_hits ts)) st)"
proof (induction ts arbitrary: n st rule: dev_hits.induct)
  case (1 t u ts)
  define hs where "hs = map (\<lambda>f. (f, g_strstrip u)) (token_hits (g_strstrip t))"
  have d: "dev_hits (t # u # ts) = hs @ dev_hits (u # ts)" by (simp add: hs_def)
  show ?case
  proof (cases "length hs \<ge> 5 - n")
    case True
    with "1.prems" show ?thesis
      unfolding d dev_loop_run hs_def [symmetric] by (simp add: run_hits_result)
  next
    case False
    then have n: "n + length hs < 5" "5 - (n + length hs) = 5 - n - length hs" using "1.prems" by simp_all
    have "assign_all (hs @ xs) st = assign_all xs (assign_all hs st)" for xs
      by (simp add: assign_all_def)
    with False "1.prems" n "1.IH" [OF n(1)] show ?thesis
      unfolding d dev_loop_run hs_def [symmetric] by (auto simp: run_hits_result)
  qed
qed (simp_all add: dev_found_def Let_def)

text \<open>
  \<open>readDevFile\<close> performs the assignments its tokens call for, in order, up to the fifth, and
  answers TRUE exactly when there are five: a token that holds a key and has a successor calls
  for one assignment per key, where the receiver type hides the build version and the box type,
  and the build version hides the box type.
\<close>

theorem readDevFile_five:
  assumes "files f = Some contents"
  shows "readDevFile files (Some f) st =
    (let hs = dev_hits (g_strsplit_set contents [CHR '','', CHR ''='', CHR 0x27, CHR 0x0A])
     in (length hs \<ge> 5, assign_all (take 5 hs) st))"
  using assms by (simp add: readDevFile_def dev_loop_hits Let_def)

definition sample_properties :: string where
  "sample_properties = ''BOX_TYPE=XI3\<newline>BUILD_VERSION=7\<newline>MOCA_INTERFACE=eth1\<newline>''"

theorem readDevFile_five_witness:
  "fst (readDevFile (\<lambda>_. Some sample_properties) (Some ''d'') xd_init) = False \<and>
   x_devicetype (snd (readDevFile (\<lambda>_. Some sample_properties) (Some ''d'') xd_init)) = ''XI3''"
proof -
  have s: "g_strsplit_set sample_properties [CHR '','', CHR ''='', CHR 0x27, CHR 0x0A] =
      [''BOX_TYPE'', ''XI3'', ''BUILD_VERSION'', ''7'', ''MOCA_INTERFACE'', ''eth1'', []]"
    by (simp add: sample_properties_def g_strsplit_set_def)
  have h: "dev_hits [''BOX_TYPE'', ''XI3'', ''BUILD_VERSION'', ''7'', ''MOCA_INTERFACE'', ''eth1'', []] =
      [(x_devicetype_update, ''XI3''), (x_buildversion_update, ''7''), (x_mocaIface_update, ''eth1'')]"
    by (simp add: token_hits_def g_strrstr_def g_strstrip_stripped stripped_def g_ascii_isspace_def)
  have "readDevFile (\<lambda>_. Some sample_properties) (Some ''d'') xd_init =
      (let hs = dev_hits (g_strsplit_set sample_properties [CHR '','', CHR ''='', CHR 0x27, CHR 0x0A])
       in (length hs \<ge> 5, assign_all (take 5 hs) xd_init))"
    by (rule readDevFile_five) (rule refl)
  then show ?thesis unfolding s h Let_def by simp
qed

subsection \<open>The IPv6 prefix\<close>

lemma prefix_scan_hit:
  "\<forall>q \<in> set ps. \<not> g_strrstr (g_strstrip q) ''/AddrPrefix'' \<Longrightarrow>
   g_strrstr (g_strstrip q) ''/AddrPrefix'' \<Longrightarrow>
   prefix_scan prev (ps @ q # rest) k =
     (case (if ps = [] then prev else Some (g_strstrip (last ps))) of
        None \<Rightarrow> Inl Out_of_bounds | Some p \<Rightarrow> Inr (k + length ps, Some p))"
  by (induction ps arbitrary: prev k) (auto simp: Let_def split: option.split)

lemma prefix_lines_skip:
  "\<forall>t \<in> set ts. \<not> g_strrstr (g_strstrip t) ''AddrPrefix'' \<Longrightarrow>
     prefix_lines h (ts @ us) True k = prefix_lines h us True k"
  by (induction ts) (auto simp: Let_def)

definition iface_line :: "string \<Rightarrow> string \<Rightarrow> bool" where
  "iface_line iface t \<longleftrightarrow> g_strrstr (g_strstrip t) ''ifacename'' \<and> g_strrstr (g_strstrip t) iface"

lemma prefix_lines_iface:
  "\<forall>t \<in> set pre. \<not> iface_line iface t \<Longrightarrow> iface_line iface i \<Longrightarrow>
     prefix_lines (Some iface) (pre @ i # us) False k = prefix_lines (Some iface) us True k"
  by (induction pre) (simp_all add: Let_def iface_line_def [symmetric])

text \<open>
  C37. \<open>getipv6prefix\<close> looks for the first line of the host's own interface and then for the first
  line after it that mentions \<open>AddrPrefix\<close>. If that line has a closing tag, the prefix is the part
  of the line just before it. A line that starts with the closing tag makes the code read
  before the start of the array.
\<close>

theorem getipv6prefix_finds:
  assumes "dc_ipv6PrefixFile C = Some f" "dc_hostMacIf C = Some iface" "files f = Some contents"
    and "g_strsplit_set contents [CHR 0x27, CHR 0x0A] = pre @ i # mid @ l # post"
    and "\<forall>t \<in> set pre. \<not> iface_line iface t" "iface_line iface i"
    and "\<forall>t \<in> set mid. \<not> g_strrstr (g_strstrip t) ''AddrPrefix''"
    and "g_strrstr (g_strstrip l) ''AddrPrefix''"
    and "g_strsplit_set (g_strstrip l) [CHR 0x27, CHR ''<'', CHR ''>'', CHR ''=''] = ps @ q # rest"
    and "\<forall>p \<in> set ps. \<not> g_strrstr (g_strstrip p) ''/AddrPrefix''"
    and "g_strrstr (g_strstrip q) ''/AddrPrefix''"
  shows "getipv6prefix C files st =
    (if ps = [] then Inl Out_of_bounds else Inr (True, st\<lparr>x_ipv6prefix := g_strstrip (last ps)\<rparr>))"
proof -
  have "prefix_lines (Some iface) (pre @ i # mid @ l # post) False 0 =
      prefix_lines (Some iface) (l # post) True 0"
    using prefix_lines_iface [OF assms(5,6)] prefix_lines_skip [OF assms(7)] by simp
  also have "\<dots> = (if ps = [] then Inl Out_of_bounds else Inr (Some (g_strstrip (last ps))))"
    using assms(8,9) prefix_scan_hit [OF assms(10,11)] by (simp add: Let_def)
  finally show ?thesis using assms(1-4) by (simp add: getipv6prefix_def)
qed

definition sample_prefix_conf :: xd_conf where
  "sample_prefix_conf = \<lparr>dc_bcastIf = None, dc_streamIf = None, dc_trmIf = None, dc_gwIf = None,
     dc_cvpIf = None, dc_ruiPath = None, dc_uriOverride = None, dc_hostMacIf = Some ''wan'',
     dc_oemFile = None, dc_dnsFile = None, dc_dsgFile = None, dc_diagFile = None,
     dc_devXmlPath = None, dc_devXmlFile = None, dc_cvpXmlFile = None, dc_logFile = None,
     dc_devPropertyFile = None, dc_ipv6FileLocation = None, dc_ipv6PrefixFile = Some ''p'',
     dc_deviceNameFile = None, dc_enableCVP2 = False, dc_useIARM = False, dc_allowGwy = True,
     dc_enableTRM = False, dc_useGliDiag = True, dc_disableTuneReady = False,
     dc_enableHostMacPblsh = False, dc_rmfCrshSupp = False, dc_wareHouseMode = False,
     dc_bcastPort = 0, dc_cvpPort = 0\<rparr>"

theorem getipv6prefix_finds_witness:
  "getipv6prefix sample_prefix_conf (\<lambda>_. Some ''ifacename=wan\<newline><AddrPrefix>fd00::</AddrPrefix>'') xd_init =
     Inr (True, xd_init\<lparr>x_ipv6prefix := ''fd00::''\<rparr>) \<and>
   getipv6prefix sample_prefix_conf (\<lambda>_. Some ''ifacename=wan\<newline>/AddrPrefix'') xd_init = Inl Out_of_bounds"
proof
  note strip = g_strstrip_stripped stripped_def g_ascii_isspace_def
  show "getipv6prefix sample_prefix_conf (\<lambda>_. Some ''ifacename=wan\<newline><AddrPrefix>fd00::</AddrPrefix>'') xd_init =
      Inr (True, xd_init\<lparr>x_ipv6prefix := ''fd00::''\<rparr>)"
    using getipv6prefix_finds [of sample_prefix_conf "''p''" "''wan''"
        "\<lambda>_. Some ''ifacename=wan\<newline><AddrPrefix>fd00::</AddrPrefix>''"
        "''ifacename=wan\<newline><AddrPrefix>fd00::</AddrPrefix>''" "[]" "''ifacename=wan''" "[]"
        "''<AddrPrefix>fd00::</AddrPrefix>''" "[]" "[[], ''AddrPrefix'', ''fd00::'']" "''/AddrPrefix''" "[[]]" xd_init]
    by (simp add: sample_prefix_conf_def g_strsplit_set_def iface_line_def g_strrstr_def strip)
  show "getipv6prefix sample_prefix_conf (\<lambda>_. Some ''ifacename=wan\<newline>/AddrPrefix'') xd_init = Inl Out_of_bounds"
    using getipv6prefix_finds [of sample_prefix_conf "''p''" "''wan''"
        "\<lambda>_. Some ''ifacename=wan\<newline>/AddrPrefix''"
        "''ifacename=wan\<newline>/AddrPrefix''" "[]" "''ifacename=wan''" "[]"
        "''/AddrPrefix''" "[]" "[]" "''/AddrPrefix''" "[]" xd_init]
    by (simp add: sample_prefix_conf_def g_strsplit_set_def iface_line_def g_strrstr_def strip)
qed

end
