(* ===== verification/Xcal_Service.thy ===== *)
theory Xcal_Service
  imports Xcal_Runs Xcal_Files
begin

text \<open>
  The service \<open>src/xcal-device.c\<close> offers to the control points: one handler per action and per
  queried variable, connected as \<open>main\<close> does. An action first refreshes what it answers with, where
  the code does so. Then what a discovery service reads from this service.
\<close>

subsection \<open>Actions\<close>

type_synonym outputs = "string \<Rightarrow> gvalue option"

definition return_values :: "outputs \<Rightarrow> xd_state \<Rightarrow> outputs \<times> xd_state" where
  "return_values out st = (out, st)"

definition fresh_timezone :: "xd_conf \<Rightarrow> files \<Rightarrow> xd_state \<Rightarrow> xd_state" where
  "fresh_timezone C files st = (if \<not> dc_useGliDiag C then snd (gettimezone C files st) else st)"

definition xd_get_url_cb :: "xd_state \<Rightarrow> outputs \<times> xd_state" where
  "xd_get_url_cb st = return_values [''BaseUrl'' \<mapsto> G_STRING (x_url st)] st"

definition xd_get_trm_url_cb :: "xd_state \<Rightarrow> outputs \<times> xd_state" where
  "xd_get_trm_url_cb st = return_values [''BaseTrmUrl'' \<mapsto> G_STRING (x_trmurl st)] st"

definition xd_get_gwyip_cb :: "xd_state \<Rightarrow> outputs \<times> xd_state" where
  "xd_get_gwyip_cb st = return_values [''GatewayIP'' \<mapsto> G_STRING (x_gwyip st)] st"

definition xd_get_gwyipv6_cb :: "xd_state \<Rightarrow> outputs \<times> xd_state" where
  "xd_get_gwyipv6_cb st = return_values [''GatewayIPv6'' \<mapsto> G_STRING (x_gwyipv6 st)] st"

definition xd_get_gwystbip_cb :: "xd_state \<Rightarrow> outputs \<times> xd_state" where
  "xd_get_gwystbip_cb st = return_values [''GatewayStbIP'' \<mapsto> G_STRING (x_gwystbip st)] st"

definition xd_get_ipv6prefix_cb :: "xd_state \<Rightarrow> outputs \<times> xd_state" where
  "xd_get_ipv6prefix_cb st = return_values [''Ipv6Prefix'' \<mapsto> G_STRING (x_ipv6prefix st)] st"

definition xd_get_hostmacaddress_cb :: "xd_state \<Rightarrow> outputs \<times> xd_state" where
  "xd_get_hostmacaddress_cb st = return_values [''HostMacAddress'' \<mapsto> G_STRING (x_hostmacaddress st)] st"

definition xd_get_bcastmacaddress_cb :: "xd_state \<Rightarrow> outputs \<times> xd_state" where
  "xd_get_bcastmacaddress_cb st = return_values [''BcastMacAddress'' \<mapsto> G_STRING (x_bcastmacaddress st)] st"

definition xd_get_recvdevtype_cb :: "xd_state \<Rightarrow> outputs \<times> xd_state" where
  "xd_get_recvdevtype_cb st = return_values [''RecvDevType'' \<mapsto> G_STRING (x_recvdevtype st)] st"

definition xd_get_devicetype_cb :: "xd_state \<Rightarrow> outputs \<times> xd_state" where
  "xd_get_devicetype_cb st = return_values [''DeviceType'' \<mapsto> G_STRING (x_devicetype st)] st"

definition xd_get_buildversion_cb :: "xd_state \<Rightarrow> outputs \<times> xd_state" where
  "xd_get_buildversion_cb st = return_values [''BuildVersion'' \<mapsto> G_STRING (x_buildversion st)] st"

definition xd_get_dnsconfig_cb :: "xd_conf \<Rightarrow> files \<Rightarrow> xd_state \<Rightarrow> outputs \<times> xd_state" where
  "xd_get_dnsconfig_cb C files st =
     (let st = snd (getdnsconfig C files st) in return_values [''DnsConfig'' \<mapsto> G_STRING (x_dnsconfig st)] st)"

definition xd_get_systemids_cb :: "xd_conf \<Rightarrow> files \<Rightarrow> xd_state \<Rightarrow> outputs \<times> xd_state" where
  "xd_get_systemids_cb C files st =
     (let st = snd (updatesystemids C files st) in return_values [''SystemIds'' \<mapsto> G_STRING (x_systemids st)] st)"

definition xd_get_dataGatewayIPaddress_cb :: "xd_state \<Rightarrow> outputs \<times> xd_state" where
  "xd_get_dataGatewayIPaddress_cb st = return_values [''DataGatewayIPaddress'' \<mapsto> G_STRING (x_dataGatewayIPaddress st)] st"

definition xd_get_timezone_cb :: "xd_conf \<Rightarrow> files \<Rightarrow> xd_state \<Rightarrow> outputs \<times> xd_state" where
  "xd_get_timezone_cb C files st =
     (let st = fresh_timezone C files st in return_values [''TimeZone'' \<mapsto> G_STRING (x_dsgtimezone st)] st)"

definition xd_get_rawoffset_cb :: "xd_state \<Rightarrow> outputs \<times> xd_state" where
  "xd_get_rawoffset_cb st = return_values [''RawOffSet'' \<mapsto> G_INT (x_rawOffset st)] st"

definition xd_get_dstsavings_cb :: "xd_state \<Rightarrow> outputs \<times> xd_state" where
  "xd_get_dstsavings_cb st = return_values [''DSTSavings'' \<mapsto> G_INT (x_dstSavings st)] st"

definition xd_get_usesdaylighttime_cb :: "xd_state \<Rightarrow> outputs \<times> xd_state" where
  "xd_get_usesdaylighttime_cb st = return_values [''UsesDaylightTime'' \<mapsto> G_BOOLEAN (x_usesDaylightTime st)] st"

definition xd_get_devicename_cb :: "xd_conf \<Rightarrow> files \<Rightarrow> xd_state \<Rightarrow> outputs \<times> xd_state" where
  "xd_get_devicename_cb C files st =
     (let st = snd (getdevicename C files st) in return_values [''DeviceName'' \<mapsto> G_STRING (x_devicename st)] st)"

definition xd_get_dstoffset_cb :: "xd_state \<Rightarrow> outputs \<times> xd_state" where
  "xd_get_dstoffset_cb st = return_values [''DSTOffset'' \<mapsto> G_INT (x_dstOffset st)] st"

definition xd_get_hosts_cb :: "bool \<Rightarrow> files \<Rightarrow> xd_state \<Rightarrow> outputs \<times> xd_state" where
  "xd_get_hosts_cb v6 files st =
     (let st = snd (getetchosts v6 files st) in return_values [''Hosts'' \<mapsto> G_STRING (x_etchosts st)] st)"

definition xd_get_isgateway_cb :: "xd_state \<Rightarrow> outputs \<times> xd_state" where
  "xd_get_isgateway_cb st = return_values [''IsGateway'' \<mapsto> G_BOOLEAN (x_isgateway st)] st"

definition xd_get_requirestrm_cb :: "xd_state \<Rightarrow> outputs \<times> xd_state" where
  "xd_get_requirestrm_cb st = return_values [''RequiresTRM'' \<mapsto> G_BOOLEAN (x_requirestrm st)] st"

definition xd_get_playback_url_cb :: "xd_state \<Rightarrow> outputs \<times> xd_state" where
  "xd_get_playback_url_cb st =
     (if x_tune_ready st = 1 then return_values [''PlaybackUrl'' \<mapsto> G_STRING (x_playbackurl st)] st
      else return_values [''PlaybackUrl'' \<mapsto> G_STRING ''NULL''] st)"

text \<open>The handlers by action, as \<open>main\<close> connects them; the service offers no other action.\<close>

definition xd_actions ::
  "xd_conf \<Rightarrow> bool \<Rightarrow> files \<Rightarrow> (string \<times> (xd_state \<Rightarrow> outputs \<times> xd_state)) list" where
  "xd_actions C v6 files =
    [(''GetBaseUrl'', xd_get_url_cb),
     (''GetBaseTrmUrl'', xd_get_trm_url_cb),
     (''GetGatewayIP'', xd_get_gwyip_cb),
     (''GetGatewayIPv6'', xd_get_gwyipv6_cb),
     (''GetIpv6Prefix'', xd_get_ipv6prefix_cb),
     (''GetGatewayStbIP'', xd_get_gwystbip_cb),
     (''GetDnsConfig'', xd_get_dnsconfig_cb C files),
     (''GetSystemIds'', xd_get_systemids_cb C files),
     (''GetTimeZone'', xd_get_timezone_cb C files),
     (''GetHosts'', xd_get_hosts_cb v6 files),
     (''GetRequiresTRM'', xd_get_requirestrm_cb),
     (''GetHostMacAddress'', xd_get_hostmacaddress_cb),
     (''GetRawOffSet'', xd_get_rawoffset_cb),
     (''GetDSTOffset'', xd_get_dstoffset_cb),
     (''GetDSTSavings'', xd_get_dstsavings_cb),
     (''GetUsesDaylightTime'', xd_get_usesdaylighttime_cb),
     (''GetPlaybackUrl'', xd_get_playback_url_cb),
     (''GetDataGatewayIPaddress'', xd_get_dataGatewayIPaddress_cb),
     (''GetDeviceName'', xd_get_devicename_cb C files),
     (''GetIsGateway'', xd_get_isgateway_cb),
     (''GetBcastMacAddress'', xd_get_bcastmacaddress_cb),
     (''GetRecvDevType'', xd_get_recvdevtype_cb),
     (''GetDeviceType'', xd_get_devicetype_cb),
     (''GetBuildVersion'', xd_get_buildversion_cb)]"

definition xd_call :: "xd_conf \<Rightarrow> bool \<Rightarrow> files \<Rightarrow> string \<Rightarrow> xd_state \<Rightarrow> outputs option \<times> xd_state" where
  "xd_call C v6 files action st =
     (case map_of (xd_actions C v6 files) action of
        None \<Rightarrow> (None, st)
      | Some cb \<Rightarrow> (case cb st of (out, st) \<Rightarrow> (Some out, st)))"

subsection \<open>Queried variables\<close>

definition xd_query_url_cb :: "xd_state \<Rightarrow> gvalue \<times> xd_state" where
  "xd_query_url_cb st = (G_STRING (x_url st), st)"

definition xd_query_trm_url_cb :: "xd_state \<Rightarrow> gvalue \<times> xd_state" where
  "xd_query_trm_url_cb st = (G_STRING (x_trmurl st), st)"

definition xd_query_dataGatewayIPaddress_cb :: "xd_state \<Rightarrow> gvalue \<times> xd_state" where
  "xd_query_dataGatewayIPaddress_cb st = (G_STRING (x_dataGatewayIPaddress st), st)"

definition xd_query_devicename_cb :: "xd_state \<Rightarrow> gvalue \<times> xd_state" where
  "xd_query_devicename_cb st = (G_STRING (x_devicename st), st)"

definition xd_query_gwyip_cb :: "xd_state \<Rightarrow> gvalue \<times> xd_state" where
  "xd_query_gwyip_cb st = (G_STRING (x_gwyip st), st)"

definition xd_query_gwyipv6_cb :: "xd_state \<Rightarrow> gvalue \<times> xd_state" where
  "xd_query_gwyipv6_cb st = (G_STRING (x_gwyipv6 st), st)"

definition xd_query_gwystbip_cb :: "xd_state \<Rightarrow> gvalue \<times> xd_state" where
  "xd_query_gwystbip_cb st = (G_STRING (x_gwystbip st), st)"

definition xd_query_ipv6prefix_cb :: "xd_state \<Rightarrow> gvalue \<times> xd_state" where
  "xd_query_ipv6prefix_cb st = (G_STRING (x_ipv6prefix st), st)"

definition xd_query_hostmacaddress_cb :: "xd_state \<Rightarrow> gvalue \<times> xd_state" where
  "xd_query_hostmacaddress_cb st = (G_STRING (x_hostmacaddress st), st)"

definition xd_query_bcastmacaddress_cb :: "xd_state \<Rightarrow> gvalue \<times> xd_state" where
  "xd_query_bcastmacaddress_cb st = (G_STRING (x_bcastmacaddress st), st)"

definition xd_query_recvdevtype_cb :: "xd_state \<Rightarrow> gvalue \<times> xd_state" where
  "xd_query_recvdevtype_cb st = (G_STRING (x_recvdevtype st), st)"

definition xd_query_devicetype_cb :: "xd_state \<Rightarrow> gvalue \<times> xd_state" where
  "xd_query_devicetype_cb st = (G_STRING (x_devicetype st), st)"

definition xd_query_buildversion_cb :: "xd_state \<Rightarrow> gvalue \<times> xd_state" where
  "xd_query_buildversion_cb st = (G_STRING (x_buildversion st), st)"

definition xd_query_dnsconfig_cb :: "xd_state \<Rightarrow> gvalue \<times> xd_state" where
  "xd_query_dnsconfig_cb st = (G_STRING (x_dnsconfig st), st)"

definition xd_query_systemids_cb :: "xd_state \<Rightarrow> gvalue \<times> xd_state" where
  "xd_query_systemids_cb st = (G_STRING (x_systemids st), st)"

definition xd_query_hosts_cb :: "xd_state \<Rightarrow> gvalue \<times> xd_state" where
  "xd_query_hosts_cb st = (G_STRING (x_etchosts st), st)"

definition xd_query_isgateway_cb :: "xd_state \<Rightarrow> gvalue \<times> xd_state" where
  "xd_query_isgateway_cb st = (G_BOOLEAN (x_isgateway st), st)"

definition xd_query_requirestrm_cb :: "xd_state \<Rightarrow> gvalue \<times> xd_state" where
  "xd_query_requirestrm_cb st = (G_BOOLEAN (x_requirestrm st), st)"

definition xd_query_rui_url_cb :: "xd_state \<Rightarrow> gvalue \<times> xd_state" where
  "xd_query_rui_url_cb st = (G_STRING (x_ruiurl st), st)"

definition xd_query_rawoffset_cb :: "xd_state \<Rightarrow> gvalue \<times> xd_state" where
  "xd_query_rawoffset_cb st = (G_INT (x_rawOffset st), st)"

definition xd_query_dstoffset_cb :: "xd_state \<Rightarrow> gvalue \<times> xd_state" where
  "xd_query_dstoffset_cb st = (G_INT (x_dstOffset st), st)"

definition xd_query_dstsavings_cb :: "xd_state \<Rightarrow> gvalue \<times> xd_state" where
  "xd_query_dstsavings_cb st = (G_INT (x_dstSavings st), st)"

definition xd_query_usesdaylighttime_cb :: "xd_state \<Rightarrow> gvalue \<times> xd_state" where
  "xd_query_usesdaylighttime_cb st = (G_BOOLEAN (x_usesDaylightTime st), st)"

definition xd_query_playback_url_cb :: "xd_state \<Rightarrow> gvalue \<times> xd_state" where
  "xd_query_playback_url_cb st =
     (if x_tune_ready st = 1 then (G_STRING (x_playbackurl st), st) else (G_STRING ''NULL'', st))"

definition xd_query_timezone_cb :: "xd_conf \<Rightarrow> files \<Rightarrow> xd_state \<Rightarrow> gvalue \<times> xd_state" where
  "xd_query_timezone_cb C files st =
     (let st = fresh_timezone C files st in (G_STRING (x_dsgtimezone st), st))"

definition xd_queries :: "xd_conf \<Rightarrow> files \<Rightarrow> (string \<times> (xd_state \<Rightarrow> gvalue \<times> xd_state)) list" where
  "xd_queries C files =
    [(''Url'', xd_query_url_cb),
     (''TrmUrl'', xd_query_trm_url_cb),
     (''GatewayIP'', xd_query_gwyip_cb),
     (''GatewayIPv6'', xd_query_gwyipv6_cb),
     (''Ipv6Prefix'', xd_query_ipv6prefix_cb),
     (''GatewayStbIP'', xd_query_gwystbip_cb),
     (''DnsConfig'', xd_query_dnsconfig_cb),
     (''SystemIds'', xd_query_systemids_cb),
     (''TimeZone'', xd_query_timezone_cb C files),
     (''Hosts'', xd_query_hosts_cb),
     (''RequiresTRM'', xd_query_requirestrm_cb),
     (''HostMacAddress'', xd_query_hostmacaddress_cb),
     (''RawOffSet'', xd_query_rawoffset_cb),
     (''DSTOffset'', xd_query_dstoffset_cb),
     (''DSTSavings'', xd_query_dstsavings_cb),
     (''UsesDaylightTime'', xd_query_usesdaylighttime_cb),
     (''PlaybackUrl'', xd_query_playback_url_cb),
     (''DataGatewayIPaddress'', xd_query_dataGatewayIPaddress_cb),
     (''DeviceName'', xd_query_devicename_cb),
     (''IsGateway'', xd_query_isgateway_cb),
     (''BcastMacAddress'', xd_query_bcastmacaddress_cb),
     (''RecvDevType'', xd_query_recvdevtype_cb),
     (''DeviceType'', xd_query_devicetype_cb),
     (''BuildVersion'', xd_query_buildversion_cb)]"

subsection \<open>Answers do not depend on the order of the calls\<close>

lemmas action_defs = return_values_def xd_get_url_cb_def xd_get_trm_url_cb_def xd_get_playback_url_cb_def
  xd_get_gwyip_cb_def xd_get_gwyipv6_cb_def xd_get_gwystbip_cb_def xd_get_ipv6prefix_cb_def
  xd_get_hostmacaddress_cb_def xd_get_bcastmacaddress_cb_def xd_get_recvdevtype_cb_def
  xd_get_devicetype_cb_def xd_get_buildversion_cb_def xd_get_dnsconfig_cb_def xd_get_systemids_cb_def
  xd_get_dataGatewayIPaddress_cb_def xd_get_timezone_cb_def xd_get_rawoffset_cb_def
  xd_get_dstsavings_cb_def xd_get_usesdaylighttime_cb_def xd_get_devicename_cb_def
  xd_get_dstoffset_cb_def xd_get_hosts_cb_def xd_get_isgateway_cb_def xd_get_requirestrm_cb_def

lemma map_of_list_all: "list_all P xs \<Longrightarrow> map_of xs k = Some v \<Longrightarrow> P (k, v)"
  by (metis list_all_iff map_of_SomeD)

text \<open>Each refresh changes its own variable only, and doing it twice is doing it once.\<close>

lemma refresh_dns:
  "snd (getdnsconfig C files st) = st\<lparr>x_dnsconfig := x_dnsconfig (snd (getdnsconfig C files st))\<rparr>"
  "x_dnsconfig (snd (getdnsconfig C files (snd (getdnsconfig C files st)))) = x_dnsconfig (snd (getdnsconfig C files st))"
  by (simp_all add: getdnsconfig_def split: option.split)

lemma refresh_ids:
  "snd (updatesystemids C files st) = st\<lparr>x_systemids := x_systemids (snd (updatesystemids C files st))\<rparr>"
  "x_systemids (snd (updatesystemids C files (snd (updatesystemids C files st)))) = x_systemids (snd (updatesystemids C files st))"
  by (simp_all add: updatesystemids_def split: option.split)

lemma refresh_timezone:
  "fresh_timezone C files st = st\<lparr>x_dsgtimezone := x_dsgtimezone (fresh_timezone C files st)\<rparr>"
  "x_dsgtimezone (fresh_timezone C files (fresh_timezone C files st)) = x_dsgtimezone (fresh_timezone C files st)"
  by (auto simp: fresh_timezone_def gettimezone_def split: option.split list.split)

lemma refresh_devicename:
  "snd (getdevicename C files st) = st\<lparr>x_devicename := x_devicename (snd (getdevicename C files st))\<rparr>"
  "x_devicename (snd (getdevicename C files (snd (getdevicename C files st)))) = x_devicename (snd (getdevicename C files st))"
  by (auto simp: getdevicename_def split: option.split list.split)

lemma refresh_hosts:
  "snd (getetchosts v6 files st) = st\<lparr>x_etchosts := x_etchosts (snd (getetchosts v6 files st))\<rparr>"
  "x_etchosts (snd (getetchosts v6 files (snd (getetchosts v6 files st)))) = x_etchosts (snd (getetchosts v6 files st))"
  by (simp_all add: getetchosts_lines split: option.split)

lemma refresh_others:
  "x_systemids (snd (updatesystemids C files (st\<lparr>x_dnsconfig := v\<rparr>))) = x_systemids (snd (updatesystemids C files st))"
  "x_dsgtimezone (fresh_timezone C files (st\<lparr>x_dnsconfig := v\<rparr>)) = x_dsgtimezone (fresh_timezone C files st)"
  "x_devicename (snd (getdevicename C files (st\<lparr>x_dnsconfig := v\<rparr>))) = x_devicename (snd (getdevicename C files st))"
  "x_etchosts (snd (getetchosts v6 files (st\<lparr>x_dnsconfig := v\<rparr>))) = x_etchosts (snd (getetchosts v6 files st))"
  "x_dnsconfig (snd (getdnsconfig C files (st\<lparr>x_systemids := v\<rparr>))) = x_dnsconfig (snd (getdnsconfig C files st))"
  "x_dsgtimezone (fresh_timezone C files (st\<lparr>x_systemids := v\<rparr>)) = x_dsgtimezone (fresh_timezone C files st)"
  "x_devicename (snd (getdevicename C files (st\<lparr>x_systemids := v\<rparr>))) = x_devicename (snd (getdevicename C files st))"
  "x_etchosts (snd (getetchosts v6 files (st\<lparr>x_systemids := v\<rparr>))) = x_etchosts (snd (getetchosts v6 files st))"
  "x_dnsconfig (snd (getdnsconfig C files (st\<lparr>x_dsgtimezone := v\<rparr>))) = x_dnsconfig (snd (getdnsconfig C files st))"
  "x_systemids (snd (updatesystemids C files (st\<lparr>x_dsgtimezone := v\<rparr>))) = x_systemids (snd (updatesystemids C files st))"
  "x_devicename (snd (getdevicename C files (st\<lparr>x_dsgtimezone := v\<rparr>))) = x_devicename (snd (getdevicename C files st))"
  "x_etchosts (snd (getetchosts v6 files (st\<lparr>x_dsgtimezone := v\<rparr>))) = x_etchosts (snd (getetchosts v6 files st))"
  "x_dnsconfig (snd (getdnsconfig C files (st\<lparr>x_devicename := v\<rparr>))) = x_dnsconfig (snd (getdnsconfig C files st))"
  "x_systemids (snd (updatesystemids C files (st\<lparr>x_devicename := v\<rparr>))) = x_systemids (snd (updatesystemids C files st))"
  "x_dsgtimezone (fresh_timezone C files (st\<lparr>x_devicename := v\<rparr>)) = x_dsgtimezone (fresh_timezone C files st)"
  "x_etchosts (snd (getetchosts v6 files (st\<lparr>x_devicename := v\<rparr>))) = x_etchosts (snd (getetchosts v6 files st))"
  "x_dnsconfig (snd (getdnsconfig C files (st\<lparr>x_etchosts := v\<rparr>))) = x_dnsconfig (snd (getdnsconfig C files st))"
  "x_systemids (snd (updatesystemids C files (st\<lparr>x_etchosts := v\<rparr>))) = x_systemids (snd (updatesystemids C files st))"
  "x_dsgtimezone (fresh_timezone C files (st\<lparr>x_etchosts := v\<rparr>)) = x_dsgtimezone (fresh_timezone C files st)"
  "x_devicename (snd (getdevicename C files (st\<lparr>x_etchosts := v\<rparr>))) = x_devicename (snd (getdevicename C files st))"
  by (simp_all add: getdnsconfig_def updatesystemids_def fresh_timezone_def gettimezone_def
      getdevicename_def getetchosts_lines split: option.split list.split)

definition answer :: "xd_conf \<Rightarrow> bool \<Rightarrow> files \<Rightarrow> string \<Rightarrow> xd_state \<Rightarrow> outputs option" where
  "answer C v6 files a st = fst (xd_call C v6 files a st)"

lemma answer_unchanged:
  assumes "list_all (\<lambda>(n, h). fst (h st') = fst (h st)) (xd_actions C v6 files)"
  shows "answer C v6 files a st' = answer C v6 files a st"
proof (cases "map_of (xd_actions C v6 files) a")
  case (Some h)
  with map_of_list_all [OF assms Some] show ?thesis
    by (simp add: answer_def xd_call_def split: prod.split) (metis fst_conv)
qed (simp add: answer_def xd_call_def)

text \<open>The state after an action is the old one, or one variable is fresh.\<close>

lemma action_states:
  "list_all (\<lambda>(n, h). snd (h st) = st \<or> snd (h st) = snd (getdnsconfig C files st) \<or>
     snd (h st) = snd (updatesystemids C files st) \<or> snd (h st) = fresh_timezone C files st \<or>
     snd (h st) = snd (getdevicename C files st) \<or> snd (h st) = snd (getetchosts v6 files st))
   (xd_actions C v6 files)"
  by (simp add: xd_actions_def action_defs Let_def)

text \<open>A variable that only its own action reads, set to what that action would set it to.\<close>

lemma answers_after_update:
  "x_dnsconfig (snd (getdnsconfig C files (st\<lparr>x_dnsconfig := v\<rparr>))) = x_dnsconfig (snd (getdnsconfig C files st)) \<Longrightarrow>
     list_all (\<lambda>(n, h). fst (h (st\<lparr>x_dnsconfig := v\<rparr>)) = fst (h st)) (xd_actions C v6 files)"
  "x_systemids (snd (updatesystemids C files (st\<lparr>x_systemids := v\<rparr>))) = x_systemids (snd (updatesystemids C files st)) \<Longrightarrow>
     list_all (\<lambda>(n, h). fst (h (st\<lparr>x_systemids := v\<rparr>)) = fst (h st)) (xd_actions C v6 files)"
  "x_dsgtimezone (fresh_timezone C files (st\<lparr>x_dsgtimezone := v\<rparr>)) = x_dsgtimezone (fresh_timezone C files st) \<Longrightarrow>
     list_all (\<lambda>(n, h). fst (h (st\<lparr>x_dsgtimezone := v\<rparr>)) = fst (h st)) (xd_actions C v6 files)"
  "x_devicename (snd (getdevicename C files (st\<lparr>x_devicename := v\<rparr>))) = x_devicename (snd (getdevicename C files st)) \<Longrightarrow>
     list_all (\<lambda>(n, h). fst (h (st\<lparr>x_devicename := v\<rparr>)) = fst (h st)) (xd_actions C v6 files)"
  "x_etchosts (snd (getetchosts v6 files (st\<lparr>x_etchosts := v\<rparr>))) = x_etchosts (snd (getetchosts v6 files st)) \<Longrightarrow>
     list_all (\<lambda>(n, h). fst (h (st\<lparr>x_etchosts := v\<rparr>)) = fst (h st)) (xd_actions C v6 files)"
  by (simp_all add: xd_actions_def action_defs Let_def refresh_others)

lemma answers_after_refresh:
  "list_all (\<lambda>(n, h). fst (h (snd (getdnsconfig C files st))) = fst (h st)) (xd_actions C v6 files)"
  "list_all (\<lambda>(n, h). fst (h (snd (updatesystemids C files st))) = fst (h st)) (xd_actions C v6 files)"
  "list_all (\<lambda>(n, h). fst (h (fresh_timezone C files st)) = fst (h st)) (xd_actions C v6 files)"
  "list_all (\<lambda>(n, h). fst (h (snd (getdevicename C files st))) = fst (h st)) (xd_actions C v6 files)"
  "list_all (\<lambda>(n, h). fst (h (snd (getetchosts v6 files st))) = fst (h st)) (xd_actions C v6 files)"
proof -
  show "list_all (\<lambda>(n, h). fst (h (snd (getdnsconfig C files st))) = fst (h st)) (xd_actions C v6 files)"
    using answers_after_update(1) [where v = "x_dnsconfig (snd (getdnsconfig C files st))" and st = st and C = C and files = files, folded refresh_dns(1)] refresh_dns(2) by blast
  show "list_all (\<lambda>(n, h). fst (h (snd (updatesystemids C files st))) = fst (h st)) (xd_actions C v6 files)"
    using answers_after_update(2) [where v = "x_systemids (snd (updatesystemids C files st))" and st = st and C = C and files = files, folded refresh_ids(1)] refresh_ids(2) by blast
  show "list_all (\<lambda>(n, h). fst (h (fresh_timezone C files st)) = fst (h st)) (xd_actions C v6 files)"
    using answers_after_update(3) [where v = "x_dsgtimezone (fresh_timezone C files st)" and st = st and C = C and files = files, folded refresh_timezone(1)] refresh_timezone(2) by blast
  show "list_all (\<lambda>(n, h). fst (h (snd (getdevicename C files st))) = fst (h st)) (xd_actions C v6 files)"
    using answers_after_update(4) [where v = "x_devicename (snd (getdevicename C files st))" and st = st and C = C and files = files, folded refresh_devicename(1)] refresh_devicename(2) by blast
  show "list_all (\<lambda>(n, h). fst (h (snd (getetchosts v6 files st))) = fst (h st)) (xd_actions C v6 files)"
    using answers_after_update(5) [where v = "x_etchosts (snd (getetchosts v6 files st))" and ?v6.0 = v6 and st = st
        and files = files, folded refresh_hosts(1)] refresh_hosts(2) by blast
qed

lemma answer_after_call:
  "answer C v6 files b (snd (xd_call C v6 files a st)) = answer C v6 files b st"
proof (cases "map_of (xd_actions C v6 files) a")
  case (Some h)
  then have h: "snd (xd_call C v6 files a st) = snd (h st)"
    by (simp add: xd_call_def split: prod.split)
  from map_of_list_all [OF action_states Some]
  have "snd (h st) = st \<or> snd (h st) = snd (getdnsconfig C files st) \<or>
     snd (h st) = snd (updatesystemids C files st) \<or> snd (h st) = fresh_timezone C files st \<or>
     snd (h st) = snd (getdevicename C files st) \<or> snd (h st) = snd (getetchosts v6 files st)"
    by (simp only: prod.case)
  then show ?thesis
    unfolding h by (elim disjE) (simp_all only: answer_unchanged [OF answers_after_refresh(1)]
      answer_unchanged [OF answers_after_refresh(2)] answer_unchanged [OF answers_after_refresh(3)]
      answer_unchanged [OF answers_after_refresh(4)] answer_unchanged [OF answers_after_refresh(5)])
qed (simp add: xd_call_def)

text \<open>
  What an action answers does not depend on the actions called before: after any sequence of
  calls, with the files as they are, every action gives the answer it would have given first.
  So a control point that reads all variables one by one gets a snapshot.
\<close>

theorem answers_independent:
  "fst (xd_call C v6 files b (foldl (\<lambda>st a. snd (xd_call C v6 files a st)) st as)) =
   fst (xd_call C v6 files b st)"
  by (induction as arbitrary: st) (simp_all add: answer_after_call [unfolded answer_def])


subsection \<open>What a discovery service reads\<close>

text \<open>
  The service as a control point sees it through its proxy, at a moment when the variables are those
  of \<open>st\<close>. The actions take no arguments into account.
\<close>

definition xd_proxy :: "xd_conf \<Rightarrow> bool \<Rightarrow> files \<Rightarrow> xd_state \<Rightarrow> service_proxy" where
  "xd_proxy C v6 files st action args = answer C v6 files action st"

definition playback_answer :: "xd_state \<Rightarrow> string" where
  "playback_answer st = (if x_tune_ready st = 1 then x_playbackurl st else ''NULL'')"

lemma xd_answers:
  "processStringRequest (xd_proxy C v6 files st) ''GetBaseUrl'' ''BaseUrl'' = Some (x_url st)"
  "processStringRequest (xd_proxy C v6 files st) ''GetBaseTrmUrl'' ''BaseTrmUrl'' = Some (x_trmurl st)"
  "processStringRequest (xd_proxy C v6 files st) ''GetGatewayIP'' ''GatewayIP'' = Some (x_gwyip st)"
  "processStringRequest (xd_proxy C v6 files st) ''GetGatewayIPv6'' ''GatewayIPv6'' = Some (x_gwyipv6 st)"
  "processStringRequest (xd_proxy C v6 files st) ''GetGatewayStbIP'' ''GatewayStbIP'' = Some (x_gwystbip st)"
  "processStringRequest (xd_proxy C v6 files st) ''GetIpv6Prefix'' ''Ipv6Prefix'' = Some (x_ipv6prefix st)"
  "processStringRequest (xd_proxy C v6 files st) ''GetClientIP'' ''ClientIP'' = None"
  "processStringRequest (xd_proxy C v6 files st) ''GetHostMacAddress'' ''HostMacAddress'' = Some (x_hostmacaddress st)"
  "processStringRequest (xd_proxy C v6 files st) ''GetBcastMacAddress'' ''BcastMacAddress'' = Some (x_bcastmacaddress st)"
  "processStringRequest (xd_proxy C v6 files st) ''GetRecvDevType'' ''RecvDevType'' = Some (x_recvdevtype st)"
  "processStringRequest (xd_proxy C v6 files st) ''GetDeviceType'' ''DeviceType'' = Some (x_devicetype st)"
  "processStringRequest (xd_proxy C v6 files st) ''GetBuildVersion'' ''BuildVersion'' = Some (x_buildversion st)"
  "processStringRequest (xd_proxy C v6 files st) ''GetDnsConfig'' ''DnsConfig'' =
     Some (x_dnsconfig (snd (getdnsconfig C files st)))"
  "processStringRequest (xd_proxy C v6 files st) ''GetSystemIds'' ''SystemIds'' =
     Some (x_systemids (snd (updatesystemids C files st)))"
  "processStringRequest (xd_proxy C v6 files st) ''GetDataGatewayIPaddress'' ''DataGatewayIPaddress'' =
     Some (x_dataGatewayIPaddress st)"
  "processStringRequest (xd_proxy C v6 files st) ''GetTimeZone'' ''TimeZone'' =
     Some (x_dsgtimezone (fresh_timezone C files st))"
  "processStringRequest (xd_proxy C v6 files st) ''GetDeviceName'' ''DeviceName'' =
     Some (x_devicename (snd (getdevicename C files st)))"
  "processStringRequest (xd_proxy C v6 files st) ''GetHosts'' ''Hosts'' =
     Some (x_etchosts (snd (getetchosts v6 files st)))"
  "processStringRequest (xd_proxy C v6 files st) ''GetPlaybackUrl'' ''PlaybackUrl'' = Some (playback_answer st)"
  "processIntRequest (xd_proxy C v6 files st) ''GetRawOffSet'' ''RawOffSet'' = Some (x_rawOffset st)"
  "processIntRequest (xd_proxy C v6 files st) ''GetDSTSavings'' ''DSTSavings'' = Some (x_dstSavings st)"
  "processIntRequest (xd_proxy C v6 files st) ''GetDSTOffset'' ''DSTOffset'' = Some (x_dstOffset st)"
  "processBooleanRequest (xd_proxy C v6 files st) ''GetUsesDaylightTime'' ''UsesDaylightTime'' =
     Some (x_usesDaylightTime st)"
  "processBooleanRequest (xd_proxy C v6 files st) ''GetRequiresTRM'' ''RequiresTRM'' = Some (x_requirestrm st)"
  "send_action (xd_proxy C v6 files st) ''GetIsGateway'' args ''IsGateway'' = Some (G_BOOLEAN (x_isgateway st))"
  by (simp_all add: processStringRequest_def processIntRequest_def processBooleanRequest_def send_action_def
      xd_proxy_def answer_def xd_call_def xd_actions_def action_defs playback_answer_def Let_def)

text \<open>The device record as the service's own variables would fill it.\<close>

definition published_common :: "xd_conf \<Rightarrow> files \<Rightarrow> xd_state \<Rightarrow> GwyDeviceData \<Rightarrow> GwyDeviceData" where
  "published_common C files st d = d\<lparr>isgateway := x_isgateway st, recvdevtype := x_recvdevtype st,
     buildversion := x_buildversion st, devicename := x_devicename (snd (getdevicename C files st)),
     devicetype := g_strstrip (x_devicetype st), bcastmacaddress := x_bcastmacaddress st\<rparr>"

definition published_gateway :: "xd_conf \<Rightarrow> bool \<Rightarrow> files \<Rightarrow> xd_state \<Rightarrow> GwyDeviceData \<Rightarrow> GwyDeviceData" where
  "published_gateway C v6 files st d = d\<lparr>baseurl := x_url st, basetrmurl := x_trmurl st,
     gwyip := x_gwyip st, gwyipv6 := x_gwyipv6 st, gatewaystbip := x_gwystbip st,
     ipv6prefix := x_ipv6prefix st, dnsconfig := x_dnsconfig (snd (getdnsconfig C files st)),
     playbackurl := playback_answer st, systemids := x_systemids (snd (updatesystemids C files st)),
     dsgtimezone := x_dsgtimezone (fresh_timezone C files st),
     etchosts := x_etchosts (snd (getetchosts v6 files st)), requirestrm := x_requirestrm st,
     hostmacaddress := x_hostmacaddress st, rawoffset := x_rawOffset st, dstsavings := x_dstSavings st,
     usesdaylighttime := x_usesDaylightTime st, dstoffset := x_dstOffset st\<rparr>"

lemma gw_services_read_published:
  "gw_services_read own ip (xd_proxy C v6 files st) d =
     Some (if strcasestr (g_strstrip (x_devicetype st)) ''XI''
           then (published_common C files st d)\<lparr>dataGatewayIPaddress := x_dataGatewayIPaddress st\<rparr>
           else published_gateway C v6 files st (published_common C files st d))"
  by (simp add: gw_services_read_def gw_services_common_def gw_services_urls_def gw_services_rest_def
      read_str_def read_int_def read_bool_def need_str_def xd_answers published_common_def
      published_gateway_def Let_def)

text \<open>
  C15. A discovery service that reads this device service gets a full device record: it is never
  refused, and every field of the record is the variable of the device, where the fields of a
  gateway are only read from devices whose type does not hold \<open>XI\<close>. The play URL is \<open>NULL\<close> until
  the tuner is ready.
\<close>

theorem discovery_reads_published:
  "gw_services_read own ip (xd_proxy C v6 files st) d =
     Some (if strcasestr (g_strstrip (x_devicetype st)) ''XI''
           then (published_common C files st d)\<lparr>dataGatewayIPaddress := x_dataGatewayIPaddress st\<rparr>
           else published_gateway C v6 files st (published_common C files st d))"
  by (rule gw_services_read_published)

end
