(* ===== verification/Xcal_Rui.thy ===== *)
theory Xcal_Rui
  imports Xcal_Runs
begin

text \<open>
  The remote user interface of the device service \<open>src/xcal-device.c\<close>: \<open>get_uri_value\<close>, the icons
  and \<open>getruiurl\<close>, with the action that answers with it. The URI carries a description of the
  gateway as percent-encoded JSON inside escaped XML.
\<close>

subsection \<open>Names of the partner\<close>

definition getPartnerID :: "xd_state \<Rightarrow> string" where
  "getPartnerID st = x_partner_id st"

definition getPartnerName :: "xd_state \<Rightarrow> string" where
  "getPartnerName st = getStrValueFromMap (getPartnerID st) partnerNameMap"

definition getFriendlyName :: "xd_state \<Rightarrow> string" where
  "getFriendlyName st = getStrValueFromMap (getPartnerID st) friendlyNameMap"

definition getProductName :: "xd_state \<Rightarrow> string" where
  "getProductName st = getStrValueFromMap (getPartnerID st) productNameMap"

definition getServiceName :: "xd_state \<Rightarrow> string" where
  "getServiceName st = getStrValueFromMap (getPartnerID st) serviceNameMap"

definition getServiceDescription :: "xd_state \<Rightarrow> string" where
  "getServiceDescription st = getStrValueFromMap (getPartnerID st) serviceDescriptionMap"

definition getGatewayName :: "xd_state \<Rightarrow> string" where
  "getGatewayName st = getStrValueFromMap (getPartnerID st) gatewayNameMap"

subsection \<open>Icons\<close>

definition get_compatible_uis_icon :: "xd_state \<Rightarrow> nat \<Rightarrow> nat \<Rightarrow> string \<Rightarrow> string \<Rightarrow> string" where
  "get_compatible_uis_icon st nSize nDepth imageType imageExt =
     ''<icon><mimetype>image/'' @ imageType @ ''</mimetype><width>'' @ show_nat nSize @
     ''</width><height>'' @ show_nat nSize @ ''</height><depth>'' @ show_nat nDepth @
     ''</depth> <url>http://syndeo.xcal.tv/app/x2rui/dlna/'' @ getPartnerName st @ ''/'' @
     getProductName st @ ''_'' @ show_nat nSize @ ''.'' @ imageExt @ ''</url></icon>''"

definition get_compatible_uis_icon_list :: "xd_state \<Rightarrow> string" where
  "get_compatible_uis_icon_list st =
     ''<iconList>'' @ get_compatible_uis_icon st 48 32 ''png'' ''png'' @
     get_compatible_uis_icon st 120 32 ''png'' ''png'' @
     get_compatible_uis_icon st 48 32 ''jpeg'' ''jpg'' @
     get_compatible_uis_icon st 120 32 ''jpeg'' ''jpg'' @ ''</iconList>''"

subsection \<open>The URI\<close>

text \<open>
  What the world answers: the list of interfaces, the contents of the address buffer before, and
  the time in seconds as \<open>%f\<close> prints it.
\<close>

record rui_env =
  re_linklocal :: "string \<Rightarrow> bool"
  re_addrs :: "ifaddrs list option"
  re_junk :: string
  re_now :: string

text \<open>
  The address of the interface is put into the buffer and into \<open>gwyipCVP2\<close>; no interface is
  configured when the name is missing, and then the buffer is what the last IPv4 address left.
\<close>

definition initIpAddressBufferCVP2 :: "xd_conf \<Rightarrow> rui_env \<Rightarrow> xd_state \<Rightarrow> string \<times> xd_state" where
  "initIpAddressBufferCVP2 C E st =
     (let buf = snd (xd_getipaddress (re_linklocal E) C (re_addrs E)
                       (case dc_cvpIf C of Some i \<Rightarrow> i | None \<Rightarrow> []) (re_junk E) False)
      in (buf, st\<lparr>x_gwyipCVP2 := buf\<rparr>))"

text \<open>One of the four identifiers, cut out of the published text.\<close>

definition id_field :: "string \<Rightarrow> string \<Rightarrow> string" where
  "id_field pId ids =
     (case strstr ids pId of
        Some t \<Rightarrow> takeWhile (\<lambda>c. c \<noteq> CHR '';'') (drop (length pId) t)
      | None \<Rightarrow> ''0'')"

definition dquote :: string where "dquote = [CHR 0x22]"

definition json_member :: "string \<Rightarrow> string \<Rightarrow> string" where
  "json_member n v = dquote @ n @ dquote @ '':'' @ dquote @ v @ dquote"

definition gw_value :: "string \<Rightarrow> xd_state \<Rightarrow> string" where
  "gw_value udnvalue st =
     ''{'' @ json_member ''deviceType'' ''DMS'' @
     '','' @ json_member ''friendlyName'' (getGatewayName st) @
     '','' @ json_member ''receiverID'' (x_recv_id st) @
     '','' @ json_member ''udn'' udnvalue @
     '','' @ json_member ''gatewayIP'' (x_gwyipCVP2 st) @
     '','' @ json_member ''baseURL'' (x_playbackurlCVP2 st) @
     '','' @ json_member ''trmURL'' (x_trmurlCVP2 st) @
     '','' @ json_member ''channelMapId'' (id_field ''channelMapId:'' (x_systemids st)) @
     '','' @ json_member ''controllerId'' (id_field ''controllerId:'' (x_systemids st)) @
     '','' @ json_member ''plantId'' (id_field ''plantId:'' (x_systemids st)) @
     '','' @ json_member ''vodServerId'' (id_field ''vodServerId:'' (x_systemids st)) @
     '','' @ json_member ''eSTBMAC''
              (case get_eSTBMAC (x_hostmacaddress st) of Some m \<Rightarrow> m | None \<Rightarrow> ''UNKNOWN'') @ ''}''"

definition urilink :: "xd_conf \<Rightarrow> string" where
  "urilink C = (case dc_uriOverride C of Some u \<Rightarrow> u | None \<Rightarrow> ''http://syndeo.xcal.tv/app/x2rui/rui.html'')"

definition get_uri_value :: "xd_conf \<Rightarrow> rui_env \<Rightarrow> xd_state \<Rightarrow> string \<times> xd_state" where
  "get_uri_value C E st =
     (let udnvalue = take 24 (''CVP-'' @ re_now E) in
      case initIpAddressBufferCVP2 C E st of (ip, st) \<Rightarrow>
      (let st = st\<lparr>x_trmurlCVP2 := ''ws://'' @ ip @ '':9988'',
                   x_playbackurlCVP2 := ''http://'' @ ip @ '':8080/hnStreamStart?deviceId='' @ x_recv_id st @
                     ''&DTCP1HOST='' @ ip @ ''&DTCP1PORT=5000''\<rparr>;
           uri = urilink C @ ''?partner='' @ getPartnerID st @ ''&gw='' @ uriescape (gw_value udnvalue st)
       in (xmlescape uri, st)))"

subsection \<open>The listing\<close>

definition rui_head :: string where
  \<open>rui_head = ''<?xml version="1.0" encoding="UTF-8"?>'' @
     ''<uilist xmlns="urn:schemas-upnp-org:remoteui:uilist-1-0" '' @
     ''xmlns:xsi="http://www.w3.org/2001/XMLSchema-instance" '' @
     ''xsi:schemaLocation="urn:schemas-upnp-org:remoteui:uilist-1-0 CompatibleUIs.xsd">'' @
     ''<ui><uiID>1234-9876-1265-8758</uiID>''\<close>

definition rui_protocol :: string where
  \<open>rui_protocol = ''<fork>true</fork><lifetime>-1</lifetime><protocol shortName="DLNA-HTML5-1.0"><uri>''\<close>

definition getruiurl :: "xd_conf \<Rightarrow> rui_env \<Rightarrow> xd_state \<Rightarrow> bool \<times> xd_state" where
  "getruiurl C E st =
     (case dc_ruiPath C of
        Some p \<Rightarrow> (True, st\<lparr>x_ruiurl := p\<rparr>)
      | None \<Rightarrow>
          (case get_uri_value C E st of (urivalue, st) \<Rightarrow>
             (True, st\<lparr>x_ruiurl := rui_head @ ''<name>'' @ getServiceName st @ ''</name><description>'' @
                getServiceDescription st @ ''</description>'' @ get_compatible_uis_icon_list st @
                rui_protocol @ urivalue @ ''</uri></protocol></ui></uilist>''\<rparr>)))"

text \<open>The action of the second service, which first makes a new listing.\<close>

definition xd_get_rui_url_cb ::
  "xd_conf \<Rightarrow> rui_env \<Rightarrow> xd_state \<Rightarrow> (string \<Rightarrow> gvalue option) \<times> xd_state" where
  "xd_get_rui_url_cb C E st =
     (let st = snd (getruiurl C E st) in ([''UIListing'' \<mapsto> G_STRING (x_ruiurl st)], st))"

subsection \<open>The identifiers survive\<close>

lemma strstr_digits:
  "is_num ds \<Longrightarrow> n \<noteq> [] \<Longrightarrow> \<not> g_ascii_isdigit (hd n) \<Longrightarrow> strstr (ds @ s) n = strstr s n"
  by (induction ds) (auto simp: prefix_def neq_Nil_conv split: if_splits)

lemma strstr_ulong:
  "n \<noteq> [] \<Longrightarrow> \<not> g_ascii_isdigit (hd n) \<Longrightarrow> strstr (show_ulong w @ s) n = strstr s n"
  by (rule strstr_digits) (simp_all add: show_ulong_def)

lemma takeWhile_ulong:
  "takeWhile (\<lambda>c. c \<noteq> CHR '';'') (show_ulong w @ CHR '';'' # s) = show_ulong w"
  "takeWhile (\<lambda>c. c \<noteq> CHR '';'') (show_ulong w) = show_ulong w"
proof -
  have "\<forall>c \<in> set (show_ulong w). g_ascii_isdigit c"
    using is_num_show_nat is_num_iff unfolding show_ulong_def by blast
  then have "\<forall>c \<in> set (show_ulong w). c \<noteq> CHR '';''" using digit_neq by blast
  then show "takeWhile (\<lambda>c. c \<noteq> CHR '';'') (show_ulong w @ CHR '';'' # s) = show_ulong w"
    "takeWhile (\<lambda>c. c \<noteq> CHR '';'') (show_ulong w) = show_ulong w"
    by (simp_all add: takeWhile_append2)
qed

lemma not_digits [simp]:
  "\<not> g_ascii_isdigit CHR ''c''" "\<not> g_ascii_isdigit CHR ''p''" "\<not> g_ascii_isdigit CHR ''v''"
  by (simp_all add: g_ascii_isdigit_def code_def)

lemma id_fields:
  "id_field ''channelMapId:'' (ids_text c d p v) = show_ulong c"
  "id_field ''controllerId:'' (ids_text c d p v) = show_ulong d"
  "id_field ''plantId:'' (ids_text c d p v) = show_ulong p"
  "id_field ''vodServerId:'' (ids_text c d p v) = show_ulong v"
  by (simp_all add: id_field_def ids_text_def strstr_ulong takeWhile_ulong)


definition sample_rui :: rui_env where
  "sample_rui = \<lparr>re_linklocal = (\<lambda>a. False), re_addrs = None, re_junk = [], re_now = ''1700000000''\<rparr>"


end
