(* ===== verification/Xcal_Start.thy ===== *)
theory Xcal_Start
  imports Xcal_Service Xcal_Rui Startup
begin

text \<open>
  The start of the device service in \<open>src/xcal-device.c\<close>: the configuration, the receiver id, the
  device description, and \<open>main\<close> up to its main loop. Where \<open>main\<close> sleeps and looks again, the
  model is given what happens meanwhile: the bus events of each sleep, or what the next look finds.
  The build with the bus is modelled, as a client and as a gateway.
\<close>

subsection \<open>Ways to go on\<close>

text \<open>
  \<open>Exited\<close> with a code, aborted by \<open>g_error\<close>, still waiting when the given happenings are used up,
  or running into undefined behaviour.
\<close>

datatype 'a start = Going 'a | Exited int | Aborted | Waiting | Faulted fault

definition bind_start :: "'a start \<Rightarrow> ('a \<Rightarrow> 'b start) \<Rightarrow> 'b start" where
  "bind_start m f = (case m of Going x \<Rightarrow> f x | Exited c \<Rightarrow> Exited c | Aborted \<Rightarrow> Aborted
     | Waiting \<Rightarrow> Waiting | Faulted e \<Rightarrow> Faulted e)"

lemma bind_start_Going_iff:
  "bind_start m f = Going y \<longleftrightarrow> (\<exists>x. m = Going x \<and> f x = Going y)"
  by (cases m) (simp_all add: bind_start_def)

subsection \<open>Configuration\<close>

text \<open>
  \<open>readconffile\<close> on memory that is not cleared. A file that cannot be loaded makes \<open>g_error\<close> end the
  process. The client build reads fewer settings and checks none.
\<close>

definition xd_readconffile ::
  "bool \<Rightarrow> bool \<Rightarrow> xd_conf \<Rightarrow> keyfile option \<Rightarrow> (bool \<times> xd_conf) start" where
  "xd_readconffile client vidiPath junk configfile =
     (case configfile of
        None \<Rightarrow> Aborted
      | Some k \<Rightarrow>
          (let s = kf_string k; b = kf_boolean k ''Flags'';
               c = junk\<lparr>dc_bcastIf := s ''Network'' ''BCastIf'', dc_bcastPort := kf_integer k ''Network'' ''BCastPort'',
                        dc_deviceNameFile := s ''DataFiles'' ''DeviceNameFile'',
                        dc_devPropertyFile := s ''DataFiles'' ''DevPropertyFile'',
                        dc_useIARM := b ''UseIARM'', dc_allowGwy := b ''AllowGwy''\<rparr>
           in if client then Going (True, c)
              else
                (let c = c\<lparr>dc_streamIf := s ''Network'' ''StreamIf'', dc_trmIf := s ''Network'' ''TrmIf'',
                      dc_gwIf := s ''Network'' ''GwIf'', dc_cvpIf := s ''Network'' ''CvpIf'',
                      dc_cvpPort := kf_integer k ''Network'' ''CvpPort'', dc_hostMacIf := s ''Network'' ''HostMacIf'',
                      dc_oemFile := s ''DataFiles'' ''OemFile'', dc_dnsFile := s ''DataFiles'' ''DnsFile'',
                      dc_dsgFile := s ''DataFiles'' ''DsgFile'', dc_diagFile := s ''DataFiles'' ''DiagFile'',
                      dc_devXmlPath := s ''DataFiles'' ''DevXmlPath'', dc_devXmlFile := s ''DataFiles'' ''DevXmlFile'',
                      dc_cvpXmlFile := s ''DataFiles'' ''CvpXmlFile'', dc_logFile := s ''DataFiles'' ''LogFile'',
                      dc_ipv6FileLocation := s ''DataFiles'' ''Ipv6FileLocation'',
                      dc_ipv6PrefixFile := s ''DataFiles'' ''Ipv6PrefixFile'', dc_enableCVP2 := vidiPath,
                      dc_ruiPath := s ''Rui'' ''RuiPath'',
                      dc_uriOverride := (if s ''Rui'' ''RuiPath'' = None then s ''Rui'' ''uriOverride'' else None),
                      dc_enableTRM := b ''EnableTRM'', dc_useGliDiag := b ''UseGliDiag'',
                      dc_disableTuneReady := b ''DisableTuneReady'',
                      dc_enableHostMacPblsh := b ''EnableHostMacPblsh'', dc_rmfCrshSupp := b ''rmfCrshSupp'',
                      dc_wareHouseMode := b ''wareHouseMode''\<rparr>
                 in Going (\<not> (dc_bcastIf c = None \<or> dc_bcastPort c = 0 \<or> dc_devXmlPath c = None \<or>
                              dc_devXmlFile c = None), c))))"

text \<open>The defaults of the client build, for settings that are null or zero.\<close>

definition client_defaults :: "xd_conf \<Rightarrow> xd_conf" where
  "client_defaults c =
     (let d = (\<lambda>v x. case v of None \<Rightarrow> Some x | Some y \<Rightarrow> Some y) in
      c\<lparr>dc_bcastPort := (if dc_bcastPort c = 0 then 50755 else dc_bcastPort c),
        dc_devPropertyFile := d (dc_devPropertyFile c) ''/etc/device.properties'',
        dc_deviceNameFile := d (dc_deviceNameFile c) ''/opt/hn_service_settings.conf'',
        dc_logFile := d (dc_logFile c) ''/opt/logs/xdevice.log'',
        dc_devXmlPath := d (dc_devXmlPath c) ''/etc/xupnp/'',
        dc_devXmlFile := d (dc_devXmlFile c) ''BasicDevice.xml'',
        dc_allowGwy := False, dc_useIARM := True, dc_useGliDiag := True\<rparr>)"

subsection \<open>The receiver id\<close>

definition MAX_DEBUG_MESSAGE :: nat where "MAX_DEBUG_MESSAGE = 50"
definition PARTNER_ID :: string where "PARTNER_ID = ''partnerId''"
definition RECEIVER_ID :: string where "RECEIVER_ID = ''deviceId''"

text \<open>
  The loop over the tokens of the answer of the script: the value is the third token after one that
  holds the id. An empty value does not stop the loop.
\<close>

fun id_tokens :: "string \<Rightarrow> string list \<Rightarrow> string \<Rightarrow> bool \<times> string" where
  "id_tokens ident [] v = (False, v)"
| "id_tokens ident (t # ts) v =
     (if g_strrstr (g_strstrip t) ident then
        (case drop 2 ts of
           [] \<Rightarrow> id_tokens ident ts v
         | u # _ \<Rightarrow> (let v = g_strstrip u in if v \<noteq> [] then (True, v) else id_tokens ident ts v))
      else id_tokens ident ts v)"

text \<open>
  One round of \<open>getID\<close>: what the script wrote, if it could be run, and the events of the sleep that
  follows when the round has no answer. The hardware address is read when the box is in the
  warehouse.
\<close>

type_synonym batch = "(files \<times> xd_event) list"

record id_round =
  ir_response :: "string option"
  ir_mac :: string
  ir_events :: batch

fun getID_loop ::
  "iarm_names \<Rightarrow> xd_conf \<Rightarrow> string \<Rightarrow> id_round list \<Rightarrow> nat \<Rightarrow> string \<Rightarrow> xd_state \<Rightarrow> (string \<times> xd_state) start" where
  "getID_loop I C ident [] counter v st = Waiting"
| "getID_loop I C ident (r # rs) counter v st =
     (if dc_wareHouseMode C \<or> x_sysModeParam st = SYS_MODE_WAREHOUSE I then Going (ir_mac r, st)
      else
        (case ir_response r of
           None \<Rightarrow> getID_loop I C ident rs counter v (xd_run I C (ir_events r) st)
         | Some resp \<Rightarrow>
             (let response = take 1023 resp in
              if response = [] \<and> counter < MAX_DEBUG_MESSAGE
              then getID_loop I C ident rs (Suc counter) v (xd_run I C (ir_events r) st)
              else
                (case id_tokens ident (g_strsplit_set response [CHR ''{'', CHR ''}'', CHR '':'', CHR '','', CHR 0x22]) v of
                   (found, v) \<Rightarrow>
                     if found then Going (v, st)
                     else if g_strrstr ident PARTNER_ID then Going (v, st)
                     else getID_loop I C ident rs
                            (if counter < MAX_DEBUG_MESSAGE then Suc counter else counter) v
                            (xd_run I C (ir_events r) st)))))"

definition getID :: "iarm_names \<Rightarrow> xd_conf \<Rightarrow> string \<Rightarrow> id_round list \<Rightarrow> xd_state \<Rightarrow> (string \<times> xd_state) start" where
  "getID I C ident rounds st = getID_loop I C ident rounds 0 [] st"

subsection \<open>The device description\<close>

definition xd_updatexmldata ::
  "xml_file \<Rightarrow> string \<Rightarrow> string \<Rightarrow> string option \<Rightarrow> bool \<times> xml list option" where
  "xd_updatexmldata f struuid serialno friendlyName =
     (case xml_parsed f of
        None \<Rightarrow> (False, None)
      | Some doc0 \<Rightarrow>
          (case set_content doc0 ''UDN'' struuid of (r, doc) \<Rightarrow>
             if r \<noteq> 0 then (False, Some doc0)
             else (case set_content doc ''serialNumber'' serialno of (r, doc) \<Rightarrow>
               if r \<noteq> 0 then (False, Some doc0)
               else (case (case friendlyName of None \<Rightarrow> (0, doc) | Some n \<Rightarrow> set_content doc ''friendlyName'' n)
                     of (r, doc) \<Rightarrow>
                 if r \<noteq> 0 then (False, Some doc0)
                 else if \<not> xml_openable f then (False, Some doc0)
                 else if \<not> xml_dump_ok f then (False, None)
                 else (True, Some doc)))))"

subsection \<open>Waiting\<close>

text \<open>
  \<open>while (cond) sleep\<close>: the condition is evaluated on the state, which it may change, and each sleep
  handles one batch of events.
\<close>

fun wait_until ::
  "(xd_state \<Rightarrow> bool \<times> xd_state) \<Rightarrow> iarm_names \<Rightarrow> xd_conf \<Rightarrow> batch list \<Rightarrow> xd_state \<Rightarrow> xd_state start" where
  "wait_until cond I C [] st = (case cond st of (d, st) \<Rightarrow> if d then Going st else Waiting)"
| "wait_until cond I C (b # bs) st =
     (case cond st of (d, st) \<Rightarrow> if d then Going st else wait_until cond I C bs (xd_run I C b st))"

definition serial_known :: "xd_state \<Rightarrow> bool \<times> xd_state" where
  "serial_known st =
     (let st = st\<lparr>x_serial_num := g_strstrip (x_serial_num st)\<rparr> in
      (\<not> (length (x_serial_num st) < 6 \<or> \<not> is_alphanum (x_serial_num st)), st))"

definition tuner_known :: "xd_state \<Rightarrow> bool \<times> xd_state" where
  "tuner_known st = (x_tune_ready st \<noteq> 0, st)"

text \<open>
  The two loops for the IPv6 prefix: the file must exist, then it must hold a prefix. Each look sees
  the files of its moment, and the events of the sleep follow when it finds nothing.
\<close>

fun wait_prefix ::
  "iarm_names \<Rightarrow> xd_conf \<Rightarrow> string \<Rightarrow> (files \<times> batch) list \<Rightarrow> bool \<Rightarrow> xd_state \<Rightarrow> xd_state start" where
  "wait_prefix I C f [] there st = Waiting"
| "wait_prefix I C f ((files, b) # looks) there st =
     (if \<not> there \<and> files f = None then wait_prefix I C f looks there (xd_run I C b st)
      else (case getipv6prefix C files st of
              Inl e \<Rightarrow> Faulted e
            | Inr (ok, st) \<Rightarrow> if ok then Going st else wait_prefix I C f looks True (xd_run I C b st)))"

subsection \<open>The start of the service\<close>

text \<open>What the world answers while the service starts, in the order of the calls.\<close>

record xd_env =
  xs_names :: iarm_names
  xs_client :: bool
  xs_has_arg :: bool
  xs_junk_conf :: xd_conf
  xs_keyfile :: "keyfile option"
  xs_vidiPath :: bool
  xs_files :: files
  xs_linklocal :: "string \<Rightarrow> bool"
  xs_addrs :: "nat \<Rightarrow> ifaddrs list option"
  xs_junk_addr :: string
  xs_junk_stbaddr :: string
  xs_iarm :: bool
  xs_values :: system_states
  xs_hwaddr :: "string \<Rightarrow> 8 word list option"
  xs_junk_mac :: "8 word list"
  xs_id_rounds :: "id_round list"
  xs_serial_waits :: "batch list"
  xs_mfr :: "string option"
  xs_route :: "bool \<times> string"
  xs_xml :: xml_file
  xs_context :: bool
  xs_tune_waits :: "batch list"
  xs_prefix_looks :: "(files \<times> batch) list"
  xs_service :: bool
  xs_partner_rounds :: "id_round list"
  xs_cvp_xml :: xml_file
  xs_cvp_context :: bool
  xs_cvp_service :: bool

definition xd_configure :: "xd_env \<Rightarrow> xd_conf start" where
  "xd_configure E =
     (if \<not> xs_has_arg E then
        (if \<not> xs_client E then Exited 1 else Going (client_defaults (xs_junk_conf E)))
      else bind_start (xd_readconffile (xs_client E) (xs_vidiPath E) (xs_junk_conf E) (xs_keyfile E))
             (\<lambda>(ok, c). if \<not> ok \<and> \<not> xs_client E then Exited 1
                        else Going (if xs_client E then client_defaults c else c)))"

definition str_of :: "string option \<Rightarrow> string" where
  "str_of s = (case s of Some x \<Rightarrow> x | None \<Rightarrow> [])"

text \<open>The addresses: the configuration, whether IPv6 is enabled, the buffer, the state.\<close>

definition xd_addresses :: "xd_env \<Rightarrow> xd_conf \<Rightarrow> xd_state \<Rightarrow> (xd_conf \<times> bool \<times> string \<times> xd_state) start" where
  "xd_addresses E C st =
     (let get = xd_getipaddress (xs_linklocal E) C in
      if \<not> xs_client E then
        (let v6 = (case dc_ipv6FileLocation C of None \<Rightarrow> False | Some f \<Rightarrow> xs_files E f \<noteq> None) in
         case get (xs_addrs E 0) (str_of (dc_bcastIf C)) (xs_junk_addr E) True of (r, buf) \<Rightarrow>
         if r = 0 then Exited 1
         else
           (let st = st\<lparr>x_gwyipv6 := buf\<rparr> in
            case get (xs_addrs E 1) (str_of (dc_bcastIf C)) buf False of (r, buf) \<Rightarrow>
            if r = 0 then Exited 1 else Going (C, v6, buf, st\<lparr>x_gwyip := buf\<rparr>)))
      else
        (case get (xs_addrs E 0) (x_mocaIface st) (xs_junk_addr E) False of (r, buf) \<Rightarrow>
         if r = 0 then
           (case get (xs_addrs E 1) (x_wifiIface st) buf False of (r, buf) \<Rightarrow>
            if r = 0 then Exited 1
            else Going (C\<lparr>dc_bcastIf := Some (x_wifiIface st)\<rparr>, False, buf, st\<lparr>x_gwyip := buf\<rparr>))
         else Going (C\<lparr>dc_bcastIf := Some (x_mocaIface st)\<rparr>, False, buf, st\<lparr>x_gwyip := buf\<rparr>)))"

definition mac_of :: "xd_env \<Rightarrow> string \<Rightarrow> string" where
  "mac_of E ifname = xd_getmacaddress ifname (xs_hwaddr E ifname) (xs_junk_mac E)"

text \<open>The system values, the hardware addresses, the device name, the receiver id and the URLs.\<close>

definition xd_identify :: "xd_env \<Rightarrow> xd_conf \<Rightarrow> string \<Rightarrow> xd_state \<Rightarrow> xd_state start" where
  "xd_identify E C ip st =
     (let st = (if xs_iarm E \<and> \<not> xs_client E then getSystemValues (xs_values E) st else st);
          st = (case dc_hostMacIf C of
                  Some i \<Rightarrow> if xs_client E then st else st\<lparr>x_hostmacaddress := mac_of E i\<rparr> | None \<Rightarrow> st);
          st = (case dc_bcastIf C of Some i \<Rightarrow> st\<lparr>x_bcastmacaddress := mac_of E i\<rparr> | None \<Rightarrow> st);
          st = snd (getdevicename C (xs_files E) st)
      in bind_start (getID (xs_names E) C RECEIVER_ID (xs_id_rounds E) st) (\<lambda>(ident, st).
      let st = st\<lparr>x_recv_id := ident,
                  x_url := ''http://'' @ ip @ '':8080/videoStreamInit?recorderId='' @ ident\<rparr>;
          st = (if xs_client E then st
                else if \<not> dc_enableTRM C then st\<lparr>x_requirestrm := False, x_trmurl := ''NULL''\<rparr>
                else st\<lparr>x_requirestrm := True, x_trmurl := ''ws://'' @ ip @ '':9988''\<rparr>);
          st = (if \<not> dc_allowGwy C then st\<lparr>x_isgateway := False\<rparr> else st)
      in Going st))"

text \<open>The play URL and the values from files; then the serial number, which a gateway waits for.\<close>

definition xd_values :: "xd_env \<Rightarrow> xd_conf \<Rightarrow> bool \<Rightarrow> string \<Rightarrow> xd_state \<Rightarrow> xd_state start" where
  "xd_values E C v6 ip st =
     (if \<not> xs_client E then
        (let st = st\<lparr>x_playbackurl := ''http://'' @ ip @ '':8080/hnStreamStart?deviceId='' @ x_recv_id st @
                       ''&DTCP1HOST='' @ ip @ ''&DTCP1PORT=5000''\<rparr>;
             st = snd (getdnsconfig C (xs_files E) st);
             st = snd (updatesystemids C (xs_files E) st)
         in bind_start (wait_until serial_known (xs_names E) C (xs_serial_waits E) st) (\<lambda>st.
              Going (snd (getetchosts v6 (xs_files E) st))))
      else Going (getRouteData (xs_route E) (snd (xd_getserialnum True (xs_files E) (xs_mfr E) st))))"

text \<open>The description, the tuner, the IPv6 prefix and the presence on the network.\<close>

definition xd_describe :: "xd_env \<Rightarrow> xd_state \<Rightarrow> (xml list \<times> xd_state) start" where
  "xd_describe E st =
     (let st = st\<lparr>x_recv_id := g_strstrip (x_recv_id st)\<rparr> in
      case xd_updatexmldata (xs_xml E) (''uuid:'' @ x_recv_id st) (x_serial_num st) (Some ''XFINITY'') of
        (True, Some doc) \<Rightarrow> if xs_context E then Going (doc, st\<lparr>x_dev := True\<rparr>) else Exited 1
      | _ \<Rightarrow> Exited 1)"

definition xd_tuner :: "xd_env \<Rightarrow> xd_conf \<Rightarrow> xd_state \<Rightarrow> xd_state start" where
  "xd_tuner E C st =
     (if \<not> dc_disableTuneReady C then wait_until tuner_known (xs_names E) C (xs_tune_waits E) st
      else Going (st\<lparr>x_tune_ready := 1\<rparr>))"

definition xd_prefix :: "xd_env \<Rightarrow> xd_conf \<Rightarrow> bool \<Rightarrow> xd_state \<Rightarrow> xd_state start" where
  "xd_prefix E C v6 st =
     (case dc_ipv6PrefixFile C of
        None \<Rightarrow> Going st
      | Some f \<Rightarrow>
          if dc_allowGwy C \<and> v6 then wait_prefix (xs_names E) C f (xs_prefix_looks E) False st
          else Going st)"

definition xd_stbip :: "xd_env \<Rightarrow> xd_conf \<Rightarrow> bool \<Rightarrow> xd_state \<Rightarrow> int \<times> xd_state" where
  "xd_stbip E C v6 st =
     (case dc_hostMacIf C of
        None \<Rightarrow> (1, st)
      | Some i \<Rightarrow>
          (case xd_getipaddress (xs_linklocal E) C (xs_addrs E 2) i (xs_junk_stbaddr E) v6 of
             (r, buf) \<Rightarrow> (r, st\<lparr>x_gwystbip := buf\<rparr>)))"

definition xd_present ::
  "xd_env \<Rightarrow> xd_conf \<Rightarrow> bool \<Rightarrow> xd_state \<Rightarrow> (int \<times> xd_state) start" where
  "xd_present E C v6 st =
     bind_start
       (if xs_client E then Going (1, st)
        else bind_start (xd_tuner E C st) (\<lambda>st.
             bind_start (xd_prefix E C v6 st) (\<lambda>st. Going (xd_stbip E C v6 st))))
     (\<lambda>(result, st).
        let st = set_available True st in
        if \<not> xs_service E then Exited 1
        else Going (result, st\<lparr>x_upnpService := True, x_service_ready := True\<rparr>))"

text \<open>
  The second device for the remote user interface. \<open>result\<close> is the last result, of an address or of
  a description, and a zero ends the process even when no description was to be written.
\<close>

definition xd_cvp :: "xd_env \<Rightarrow> xd_conf \<Rightarrow> int \<Rightarrow> xd_state \<Rightarrow> xd_state start" where
  "xd_cvp E C result st =
     (if xs_client E \<or> \<not> dc_enableCVP2 C then Going st
      else
        (let mac = get_eSTBMAC (x_hostmacaddress st) in
         bind_start (getID (xs_names E) C PARTNER_ID (xs_partner_rounds E) st) (\<lambda>(partner, st).
           let st = st\<lparr>x_partner_id := partner\<rparr>;
               result = (case mac of
                           None \<Rightarrow> result
                         | Some m \<Rightarrow>
                             if fst (xd_updatexmldata (xs_cvp_xml E) (''uuid:AA5859B7-EFF4-42FD-BB92-'' @ m)
                                       (x_serial_num st) (Some (getFriendlyName st))) then 1 else 0)
           in if result = 0 then Exited 1
              else if \<not> xs_cvp_context E then Exited 1
              else if \<not> xs_cvp_service E then Exited 1 else Going st)))"

record xd_running =
  run_conf :: xd_conf
  run_v6 :: bool
  run_doc :: "xml list"
  run_state :: xd_state

definition xd_main :: "xd_env \<Rightarrow> xd_running start" where
  "xd_main E =
     bind_start (xd_configure E) (\<lambda>C.
     let st = (case dc_devPropertyFile C of
                 None \<Rightarrow> xd_init | Some f \<Rightarrow> snd (readDevFile (xs_files E) (Some f) xd_init)) in
     bind_start (xd_addresses E C st) (\<lambda>(C, v6, ip, st).
     bind_start (xd_identify E C ip st) (\<lambda>st.
     bind_start (xd_values E C v6 ip st) (\<lambda>st.
     bind_start (xd_describe E st) (\<lambda>(doc, st).
     bind_start (xd_present E C v6 st) (\<lambda>(result, st).
     bind_start (xd_cvp E C result st) (\<lambda>st.
     Going \<lparr>run_conf = C, run_v6 = v6, run_doc = doc, run_state = st\<rparr>)))))))"


end
