(* ===== verification/Xcal_Main.thy ===== *)
theory Xcal_Main
  imports Xcal_Start
begin

text \<open>
  From the start of the device service \<open>src/xcal-device.c\<close> to its main loop: what each phase of
  \<open>main\<close> keeps, what holds when the service is on the network, and that it goes on holding in
  every run after that.
\<close>

subsection \<open>What a step of the bus leaves alone\<close>

lemma same_static_timezone [simp]:
  "same_static a (notify_timezone st) \<longleftrightarrow> same_static a st"
  "same_static a (tell_timezone st) \<longleftrightarrow> same_static a st"
  "same_static a (mapTimeZoneToJavaFormat p st) \<longleftrightarrow> same_static a st"
  "same_static a (set_dst_offset p st) \<longleftrightarrow> same_static a st"
proof -
  have u: "same_static a (st\<lparr>x_dsgtimezone := s\<rparr>) \<longleftrightarrow> same_static a st"
    "same_static a (st\<lparr>x_rawOffset := w, x_usesDaylightTime := b\<rparr>) \<longleftrightarrow> same_static a st"
    "same_static a (st\<lparr>x_dstOffset := w, x_dstSavings := w'\<rparr>) \<longleftrightarrow> same_static a st" for st s w b w'
    by (simp_all add: same_static_def)
  show n: "same_static a (notify_timezone st) \<longleftrightarrow> same_static a st" for st
    by (simp add: notify_timezone_def Let_def u)
  show "same_static a (tell_timezone st) \<longleftrightarrow> same_static a st"
    by (simp add: tell_timezone_def Let_def u n)
  show "same_static a (mapTimeZoneToJavaFormat p st) \<longleftrightarrow> same_static a st"
    by (simp add: mapTimeZoneToJavaFormat_def Let_def u n split: option.split)
  show "same_static a (set_dst_offset p st) \<longleftrightarrow> same_static a st"
    by (simp add: set_dst_offset_def Let_def u)
qed

lemma same_static_id_event:
  "(\<And>f. same_static a (assign f st) \<longleftrightarrow> same_static a st) \<Longrightarrow>
     same_static a (id_event C files assign e st) \<longleftrightarrow> same_static a st"
  by (simp add: id_event_def publish_ids_def Let_def)

lemma same_static_tune: "same_static a (tune_event C files s st) \<longleftrightarrow> same_static a st"
proof -
  have "same_static a (st\<lparr>x_tune_ready := t\<rparr>) \<longleftrightarrow> same_static a st" for t by (simp add: same_static_def)
  then show ?thesis by (simp add: tune_event_def publish_urls_def publish_ids_def Let_def)
qed

lemma same_static_handle: "same_static a (xd_handle I C files ev st) \<longleftrightarrow> same_static a st"
proof (cases ev)
  case (Sys_event owner eventId e)
  have u: "same_static a (x_channelmap_id_update f st) \<longleftrightarrow> same_static a st"
    "same_static a (x_dac_id_update f st) \<longleftrightarrow> same_static a st"
    "same_static a (x_plant_id_update f st) \<longleftrightarrow> same_static a st"
    "same_static a (x_vodserver_id_update f st) \<longleftrightarrow> same_static a st"
    "same_static a (st\<lparr>x_serial_num := s\<rparr>) \<longleftrightarrow> same_static a st" for f s
    by (simp_all add: same_static_def)
  show ?thesis
    using Sys_event
    by (cases "ev_stateId e")
       (simp_all add: sysEventHandler_from same_static_id_event same_static_tune u)
next
  case (Route_event owner eventId ip)
  have "same_static a (st\<lparr>x_dataGatewayIPaddress := s\<rparr>) \<longleftrightarrow> same_static a st" for s by (simp add: same_static_def)
  with Route_event show ?thesis by (simp add: routesysEventHandler_def Let_def)
qed (simp add: SysModeChange_def same_static_def)

lemma same_static_run: "same_static st (xd_run I C es st)"
proof -
  have "same_static a (xd_run I C es st) \<longleftrightarrow> same_static a st" for a st
  proof (induction es arbitrary: st)
    case (Cons e es)
    show ?case by (cases e) (simp only: xd_run_simps Cons same_static_handle)
  qed simp
  then show ?thesis by simp
qed

text \<open>While the service is not ready, nobody is told anything.\<close>

lemma quiet_notify:
  "\<not> ready st \<Longrightarrow> notify_value_change n v st = st"
  by (simp add: notify_value_change_def ready_def)

lemma quiet_timezone:
  assumes "\<not> ready st"
  shows "last_told n (notify_timezone st) = last_told n st" "last_told n (tell_timezone st) = last_told n st"
    "last_told n (mapTimeZoneToJavaFormat p st) = last_told n st"
proof -
  have r: "\<not> ready (st\<lparr>x_dsgtimezone := s\<rparr>)" if "\<not> ready st" for st s using that by (simp add: ready_def)
  have l: "last_told n (st\<lparr>x_dsgtimezone := s\<rparr>) = last_told n st" for st s by (rule last_told_sent) simp
  have n: "last_told n (notify_timezone st) = last_told n st" if "\<not> ready st" for st
    using that by (simp add: notify_timezone_def Let_def quiet_notify r l)
  show "last_told n (tell_timezone st) = last_told n st"
    using assms by (simp add: tell_timezone_def Let_def r l n)
  have m: "last_told n (st\<lparr>x_rawOffset := w, x_usesDaylightTime := b\<rparr>) = last_told n st" for st w b
    by (rule last_told_sent) simp
  show "last_told n (mapTimeZoneToJavaFormat p st) = last_told n st"
    using assms by (simp add: mapTimeZoneToJavaFormat_def Let_def r l m n split: option.split)
  show "last_told n (notify_timezone st) = last_told n st" using assms by (rule n)
qed


lemma quiet_publish:
  "\<not> ready st \<Longrightarrow> last_told n (publish_ids C files st) = last_told n st"
proof -
  have "last_told n (snd (updatesystemids C files st)) = last_told n st" by (rule last_told_sent) simp
  then show "\<not> ready st \<Longrightarrow> ?thesis" by (simp add: publish_ids_def Let_def)
qed

lemma quiet_id_event:
  assumes "\<not> ready st" "\<And>f. ready (assign f st) = ready st" "\<And>f. x_sent (assign f st) = x_sent st"
  shows "last_told n (id_event C files assign e st) = last_told n st"
  using assms last_told_sent [OF assms(3)] by (simp add: id_event_def quiet_publish)

lemma quiet_tune:
  assumes "\<not> ready st" shows "last_told n (tune_event C files s st) = last_told n st"
proof -
  have "ready (st\<lparr>x_tune_ready := t\<rparr>) = ready st" for t by (simp add: ready_def)
  moreover have "last_told n (st\<lparr>x_tune_ready := t\<rparr>) = last_told n st" for t by (rule last_told_sent) simp
  moreover have "ready (publish_ids C files st) = ready st" for st by (simp add: publish_ids_def Let_def)
  ultimately show ?thesis
    using assms by (simp add: tune_event_def publish_urls_def quiet_publish Let_def)
qed

lemma quiet_handle:
  assumes "\<not> ready st"
  shows "last_told n (xd_handle I C files ev st) = last_told n st"
proof (cases ev)
  case (Sys_event owner eventId e)
  have rd: "ready (x_channelmap_id_update f st) = ready st" "ready (x_dac_id_update f st) = ready st"
    "ready (x_plant_id_update f st) = ready st" "ready (x_vodserver_id_update f st) = ready st"
    "ready (set_dst_offset p st) = ready st" for f p
    by (simp_all add: ready_def set_dst_offset_def Let_def)
  have l: "last_told n (st\<lparr>x_serial_num := s\<rparr>) = last_told n st"
    "last_told n (set_dst_offset s st) = last_told n st" for s
    by (rule last_told_sent, simp add: set_dst_offset_def Let_def)+
  show ?thesis
    using assms Sys_event
    by (cases "ev_stateId e")
       (simp_all add: sysEventHandler_from quiet_id_event quiet_tune quiet_timezone rd l)
next
  case (Route_event owner eventId ip)
  have "ready (st\<lparr>x_dataGatewayIPaddress := s\<rparr>) = ready st" for s by (simp add: ready_def)
  moreover have "last_told n (st\<lparr>x_dataGatewayIPaddress := s\<rparr>) = last_told n st" for s
    by (rule last_told_sent) simp
  ultimately show ?thesis using assms Route_event by (simp add: routesysEventHandler_def Let_def)
next
  case (Mode_change m)
  then show ?thesis using last_told_sent by (simp add: SysModeChange_def last_told_def)
qed

text \<open>Quiet states: the service is not ready and nobody was told anything.\<close>

definition quiet :: "xd_state \<Rightarrow> bool" where
  "quiet st \<longleftrightarrow> \<not> ready st \<and> (\<forall>n. last_told n st = None)"

lemma ready_handle [simp]: "ready (xd_handle I C files ev st) = ready st"
  using same_static_run [of st I C "[(files, ev)]"] by (simp add: same_static_def ready_def)

lemma quiet_step: "quiet st \<Longrightarrow> quiet (xd_handle I C files ev st)"
  by (simp add: quiet_def quiet_handle)

lemma quiet_run: "quiet st \<Longrightarrow> quiet (xd_run I C es st)"
  by (induction es arbitrary: st) (auto simp: quiet_step)

lemma quiet_cong: "quiet st \<Longrightarrow> x_sent st' = x_sent st \<Longrightarrow> ready st' = ready st \<Longrightarrow> quiet st'"
  by (auto simp: quiet_def last_told_def)

lemma quiet_ids:
  "quiet st \<Longrightarrow> dc_useGliDiag C \<Longrightarrow> ids_inv False (snd (updatesystemids C files st))"
proof -
  assume q: "quiet st" and C: "dc_useGliDiag C"
  have "last_told n (snd (updatesystemids C files st)) = last_told n st" for n
    by (rule last_told_sent) simp
  with q C show ?thesis
    by (auto simp: ids_inv_def quiet_def) (simp add: updatesystemids_def current_ids_def)
qed


text \<open>Effects are only added.\<close>

definition sent_grows :: "xd_state \<Rightarrow> xd_state \<Rightarrow> bool" where
  "sent_grows st st' \<longleftrightarrow> prefix (x_sent st) (x_sent st')"

lemma sent_grows_trans: "sent_grows a b \<Longrightarrow> sent_grows b c \<Longrightarrow> sent_grows a c"
  by (auto simp: sent_grows_def intro: prefix_order.trans)

lemma sent_grows_notify:
  "sent_grows a st \<Longrightarrow> sent_grows a (notify_value_change n v st)"
  "sent_grows a st \<Longrightarrow> sent_grows a (set_available b st)"
  "sent_grows a st \<Longrightarrow> sent_grows a (snd (updatesystemids C files st))"
  by (auto simp: sent_grows_def notify_value_change_def set_available_def xd_emit_def)

lemma sent_grows_cong: "x_sent st' = x_sent st \<Longrightarrow> sent_grows a st' = sent_grows a st"
  by (simp add: sent_grows_def)

lemma sent_grows_publish: "sent_grows a st \<Longrightarrow> sent_grows a (publish_ids C files st)"
  by (simp add: publish_ids_def Let_def sent_grows_notify)

lemma sent_grows_tune: "sent_grows a st \<Longrightarrow> sent_grows a (tune_event C files s st)"
proof -
  assume "sent_grows a st"
  then have "sent_grows a (st\<lparr>x_tune_ready := s\<rparr>)" by (simp add: sent_grows_def)
  then show ?thesis
    using \<open>sent_grows a st\<close>
    by (auto simp: tune_event_def publish_urls_def Let_def intro!: sent_grows_notify sent_grows_publish)
qed

lemma sent_grows_timezone:
  assumes "sent_grows a st"
  shows "sent_grows a (notify_timezone st)" "sent_grows a (tell_timezone st)"
    "sent_grows a (mapTimeZoneToJavaFormat p st)" "sent_grows a (set_dst_offset p st)"
proof -
  have u: "sent_grows a (st\<lparr>x_dsgtimezone := s\<rparr>)" if "sent_grows a st" for st s using that by (simp add: sent_grows_def)
  have n: "sent_grows a (notify_timezone st)" if "sent_grows a st" for st
    using that by (auto simp: notify_timezone_def Let_def u intro!: sent_grows_notify)
  show "sent_grows a (notify_timezone st)" using assms by (rule n)
  show "sent_grows a (tell_timezone st)" using assms by (auto simp: tell_timezone_def Let_def intro!: n u)
  have "sent_grows a (notify_timezone (st\<lparr>x_dsgtimezone := s\<rparr>))" for s using assms by (intro n u)
  then show "sent_grows a (mapTimeZoneToJavaFormat p st)"
    using assms by (simp add: mapTimeZoneToJavaFormat_def Let_def sent_grows_def split: option.split)
  show "sent_grows a (set_dst_offset p st)"
    using assms by (simp add: set_dst_offset_def Let_def sent_grows_def)
qed

lemma sent_grows_handle: "sent_grows a st \<Longrightarrow> sent_grows a (xd_handle I C files ev st)"
proof (cases ev)
  case (Sys_event owner eventId e)
  assume a: "sent_grows a st"
  have i: "sent_grows a (id_event C files assign e st)" if "\<And>f. x_sent (assign f st) = x_sent st" for assign
    using a that by (auto simp: id_event_def sent_grows_def intro!: sent_grows_publish [unfolded sent_grows_def])
  show ?thesis
    using a Sys_event
    by (cases "ev_stateId e")
       (simp_all add: sysEventHandler_from i sent_grows_tune sent_grows_timezone,
        simp add: sent_grows_def)
next
  case (Route_event owner eventId ip)
  assume "sent_grows a st"
  then have "sent_grows a (st\<lparr>x_dataGatewayIPaddress := s\<rparr>)" for s by (simp add: sent_grows_def)
  with \<open>sent_grows a st\<close> Route_event show ?thesis
    by (simp add: routesysEventHandler_def Let_def sent_grows_notify)
qed (simp add: SysModeChange_def sent_grows_def)

lemma sent_grows_run: "sent_grows st (xd_run I C es st)"
proof -
  have "sent_grows a st \<Longrightarrow> sent_grows a (xd_run I C es st)" for a
    by (induction es arbitrary: st) (auto simp: sent_grows_handle)
  then show ?thesis by (simp add: sent_grows_def)
qed

subsection \<open>Waiting keeps invariants\<close>

lemma wait_until_result:
  assumes "wait_until cond I C bs st = Going st'" "P st" "\<And>st. P st \<Longrightarrow> P (snd (cond st))"
    and "\<And>st b. P st \<Longrightarrow> b \<in> set bs \<Longrightarrow> P (xd_run I C b st)"
  shows "P st' \<and> (\<exists>s. cond s = (True, st'))"
  using assms
proof (induction bs arbitrary: st)
  case Nil
  obtain d s where c: "cond st = (d, s)" by (cases "cond st")
  with Nil.prems(1) have "d" "s = st'" by (simp_all split: if_splits)
  with c Nil.prems(3) [OF Nil.prems(2)] show ?case by auto
next
  case (Cons b bs)
  obtain d s where c: "cond st = (d, s)" by (cases "cond st")
  have s: "P s" using Cons.prems(3) [OF Cons.prems(2)] c by simp
  show ?case
  proof (cases d)
    case True
    with Cons.prems(1) c s show ?thesis by auto
  next
    case False
    with Cons.prems(1) c have "wait_until cond I C bs (xd_run I C b s) = Going st'" by simp
    then show ?thesis
    proof (rule Cons.IH)
      show "P (xd_run I C b s)" using Cons.prems(4) [OF s] by simp
    qed (use Cons.prems(3,4) in auto)
  qed
qed

lemma wait_prefix_result:
  assumes "wait_prefix I C f looks there st = Going st'" "P st"
    and "\<And>st v. P st \<Longrightarrow> P (st\<lparr>x_ipv6prefix := v\<rparr>)"
    and "\<And>st fs b. P st \<Longrightarrow> (fs, b) \<in> set looks \<Longrightarrow> P (xd_run I C b st)"
  shows "P st'"
  using assms
proof (induction looks arbitrary: there st)
  case (Cons l looks)
  obtain fs b where l: "l = (fs, b)" by (cases l)
  have g: "P s" if "getipv6prefix C fs st = Inr (ok, s)" for ok s
    using that Cons.prems(2,3)
    by (auto simp: getipv6prefix_def bind_outcome_Inr_iff split: option.splits)
  have next_look: "P st'" if "wait_prefix I C f looks t (xd_run I C b s) = Going st'" "P s" for t s
    using that(1)
  proof (rule Cons.IH)
    show "P (xd_run I C b s)" by (rule Cons.prems(4) [OF that(2), of fs]) (simp add: l)
    show "P (st\<lparr>x_ipv6prefix := v\<rparr>)" if "P st" for st v by (rule Cons.prems(3) [OF that])
    show "P (xd_run I C b' st)" if "P st" "(fs', b') \<in> set looks" for st fs' b'
      by (rule Cons.prems(4) [OF that(1), of fs']) (simp add: that(2))
  qed
  show ?case
    using Cons.prems(1,2) l g next_look
    by (auto split: if_splits sum.splits prod.splits)
qed simp

lemma getID_loop_result:
  assumes "getID_loop I C ident rs n v st = Going (x, st')" "P st"
    and "\<And>st r. P st \<Longrightarrow> r \<in> set rs \<Longrightarrow> P (xd_run I C (ir_events r) st)"
  shows "P st'"
  using assms
proof (induction rs arbitrary: n v st)
  case (Cons r rs)
  have step: "P st'" if "getID_loop I C ident rs m w (xd_run I C (ir_events r) st) = Going (x, st')" for m w
    using that
  proof (rule Cons.IH)
    show "P (xd_run I C (ir_events r) st)" using Cons.prems(2,3) by simp
  qed (use Cons.prems(3) in auto)
  show ?case
    using Cons.prems(1,2) step
    by (auto simp: Let_def split: if_splits option.splits prod.splits)
qed simp

subsection \<open>The phases of the start\<close>

lemma tz_inv_run: "tz_inv st \<Longrightarrow> tz_inv (xd_run I C es st)"
  by (induction es arbitrary: st) (auto simp: tz_inv_handle)

lemma x_dev_run [simp]: "x_dev (xd_run I C es st) = x_dev st"
  using same_static_run [of st I C es] by (simp add: same_static_def)

lemma ready_run [simp]: "ready (xd_run I C es st) = ready st"
  using same_static_run [of st I C es] by (simp add: same_static_def ready_def)

definition ids_ok :: "iarm_names \<Rightarrow> batch \<Rightarrow> bool" where
  "ids_ok I b \<longleftrightarrow> list_all (\<lambda>(files, e). \<not> id_error I e) b"

lemma ids_inv_run:
  "dc_useGliDiag C \<Longrightarrow> ids_inv r st \<Longrightarrow> ids_ok I es \<Longrightarrow> ids_inv r (xd_run I C es st)"
  using xd_run_invariant [of "ids_inv r" "\<lambda>e. \<not> id_error I e" I C st es] ids_inv_handle
  unfolding ids_ok_def by blast

text \<open>No error for an identifier in the batches from the wait for the serial number on.\<close>

definition ids_ok_start :: "xd_env \<Rightarrow> bool" where
  "ids_ok_start E \<longleftrightarrow> list_all (ids_ok (xs_names E)) (xs_serial_waits E) \<and>
     list_all (ids_ok (xs_names E)) (xs_tune_waits E) \<and>
     list_all (\<lambda>(files, b). ids_ok (xs_names E) b) (xs_prefix_looks E) \<and>
     list_all (\<lambda>r. ids_ok (xs_names E) (ir_events r)) (xs_partner_rounds E)"

text \<open>The state before the service is ready, with \<open>g\<close> telling whether the identifiers are published.\<close>

definition starting :: "bool \<Rightarrow> xd_state \<Rightarrow> bool" where
  "starting g st \<longleftrightarrow> tz_inv st \<and> quiet st \<and> (g \<longrightarrow> ids_inv False st)"

lemma starting_run:
  "starting g st \<Longrightarrow> (g \<longrightarrow> dc_useGliDiag C \<and> ids_ok I es) \<Longrightarrow> starting g (xd_run I C es st)"
  by (auto simp: starting_def tz_inv_run quiet_run ids_inv_run)

lemma starting_cong:
  assumes "starting g st" "x_sent st' = x_sent st" "ready st' = ready st" "x_systemids st' = x_systemids st"
    and "current_ids st' = current_ids st" "x_dsgtimezone st' = x_dsgtimezone st"
    and "x_rawOffset st' = x_rawOffset st" "x_usesDaylightTime st' = x_usesDaylightTime st"
    and "x_dstOffset st' = x_dstOffset st" "x_dstSavings st' = x_dstSavings st"
  shows "starting g st'"
  using assms(1) quiet_cong [OF _ assms(2,3)] last_told_sent [OF assms(2)] assms(3-)
  by (auto simp: starting_def tz_inv_def ids_inv_def)

lemma starting_init: "starting False xd_init"
  by (simp add: starting_def tz_inv_def quiet_def last_told_def ready_def xd_init_def)

lemma dev_hits_keys:
  "list_all (\<lambda>(f, v). f \<in> {x_recvdevtype_update, x_buildversion_update, x_devicetype_update,
     x_mocaIface_update, x_wifiIface_update}) (dev_hits ts)"
  by (induction ts rule: dev_hits.induct) (auto simp: token_hits_def list_all_iff)

lemma assign_all_starting:
  "starting g st \<Longrightarrow> list_all (\<lambda>(f, v). f \<in> {x_recvdevtype_update, x_buildversion_update,
     x_devicetype_update, x_mocaIface_update, x_wifiIface_update}) hs \<Longrightarrow> starting g (assign_all hs st)"
proof (induction hs arbitrary: st)
  case (Cons h hs)
  obtain f v where h: "h = (f, v)" by (cases h)
  have "starting g (f (\<lambda>_. v) st)"
    using Cons.prems h by (auto intro!: starting_cong [OF Cons.prems(1)] simp: ready_def current_ids_def)
  with Cons h show ?case by simp
qed simp

lemma starting_readDevFile:
  "starting g st \<Longrightarrow> starting g (snd (readDevFile files (Some f) st))"
proof (cases "files f")
  case (Some contents)
  let ?hs = "dev_hits (g_strsplit_set contents [CHR '','', CHR ''='', CHR 0x27, CHR 0x0A])"
  have "list_all (\<lambda>(f, v). f \<in> {x_recvdevtype_update, x_buildversion_update, x_devicetype_update,
     x_mocaIface_update, x_wifiIface_update}) (take 5 ?hs)"
    using dev_hits_keys [of "g_strsplit_set contents [CHR '','', CHR ''='', CHR 0x27, CHR 0x0A]"]
    unfolding list_all_iff by (meson in_set_takeD)
  with Some show "starting g st \<Longrightarrow> ?thesis"
    by (simp add: readDevFile_def dev_loop_hits assign_all_starting)
qed (simp add: readDevFile_def)

lemma quiet_getSystemValues: "quiet st \<Longrightarrow> quiet (getSystemValues param st)"
proof -
  have t: "quiet (take_id a p st)" if "quiet st" "\<And>f. x_sent (a f st) = x_sent st" "\<And>f. ready (a f st) = ready st"
    for a p st
    using that quiet_cong by (auto simp: take_id_def)
  have ids: "quiet (take_id x_channelmap_id_update p st)" "quiet (take_id x_dac_id_update p st)"
    "quiet (take_id x_plant_id_update p st)" "quiet (take_id x_vodserver_id_update p st)" if "quiet st" for p st
    using that by (auto intro!: t simp: ready_def)
  have u: "quiet (st\<lparr>x_dstOffset := w\<rparr>)" "quiet (st\<lparr>x_dstSavings := w\<rparr>)" "quiet (st\<lparr>x_tune_ready := i\<rparr>)"
    "quiet (st\<lparr>x_serial_num := s\<rparr>)" if "quiet st" for st w i s
    by (rule quiet_cong [OF that]; simp add: ready_def)+
  have rz: "ready (tell_timezone st) = ready st" "ready (mapTimeZoneToJavaFormat p st) = ready st" for st p
    using same_static_timezone(2) [where a = st and st = st] same_static_timezone(3) [where a = st and st = st]
    by (auto simp: same_static_def ready_def)
  have z: "quiet (tell_timezone st)" "quiet (mapTimeZoneToJavaFormat p st)" if "quiet st" for st p
    using that by (auto simp: quiet_def quiet_timezone rz)
  have d: "quiet (take_dst_offset p st)" if "quiet st" for p st
    using that by (auto simp: take_dst_offset_def Let_def intro!: z u)
  have n: "quiet (notify_value_change m v st)" if "quiet st" for m v st
    using that by (simp add: quiet_def quiet_notify)
  show "quiet st \<Longrightarrow> ?thesis"
    by (auto simp: getSystemValues_def Let_def intro!: u n d z ids split: option.split)
qed


definition ids_published :: "xd_env \<Rightarrow> xd_conf \<Rightarrow> bool" where
  "ids_published E C \<longleftrightarrow> \<not> xs_client E \<and> dc_useGliDiag C \<and> ids_ok_start E"

definition valid_serial :: "string \<Rightarrow> bool" where
  "valid_serial s \<longleftrightarrow> length s \<ge> 6 \<and> is_alphanum s"

lemma xd_addresses_result:
  assumes "xd_addresses E C st = Going (C', v6, ip, st')" "starting g st"
  shows "starting g st'" "dc_useGliDiag C' = dc_useGliDiag C"
proof -
  have u: "starting g (st\<lparr>x_gwyip := s\<rparr>)" "starting g (st\<lparr>x_gwyipv6 := t, x_gwyip := s\<rparr>)" for s t
    by (rule starting_cong [OF assms(2)]; simp add: ready_def current_ids_def)+
  show "starting g st'" "dc_useGliDiag C' = dc_useGliDiag C"
    using assms(1) u by (auto simp: xd_addresses_def Let_def split: if_splits prod.splits)
qed

lemma getdevicename_starting: "starting g st \<Longrightarrow> starting g (snd (getdevicename C files st))"
  by (erule starting_cong)
     (auto simp: getdevicename_def ready_def current_ids_def split: option.split list.split)

lemma xd_identify_result:
  assumes "xd_identify E C ip st = Going st'" "starting False st"
  shows "starting False st'"
proof -
  have u: "starting False (st\<lparr>x_hostmacaddress := s\<rparr>)" "starting False (st\<lparr>x_bcastmacaddress := s\<rparr>)"
    "starting False (st\<lparr>x_recv_id := s, x_url := t\<rparr>)" "starting False (st\<lparr>x_requirestrm := b, x_trmurl := t\<rparr>)"
    "starting False (st\<lparr>x_isgateway := b\<rparr>)" if "starting False st" for st s t b
    by (rule starting_cong [OF that]; simp add: ready_def current_ids_def)+
  have v: "starting False (getSystemValues p st)" if "starting False st" for p st
    using that by (auto simp: starting_def tz_inv_getSystemValues quiet_getSystemValues)
  define st1 where "st1 = (if xs_iarm E \<and> \<not> xs_client E then getSystemValues (xs_values E) st else st)"
  define st2 where "st2 = (case dc_hostMacIf C of
                  Some i \<Rightarrow> if xs_client E then st1 else st1\<lparr>x_hostmacaddress := mac_of E i\<rparr> | None \<Rightarrow> st1)"
  define st3 where "st3 = snd (getdevicename C (xs_files E)
      (case dc_bcastIf C of Some i \<Rightarrow> st2\<lparr>x_bcastmacaddress := mac_of E i\<rparr> | None \<Rightarrow> st2))"
  have "starting False st3"
    using assms(2) by (auto simp: st1_def st2_def st3_def intro!: getdevicename_starting u v split: option.split)
  moreover obtain ident st4 where i: "getID (xs_names E) C RECEIVER_ID (xs_id_rounds E) st3 = Going (ident, st4)"
    using assms(1) unfolding xd_identify_def Let_def st1_def [symmetric] st2_def [symmetric] st3_def [symmetric]
    by (auto simp: bind_start_Going_iff)
  ultimately have "starting False st4"
    by (intro getID_loop_result [of _ _ _ _ _ _ _ _ _ "starting False", OF i [unfolded getID_def]])
       (auto intro: starting_run)
  moreover have "st' = (let st = st4\<lparr>x_recv_id := ident,
                  x_url := ''http://'' @ ip @ '':8080/videoStreamInit?recorderId='' @ ident\<rparr>;
          st = (if xs_client E then st
                else if \<not> dc_enableTRM C then st\<lparr>x_requirestrm := False, x_trmurl := ''NULL''\<rparr>
                else st\<lparr>x_requirestrm := True, x_trmurl := ''ws://'' @ ip @ '':9988''\<rparr>)
      in if \<not> dc_allowGwy C then st\<lparr>x_isgateway := False\<rparr> else st)"
    using assms(1) i
    unfolding xd_identify_def Let_def st1_def [symmetric] st2_def [symmetric] st3_def [symmetric]
    by (simp add: bind_start_def)
  ultimately show ?thesis by (auto simp: Let_def intro!: u)
qed

lemma serial_known_starting: "starting g st \<Longrightarrow> starting g (snd (serial_known st))"
  by (erule starting_cong) (simp_all add: serial_known_def Let_def ready_def current_ids_def)

lemma serial_known_True: "serial_known s = (True, st) \<Longrightarrow> valid_serial (x_serial_num st)"
  by (auto simp: serial_known_def valid_serial_def Let_def)

lemma xd_values_result:
  assumes "xd_values E C v6 ip st = Going st'" "starting False st"
  shows "starting (ids_published E C) st'" "\<not> xs_client E \<Longrightarrow> valid_serial (x_serial_num st')"
proof -
  let ?g = "ids_published E C"
  have "starting ?g st' \<and> (\<not> xs_client E \<longrightarrow> valid_serial (x_serial_num st'))"
  proof (cases "xs_client E")
    case True
    have u: "starting False (s\<lparr>x_serial_num := v\<rparr>)" "starting False (s\<lparr>x_dataGatewayIPaddress := v\<rparr>)"
      if "starting False s" for s v
      by (rule starting_cong [OF that]; simp add: ready_def current_ids_def)+
    have "starting False st'"
      using assms True
      by (auto simp: xd_values_def getRouteData_def xd_getserialnum_def intro!: u split: option.split)
    then show ?thesis using True by (simp add: ids_published_def)
  next
    case False
    define st1 where "st1 = snd (getdnsconfig C (xs_files E) (st\<lparr>x_playbackurl := ''http://'' @ ip @
      '':8080/hnStreamStart?deviceId='' @ x_recv_id st @ ''&DTCP1HOST='' @ ip @ ''&DTCP1PORT=5000''\<rparr>))"
    have s1: "starting False st1"
      by (rule starting_cong [OF assms(2)])
         (simp_all add: st1_def getdnsconfig_lines ready_def current_ids_def split: option.split)
    obtain st2 where w: "wait_until serial_known (xs_names E) C (xs_serial_waits E)
          (snd (updatesystemids C (xs_files E) st1)) = Going st2"
      and st': "st' = snd (getetchosts v6 (xs_files E) st2)"
      using assms(1) False by (auto simp: xd_values_def Let_def st1_def bind_start_Going_iff)
    have "starting ?g (snd (updatesystemids C (xs_files E) st1))"
      using s1 quiet_ids [of st1 C "xs_files E"]
      by (auto simp: starting_def ids_published_def intro!: quiet_cong [of st1])
    then have "starting ?g st2 \<and> (\<exists>s. serial_known s = (True, st2))"
    proof (rule wait_until_result [OF w])
      fix s b assume "starting ?g s" "b \<in> set (xs_serial_waits E)"
      then show "starting ?g (xd_run (xs_names E) C b s)"
        by (intro starting_run) (auto simp: ids_published_def ids_ok_start_def list_all_iff)
    qed (rule serial_known_starting)
    moreover have "starting ?g st'" if "starting ?g st2"
      by (rule starting_cong [OF that])
         (simp_all add: st' getetchosts_lines ready_def current_ids_def split: option.split)
    moreover have "x_serial_num st' = x_serial_num st2"
      by (simp add: st' getetchosts_lines split: option.split)
    ultimately show ?thesis using serial_known_True by auto
  qed
  then show "starting ?g st'" "\<not> xs_client E \<Longrightarrow> valid_serial (x_serial_num st')" by auto
qed

lemma xd_describe_result:
  assumes "xd_describe E st = Going (doc, st')" "starting g st"
  shows "starting g st'" "x_dev st'"
    "xd_updatexmldata (xs_xml E) (''uuid:'' @ g_strstrip (x_recv_id st)) (x_serial_num st) (Some ''XFINITY'')
       = (True, Some doc)"
proof -
  have "starting g (st\<lparr>x_recv_id := s, x_dev := b\<rparr>)" for s b
    by (rule starting_cong [OF assms(2)]) (simp_all add: ready_def current_ids_def)
  with assms(1) show "starting g st'" "x_dev st'"
    "xd_updatexmldata (xs_xml E) (''uuid:'' @ g_strstrip (x_recv_id st)) (x_serial_num st) (Some ''XFINITY'')
       = (True, Some doc)"
    by (auto simp: xd_describe_def Let_def split: prod.splits bool.splits option.splits if_splits)
qed

text \<open>The state of the service once it is on the network.\<close>

definition started :: "bool \<Rightarrow> xd_state \<Rightarrow> bool" where
  "started g st \<longleftrightarrow> ready st \<and> x_dev st \<and> tz_inv st \<and> Set_available True \<in> set (x_sent st) \<and>
     (g \<longrightarrow> ids_inv True st)"

lemma started_run:
  assumes "started g st" "g \<longrightarrow> dc_useGliDiag C \<and> ids_ok I es"
  shows "started g (xd_run I C es st)"
proof -
  have "set (x_sent st) \<subseteq> set (x_sent (xd_run I C es st))"
    using sent_grows_run [of st I C es] by (auto simp: sent_grows_def set_mono_prefix)
  with assms show ?thesis by (auto simp: started_def tz_inv_run ids_inv_run)
qed

lemma xd_present_result:
  assumes "xd_present E C v6 st = Going (result, st')" "starting (ids_published E C) st" "x_dev st"
  shows "started (ids_published E C) st'"
proof -
  let ?g = "ids_published E C"
  let ?P = "\<lambda>st. starting ?g st \<and> x_dev st"
  have run: "?P (xd_run (xs_names E) C b s)" if "?P s" "?g \<longrightarrow> ids_ok (xs_names E) b" for s b
    using that by (auto simp: ids_published_def intro!: starting_run)
  have u: "?P (s\<lparr>x_tune_ready := i\<rparr>)" "?P (s\<lparr>x_ipv6prefix := v\<rparr>)" "?P (s\<lparr>x_gwystbip := v\<rparr>)" if "?P s" for s i v
    using that by (auto intro!: starting_cong [of ?g s] simp: ready_def current_ids_def)
  have t: "?P s'" if "xd_tuner E C s = Going s'" "?P s" for s s'
  proof (cases "dc_disableTuneReady C")
    case False
    with that(1) have "wait_until tuner_known (xs_names E) C (xs_tune_waits E) s = Going s'"
      by (simp add: xd_tuner_def)
    from wait_until_result [of _ _ _ _ _ _ ?P, OF this that(2)] run show ?thesis
      by (auto simp: tuner_known_def ids_published_def ids_ok_start_def list_all_iff)
  qed (use that u(1) [OF that(2)] in \<open>auto simp: xd_tuner_def\<close>)
  have p: "?P s'" if p1: "xd_prefix E C v6 s = Going s'" and p2: "?P s" for s s'
  proof (cases "\<exists>f. dc_ipv6PrefixFile C = Some f \<and> dc_allowGwy C \<and> v6")
    case True
    then obtain f where "wait_prefix (xs_names E) C f (xs_prefix_looks E) False s = Going s'"
      using p1 by (auto simp: xd_prefix_def)
    then show ?thesis
    proof (rule wait_prefix_result [of _ _ _ _ _ _ _ ?P])
      fix s fs b assume "?P s" "(fs, b) \<in> set (xs_prefix_looks E)"
      then show "?P (xd_run (xs_names E) C b s)"
        by (intro run) (auto simp: ids_published_def ids_ok_start_def list_all_iff)
    qed (rule p2, rule u(2))
  qed (use p1 p2 in \<open>auto simp: xd_prefix_def split: option.splits\<close>)
  have i: "?P (snd (xd_stbip E C v6 s))" if "?P s" for s
    using u(3) [OF that] that by (auto simp: xd_stbip_def split: option.split prod.split)
  obtain st1 where "?P st1" and st': "st' = (set_available True st1)\<lparr>x_upnpService := True, x_service_ready := True\<rparr>"
  proof (cases "xs_client E")
    case True
    with assms that [of st] show ?thesis
      by (auto simp: xd_present_def bind_start_def Let_def split: if_splits)
  next
    case False
    then obtain s1 s2 where s: "xd_tuner E C st = Going s1" "xd_prefix E C v6 s1 = Going s2"
        "st' = (set_available True (snd (xd_stbip E C v6 s2)))\<lparr>x_upnpService := True, x_service_ready := True\<rparr>"
      using assms(1)
      by (auto simp: xd_present_def bind_start_Going_iff Let_def split: if_splits prod.splits)
    with t [OF s(1)] p [OF s(2)] i [of s2] assms(2,3) that show ?thesis by blast
  qed
  then show ?thesis
    by (auto simp: started_def starting_def ready_def tz_inv_def set_available_def xd_emit_def
        ids_inv_def current_ids_def last_told_def is_notify_def)
qed

lemma xd_cvp_result:
  assumes "xd_cvp E C result st = Going st'" "started (ids_published E C) st"
  shows "started (ids_published E C) st'"
proof (cases "xs_client E \<or> \<not> dc_enableCVP2 C")
  case True
  with assms show ?thesis by (auto simp: xd_cvp_def)
next
  case False
  then obtain partner st1 where i: "getID (xs_names E) C PARTNER_ID (xs_partner_rounds E) st = Going (partner, st1)"
    and st': "st' = st1\<lparr>x_partner_id := partner\<rparr>"
    using assms(1) by (auto simp: xd_cvp_def bind_start_Going_iff Let_def split: if_splits)
  have "started (ids_published E C) st1"
    using i [unfolded getID_def] assms(2)
  proof (rule getID_loop_result)
    fix s r assume "started (ids_published E C) s" "r \<in> set (xs_partner_rounds E)"
    then show "started (ids_published E C) (xd_run (xs_names E) C (ir_events r) s)"
      by (intro started_run) (auto simp: ids_published_def ids_ok_start_def list_all_iff)
  qed
  moreover have "last_told n (st1\<lparr>x_partner_id := partner\<rparr>) = last_told n st1" for n
    by (rule last_told_sent) simp
  ultimately show ?thesis
    unfolding st' by (auto simp: started_def ready_def tz_inv_def ids_inv_def current_ids_def)
qed

text \<open>What holds when \<open>main\<close> reaches its main loop.\<close>

lemma xd_main_result:
  assumes "xd_main E = Going r"
  shows "started (ids_published E (run_conf r)) (run_state r) \<and>
    (\<exists>uid sno. xd_updatexmldata (xs_xml E) (''uuid:'' @ uid) sno (Some ''XFINITY'') = (True, Some (run_doc r)) \<and>
       stripped uid \<and> (\<not> xs_client E \<longrightarrow> valid_serial sno))"
proof -
  obtain C0 where "xd_configure E = Going C0" using assms by (auto simp: xd_main_def bind_start_Going_iff)
  define st0 where "st0 = (case dc_devPropertyFile C0 of
                 None \<Rightarrow> xd_init | Some f \<Rightarrow> snd (readDevFile (xs_files E) (Some f) xd_init))"
  have s0: "starting False st0"
    using starting_readDevFile starting_init by (auto simp: st0_def split: option.split)
  obtain C v6 ip st1 st2 st3 doc st4 res st5 st6 where
    a: "xd_addresses E C0 st0 = Going (C, v6, ip, st1)" and b: "xd_identify E C ip st1 = Going st2"
    and c: "xd_values E C v6 ip st2 = Going st3" and d: "xd_describe E st3 = Going (doc, st4)"
    and e: "xd_present E C v6 st4 = Going (res, st5)" and f: "xd_cvp E C res st5 = Going st6"
    and r: "r = \<lparr>run_conf = C, run_v6 = v6, run_doc = doc, run_state = st6\<rparr>"
    using assms \<open>xd_configure E = Going C0\<close>
    by (auto simp: xd_main_def bind_start_Going_iff Let_def st0_def)
  have s3: "starting (ids_published E C) st3"
    using xd_values_result(1) [OF c xd_identify_result [OF b xd_addresses_result(1) [OF a s0]]] .
  note D = xd_describe_result [OF d s3]
  have "started (ids_published E C) st6"
    using xd_cvp_result [OF f xd_present_result [OF e D(1,2)]] .
  moreover have "\<not> xs_client E \<longrightarrow> valid_serial (x_serial_num st3)"
    using xd_values_result(2) [OF c xd_identify_result [OF b xd_addresses_result(1) [OF a s0]]] by blast
  ultimately show ?thesis
    using D(3) r
    by (intro conjI exI [of _ "g_strstrip (x_recv_id st3)"] exI [of _ "x_serial_num st3"]) simp_all
qed


subsection \<open>A gateway that starts\<close>

definition sample_keyfile :: keyfile where
  "sample_keyfile = \<lparr>kf_string = (\<lambda>g k.
       if k = ''BCastIf'' then Some ''eth1'' else if k = ''HostMacIf'' then Some ''wan''
       else if k = ''DevXmlPath'' then Some ''/opt/xupnp/'' else if k = ''DevXmlFile'' then Some ''BasicDevice.xml''
       else None),
     kf_integer = (\<lambda>g k. 50755), kf_boolean = (\<lambda>g k. k = ''UseGliDiag'')\<rparr>"

definition sample_xml :: xml_file where
  "sample_xml = \<lparr>xml_parsed = Some [Elem ''root'' [Elem ''UDN'' [], Elem ''serialNumber'' [], Elem ''friendlyName'' []]],
     xml_openable = True, xml_dump_ok = True\<rparr>"

definition sample_start :: xd_env where
  "sample_start = \<lparr>xs_names = sample_names, xs_client = False, xs_has_arg = True,
     xs_junk_conf = sample_xd_conf, xs_keyfile = Some sample_keyfile, xs_vidiPath = False,
     xs_files = (\<lambda>f. None), xs_linklocal = (\<lambda>a. a = ''fe80::1''),
     xs_addrs = (\<lambda>n. Some [\<lparr>ifa_name = ''eth1'', ifa_addr = Some (AF_INET6 ''fe80::1'')\<rparr>,
                            \<lparr>ifa_name = ''eth1'', ifa_addr = Some (AF_INET ''10.0.0.1'')\<rparr>]),
     xs_junk_addr = [], xs_junk_stbaddr = [], xs_iarm = True,
     xs_values = \<lparr>ss_channel_map = (0, []), ss_dac_id = (0, []), ss_plant_id = (0, []), ss_vod_ad = (0, []),
       ss_time_zone = (2, ''MST07''), ss_dst_offset = (0, []), ss_TuneReadyStatus = 1,
       ss_stb_serial_no = Some ''AB12''\<rparr>,
     xs_hwaddr = (\<lambda>i. None), xs_junk_mac = [0, 1, 2, 3, 4, 5],
     xs_id_rounds = [\<lparr>ir_response = Some [CHR 0x22, CHR ''d'', CHR ''e'', CHR ''v'', CHR ''i'', CHR ''c'', CHR ''e'',
         CHR ''I'', CHR ''d'', CHR 0x22, CHR '':'', CHR 0x22, CHR ''T'', CHR 0x22], ir_mac = [], ir_events = []\<rparr>],
     xs_serial_waits = [[(\<lambda>f. None, Sys_event ''SYSMgr'' 0 \<lparr>ev_stateId = SYSSTATE_STB_SERIAL_NO, ev_state = 2,
         ev_error = False, ev_payload = ''AB1234''\<rparr>)]],
     xs_mfr = None, xs_route = (False, []), xs_xml = sample_xml, xs_context = True, xs_tune_waits = [],
     xs_prefix_looks = [], xs_service = True, xs_partner_rounds = [], xs_cvp_xml = sample_xml,
     xs_cvp_context = True, xs_cvp_service = True\<rparr>"

lemma sample_start_runs: "\<exists>r. xd_main sample_start = Going r \<and> dc_useGliDiag (run_conf r)"
proof -
  have "(case xd_main sample_start of Going r \<Rightarrow> dc_useGliDiag (run_conf r) | _ \<Rightarrow> False)"
    by code_simp
  then show ?thesis by (auto split: start.splits)
qed

subsection \<open>Properties\<close>





lemma id_tokens_found: "fst (id_tokens ident ts v) = fst (id_tokens ident ts w)"
proof (induction ts arbitrary: v w)
  case (Cons t ts)
  note IH = Cons.IH [of v w]
  show ?case
  proof (cases "drop 2 ts")
    case (Cons u us)
    then show ?thesis using IH by (simp add: Let_def)
  qed (use IH in simp)
qed simp

lemma id_tokens_value: "fst (id_tokens ident ts v) \<Longrightarrow> snd (id_tokens ident ts v) \<noteq> []"
proof (induction ts arbitrary: v)
  case (Cons t ts)
  show ?case
  proof (cases "drop 2 ts")
    case (Cons u us)
    with Cons.IH Cons.prems show ?thesis by (simp add: Let_def split: if_splits)
  qed (use Cons.IH Cons.prems in \<open>simp split: if_splits\<close>)
qed simp

definition id_separators :: string where
  "id_separators = [CHR ''{'', CHR ''}'', CHR '':'', CHR '','', CHR 0x22]"

text \<open>A round whose script output holds the id with a value.\<close>

definition names_id :: "string \<Rightarrow> id_round \<Rightarrow> bool" where
  "names_id ident r \<longleftrightarrow> (case ir_response r of None \<Rightarrow> False
     | Some resp \<Rightarrow> take 1023 resp \<noteq> [] \<and>
         fst (id_tokens ident (g_strsplit_set (take 1023 resp) id_separators) []))"

lemma getID_loop_returns:
  "\<exists>r \<in> set rs. names_id ident r \<Longrightarrow>
     \<exists>x st'. getID_loop I C ident rs n v st = Going (x, st') \<and>
       (x \<noteq> [] \<or> x \<in> ir_mac ` set rs \<or> g_strrstr ident PARTNER_ID)"
proof (induction rs arbitrary: n v st)
  case (Cons r rs)
  show ?case
  proof (cases "names_id ident r")
    case True
    then obtain resp where r: "ir_response r = Some resp" "take 1023 resp \<noteq> []"
      "fst (id_tokens ident (g_strsplit_set (take 1023 resp) id_separators) v)"
      using id_tokens_found [of ident _ v "[]"] by (auto simp: names_id_def split: option.splits)
    with id_tokens_value [OF r(3)] show ?thesis
      by (auto simp: Let_def id_separators_def split: prod.splits)
  next
    case False
    with Cons.prems have ex: "\<exists>r \<in> set rs. names_id ident r" by auto
    let ?R = "\<lambda>m. \<exists>x st'. m = Going (x, st') \<and> (x \<noteq> [] \<or> x \<in> ir_mac ` set (r # rs) \<or> g_strrstr ident PARTNER_ID)"
    have next_round: "?R (getID_loop I C ident rs m w (xd_run I C (ir_events r) st))" for m w
      using Cons.IH [OF ex, of m w "xd_run I C (ir_events r) st"] by (auto simp del: getID_loop.simps)
    show ?thesis
    proof (cases "ir_response r")
      case None
      then show ?thesis using next_round by simp
    next
      case (Some resp)
      obtain found v' where t: "id_tokens ident (g_strsplit_set (take 1023 resp)
          [CHR ''{'', CHR ''}'', CHR '':'', CHR '','', CHR 0x22]) v = (found, v')" by fastforce
      then have "found \<longrightarrow> v' \<noteq> []" using id_tokens_value by (metis fst_conv snd_conv)
      then show ?thesis
        using Some t next_round
        by (cases "g_strrstr ident PARTNER_ID") (simp_all add: Let_def del: take_eq_Nil)
    qed
  qed
qed simp



text \<open>
  The client build tests settings for null that it never set: the path of the device description
  is what the uncleared memory of the configuration holds, and the default applies only where
  that memory happens to hold a null pointer.
\<close>

theorem client_path_from_memory:
  assumes "xs_client E" "xs_keyfile E = Some k"
  shows "\<exists>c. xd_configure E = Going c \<and>
    dc_devXmlPath c = (case dc_devXmlPath (xs_junk_conf E) of None \<Rightarrow> Some ''/etc/xupnp/'' | Some p \<Rightarrow> Some p)"
  using assms
  by (auto simp: xd_configure_def xd_readconffile_def client_defaults_def bind_start_def Let_def)

theorem client_path_from_memory_witness:
  "\<exists>c. xd_configure (sample_start\<lparr>xs_client := True\<rparr>) = Going c \<and> dc_devXmlPath c = Some ''/opt/xupnp/''"
  using client_path_from_memory [of "sample_start\<lparr>xs_client := True\<rparr>" sample_keyfile]
  by (simp add: sample_start_def sample_xd_conf_def)

end
