(* ===== verification/Media_Browser.thy ===== *)
theory Media_Browser
  imports Glib
begin

text \<open>
  The media browser \<open>src/mediabrowser.c\<close> and its remote procedure calls: the list of media servers
  with its lock, the server side \<open>src/dlna-rpc/mbwsr_rpc_srv.c\<close> and the client side
  \<open>src/dlna-rpc/mbwsr_rpc_cli.c\<close>. The bus between them carries objects, which are lists of named
  values; what it makes of a value of another type is an argument, as are the answers of the media
  servers. A thread that asks for a lock that nobody will release waits for ever, which is
  \<open>Non_termination\<close>.
\<close>

subsection \<open>The list of media servers\<close>

record mediaServerCfg =
  ms_friendlyname :: string
  ms_udn :: string
  ms_browserService :: "nat option"

record mb_state =
  msList :: "mediaServerCfg list"
  mb_locked :: bool

definition mb_init :: mb_state where
  "mb_init = \<lparr>msList = [], mb_locked = False\<rparr>"

text \<open>What the callbacks read from a device proxy.\<close>

record media_info =
  mi_udn :: string
  mi_friendly :: "string option"
  mi_content_directory :: "nat option"

definition mb_lock :: "mb_state \<Rightarrow> mb_state outcome" where
  "mb_lock st = (if mb_locked st then Inl Non_termination else Inr (st\<lparr>mb_locked := True\<rparr>))"

definition mb_unlock :: "mb_state \<Rightarrow> mb_state" where
  "mb_unlock st = st\<lparr>mb_locked := False\<rparr>"

text \<open>\<open>strcmp_s\<close> refuses an empty name.\<close>

definition ms_find_udn :: "mediaServerCfg \<Rightarrow> string \<Rightarrow> int" where
  "ms_find_udn gwData udn = (if udn \<noteq> [] \<and> strcmp udn (ms_udn gwData) = 0 then 0 else 1)"

fun ms_find :: "mediaServerCfg list \<Rightarrow> string \<Rightarrow> nat option" where
  "ms_find [] udn = None"
| "ms_find (m # ms) udn = (if ms_find_udn m udn = 0 then Some 0 else map_option Suc (ms_find ms udn))"

text \<open>The search between locking and unlocking, as two functions do it.\<close>

definition mb_search :: "string \<Rightarrow> mb_state \<Rightarrow> (nat option \<times> mb_state) outcome" where
  "mb_search udn st = bind_outcome (mb_lock st) (\<lambda>st. Inr (ms_find (msList st) udn, mb_unlock st))"

definition device_proxy_available_mr_cb ::
  "bool \<Rightarrow> bool \<Rightarrow> media_info \<Rightarrow> mb_state \<Rightarrow> mb_state outcome" where
  "device_proxy_available_mr_cb cp dproxy info st =
     (if \<not> cp \<or> \<not> dproxy then Inr st
      else bind_outcome (mb_search (mi_udn info) st) (\<lambda>(found, st).
        if found \<noteq> None then Inr st
        else (case mi_friendly info of
                None \<Rightarrow> Inl Null_deref
              | Some name \<Rightarrow>
                  bind_outcome (mb_lock st) (\<lambda>st.
                    Inr (mb_unlock (st\<lparr>msList := msList st @ [\<lparr>ms_friendlyname = name, ms_udn = mi_udn info,
                      ms_browserService = mi_content_directory info\<rparr>]\<rparr>))))))"

text \<open>
  The departure drops the answer of its search, so the list item it tests is always null, and in
  that branch the lock is kept.
\<close>

definition device_proxy_unavailable_mr_cb ::
  "bool \<Rightarrow> bool \<Rightarrow> media_info \<Rightarrow> mb_state \<Rightarrow> mb_state outcome" where
  "device_proxy_unavailable_mr_cb cp dproxy info st =
     (if \<not> cp \<or> \<not> dproxy then Inr st
      else bind_outcome (mb_lock st) (\<lambda>st.
        let msListItem = (None :: nat option) in
        case msListItem of
          Some i \<Rightarrow> Inr (mb_unlock (st\<lparr>msList := g_list_remove_link (msList st) i\<rparr>))
        | None \<Rightarrow> Inr st))"

subsection \<open>Browsing\<close>

text \<open>
  The outputs of the action \<open>Browse\<close>: the result, if it is given, and the total number of matches.
  Without an error the call succeeds. The total is read into a local variable.
\<close>

datatype browse_answer = Browse_error | Browse_outputs "string option" int

record mb_env =
  me_browse :: "nat option \<Rightarrow> string option \<Rightarrow> 32 word \<Rightarrow> 32 word \<Rightarrow> browse_answer"
  me_no_int :: "string option \<Rightarrow> 32 word"

definition browse_remote_directory ::
  "mb_env \<Rightarrow> nat option \<Rightarrow> string option \<Rightarrow> 32 word \<Rightarrow> 32 word \<Rightarrow> 32 word \<Rightarrow> string option \<Rightarrow>
     bool \<times> 32 word \<times> string option" where
  "browse_remote_directory E browserService root startIndex maxCount totalResults result =
     (case me_browse E browserService root startIndex maxCount of
        Browse_error \<Rightarrow> (False, totalResults, result)
      | Browse_outputs r totalMatches \<Rightarrow>
          (True, totalResults, case r of Some x \<Rightarrow> Some x | None \<Rightarrow> result))"

text \<open>A UDN that is missing is refused by \<open>strcmp_s\<close>, as an empty one.\<close>

definition browse_remote_dir_with_udn ::
  "mb_env \<Rightarrow> string option \<Rightarrow> string option \<Rightarrow> 32 word \<Rightarrow> 32 word \<Rightarrow> 32 word \<Rightarrow> string option \<Rightarrow> mb_state \<Rightarrow>
     ((bool \<times> 32 word \<times> string option) \<times> mb_state) outcome" where
  "browse_remote_dir_with_udn E server_udn path_id start_index max_entries totalCount results st =
     bind_outcome (mb_search (case server_udn of Some u \<Rightarrow> u | None \<Rightarrow> []) st) (\<lambda>(found, st).
       case found of
         None \<Rightarrow> Inr ((False, totalCount, results), st)
       | Some i \<Rightarrow> Inr (browse_remote_directory E (ms_browserService (msList st ! i)) path_id
                          start_index max_entries totalCount results, st))"

subsection \<open>The bus\<close>

datatype rb_value = Rb_string "string option" | Rb_int32 "32 word"

type_synonym rb_object = "(string \<times> rb_value) list"

datatype rb_error = RBUS_ERROR_SUCCESS | RBUS_ERROR_INVALID_METHOD

definition rb_set :: "string \<Rightarrow> rb_value \<Rightarrow> rb_object \<Rightarrow> rb_object" where
  "rb_set n v ob = (if n \<in> fst ` set ob then map (\<lambda>(m, w). if m = n then (m, v) else (m, w)) ob
                    else ob @ [(n, v)])"

definition rb_int :: "mb_env \<Rightarrow> rb_value \<Rightarrow> 32 word" where
  "rb_int E v = (case v of Rb_int32 i \<Rightarrow> i | Rb_string s \<Rightarrow> me_no_int E s)"

definition rb_text :: "rb_value \<Rightarrow> string option" where
  "rb_text v = (case v of Rb_string s \<Rightarrow> s | Rb_int32 i \<Rightarrow> Some (show_int (sint i)))"

subsection \<open>The server side\<close>

definition METHOD_DISCOVER_MEDIA_DEVICES_SIZE :: string where
  "METHOD_DISCOVER_MEDIA_DEVICES_SIZE = ''Device.Methods.dlna.getDiscoveredDevicesSize()''"
definition METHOD_GET_MEDIA_DEVICE_AT :: string where
  "METHOD_GET_MEDIA_DEVICE_AT = ''Device.Methods.dlna.getDiscoveredDeviceAt()''"
definition METHOD_BROWSE_CONTENT_ON_MEDIA_SERVER :: string where
  "METHOD_BROWSE_CONTENT_ON_MEDIA_SERVER = ''Device.Methods.dlna.browseContentOnServer()''"

lemmas method_names = METHOD_DISCOVER_MEDIA_DEVICES_SIZE_def METHOD_GET_MEDIA_DEVICE_AT_def
  METHOD_BROWSE_CONTENT_ON_MEDIA_SERVER_def

text \<open>\<open>g_list_nth\<close> takes an unsigned position, so a negative one is past the end.\<close>

definition getServerDetails ::
  "mb_env \<Rightarrow> rb_object \<Rightarrow> rb_object \<Rightarrow> mb_state \<Rightarrow> (rb_object \<times> mb_state) outcome" where
  "getServerDetails E inParams outParams st =
     (if msList st \<noteq> [] then
        bind_outcome (mb_lock st) (\<lambda>st.
          Inr ((case inParams of
                  [] \<Rightarrow> outParams
                | (n, v) # _ \<Rightarrow>
                    (let i = unat (rb_int E v) in
                     if i < length (msList st)
                     then rb_set ''server.udn'' (Rb_string (Some (ms_udn (msList st ! i))))
                            (rb_set ''server.name'' (Rb_string (Some (ms_friendlyname (msList st ! i)))) outParams)
                     else outParams)), mb_unlock st))
      else Inr (outParams, st))"

definition getServerContents ::
  "mb_env \<Rightarrow> rb_object \<Rightarrow> rb_object \<Rightarrow> mb_state \<Rightarrow> (rb_object \<times> mb_state) outcome" where
  "getServerContents E inParams outParams st =
     (case inParams of
        [(_, udn), (_, path), (_, start), (_, maxr)] \<Rightarrow>
          bind_outcome (browse_remote_dir_with_udn E (rb_text udn) (rb_text path) (rb_int E start)
                          (rb_int E maxr) 0 None st)
            (\<lambda>((ok, total, entries), st).
               Inr (if ok then rb_set ''results.size'' (Rb_int32 total)
                                 (rb_set ''results.xmldata'' (Rb_string entries) outParams)
                    else outParams, st))
      | _ \<Rightarrow> Inr (outParams, st))"

definition remoteMethodHandler ::
  "mb_env \<Rightarrow> string \<Rightarrow> rb_object \<Rightarrow> rb_object \<Rightarrow> mb_state \<Rightarrow> (rb_error \<times> rb_object \<times> mb_state) outcome" where
  "remoteMethodHandler E methodName inParams outParams st =
     (if METHOD_DISCOVER_MEDIA_DEVICES_SIZE = methodName then
        (if msList st \<noteq> [] then
           bind_outcome (mb_lock st) (\<lambda>st.
             Inr (RBUS_ERROR_SUCCESS,
                  rb_set ''payload.size'' (Rb_int32 (of_nat (length (msList st)))) outParams, mb_unlock st))
         else Inr (RBUS_ERROR_SUCCESS, rb_set ''payload.size'' (Rb_int32 0) outParams, st))
      else if METHOD_GET_MEDIA_DEVICE_AT = methodName then
        bind_outcome (getServerDetails E inParams outParams st) (\<lambda>(ob, st). Inr (RBUS_ERROR_SUCCESS, ob, st))
      else if METHOD_BROWSE_CONTENT_ON_MEDIA_SERVER = methodName then
        bind_outcome (getServerContents E inParams outParams st) (\<lambda>(ob, st). Inr (RBUS_ERROR_SUCCESS, ob, st))
      else Inr (RBUS_ERROR_INVALID_METHOD, outParams, st))"

subsection \<open>The client side\<close>

text \<open>
  The functions of the client take the call of a method, which waits for its reply. Outputs that are
  not assigned keep the value given.
\<close>

type_synonym rb_invoke = "string \<Rightarrow> rb_object \<Rightarrow> (rb_error \<times> rb_object) outcome"

definition getDiscoveredMediaServers :: "rb_invoke \<Rightarrow> 32 word \<Rightarrow> (bool \<times> 32 word) outcome" where
  "getDiscoveredMediaServers invoke size0 =
     bind_outcome (invoke METHOD_DISCOVER_MEDIA_DEVICES_SIZE []) (\<lambda>(err, outParams).
       Inr (if err = RBUS_ERROR_SUCCESS then
              (case outParams of
                 [] \<Rightarrow> (False, size0)
               | (n, v) # _ \<Rightarrow> (case v of Rb_int32 i \<Rightarrow> (True, i) | _ \<Rightarrow> (False, size0)))
            else (False, size0)))"

definition getMediaServer :: "rb_object \<Rightarrow> string option \<Rightarrow> string option \<Rightarrow> bool \<times> string option \<times> string option" where
  "getMediaServer outProps friendly_name udn =
     (if odd (length outProps) then (False, friendly_name, udn)
      else (case outProps of
              (_, v) # (_, w) # _ \<Rightarrow> (True, rb_text v, rb_text w)
            | _ \<Rightarrow> (False, friendly_name, udn)))"

text \<open>The answer: whether the call worked, the error flag, the name and the UDN.\<close>

definition getDiscoveredMediaServerAt ::
  "rb_invoke \<Rightarrow> 32 word \<Rightarrow> string option \<Rightarrow> string option \<Rightarrow> (bool \<times> int \<times> string option \<times> string option) outcome" where
  "getDiscoveredMediaServerAt invoke index friendlyName udn =
     bind_outcome (invoke METHOD_GET_MEDIA_DEVICE_AT (rb_set ''pos'' (Rb_int32 index) [])) (\<lambda>(err, outParams).
       Inr (if err = RBUS_ERROR_SUCCESS then
              (if outParams \<noteq> [] then
                 (case getMediaServer outParams friendlyName udn of
                    (status, friendlyName, udn) \<Rightarrow> (True, if status then 0 else 1, friendlyName, udn))
               else (True, 1, friendlyName, udn))
            else (False, 0, friendlyName, udn)))"

text \<open>The answer: whether the call worked, the error flag, the total and the contents.\<close>

definition browseContentOnServer ::
  "mb_env \<Rightarrow> rb_invoke \<Rightarrow> string \<Rightarrow> string \<Rightarrow> 32 word \<Rightarrow> 32 word \<Rightarrow>
     (bool \<times> int \<times> 32 word \<times> string option) outcome" where
  "browseContentOnServer E invoke server_udn path_id start_index max_entries =
     bind_outcome (invoke METHOD_BROWSE_CONTENT_ON_MEDIA_SERVER
         (rb_set ''max_results'' (Rb_int32 max_entries) (rb_set ''start_index'' (Rb_int32 start_index)
           (rb_set ''path'' (Rb_string (Some path_id)) (rb_set ''udn'' (Rb_string (Some server_udn)) [])))))
       (\<lambda>(err, outParams).
         Inr (if err = RBUS_ERROR_SUCCESS then
                (case outParams of
                   [] \<Rightarrow> (True, 1, -1, None)
                 | (_, v) # rest \<Rightarrow>
                     (case rest of
                        [] \<Rightarrow> (True, 1, -1, rb_text v)
                      | (_, w) # _ \<Rightarrow> (True, 0, rb_int E w, rb_text v)))
              else (False, 0, -1, None)))"

subsection \<open>Runs\<close>

datatype media_event = Media_available bool bool media_info | Media_unavailable bool bool media_info

definition media_handle :: "media_event \<Rightarrow> mb_state \<Rightarrow> mb_state outcome" where
  "media_handle ev = (case ev of
       Media_available cp dproxy info \<Rightarrow> device_proxy_available_mr_cb cp dproxy info
     | Media_unavailable cp dproxy info \<Rightarrow> device_proxy_unavailable_mr_cb cp dproxy info)"

fun media_run :: "media_event list \<Rightarrow> mb_state \<Rightarrow> mb_state outcome" where
  "media_run [] st = Inr st"
| "media_run (ev # evs) st = bind_outcome (media_handle ev st) (media_run evs)"

text \<open>A call of the client reaches the handler of the server with an empty object for the outputs.\<close>

definition mb_invoke :: "mb_env \<Rightarrow> mb_state \<Rightarrow> rb_invoke" where
  "mb_invoke E st method inParams =
     bind_outcome (remoteMethodHandler E method inParams [] st) (\<lambda>(err, ob, st). Inr (err, ob))"

lemma mb_lock_simps [simp]:
  "mb_locked st \<Longrightarrow> mb_lock st = Inl Non_termination"
  "\<not> mb_locked st \<Longrightarrow> mb_lock st = Inr (st\<lparr>mb_locked := True\<rparr>)"
  "msList (mb_unlock st) = msList st"
  "mb_locked (mb_unlock st) = False"
  by (simp_all add: mb_lock_def mb_unlock_def)

lemma mb_unlock_lock [simp]: "\<not> mb_locked st \<Longrightarrow> mb_unlock (st\<lparr>mb_locked := True\<rparr>) = st"
  by (simp add: mb_unlock_def)

lemma mb_search_unlocked [simp]: "\<not> mb_locked st \<Longrightarrow> mb_search udn st = Inr (ms_find (msList st) udn, st)"
  by (simp add: mb_search_def)

lemma ms_find_None: "ms_find ms udn = None \<longleftrightarrow> udn = [] \<or> udn \<notin> set (map ms_udn ms)"
  by (induction ms) (auto simp: ms_find_udn_def)

lemma ms_find_Some: "ms_find ms udn = Some i \<Longrightarrow> i < length ms \<and> ms_udn (ms ! i) = udn"
  by (induction ms arbitrary: i) (auto simp: ms_find_udn_def split: if_splits)

lemma available_unlocked:
  assumes "\<not> mb_locked st" "mi_friendly info = Some name"
  shows "device_proxy_available_mr_cb True True info st = Inr (if ms_find (msList st) (mi_udn info) \<noteq> None then st
     else st\<lparr>msList := msList st @ [\<lparr>ms_friendlyname = name, ms_udn = mi_udn info,
                      ms_browserService = mi_content_directory info\<rparr>]\<rparr>)"
  using assms by (simp add: device_proxy_available_mr_cb_def mb_unlock_def)

lemma unavailable_unlocked:
  "\<not> mb_locked st \<Longrightarrow> device_proxy_unavailable_mr_cb True True info st = Inr (st\<lparr>mb_locked := True\<rparr>)"
  by (simp add: device_proxy_unavailable_mr_cb_def)

text \<open>The list without the entries whose value came before.\<close>

definition firsts :: "'a list \<Rightarrow> 'a list" where
  "firsts xs = rev (remdups (rev xs))"

lemma firsts_snoc: "firsts (xs @ [x]) = (if x \<in> set xs then firsts xs else firsts xs @ [x])"
  by (simp add: firsts_def)

lemma media_run_append: "media_run (xs @ ys) st = bind_outcome (media_run xs st) (media_run ys)"
  by (induction xs arbitrary: st) (auto simp: bind_outcome_def split: sum.split)

subsection \<open>Properties\<close>

text \<open>
  C40. As long as only media servers arrive, with a UDN and a name, the callbacks return, the list
  holds every UDN once, in the order of the first arrivals, and the lock is free.
\<close>

theorem media_list_first_arrivals:
  assumes "\<forall>i \<in> set is. mi_udn i \<noteq> [] \<and> mi_friendly i \<noteq> None"
  shows "\<exists>st. media_run (map (Media_available True True) is) mb_init = Inr st \<and> \<not> mb_locked st \<and>
    map ms_udn (msList st) = firsts (map mi_udn is)"
  using assms
proof (induction "is" rule: rev_induct)
  case (snoc i xs)
  then obtain st name where r: "media_run (map (Media_available True True) xs) mb_init = Inr st"
    "\<not> mb_locked st" "map ms_udn (msList st) = firsts (map mi_udn xs)"
    "mi_udn i \<noteq> []" "mi_friendly i = Some name" by auto
  have n: "ms_find (msList st) (mi_udn i) \<noteq> None \<longleftrightarrow> mi_udn i \<in> mi_udn ` set xs"
    using r(4) unfolding ms_find_None r(3) by (simp add: firsts_def)
  show ?case
    using r available_unlocked [OF r(2,5)] n
    by (simp add: media_run_append media_handle_def firsts_snoc)
qed (simp add: mb_init_def firsts_def)

theorem media_list_first_arrivals_witness:
  "\<exists>st. media_run (map (Media_available True True)
      [\<lparr>mi_udn = ''uuid:1'', mi_friendly = Some ''TV'', mi_content_directory = None\<rparr>,
       \<lparr>mi_udn = ''uuid:2'', mi_friendly = Some ''PC'', mi_content_directory = Some 4\<rparr>,
       \<lparr>mi_udn = ''uuid:1'', mi_friendly = Some ''TV'', mi_content_directory = None\<rparr>]) mb_init = Inr st \<and>
     map ms_udn (msList st) = [''uuid:1'', ''uuid:2'']"
  using media_list_first_arrivals [of "[\<lparr>mi_udn = ''uuid:1'', mi_friendly = Some ''TV'', mi_content_directory = None\<rparr>,
       \<lparr>mi_udn = ''uuid:2'', mi_friendly = Some ''PC'', mi_content_directory = Some 4\<rparr>,
       \<lparr>mi_udn = ''uuid:1'', mi_friendly = Some ''TV'', mi_content_directory = None\<rparr>]"]
  by (auto simp: firsts_def)

text \<open>
  The departure of a media server, known or not, removes nothing and never releases the lock:
  from then on every arrival, every departure, every request to browse, and, when a server is
  known, every other call of the client waits for ever.
\<close>

theorem media_departure_freezes:
  assumes "\<not> mb_locked st"
  shows "\<exists>st'. device_proxy_unavailable_mr_cb True True info st = Inr st' \<and> msList st' = msList st \<and>
    device_proxy_available_mr_cb True True i st' = Inl Non_termination \<and>
    device_proxy_unavailable_mr_cb True True i st' = Inl Non_termination \<and>
    browseContentOnServer E (mb_invoke E st') udn path s m = Inl Non_termination \<and>
    (msList st \<noteq> [] \<longrightarrow> getDiscoveredMediaServers (mb_invoke E st') z = Inl Non_termination \<and>
       getDiscoveredMediaServerAt (mb_invoke E st') pos name u = Inl Non_termination)"
  using unavailable_unlocked [OF assms, of info]
  by (intro exI [of _ "st\<lparr>mb_locked := True\<rparr>"] conjI impI)
    (simp_all add: device_proxy_available_mr_cb_def device_proxy_unavailable_mr_cb_def mb_search_def
      browseContentOnServer_def getDiscoveredMediaServers_def getDiscoveredMediaServerAt_def mb_invoke_def
      remoteMethodHandler_def getServerDetails_def getServerContents_def browse_remote_dir_with_udn_def
      method_names rb_set_def)

theorem media_departure_freezes_witness:
  "\<exists>st'. device_proxy_unavailable_mr_cb True True \<lparr>mi_udn = ''uuid:1'', mi_friendly = None, mi_content_directory = None\<rparr>
       mb_init = Inr st' \<and>
     device_proxy_available_mr_cb True True \<lparr>mi_udn = ''uuid:2'', mi_friendly = None, mi_content_directory = None\<rparr>
       st' = Inl Non_termination"
proof -
  have "\<not> mb_locked mb_init" by (simp add: mb_init_def)
  from media_departure_freezes [OF this] show ?thesis by blast
qed

text \<open>
  C39. The client sees the list of the server through the bus: while the lock is free it gets its
  length, and at every position below the length the name and the UDN of that server; at any other
  position, negative ones included, it gets the error flag and its outputs are left alone.
\<close>

theorem media_client_reads_list:
  assumes "\<not> mb_locked st"
  shows "getDiscoveredMediaServers (mb_invoke E st) z = Inr (True, of_nat (length (msList st))) \<and>
    getDiscoveredMediaServerAt (mb_invoke E st) pos name udn = Inr
      (if unat pos < length (msList st)
       then (True, 0, Some (ms_friendlyname (msList st ! unat pos)), Some (ms_udn (msList st ! unat pos)))
       else (True, 1, name, udn))"
  using assms
  by (simp add: getDiscoveredMediaServers_def getDiscoveredMediaServerAt_def mb_invoke_def getMediaServer_def
      remoteMethodHandler_def getServerDetails_def method_names rb_set_def rb_int_def rb_text_def Let_def)

theorem media_client_reads_list_witness:
  "getDiscoveredMediaServerAt (mb_invoke \<lparr>me_browse = (\<lambda>b r s m. Browse_error), me_no_int = (\<lambda>s. 0)\<rparr>
      \<lparr>msList = [\<lparr>ms_friendlyname = ''TV'', ms_udn = ''uuid:1'', ms_browserService = None\<rparr>], mb_locked = False\<rparr>)
      0 None None = Inr (True, 0, Some ''TV'', Some ''uuid:1'')"
  using media_client_reads_list
    [of "\<lparr>msList = [\<lparr>ms_friendlyname = ''TV'', ms_udn = ''uuid:1'', ms_browserService = None\<rparr>], mb_locked = False\<rparr>"
      "\<lparr>me_browse = (\<lambda>b r s m. Browse_error), me_no_int = (\<lambda>s. 0)\<rparr>" 0 0 None None] by simp

text \<open>
  Browsing through the bus reaches the first server with the UDN and gives its contents, but the
  total number of matches is lost on the way: whatever the server says, the client is told 0. An
  unknown UDN or a failing server is the error flag with a total of -1.
\<close>

theorem media_browse_loses_total:
  assumes "\<not> mb_locked st"
  shows "browseContentOnServer E (mb_invoke E st) udn path s m = Inr
    (case ms_find (msList st) udn of
       None \<Rightarrow> (True, 1, -1, None)
     | Some i \<Rightarrow> (case me_browse E (ms_browserService (msList st ! i)) (Some path) s m of
                   Browse_error \<Rightarrow> (True, 1, -1, None)
                 | Browse_outputs result matches \<Rightarrow> (True, 0, 0, result)))"
  using assms
  by (simp add: browseContentOnServer_def mb_invoke_def remoteMethodHandler_def getServerContents_def
      browse_remote_dir_with_udn_def browse_remote_directory_def method_names rb_set_def rb_int_def rb_text_def
      split: option.split browse_answer.split)

theorem media_browse_loses_total_witness:
  "browseContentOnServer \<lparr>me_browse = (\<lambda>b r s m. Browse_outputs (Some ''DIDL'') 12), me_no_int = (\<lambda>s. 0)\<rparr>
     (mb_invoke \<lparr>me_browse = (\<lambda>b r s m. Browse_outputs (Some ''DIDL'') 12), me_no_int = (\<lambda>s. 0)\<rparr>
        \<lparr>msList = [\<lparr>ms_friendlyname = ''TV'', ms_udn = ''uuid:1'', ms_browserService = Some 1\<rparr>], mb_locked = False\<rparr>)
     ''uuid:1'' ''0'' 0 10 = Inr (True, 0, 0, Some ''DIDL'')"
  using media_browse_loses_total
    [of "\<lparr>msList = [\<lparr>ms_friendlyname = ''TV'', ms_udn = ''uuid:1'', ms_browserService = Some 1\<rparr>], mb_locked = False\<rparr>"
      "\<lparr>me_browse = (\<lambda>b r s m. Browse_outputs (Some ''DIDL'') 12), me_no_int = (\<lambda>s. 0)\<rparr>" "''uuid:1''" "''0''" 0 10]
  by (simp add: ms_find_udn_def)

end
