(* ===== verification/Dev_Service.thy ===== *)
theory Dev_Service
  imports Services
begin

text \<open>
  The services of the refactored device \<open>src/xcal-device-main.c\<close>, which takes its values from a
  device library: one handler per action and per queried variable, and the tables by which they are
  connected to the services. The library is a record of its functions; the two libraries of the
  repository are linked in its place. The locale \<open>device_library\<close> is what the handlers rely on.
\<close>

subsection \<open>The device library\<close>

text \<open>
  The functions that fill a character buffer. Each takes the old contents, as a buffer it does not
  fill keeps them, and answers whether it succeeded with the new contents.
\<close>

datatype dev_fn = getBaseUrl | getTrmUrl | getPlaybackUrl | getGatewayIp | getGatewayIpv6 | getGatewayStbIp
  | getIpv6Prefix | getHostMacAddress | getBcastMacAddress | getRecvDevType | getDeviceType | getBuildVersion
  | getDnsConfig | getSystemsIds | getRouteDataGateway | getIpSubnet | getTimeZone | getDeviceName | getHosts
  | getModelNumber | getMake | getReceiverId | getUUID | getSerialNum | getBcastIf | getDevXmlPath
  | getDevXmlFile bool | getAccountId | getDevCertFile | getDevCertPath | getDevKeyFile | getDevKeyPath
  | getCVPIf | getCVPXmlFile

datatype dev_int_fn = getRawOffSet | getDstOffset | getDstSavings | getBcastPort | getCVPPort

datatype dev_bool_fn = getUsesDayLightTime | getIsGateway | getRequiresTRM | getTuneReady
  | getIsuseGliDiagEnabled | getDisableTuneReadyStatus | checkCVP2Enabled

record 's dev_lib =
  dl_get :: "dev_fn \<Rightarrow> string \<Rightarrow> 's \<Rightarrow> ((bool \<times> string) \<times> 's) outcome"
  dl_int :: "dev_int_fn \<Rightarrow> 's \<Rightarrow> 32 word"
  dl_bool :: "dev_bool_fn \<Rightarrow> 's \<Rightarrow> bool"

subsection \<open>State\<close>

text \<open>The character buffers of the program, by name.\<close>

datatype dev_buf = B_urL | B_trmUrl | B_playBackUrl | B_gwyIp | B_gwyIpv6 | B_gwystbIp | B_ipv6preFix
  | B_hostMacaddress | B_bcastMacaddress | B_recvdevType | B_deviceType | B_buildVersion | B_dnsConfig
  | B_systemIds | B_dataGatewayIPAddress | B_ipsubnet | B_dsgtimeZone | B_deviceName | B_etcHosts
  | B_modelclass | B_modelNumber | B_deviceid | B_hardwarerevision | B_softwarerevision | B_managementurl
  | B_Make | B_receiverId | B_accountId | B_clientIp | B_devXMlPath | B_devXMlFile | B_uUid | B_serial_Num
  | B_devBcastIf | B_devCertFile | B_devCertPath | B_devKeyFile | B_devKeyPath
  | B_cvpInterface | B_cvPXmlFile

definition MAXSIZE :: nat where "MAXSIZE = 256"
definition RUIURLSIZE :: nat where "RUIURLSIZE = 2048"
definition URLSIZE :: nat where "URLSIZE = 512"

definition buf_size :: "dev_buf \<Rightarrow> nat" where
  "buf_size b = (if b = B_playBackUrl then URLSIZE else if b = B_etcHosts then RUIURLSIZE else MAXSIZE)"

text \<open>\<open>dm_commands\<close> are the runs of the script of the white list, with their parameter.\<close>

record 's dm_state =
  dm_buf :: "dev_buf \<Rightarrow> string"
  dm_rawoffset :: "32 word"
  dm_dstoffset :: "32 word"
  dm_dstsavings :: "32 word"
  dm_usedaylightsavings :: bool
  dm_allowgwy :: bool
  dm_requiresTrm :: bool
  dm_rfc_enabled :: bool
  dm_commands :: "(string \<times> string option) list"
  dm_lib :: 's

type_synonym args = "(string \<times> gvalue) list"
type_synonym 's dm_reply = "((string \<Rightarrow> gvalue option) \<times> 's dm_state) outcome"
type_synonym 's dm_action = "args \<Rightarrow> 's dm_state \<Rightarrow> 's dm_reply"
type_synonym 's dm_query = "'s dm_state \<Rightarrow> (gvalue \<times> 's dm_state) outcome"

definition dm_fill :: "'s dev_lib \<Rightarrow> dev_fn \<Rightarrow> dev_buf \<Rightarrow> 's dm_state \<Rightarrow> 's dm_state outcome" where
  "dm_fill L f b st =
     bind_outcome (dl_get L f (dm_buf st b) (dm_lib st)) (\<lambda>((ok, v), s).
       Inr (st\<lparr>dm_buf := (dm_buf st)(b := v), dm_lib := s\<rparr>))"

definition dm_answer :: "string \<Rightarrow> dev_buf \<Rightarrow> 's dm_state outcome \<Rightarrow> 's dm_reply" where
  "dm_answer name b m = bind_outcome m (\<lambda>st. Inr ([name \<mapsto> G_STRING (dm_buf st b)], st))"

definition dm_value :: "dev_buf \<Rightarrow> 's dm_state outcome \<Rightarrow> (gvalue \<times> 's dm_state) outcome" where
  "dm_value b m = bind_outcome m (\<lambda>st. Inr (G_STRING (dm_buf st b), st))"

subsection \<open>Actions\<close>

definition dm_get_url_cb :: "'s dev_lib \<Rightarrow> 's dm_state \<Rightarrow> 's dm_reply" where
  "dm_get_url_cb L st = dm_answer ''BaseUrl'' B_urL (dm_fill L getBaseUrl B_urL st)"

definition dm_get_trm_url_cb :: "'s dev_lib \<Rightarrow> 's dm_state \<Rightarrow> 's dm_reply" where
  "dm_get_trm_url_cb L st = dm_answer ''BaseTrmUrl'' B_trmUrl (dm_fill L getTrmUrl B_trmUrl st)"

definition dm_get_gwyip_cb :: "'s dev_lib \<Rightarrow> 's dm_state \<Rightarrow> 's dm_reply" where
  "dm_get_gwyip_cb L st = dm_answer ''GatewayIP'' B_gwyIp (dm_fill L getGatewayIp B_gwyIp st)"

definition dm_get_gwyipv6_cb :: "'s dev_lib \<Rightarrow> 's dm_state \<Rightarrow> 's dm_reply" where
  "dm_get_gwyipv6_cb L st = dm_answer ''GatewayIPv6'' B_gwyIpv6 (dm_fill L getGatewayIpv6 B_gwyIpv6 st)"

definition dm_get_gwystbip_cb :: "'s dev_lib \<Rightarrow> 's dm_state \<Rightarrow> 's dm_reply" where
  "dm_get_gwystbip_cb L st = dm_answer ''GatewayStbIP'' B_gwystbIp (dm_fill L getGatewayStbIp B_gwystbIp st)"

definition dm_get_ipv6prefix_cb :: "'s dev_lib \<Rightarrow> 's dm_state \<Rightarrow> 's dm_reply" where
  "dm_get_ipv6prefix_cb L st = dm_answer ''Ipv6Prefix'' B_ipv6preFix (dm_fill L getIpv6Prefix B_ipv6preFix st)"

definition dm_get_hostmacaddress_cb :: "'s dev_lib \<Rightarrow> 's dm_state \<Rightarrow> 's dm_reply" where
  "dm_get_hostmacaddress_cb L st = dm_answer ''HostMacAddress'' B_hostMacaddress (dm_fill L getHostMacAddress B_hostMacaddress st)"

definition dm_get_recvdevtype_cb :: "'s dev_lib \<Rightarrow> 's dm_state \<Rightarrow> 's dm_reply" where
  "dm_get_recvdevtype_cb L st = dm_answer ''RecvDevType'' B_recvdevType (dm_fill L getRecvDevType B_recvdevType st)"

definition dm_get_devicetype_cb :: "'s dev_lib \<Rightarrow> 's dm_state \<Rightarrow> 's dm_reply" where
  "dm_get_devicetype_cb L st = dm_answer ''DeviceType'' B_deviceType (dm_fill L getDeviceType B_deviceType st)"

definition dm_get_buildversion_cb :: "'s dev_lib \<Rightarrow> 's dm_state \<Rightarrow> 's dm_reply" where
  "dm_get_buildversion_cb L st = dm_answer ''BuildVersion'' B_buildVersion (dm_fill L getBuildVersion B_buildVersion st)"

definition dm_get_dnsconfig_cb :: "'s dev_lib \<Rightarrow> 's dm_state \<Rightarrow> 's dm_reply" where
  "dm_get_dnsconfig_cb L st = dm_answer ''DnsConfig'' B_dnsConfig (dm_fill L getDnsConfig B_dnsConfig st)"

definition dm_get_systemids_cb :: "'s dev_lib \<Rightarrow> 's dm_state \<Rightarrow> 's dm_reply" where
  "dm_get_systemids_cb L st = dm_answer ''SystemIds'' B_systemIds (dm_fill L getSystemsIds B_systemIds st)"

definition dm_get_ipsubnet_cb :: "'s dev_lib \<Rightarrow> 's dm_state \<Rightarrow> 's dm_reply" where
  "dm_get_ipsubnet_cb L st = dm_answer ''IPSubNet'' B_ipsubnet (dm_fill L getIpSubnet B_ipsubnet st)"

definition dm_get_devicename_cb :: "'s dev_lib \<Rightarrow> 's dm_state \<Rightarrow> 's dm_reply" where
  "dm_get_devicename_cb L st = dm_answer ''DeviceName'' B_deviceName (dm_fill L getDeviceName B_deviceName st)"

definition dm_get_hosts_cb :: "'s dev_lib \<Rightarrow> 's dm_state \<Rightarrow> 's dm_reply" where
  "dm_get_hosts_cb L st = dm_answer ''Hosts'' B_etcHosts (dm_fill L getHosts B_etcHosts st)"

definition dm_get_modelclass_cb :: "'s dev_lib \<Rightarrow> 's dm_state \<Rightarrow> 's dm_reply" where
  "dm_get_modelclass_cb L st = dm_answer ''ModelClass'' B_modelclass (dm_fill L getDeviceType B_modelclass st)"

definition dm_get_modelnumber_cb :: "'s dev_lib \<Rightarrow> 's dm_state \<Rightarrow> 's dm_reply" where
  "dm_get_modelnumber_cb L st = dm_answer ''ModelNumber'' B_modelNumber (dm_fill L getModelNumber B_modelNumber st)"

definition dm_get_make_cb :: "'s dev_lib \<Rightarrow> 's dm_state \<Rightarrow> 's dm_reply" where
  "dm_get_make_cb L st = dm_answer ''Make'' B_Make (dm_fill L getMake B_Make st)"

text \<open>Answers that are not refreshed: the buffer as the start, or nothing, has filled it.\<close>

definition dm_get_bcastmacaddress_cb :: "'s dm_state \<Rightarrow> 's dm_reply" where
  "dm_get_bcastmacaddress_cb st = dm_answer ''BcastMacAddress'' B_bcastMacaddress (Inr st)"

definition dm_get_deviceid_cb :: "'s dm_state \<Rightarrow> 's dm_reply" where
  "dm_get_deviceid_cb st = dm_answer ''DeviceId'' B_deviceid (Inr st)"

definition dm_get_hardwarerevision_cb :: "'s dm_state \<Rightarrow> 's dm_reply" where
  "dm_get_hardwarerevision_cb st = dm_answer ''HardwareRevision'' B_hardwarerevision (Inr st)"

definition dm_get_softwarerevision_cb :: "'s dm_state \<Rightarrow> 's dm_reply" where
  "dm_get_softwarerevision_cb st = dm_answer ''SoftwareRevision'' B_softwarerevision (Inr st)"

definition dm_get_managementurl_cb :: "'s dm_state \<Rightarrow> 's dm_reply" where
  "dm_get_managementurl_cb st = dm_answer ''ManagementURL'' B_managementurl (Inr st)"

definition dm_get_recev_id_cb :: "'s dm_state \<Rightarrow> 's dm_reply" where
  "dm_get_recev_id_cb st = dm_answer ''ReceiverId'' B_receiverId (Inr st)"

definition dm_get_client_ip_cb :: "'s dm_state \<Rightarrow> 's dm_reply" where
  "dm_get_client_ip_cb st = dm_answer ''ClientIP'' B_clientIp (Inr st)"

text \<open>The handlers with conditions, numbers and arguments.\<close>

definition dm_get_playback_url_cb :: "'s dev_lib \<Rightarrow> 's dm_state \<Rightarrow> 's dm_reply" where
  "dm_get_playback_url_cb L st =
     (if dl_bool L getTuneReady (dm_lib st)
      then dm_answer ''PlaybackUrl'' B_playBackUrl (dm_fill L getPlaybackUrl B_playBackUrl st)
      else Inr ([''PlaybackUrl'' \<mapsto> G_STRING ''NULL''], st))"

definition dm_get_dataGatewayIPaddress_cb :: "'s dev_lib \<Rightarrow> 's dm_state \<Rightarrow> 's dm_reply" where
  "dm_get_dataGatewayIPaddress_cb L st =
     dm_answer ''DataGatewayIPaddress'' B_dataGatewayIPAddress
       (dm_fill L (if dm_rfc_enabled st then getGatewayStbIp else getRouteDataGateway) B_dataGatewayIPAddress st)"

definition dm_get_timezone_cb :: "'s dev_lib \<Rightarrow> 's dm_state \<Rightarrow> 's dm_reply" where
  "dm_get_timezone_cb L st =
     dm_answer ''TimeZone'' B_dsgtimeZone
       (if dl_bool L getIsuseGliDiagEnabled (dm_lib st) then dm_fill L getTimeZone B_dsgtimeZone st else Inr st)"

definition dm_get_rawoffset_cb :: "'s dev_lib \<Rightarrow> 's dm_state \<Rightarrow> 's dm_reply" where
  "dm_get_rawoffset_cb L st =
     (let st = st\<lparr>dm_rawoffset := dl_int L getRawOffSet (dm_lib st)\<rparr> in
      Inr ([''RawOffSet'' \<mapsto> G_INT (dm_rawoffset st)], st))"

definition dm_get_dstsavings_cb :: "'s dev_lib \<Rightarrow> 's dm_state \<Rightarrow> 's dm_reply" where
  "dm_get_dstsavings_cb L st =
     (let st = st\<lparr>dm_dstsavings := dl_int L getDstSavings (dm_lib st)\<rparr> in
      Inr ([''DSTSavings'' \<mapsto> G_INT (dm_dstsavings st)], st))"

definition dm_get_usesdaylighttime_cb :: "'s dev_lib \<Rightarrow> 's dm_state \<Rightarrow> 's dm_reply" where
  "dm_get_usesdaylighttime_cb L st =
     (let st = st\<lparr>dm_usedaylightsavings := dl_bool L getUsesDayLightTime (dm_lib st)\<rparr> in
      Inr ([''UsesDaylightTime'' \<mapsto> G_BOOLEAN (dm_usedaylightsavings st)], st))"

definition dm_get_dstoffset_cb :: "'s dev_lib \<Rightarrow> 's dm_state \<Rightarrow> 's dm_reply" where
  "dm_get_dstoffset_cb L st =
     (let st = st\<lparr>dm_dstoffset := dl_int L getDstOffset (dm_lib st)\<rparr> in
      Inr ([''DSTOffset'' \<mapsto> G_INT (dm_dstoffset st)], st))"

text \<open>The arguments of \<open>GetIsGateway\<close> are only written to the log.\<close>

definition dm_get_isgateway_cb :: "'s dev_lib \<Rightarrow> args \<Rightarrow> 's dm_state \<Rightarrow> 's dm_reply" where
  "dm_get_isgateway_cb L args st =
     (let st = st\<lparr>dm_allowgwy := dl_bool L getIsGateway (dm_lib st)\<rparr> in
      Inr ([''IsGateway'' \<mapsto> G_BOOLEAN (dm_allowgwy st)], st))"

definition dm_get_requirestrm_cb :: "'s dev_lib \<Rightarrow> 's dm_state \<Rightarrow> 's dm_reply" where
  "dm_get_requirestrm_cb L st =
     (let st = st\<lparr>dm_requiresTrm := dl_bool L getRequiresTRM (dm_lib st)\<rparr> in
      Inr ([''RequiresTRM'' \<mapsto> G_BOOLEAN (dm_requiresTrm st)], st))"

text \<open>
  \<open>GetAccountId\<close> gives the own account to whoever asks; on a broadband gateway the asking client is
  put on the white list when it sent the same account, and taken off it otherwise.
\<close>

definition string_arg :: "args \<Rightarrow> string \<Rightarrow> string option" where
  "string_arg args n = (case map_of args n of Some (G_STRING s) \<Rightarrow> Some s | _ \<Rightarrow> None)"

definition dm_get_account_id_cb :: "bool \<Rightarrow> args \<Rightarrow> 's dm_state \<Rightarrow> 's dm_reply" where
  "dm_get_account_id_cb bb args st =
     (let ip = string_arg args ''ipAddr'';
          same = (case string_arg args ''SAccountId'' of None \<Rightarrow> False
                  | Some a \<Rightarrow> strcmp a (dm_buf st B_accountId) = 0);
          st = (if bb then st\<lparr>dm_commands := dm_commands st @ [(if same then ''add'' else ''del'', ip)]\<rparr> else st)
      in Inr ([''GAccountId'' \<mapsto> G_STRING (dm_buf st B_accountId)], st))"

subsection \<open>Queried variables\<close>

definition dm_query_url_cb :: "'s dm_query" where
  "dm_query_url_cb st = dm_value B_urL (Inr st)"

definition dm_query_trm_url_cb :: "'s dm_query" where
  "dm_query_trm_url_cb st = dm_value B_trmUrl (Inr st)"

definition dm_query_dataGatewayIPaddress_cb :: "'s dm_query" where
  "dm_query_dataGatewayIPaddress_cb st = dm_value B_dataGatewayIPAddress (Inr st)"

definition dm_query_devicename_cb :: "'s dm_query" where
  "dm_query_devicename_cb st = dm_value B_deviceName (Inr st)"

definition dm_query_gwyip_cb :: "'s dm_query" where
  "dm_query_gwyip_cb st = dm_value B_gwyIp (Inr st)"

definition dm_query_gwyipv6_cb :: "'s dm_query" where
  "dm_query_gwyipv6_cb st = dm_value B_gwyIpv6 (Inr st)"

definition dm_query_gwystbip_cb :: "'s dm_query" where
  "dm_query_gwystbip_cb st = dm_value B_gwystbIp (Inr st)"

definition dm_query_ipv6prefix_cb :: "'s dm_query" where
  "dm_query_ipv6prefix_cb st = dm_value B_ipv6preFix (Inr st)"

definition dm_query_hostmacaddress_cb :: "'s dm_query" where
  "dm_query_hostmacaddress_cb st = dm_value B_hostMacaddress (Inr st)"

definition dm_query_bcastmacaddress_cb :: "'s dm_query" where
  "dm_query_bcastmacaddress_cb st = dm_value B_bcastMacaddress (Inr st)"

definition dm_query_recvdevtype_cb :: "'s dm_query" where
  "dm_query_recvdevtype_cb st = dm_value B_recvdevType (Inr st)"

definition dm_query_devicetype_cb :: "'s dm_query" where
  "dm_query_devicetype_cb st = dm_value B_deviceType (Inr st)"

definition dm_query_buildversion_cb :: "'s dm_query" where
  "dm_query_buildversion_cb st = dm_value B_buildVersion (Inr st)"

definition dm_query_dnsconfig_cb :: "'s dm_query" where
  "dm_query_dnsconfig_cb st = dm_value B_dnsConfig (Inr st)"

definition dm_query_systemids_cb :: "'s dm_query" where
  "dm_query_systemids_cb st = dm_value B_systemIds (Inr st)"

definition dm_query_hosts_cb :: "'s dm_query" where
  "dm_query_hosts_cb st = dm_value B_etcHosts (Inr st)"

definition dm_query_client_ip_cb :: "'s dm_query" where
  "dm_query_client_ip_cb st = dm_value B_clientIp (Inr st)"

definition dm_query_modelclass_cb :: "'s dm_query" where
  "dm_query_modelclass_cb st = dm_value B_modelclass (Inr st)"

definition dm_query_modelnumber_cb :: "'s dm_query" where
  "dm_query_modelnumber_cb st = dm_value B_modelNumber (Inr st)"

definition dm_query_deviceid_cb :: "'s dm_query" where
  "dm_query_deviceid_cb st = dm_value B_deviceid (Inr st)"

definition dm_query_hardwarerevision_cb :: "'s dm_query" where
  "dm_query_hardwarerevision_cb st = dm_value B_hardwarerevision (Inr st)"

definition dm_query_softwarerevision_cb :: "'s dm_query" where
  "dm_query_softwarerevision_cb st = dm_value B_softwarerevision (Inr st)"

definition dm_query_managementurl_cb :: "'s dm_query" where
  "dm_query_managementurl_cb st = dm_value B_managementurl (Inr st)"

definition dm_query_make_cb :: "'s dm_query" where
  "dm_query_make_cb st = dm_value B_Make (Inr st)"

definition dm_query_recev_id_cb :: "'s dm_query" where
  "dm_query_recev_id_cb st = dm_value B_receiverId (Inr st)"

definition dm_query_account_id_cb :: "'s dm_query" where
  "dm_query_account_id_cb st = dm_value B_accountId (Inr st)"

text \<open>The queries that look at the library, and those for numbers.\<close>

definition dm_query_playback_url_cb :: "'s dev_lib \<Rightarrow> 's dm_query" where
  "dm_query_playback_url_cb L st =
     (if dl_bool L getTuneReady (dm_lib st) then dm_value B_playBackUrl (Inr st)
      else Inr (G_STRING ''NULL'', st))"

definition dm_query_ipsubnet_cb :: "'s dev_lib \<Rightarrow> 's dm_query" where
  "dm_query_ipsubnet_cb L st = dm_value B_ipsubnet (dm_fill L getIpSubnet B_ipsubnet st)"

definition dm_query_timezone_cb :: "'s dev_lib \<Rightarrow> 's dm_query" where
  "dm_query_timezone_cb L st =
     dm_value B_dsgtimeZone
       (if \<not> dl_bool L getIsuseGliDiagEnabled (dm_lib st) then dm_fill L getTimeZone B_dsgtimeZone st else Inr st)"

definition dm_query_isgateway_cb :: "'s dm_query" where
  "dm_query_isgateway_cb st = Inr (G_BOOLEAN (dm_allowgwy st), st)"

definition dm_query_requirestrm_cb :: "'s dm_query" where
  "dm_query_requirestrm_cb st = Inr (G_BOOLEAN (dm_requiresTrm st), st)"

definition dm_query_rawoffset_cb :: "'s dm_query" where
  "dm_query_rawoffset_cb st = Inr (G_INT (dm_rawoffset st), st)"

definition dm_query_dstoffset_cb :: "'s dm_query" where
  "dm_query_dstoffset_cb st = Inr (G_INT (dm_dstoffset st), st)"

definition dm_query_dstsavings_cb :: "'s dm_query" where
  "dm_query_dstsavings_cb st = Inr (G_INT (dm_dstsavings st), st)"

definition dm_query_usesdaylighttime_cb :: "'s dm_query" where
  "dm_query_usesdaylighttime_cb st = Inr (G_BOOLEAN (dm_usedaylightsavings st), st)"

subsection \<open>The services\<close>

text \<open>
  The handlers by action; \<open>bb\<close> is the build for broadband gateways. The compatible user interfaces
  of a further device are left out.
\<close>

definition dm_identity_actions :: "bool \<Rightarrow> 's dev_lib \<Rightarrow> (string \<times> 's dm_action) list" where
  "dm_identity_actions bb L =
     [(''GetRecvDevType'', \<lambda>args. dm_get_recvdevtype_cb L),
      (''GetDeviceType'', \<lambda>args. dm_get_devicetype_cb L),
      (''GetBuildVersion'', \<lambda>args. dm_get_buildversion_cb L),
      (''GetDeviceName'', \<lambda>args. dm_get_devicename_cb L),
      (''GetModelClass'', \<lambda>args. dm_get_modelclass_cb L),
      (''GetModelNumber'', \<lambda>args. dm_get_modelnumber_cb L),
      (''GetDeviceId'', \<lambda>args. dm_get_deviceid_cb),
      (''GetHardwareRevision'', \<lambda>args. dm_get_hardwarerevision_cb),
      (''GetSoftwareRevision'', \<lambda>args. dm_get_softwarerevision_cb),
      (''GetManagementUrl'', \<lambda>args. dm_get_managementurl_cb),
      (''GetMake'', \<lambda>args. dm_get_make_cb L),
      (''GetReceiverId'', \<lambda>args. dm_get_recev_id_cb),
      (''GetAccountId'', dm_get_account_id_cb bb),
      (''GetClientIP'', \<lambda>args. dm_get_client_ip_cb),
      (''GetBcastMacAddress'', \<lambda>args. dm_get_bcastmacaddress_cb)]"

definition dm_media_actions :: "bool \<Rightarrow> 's dev_lib \<Rightarrow> (string \<times> 's dm_action) list" where
  "dm_media_actions bb L =
     [(''GetBaseUrl'', \<lambda>args. dm_get_url_cb L),
      (''GetPlaybackUrl'', \<lambda>args. dm_get_playback_url_cb L)]"

definition dm_gateway_actions :: "bool \<Rightarrow> 's dev_lib \<Rightarrow> (string \<times> 's dm_action) list" where
  "dm_gateway_actions bb L =
     [(''GetGatewayIP'', \<lambda>args. dm_get_gwyip_cb L),
      (''GetGatewayIPv6'', \<lambda>args. dm_get_gwyipv6_cb L)] @
     (if bb then [] else
     [(''GetIpv6Prefix'', \<lambda>args. dm_get_ipv6prefix_cb L),
      (''GetDnsConfig'', \<lambda>args. dm_get_dnsconfig_cb L)]) @
     [(''GetGatewayStbIP'', \<lambda>args. dm_get_gwystbip_cb L),
      (''GetHosts'', \<lambda>args. dm_get_hosts_cb L),
      (''GetHostMacAddress'', \<lambda>args. dm_get_hostmacaddress_cb L),
      (''GetDataGatewayIPaddress'', \<lambda>args. dm_get_dataGatewayIPaddress_cb L),
      (''GetIsGateway'', dm_get_isgateway_cb L),
      (''GetIPSubNet'', \<lambda>args. dm_get_ipsubnet_cb L)]"

definition dm_qam_actions :: "bool \<Rightarrow> 's dev_lib \<Rightarrow> (string \<times> 's dm_action) list" where
  "dm_qam_actions bb L =
     [(''GetBaseTrmUrl'', \<lambda>args. dm_get_trm_url_cb L),
      (''GetSystemIds'', \<lambda>args. dm_get_systemids_cb L),
      (''GetRequiresTRM'', \<lambda>args. dm_get_requirestrm_cb L)]"

definition dm_time_actions :: "bool \<Rightarrow> 's dev_lib \<Rightarrow> (string \<times> 's dm_action) list" where
  "dm_time_actions bb L =
     [(''GetTimeZone'', \<lambda>args. dm_get_timezone_cb L),
      (''GetRawOffSet'', \<lambda>args. dm_get_rawoffset_cb L),
      (''GetDSTOffset'', \<lambda>args. dm_get_dstoffset_cb L),
      (''GetDSTSavings'', \<lambda>args. dm_get_dstsavings_cb L),
      (''GetUsesDaylightTime'', \<lambda>args. dm_get_usesdaylighttime_cb L)]"

definition dm_friendlies_actions :: "bool \<Rightarrow> 's dev_lib \<Rightarrow> (string \<times> 's dm_action) list" where
  "dm_friendlies_actions bb L =
     [(''GetBaseUrl'', \<lambda>args. dm_get_url_cb L),
      (''GetBaseTrmUrl'', \<lambda>args. dm_get_trm_url_cb L),
      (''GetGatewayIP'', \<lambda>args. dm_get_gwyip_cb L),
      (''GetGatewayIPv6'', \<lambda>args. dm_get_gwyipv6_cb L)] @
     (if bb then [] else
     [(''GetIpv6Prefix'', \<lambda>args. dm_get_ipv6prefix_cb L),
      (''GetDnsConfig'', \<lambda>args. dm_get_dnsconfig_cb L)]) @
     [(''GetGatewayStbIP'', \<lambda>args. dm_get_gwystbip_cb L),
      (''GetSystemIds'', \<lambda>args. dm_get_systemids_cb L),
      (''GetTimeZone'', \<lambda>args. dm_get_timezone_cb L),
      (''GetHosts'', \<lambda>args. dm_get_hosts_cb L),
      (''GetRequiresTRM'', \<lambda>args. dm_get_requirestrm_cb L),
      (''GetHostMacAddress'', \<lambda>args. dm_get_hostmacaddress_cb L),
      (''GetRawOffSet'', \<lambda>args. dm_get_rawoffset_cb L),
      (''GetDSTOffset'', \<lambda>args. dm_get_dstoffset_cb L),
      (''GetDSTSavings'', \<lambda>args. dm_get_dstsavings_cb L),
      (''GetUsesDaylightTime'', \<lambda>args. dm_get_usesdaylighttime_cb L),
      (''GetPlaybackUrl'', \<lambda>args. dm_get_playback_url_cb L),
      (''GetDataGatewayIPaddress'', \<lambda>args. dm_get_dataGatewayIPaddress_cb L),
      (''GetDeviceName'', \<lambda>args. dm_get_devicename_cb L),
      (''GetIsGateway'', dm_get_isgateway_cb L),
      (''GetBcastMacAddress'', \<lambda>args. dm_get_bcastmacaddress_cb),
      (''GetRecvDevType'', \<lambda>args. dm_get_recvdevtype_cb L),
      (''GetDeviceType'', \<lambda>args. dm_get_devicetype_cb L),
      (''GetBuildVersion'', \<lambda>args. dm_get_buildversion_cb L),
      (''GetClientIP'', \<lambda>args. dm_get_client_ip_cb)]"

definition dm_identity_queries :: "bool \<Rightarrow> 's dev_lib \<Rightarrow> (string \<times> 's dm_query) list" where
  "dm_identity_queries bb L =
     [(''RecvDevType'', dm_query_recvdevtype_cb),
      (''DeviceType'', dm_query_devicetype_cb),
      (''BuildVersion'', dm_query_buildversion_cb),
      (''DeviceName'', dm_query_devicename_cb),
      (''ModelClass'', dm_query_modelclass_cb),
      (''ModelNumber'', dm_query_modelnumber_cb),
      (''DeviceId'', dm_query_deviceid_cb),
      (''HardwareRevision'', dm_query_hardwarerevision_cb),
      (''SoftwareRevision'', dm_query_softwarerevision_cb),
      (''ManagementUrl'', dm_query_managementurl_cb),
      (''Make'', dm_query_make_cb),
      (''ReceiverId'', dm_query_recev_id_cb),
      (''AccountId'', dm_query_account_id_cb),
      (''BcastMacAddress'', dm_query_bcastmacaddress_cb),
      (''ClientIP'', dm_query_client_ip_cb)]"

definition dm_media_queries :: "bool \<Rightarrow> 's dev_lib \<Rightarrow> (string \<times> 's dm_query) list" where
  "dm_media_queries bb L =
     [(''Url'', dm_query_url_cb),
      (''PlaybackUrl'', dm_query_playback_url_cb L)]"

definition dm_gateway_queries :: "bool \<Rightarrow> 's dev_lib \<Rightarrow> (string \<times> 's dm_query) list" where
  "dm_gateway_queries bb L =
     [(''GatewayIP'', dm_query_gwyip_cb),
      (''GatewayIPv6'', dm_query_gwyipv6_cb)] @
     (if bb then [] else
     [(''Ipv6Prefix'', dm_query_ipv6prefix_cb),
      (''DnsConfig'', dm_query_dnsconfig_cb)]) @
     [(''GatewayStbIP'', dm_query_gwystbip_cb),
      (''Hosts'', dm_query_hosts_cb),
      (''HostMacAddress'', dm_query_hostmacaddress_cb),
      (''DataGatewayIPaddress'', dm_query_dataGatewayIPaddress_cb),
      (''IsGateway'', dm_query_isgateway_cb),
      (''IPSubNet'', dm_query_ipsubnet_cb L)]"

definition dm_qam_queries :: "bool \<Rightarrow> 's dev_lib \<Rightarrow> (string \<times> 's dm_query) list" where
  "dm_qam_queries bb L =
     [(''TrmUrl'', dm_query_trm_url_cb),
      (''SystemIds'', dm_query_systemids_cb),
      (''RequiresTRM'', dm_query_requirestrm_cb)]"

definition dm_time_queries :: "bool \<Rightarrow> 's dev_lib \<Rightarrow> (string \<times> 's dm_query) list" where
  "dm_time_queries bb L =
     [(''TimeZone'', dm_query_timezone_cb L),
      (''RawOffSet'', dm_query_rawoffset_cb),
      (''DSTOffset'', dm_query_dstoffset_cb),
      (''DSTSavings'', dm_query_dstsavings_cb),
      (''UsesDaylightTime'', dm_query_usesdaylighttime_cb)]"

definition dm_friendlies_queries :: "bool \<Rightarrow> 's dev_lib \<Rightarrow> (string \<times> 's dm_query) list" where
  "dm_friendlies_queries bb L =
     [(''Url'', dm_query_url_cb),
      (''TrmUrl'', dm_query_trm_url_cb),
      (''GatewayIP'', dm_query_gwyip_cb),
      (''GatewayIPv6'', dm_query_gwyipv6_cb)] @
     (if bb then [] else
     [(''Ipv6Prefix'', dm_query_ipv6prefix_cb),
      (''DnsConfig'', dm_query_dnsconfig_cb)]) @
     [(''GatewayStbIP'', dm_query_gwystbip_cb),
      (''SystemIds'', dm_query_systemids_cb),
      (''TimeZone'', dm_query_timezone_cb L),
      (''Hosts'', dm_query_hosts_cb),
      (''RequiresTRM'', dm_query_requirestrm_cb),
      (''HostMacAddress'', dm_query_hostmacaddress_cb),
      (''RawOffSet'', dm_query_rawoffset_cb),
      (''DSTOffset'', dm_query_dstoffset_cb),
      (''DSTSavings'', dm_query_dstsavings_cb),
      (''UsesDaylightTime'', dm_query_usesdaylighttime_cb),
      (''PlaybackUrl'', dm_query_playback_url_cb L),
      (''DataGatewayIPaddress'', dm_query_dataGatewayIPaddress_cb),
      (''DeviceName'', dm_query_devicename_cb),
      (''IsGateway'', dm_query_isgateway_cb),
      (''BcastMacAddress'', dm_query_bcastmacaddress_cb),
      (''RecvDevType'', dm_query_recvdevtype_cb),
      (''DeviceType'', dm_query_devicetype_cb),
      (''BuildVersion'', dm_query_buildversion_cb),
      (''ClientIP'', dm_query_client_ip_cb)]"

text \<open>
  The services that have handlers: the legacy one always, the others only when the refactored
  device is enabled, by build.
\<close>

datatype dev_build = Broadband | Video_gateway | Video_client

datatype dev_service = DiscoverFriendlies | X1Identity | X1MediaConfiguration | X1GatewayConfiguration
  | X1QamConfiguration | X1Time

definition dm_registered :: "dev_build \<Rightarrow> bool \<Rightarrow> dev_service \<Rightarrow> bool" where
  "dm_registered build rfc s \<longleftrightarrow>
     s = DiscoverFriendlies \<or>
     rfc \<and> (s = X1Identity \<or>
            (case build of
               Broadband \<Rightarrow> s = X1GatewayConfiguration \<or> s = X1Time
             | Video_gateway \<Rightarrow> True
             | Video_client \<Rightarrow> s = X1MediaConfiguration))"

definition dm_actions :: "dev_build \<Rightarrow> 's dev_lib \<Rightarrow> dev_service \<Rightarrow> (string \<times> 's dm_action) list" where
  "dm_actions build L s =
     (let bb = (build = Broadband) in
      case s of DiscoverFriendlies \<Rightarrow> dm_friendlies_actions bb L
      | X1Identity \<Rightarrow> dm_identity_actions bb L
      | X1MediaConfiguration \<Rightarrow> dm_media_actions bb L
      | X1GatewayConfiguration \<Rightarrow> dm_gateway_actions bb L
      | X1QamConfiguration \<Rightarrow> dm_qam_actions bb L
      | X1Time \<Rightarrow> dm_time_actions bb L)"

definition dm_queries :: "dev_build \<Rightarrow> 's dev_lib \<Rightarrow> dev_service \<Rightarrow> (string \<times> 's dm_query) list" where
  "dm_queries build L s =
     (let bb = (build = Broadband) in
      case s of DiscoverFriendlies \<Rightarrow> dm_friendlies_queries bb L
      | X1Identity \<Rightarrow> dm_identity_queries bb L
      | X1MediaConfiguration \<Rightarrow> dm_media_queries bb L
      | X1GatewayConfiguration \<Rightarrow> dm_gateway_queries bb L
      | X1QamConfiguration \<Rightarrow> dm_qam_queries bb L
      | X1Time \<Rightarrow> dm_time_queries bb L)"

definition dm_call ::
  "dev_build \<Rightarrow> 's dev_lib \<Rightarrow> dev_service \<Rightarrow> string \<Rightarrow> args \<Rightarrow> 's dm_state \<Rightarrow>
     ((string \<Rightarrow> gvalue option) option \<times> 's dm_state) outcome" where
  "dm_call build L s action args st =
     (case (if dm_registered build (dm_rfc_enabled st) s then map_of (dm_actions build L s) action else None) of
        None \<Rightarrow> Inr (None, st)
      | Some cb \<Rightarrow> bind_outcome (cb args st) (\<lambda>(out, st). Inr (Some out, st)))"

end
