(* ===== verification/Dev_Contract.thy ===== *)
theory Dev_Contract
  imports Dev_Service
begin

text \<open>
  What the handlers of \<open>src/xcal-device-main.c\<close> rely on in their device library, as the locale
  \<open>device_library\<close>, and what follows for every library that keeps to it: the buffers never overflow,
  and the answer of an action does not depend on which other actions were called before. Before
  that, every answer as a reading of a buffer.
\<close>

subsection \<open>Readings\<close>

text \<open>The answer of a function, without the state it leaves.\<close>

definition result_of :: "('a \<times> 's) outcome \<Rightarrow> 'a outcome" where
  "result_of m = bind_outcome m (\<lambda>(r, s). Inr r)"

lemma result_of_simps [simp]:
  "result_of (Inl e) = Inl e"
  "result_of (Inr (r, s)) = Inr r"
  by (simp_all add: result_of_def)

lemma result_of_Inr: "result_of m = Inr r \<longleftrightarrow> (\<exists>s. m = Inr (r, s))"
  by (auto simp: result_of_def bind_outcome_Inr_iff)

text \<open>The function that refreshes a buffer before it is answered, if one does.\<close>

definition dm_source :: "'s dev_lib \<Rightarrow> 's dm_state \<Rightarrow> dev_buf \<Rightarrow> dev_fn option" where
  "dm_source L st b = (case b of
       B_urL \<Rightarrow> Some getBaseUrl | B_trmUrl \<Rightarrow> Some getTrmUrl | B_gwyIp \<Rightarrow> Some getGatewayIp
     | B_gwyIpv6 \<Rightarrow> Some getGatewayIpv6 | B_gwystbIp \<Rightarrow> Some getGatewayStbIp | B_ipv6preFix \<Rightarrow> Some getIpv6Prefix
     | B_hostMacaddress \<Rightarrow> Some getHostMacAddress | B_recvdevType \<Rightarrow> Some getRecvDevType
     | B_deviceType \<Rightarrow> Some getDeviceType | B_modelclass \<Rightarrow> Some getDeviceType
     | B_buildVersion \<Rightarrow> Some getBuildVersion | B_dnsConfig \<Rightarrow> Some getDnsConfig
     | B_systemIds \<Rightarrow> Some getSystemsIds | B_ipsubnet \<Rightarrow> Some getIpSubnet | B_deviceName \<Rightarrow> Some getDeviceName
     | B_etcHosts \<Rightarrow> Some getHosts | B_modelNumber \<Rightarrow> Some getModelNumber | B_Make \<Rightarrow> Some getMake
     | B_dataGatewayIPAddress \<Rightarrow> Some (if dm_rfc_enabled st then getGatewayStbIp else getRouteDataGateway)
     | B_dsgtimeZone \<Rightarrow> if dl_bool L getIsuseGliDiagEnabled (dm_lib st) then Some getTimeZone else None
     | B_playBackUrl \<Rightarrow> if dl_bool L getTuneReady (dm_lib st) then Some getPlaybackUrl else None
     | _ \<Rightarrow> None)"

definition dm_reading :: "'s dev_lib \<Rightarrow> 's dm_state \<Rightarrow> dev_buf \<Rightarrow> string outcome" where
  "dm_reading L st b = (case dm_source L st b of
       None \<Rightarrow> Inr (dm_buf st b)
     | Some f \<Rightarrow> bind_outcome (result_of (dl_get L f (dm_buf st b) (dm_lib st))) (\<lambda>(ok, v). Inr v))"

definition dm_said :: "'s dev_lib \<Rightarrow> 's dm_state \<Rightarrow> string \<Rightarrow> dev_buf \<Rightarrow> (string \<Rightarrow> gvalue option) outcome" where
  "dm_said L st name b = bind_outcome (dm_reading L st b) (\<lambda>v. Inr [name \<mapsto> G_STRING v])"

lemma dm_answer_fill:
  "dm_source L st b = Some f \<Longrightarrow> result_of (dm_answer name b (dm_fill L f b st)) = dm_said L st name b"
  by (cases "dl_get L f (dm_buf st b) (dm_lib st)")
    (auto simp: dm_answer_def dm_fill_def dm_said_def dm_reading_def split: prod.splits)

lemma dm_answer_plain:
  "dm_source L st b = None \<Longrightarrow> result_of (dm_answer name b (Inr st)) = dm_said L st name b"
  by (simp add: dm_answer_def dm_said_def dm_reading_def)

lemmas dm_handler_defs = dm_get_url_cb_def dm_get_trm_url_cb_def dm_get_gwyip_cb_def dm_get_gwyipv6_cb_def
  dm_get_gwystbip_cb_def dm_get_ipv6prefix_cb_def dm_get_hostmacaddress_cb_def dm_get_recvdevtype_cb_def
  dm_get_devicetype_cb_def dm_get_buildversion_cb_def dm_get_dnsconfig_cb_def dm_get_systemids_cb_def
  dm_get_ipsubnet_cb_def dm_get_devicename_cb_def dm_get_hosts_cb_def dm_get_modelclass_cb_def
  dm_get_modelnumber_cb_def dm_get_make_cb_def dm_get_bcastmacaddress_cb_def dm_get_deviceid_cb_def
  dm_get_hardwarerevision_cb_def dm_get_softwarerevision_cb_def dm_get_managementurl_cb_def
  dm_get_recev_id_cb_def dm_get_client_ip_cb_def dm_get_dataGatewayIPaddress_cb_def dm_get_timezone_cb_def

lemma handlers_say [simp]:
  "result_of (dm_get_url_cb L st) = dm_said L st ''BaseUrl'' B_urL"
  "result_of (dm_get_trm_url_cb L st) = dm_said L st ''BaseTrmUrl'' B_trmUrl"
  "result_of (dm_get_gwyip_cb L st) = dm_said L st ''GatewayIP'' B_gwyIp"
  "result_of (dm_get_gwyipv6_cb L st) = dm_said L st ''GatewayIPv6'' B_gwyIpv6"
  "result_of (dm_get_gwystbip_cb L st) = dm_said L st ''GatewayStbIP'' B_gwystbIp"
  "result_of (dm_get_ipv6prefix_cb L st) = dm_said L st ''Ipv6Prefix'' B_ipv6preFix"
  "result_of (dm_get_hostmacaddress_cb L st) = dm_said L st ''HostMacAddress'' B_hostMacaddress"
  "result_of (dm_get_recvdevtype_cb L st) = dm_said L st ''RecvDevType'' B_recvdevType"
  "result_of (dm_get_devicetype_cb L st) = dm_said L st ''DeviceType'' B_deviceType"
  "result_of (dm_get_buildversion_cb L st) = dm_said L st ''BuildVersion'' B_buildVersion"
  "result_of (dm_get_dnsconfig_cb L st) = dm_said L st ''DnsConfig'' B_dnsConfig"
  "result_of (dm_get_systemids_cb L st) = dm_said L st ''SystemIds'' B_systemIds"
  "result_of (dm_get_ipsubnet_cb L st) = dm_said L st ''IPSubNet'' B_ipsubnet"
  "result_of (dm_get_devicename_cb L st) = dm_said L st ''DeviceName'' B_deviceName"
  "result_of (dm_get_hosts_cb L st) = dm_said L st ''Hosts'' B_etcHosts"
  "result_of (dm_get_modelclass_cb L st) = dm_said L st ''ModelClass'' B_modelclass"
  "result_of (dm_get_modelnumber_cb L st) = dm_said L st ''ModelNumber'' B_modelNumber"
  "result_of (dm_get_make_cb L st) = dm_said L st ''Make'' B_Make"
  "result_of (dm_get_bcastmacaddress_cb st) = dm_said L st ''BcastMacAddress'' B_bcastMacaddress"
  "result_of (dm_get_deviceid_cb st) = dm_said L st ''DeviceId'' B_deviceid"
  "result_of (dm_get_hardwarerevision_cb st) = dm_said L st ''HardwareRevision'' B_hardwarerevision"
  "result_of (dm_get_softwarerevision_cb st) = dm_said L st ''SoftwareRevision'' B_softwarerevision"
  "result_of (dm_get_managementurl_cb st) = dm_said L st ''ManagementURL'' B_managementurl"
  "result_of (dm_get_recev_id_cb st) = dm_said L st ''ReceiverId'' B_receiverId"
  "result_of (dm_get_client_ip_cb st) = dm_said L st ''ClientIP'' B_clientIp"
  "result_of (dm_get_dataGatewayIPaddress_cb L st) = dm_said L st ''DataGatewayIPaddress'' B_dataGatewayIPAddress"
  "result_of (dm_get_timezone_cb L st) = dm_said L st ''TimeZone'' B_dsgtimeZone"
  by (simp_all add: dm_handler_defs dm_answer_fill dm_answer_plain [of L] dm_source_def)

lemma playback_says:
  "result_of (dm_get_playback_url_cb L st) =
     (if dl_bool L getTuneReady (dm_lib st) then dm_said L st ''PlaybackUrl'' B_playBackUrl
      else Inr [''PlaybackUrl'' \<mapsto> G_STRING ''NULL''])"
  by (simp add: dm_get_playback_url_cb_def dm_answer_fill dm_source_def)

lemma numbers_say:
  "result_of (dm_get_rawoffset_cb L st) = Inr [''RawOffSet'' \<mapsto> G_INT (dl_int L getRawOffSet (dm_lib st))]"
  "result_of (dm_get_dstsavings_cb L st) = Inr [''DSTSavings'' \<mapsto> G_INT (dl_int L getDstSavings (dm_lib st))]"
  "result_of (dm_get_dstoffset_cb L st) = Inr [''DSTOffset'' \<mapsto> G_INT (dl_int L getDstOffset (dm_lib st))]"
  "result_of (dm_get_usesdaylighttime_cb L st) =
     Inr [''UsesDaylightTime'' \<mapsto> G_BOOLEAN (dl_bool L getUsesDayLightTime (dm_lib st))]"
  "result_of (dm_get_isgateway_cb L args st) = Inr [''IsGateway'' \<mapsto> G_BOOLEAN (dl_bool L getIsGateway (dm_lib st))]"
  "result_of (dm_get_requirestrm_cb L st) = Inr [''RequiresTRM'' \<mapsto> G_BOOLEAN (dl_bool L getRequiresTRM (dm_lib st))]"
  by (simp_all add: dm_get_rawoffset_cb_def dm_get_dstsavings_cb_def dm_get_dstoffset_cb_def
      dm_get_usesdaylighttime_cb_def dm_get_isgateway_cb_def dm_get_requirestrm_cb_def Let_def)

lemma account_says:
  "result_of (dm_get_account_id_cb bb args st) = dm_said L st ''GAccountId'' B_accountId"
  by (simp add: dm_get_account_id_cb_def dm_said_def dm_reading_def dm_source_def Let_def)

subsection \<open>The contract\<close>

text \<open>The size each function is allowed to fill, which is that of the buffers it is given.\<close>

definition fn_size :: "dev_fn \<Rightarrow> nat" where
  "fn_size f = (if f = getPlaybackUrl then URLSIZE else if f = getHosts then RUIURLSIZE else MAXSIZE)"

text \<open>The functions the actions call.\<close>

definition refreshes :: "dev_fn \<Rightarrow> bool" where
  "refreshes f \<longleftrightarrow> f \<in> {getBaseUrl, getTrmUrl, getPlaybackUrl, getGatewayIp, getGatewayIpv6, getGatewayStbIp,
     getIpv6Prefix, getHostMacAddress, getRecvDevType, getDeviceType, getBuildVersion, getDnsConfig,
     getSystemsIds, getRouteDataGateway, getIpSubnet, getTimeZone, getDeviceName, getHosts, getModelNumber,
     getMake}"

text \<open>The buffers hold what fits, the terminating zero included.\<close>

definition bufs_fit :: "'s dm_state \<Rightarrow> bool" where
  "bufs_fit st \<longleftrightarrow> (\<forall>b. length (dm_buf st b) < buf_size b)"

text \<open>Two states whose readings, numbers and flags agree.\<close>

definition same_readings :: "'s dev_lib \<Rightarrow> 's dm_state \<Rightarrow> 's dm_state \<Rightarrow> bool" where
  "same_readings L st st' \<longleftrightarrow> dm_rfc_enabled st' = dm_rfc_enabled st \<and>
     (\<forall>b. dm_reading L st' b = dm_reading L st b) \<and>
     (\<forall>i. dl_int L i (dm_lib st') = dl_int L i (dm_lib st)) \<and>
     (\<forall>p. dl_bool L p (dm_lib st') = dl_bool L p (dm_lib st))"

definition keeps_readings :: "'s dev_lib \<Rightarrow> 's dm_state \<Rightarrow> ('a \<times> 's dm_state) outcome \<Rightarrow> bool" where
  "keeps_readings L st m \<longleftrightarrow> (\<forall>r st'. m = Inr (r, st') \<longrightarrow> same_readings L st st')"

lemma same_readings_trans: "same_readings L a b \<Longrightarrow> same_readings L b c \<Longrightarrow> same_readings L a c"
  by (simp add: same_readings_def)

lemma same_readings_said: "same_readings L st st' \<Longrightarrow> dm_said L st' n b = dm_said L st n b"
  by (simp add: same_readings_def dm_said_def)

lemma dm_source_cong:
  "dm_rfc_enabled st' = dm_rfc_enabled st \<Longrightarrow> (\<And>p. dl_bool L p (dm_lib st') = dl_bool L p (dm_lib st)) \<Longrightarrow>
     dm_source L st' b = dm_source L st b"
  by (cases b) (simp_all add: dm_source_def)

lemma same_readings_fields:
  assumes "dm_buf st' = dm_buf st" "dm_lib st' = dm_lib st" "dm_rfc_enabled st' = dm_rfc_enabled st"
  shows "same_readings L st st'"
  using assms dm_source_cong [of st' st L] by (simp add: same_readings_def dm_reading_def split: option.split)

lemma same_readings_library:
  "same_readings L st st' \<Longrightarrow> dl_int L i (dm_lib st') = dl_int L i (dm_lib st)"
  "same_readings L st st' \<Longrightarrow> dl_bool L p (dm_lib st') = dl_bool L p (dm_lib st)"
  by (simp_all add: same_readings_def)

lemma same_readings_numbers:
  "same_readings L st (st\<lparr>dm_rawoffset := i\<rparr>)" "same_readings L st (st\<lparr>dm_dstoffset := i\<rparr>)"
  "same_readings L st (st\<lparr>dm_dstsavings := i\<rparr>)" "same_readings L st (st\<lparr>dm_usedaylightsavings := p\<rparr>)"
  "same_readings L st (st\<lparr>dm_allowgwy := p\<rparr>)" "same_readings L st (st\<lparr>dm_requiresTrm := p\<rparr>)"
  "same_readings L st (st\<lparr>dm_commands := cs\<rparr>)" "same_readings L st st"
  by (simp_all add: same_readings_fields)

lemma keeps_readings_plain: "keeps_readings L st (dm_answer n b (Inr st))" "keeps_readings L st (Inr (r, st))"
  by (simp_all add: keeps_readings_def dm_answer_def same_readings_fields)

lemma source_refreshes: "dm_source L st b = Some f \<Longrightarrow> refreshes f"
  by (auto simp: dm_source_def refreshes_def split: dev_buf.splits if_splits)

lemma numbers_keep_readings:
  "keeps_readings L st (dm_get_rawoffset_cb L st)" "keeps_readings L st (dm_get_dstsavings_cb L st)"
  "keeps_readings L st (dm_get_dstoffset_cb L st)" "keeps_readings L st (dm_get_usesdaylighttime_cb L st)"
  "keeps_readings L st (dm_get_isgateway_cb L args st)" "keeps_readings L st (dm_get_requirestrm_cb L st)"
  "keeps_readings L st (dm_get_account_id_cb bb args st)"
  by (simp_all add: keeps_readings_def Let_def same_readings_numbers dm_get_rawoffset_cb_def
      dm_get_dstsavings_cb_def dm_get_dstoffset_cb_def dm_get_usesdaylighttime_cb_def dm_get_isgateway_cb_def
      dm_get_requirestrm_cb_def dm_get_account_id_cb_def)

lemma actions_say:
  "list_all (\<lambda>(a, cb). \<forall>args st st'. same_readings L st st' \<longrightarrow> result_of (cb args st') = result_of (cb args st))
     (dm_actions build L s)"
  by (cases s) (simp_all add: dm_actions_def Let_def dm_friendlies_actions_def dm_identity_actions_def
      dm_media_actions_def dm_gateway_actions_def dm_qam_actions_def dm_time_actions_def
      handlers_say [where L = L] numbers_say playback_says account_says [where L = L]
      same_readings_said [of L] same_readings_library [of L])

lemma call_says:
  assumes "same_readings L st st'"
  shows "result_of (dm_call build L s a args st') = result_of (dm_call build L s a args st)"
proof -
  let ?m = "\<lambda>st. if dm_registered build (dm_rfc_enabled st) s then map_of (dm_actions build L s) a else None"
  have m: "?m st' = ?m st" using assms by (simp add: same_readings_def)
  show ?thesis
  proof (cases "?m st")
    case (Some cb)
    then have "(a, cb) \<in> set (dm_actions build L s)" by (auto dest: map_of_SomeD split: if_splits)
    then have "result_of (cb args st') = result_of (cb args st)"
      using actions_say [of L build s] assms unfolding list_all_iff by fastforce
    moreover have "result_of (bind_outcome m (\<lambda>(out, st). Inr (Some out, st))) = map_sum id Some (result_of m)"
      for m :: "'a dm_reply" by (cases m) (auto split: prod.split)
    ultimately show ?thesis using Some m by (simp add: dm_call_def)
  next
    case None
    with m show ?thesis by (simp add: dm_call_def)
  qed
qed

text \<open>A sequence of calls.\<close>

fun dm_calls ::
  "dev_build \<Rightarrow> 's dev_lib \<Rightarrow> (dev_service \<times> string \<times> args) list \<Rightarrow> 's dm_state \<Rightarrow> 's dm_state outcome" where
  "dm_calls build L [] st = Inr st"
| "dm_calls build L ((s, a, args) # cs) st =
     bind_outcome (dm_call build L s a args st) (\<lambda>(out, st). dm_calls build L cs st)"

definition keeps_fit :: "'s dm_state \<Rightarrow> ('a \<times> 's dm_state) outcome \<Rightarrow> bool" where
  "keeps_fit st m \<longleftrightarrow> (\<forall>r st'. bufs_fit st \<longrightarrow> m = Inr (r, st') \<longrightarrow> bufs_fit st')"

lemma keeps_fit_plain: "keeps_fit st (dm_answer n b (Inr st))" "keeps_fit st (dm_value b (Inr st))"
  "keeps_fit st (Inr (r, st))"
  by (simp_all add: keeps_fit_def dm_answer_def dm_value_def)

lemma numbers_keep_fit:
  "keeps_fit st (dm_get_rawoffset_cb L st)" "keeps_fit st (dm_get_dstsavings_cb L st)"
  "keeps_fit st (dm_get_dstoffset_cb L st)" "keeps_fit st (dm_get_usesdaylighttime_cb L st)"
  "keeps_fit st (dm_get_isgateway_cb L args st)" "keeps_fit st (dm_get_requirestrm_cb L st)"
  "keeps_fit st (dm_get_account_id_cb bb args st)"
  by (simp_all add: keeps_fit_def bufs_fit_def Let_def dm_get_rawoffset_cb_def dm_get_dstsavings_cb_def
      dm_get_dstoffset_cb_def dm_get_usesdaylighttime_cb_def dm_get_isgateway_cb_def
      dm_get_requirestrm_cb_def dm_get_account_id_cb_def)

lemmas dm_query_defs = dm_query_url_cb_def dm_query_trm_url_cb_def dm_query_dataGatewayIPaddress_cb_def
  dm_query_devicename_cb_def dm_query_gwyip_cb_def dm_query_gwyipv6_cb_def dm_query_gwystbip_cb_def
  dm_query_ipv6prefix_cb_def dm_query_hostmacaddress_cb_def dm_query_bcastmacaddress_cb_def
  dm_query_recvdevtype_cb_def dm_query_devicetype_cb_def dm_query_buildversion_cb_def
  dm_query_dnsconfig_cb_def dm_query_systemids_cb_def dm_query_hosts_cb_def dm_query_client_ip_cb_def
  dm_query_modelclass_cb_def dm_query_modelnumber_cb_def dm_query_deviceid_cb_def
  dm_query_hardwarerevision_cb_def dm_query_softwarerevision_cb_def dm_query_managementurl_cb_def
  dm_query_make_cb_def dm_query_recev_id_cb_def dm_query_account_id_cb_def dm_query_isgateway_cb_def
  dm_query_requirestrm_cb_def dm_query_rawoffset_cb_def dm_query_dstoffset_cb_def
  dm_query_dstsavings_cb_def dm_query_usesdaylighttime_cb_def

locale device_library =
  fixes L :: "'s dev_lib"
  assumes fits: "dl_get L f old s = Inr ((ok, v), s') \<Longrightarrow> length old < fn_size f \<Longrightarrow> length v < fn_size f"
    and again: "refreshes f \<Longrightarrow> dl_get L f old s = Inr ((ok, v), s') \<Longrightarrow>
      result_of (dl_get L f v s) = Inr (ok, v)"
    and apart: "refreshes f \<Longrightarrow> refreshes g \<Longrightarrow> dl_get L g other s = Inr (r, s') \<Longrightarrow>
      result_of (dl_get L f old s') = result_of (dl_get L f old s)"
    and numbers: "refreshes f \<Longrightarrow> dl_get L f old s = Inr (r, s') \<Longrightarrow> dl_int L i s' = dl_int L i s"
    and flags: "refreshes f \<Longrightarrow> dl_get L f old s = Inr (r, s') \<Longrightarrow> dl_bool L p s' = dl_bool L p s"

context device_library begin

lemma fill_keeps_readings:
  assumes "dm_source L st b = Some f" "dm_fill L f b st = Inr st'"
  shows "same_readings L st st'"
proof -
  note f = source_refreshes [OF assms(1)]
  from assms(2) obtain ok v s' where g: "dl_get L f (dm_buf st b) (dm_lib st) = Inr ((ok, v), s')"
    and st': "st' = st\<lparr>dm_buf := (dm_buf st)(b := v), dm_lib := s'\<rparr>"
    by (auto simp: dm_fill_def bind_outcome_Inr_iff)
  have src: "dm_source L st' c = dm_source L st c" for c
    by (rule dm_source_cong) (simp_all add: st' flags [OF f g])
  have "dm_reading L st' c = dm_reading L st c" for c
  proof (cases "c = b")
    case True
    have "result_of (dl_get L f v s') = Inr (ok, v)"
      using apart [OF f f g, of v] again [OF f g] by simp
    then show ?thesis using assms(1) g src [of b] by (simp add: True dm_reading_def st')
  next
    case False
    show ?thesis
    proof (cases "dm_source L st c")
      case (Some h)
      have "result_of (dl_get L h (dm_buf st c) s') = result_of (dl_get L h (dm_buf st c) (dm_lib st))"
        by (rule apart [OF source_refreshes [OF Some] f g])
      then show ?thesis using False src [of c] Some by (simp add: dm_reading_def st')
    qed (use False src [of c] in \<open>simp add: dm_reading_def st'\<close>)
  qed
  then show ?thesis using numbers [OF f g] flags [OF f g] by (simp add: same_readings_def st')
qed

lemma answer_keeps_readings:
  "dm_source L st b = Some f \<Longrightarrow> keeps_readings L st (dm_answer n b (dm_fill L f b st))"
  using fill_keeps_readings by (auto simp: keeps_readings_def dm_answer_def bind_outcome_Inr_iff)

lemma handlers_keep_readings:
  "keeps_readings L st (dm_get_url_cb L st)" "keeps_readings L st (dm_get_trm_url_cb L st)"
  "keeps_readings L st (dm_get_gwyip_cb L st)" "keeps_readings L st (dm_get_gwyipv6_cb L st)"
  "keeps_readings L st (dm_get_gwystbip_cb L st)" "keeps_readings L st (dm_get_ipv6prefix_cb L st)"
  "keeps_readings L st (dm_get_hostmacaddress_cb L st)" "keeps_readings L st (dm_get_recvdevtype_cb L st)"
  "keeps_readings L st (dm_get_devicetype_cb L st)" "keeps_readings L st (dm_get_buildversion_cb L st)"
  "keeps_readings L st (dm_get_dnsconfig_cb L st)" "keeps_readings L st (dm_get_systemids_cb L st)"
  "keeps_readings L st (dm_get_ipsubnet_cb L st)" "keeps_readings L st (dm_get_devicename_cb L st)"
  "keeps_readings L st (dm_get_hosts_cb L st)" "keeps_readings L st (dm_get_modelclass_cb L st)"
  "keeps_readings L st (dm_get_modelnumber_cb L st)" "keeps_readings L st (dm_get_make_cb L st)"
  "keeps_readings L st (dm_get_bcastmacaddress_cb st)" "keeps_readings L st (dm_get_deviceid_cb st)"
  "keeps_readings L st (dm_get_hardwarerevision_cb st)" "keeps_readings L st (dm_get_softwarerevision_cb st)"
  "keeps_readings L st (dm_get_managementurl_cb st)" "keeps_readings L st (dm_get_recev_id_cb st)"
  "keeps_readings L st (dm_get_client_ip_cb st)" "keeps_readings L st (dm_get_dataGatewayIPaddress_cb L st)"
  "keeps_readings L st (dm_get_timezone_cb L st)" "keeps_readings L st (dm_get_playback_url_cb L st)"
  by (auto simp: dm_handler_defs dm_get_playback_url_cb_def dm_source_def keeps_readings_plain
      intro: answer_keeps_readings)

lemma actions_keep_readings:
  "list_all (\<lambda>(a, cb). \<forall>args st. keeps_readings L st (cb args st)) (dm_actions build L s)"
  by (cases s) (simp_all add: dm_actions_def Let_def dm_friendlies_actions_def dm_identity_actions_def
      dm_media_actions_def dm_gateway_actions_def dm_qam_actions_def dm_time_actions_def
      handlers_keep_readings numbers_keep_readings)

lemma call_keeps_readings: "keeps_readings L st (dm_call build L s a args st)"
proof (cases "if dm_registered build (dm_rfc_enabled st) s then map_of (dm_actions build L s) a else None")
  case (Some cb)
  then have "(a, cb) \<in> set (dm_actions build L s)" by (auto dest: map_of_SomeD split: if_splits)
  then have "keeps_readings L st (cb args st)" using actions_keep_readings [of build s] unfolding list_all_iff by fastforce
  then show ?thesis using Some by (auto simp: dm_call_def keeps_readings_def bind_outcome_Inr_iff)
qed (simp add: dm_call_def keeps_readings_plain)

lemma answers_any_order:
  "dm_calls build L cs st = Inr st' \<Longrightarrow>
     result_of (dm_call build L s a args st') = result_of (dm_call build L s a args st)"
proof (induction cs arbitrary: st)
  case (Cons c cs)
  obtain t b xs where c: "c = (t, b, xs)" by (cases c)
  with Cons.prems obtain out st1 where 1: "dm_call build L t b xs st = Inr (out, st1)"
    and 2: "dm_calls build L cs st1 = Inr st'"
    by (auto simp: bind_outcome_Inr_iff)
  from 1 have "same_readings L st st1" using call_keeps_readings by (auto simp: keeps_readings_def)
  from call_says [OF this] Cons.IH [OF 2] show ?case by simp
qed simp

lemma fill_fits:
  assumes "dm_fill L f b st = Inr st'" "fn_size f = buf_size b" "bufs_fit st"
  shows "bufs_fit st'"
  using assms fits by (fastforce simp: dm_fill_def bind_outcome_Inr_iff bufs_fit_def)

lemma answer_keeps_fit:
  "fn_size f = buf_size b \<Longrightarrow> keeps_fit st (dm_answer n b (dm_fill L f b st))"
  "fn_size f = buf_size b \<Longrightarrow> keeps_fit st (dm_value b (dm_fill L f b st))"
  using fill_fits by (auto simp: keeps_fit_def dm_answer_def dm_value_def bind_outcome_Inr_iff)

lemmas handler_fits = answer_keeps_fit keeps_fit_plain

lemma actions_keep_fit:
  "list_all (\<lambda>(a, cb). \<forall>args st. keeps_fit st (cb args st)) (dm_actions build L s)"
  by (cases s) (simp_all add: dm_actions_def Let_def dm_friendlies_actions_def dm_identity_actions_def
      dm_media_actions_def dm_gateway_actions_def dm_qam_actions_def dm_time_actions_def dm_handler_defs
      dm_get_playback_url_cb_def handler_fits numbers_keep_fit fn_size_def buf_size_def)

lemma queries_keep_fit:
  "list_all (\<lambda>(n, q). \<forall>st. keeps_fit st (q st)) (dm_queries build L s)"
  by (cases s) (simp_all add: dm_queries_def Let_def dm_friendlies_queries_def dm_identity_queries_def
      dm_media_queries_def dm_gateway_queries_def dm_qam_queries_def dm_time_queries_def dm_query_defs
      dm_query_playback_url_cb_def dm_query_ipsubnet_cb_def dm_query_timezone_cb_def handler_fits
      fn_size_def buf_size_def)

lemma call_keeps_fit: "keeps_fit st (dm_call build L s a args st)"
proof (cases "if dm_registered build (dm_rfc_enabled st) s then map_of (dm_actions build L s) a else None")
  case (Some cb)
  then have "(a, cb) \<in> set (dm_actions build L s)" by (auto dest: map_of_SomeD split: if_splits)
  then have "keeps_fit st (cb args st)"
    using actions_keep_fit [of build s] unfolding list_all_iff by fastforce
  then show ?thesis using Some by (auto simp: dm_call_def keeps_fit_def bind_outcome_Inr_iff)
qed (simp add: dm_call_def keeps_fit_plain)

end

end
