(* ===== verification/Dev_Main.thy ===== *)
theory Dev_Main
  imports Xcal_Start Dev_Contract
begin

text \<open>
  \<open>main\<close> of \<open>src/xcal-device-main.c\<close> from the return of \<open>xdeviceInit\<close> to the main loop, for any device
  library: the buffers, the descriptions written to files, the certificates, and the services found
  and connected. Files of descriptions are a function from names to \<open>xml_file\<close>.
\<close>

subsection \<open>Descriptions\<close>

text \<open>\<open>updatexmldata\<close>: the universal product code tells whether the refactored device is enabled.\<close>

definition dm_updatexmldata ::
  "bool \<Rightarrow> xml_file \<Rightarrow> string \<Rightarrow> string \<Rightarrow> string \<Rightarrow> bool \<times> xml list option" where
  "dm_updatexmldata rfc f struuid serialno friendlyName =
     (case xml_parsed f of
        None \<Rightarrow> (False, None)
      | Some doc0 \<Rightarrow>
          (case set_content doc0 ''UPC'' (if rfc then ''10000'' else []) of (r, doc) \<Rightarrow>
           if r \<noteq> 0 then (False, Some doc0)
           else (case set_content doc ''UDN'' struuid of (r, doc) \<Rightarrow>
           if r \<noteq> 0 then (False, Some doc0)
           else (case set_content doc ''serialNumber'' serialno of (r, doc) \<Rightarrow>
           if r \<noteq> 0 then (False, Some doc0)
           else (case set_content doc ''friendlyName'' friendlyName of (r, doc) \<Rightarrow>
           if r \<noteq> 0 then (False, Some doc0)
           else if \<not> xml_openable f then (False, Some doc0)
           else if \<not> xml_dump_ok f then (False, None)
           else (True, Some doc))))))"

type_synonym descriptions = "string \<Rightarrow> xml_file"

definition describe :: "bool \<Rightarrow> string \<Rightarrow> string \<Rightarrow> string \<Rightarrow> descriptions \<Rightarrow> descriptions start" where
  "describe rfc file uuid serial ds =
     (case dm_updatexmldata rfc (ds file) uuid serial ''XFINITY'' of (ok, doc) \<Rightarrow>
        if ok then Going (ds(file := (ds file)\<lparr>xml_parsed := doc\<rparr>)) else Exited 1)"

subsection \<open>The environment\<close>

text \<open>
  What the world answers: which contexts can be created, which services the devices offer, which
  files exist, what GLib makes of a path and a name, and what the memory of the two buffers on the
  stack held before.
\<close>

record dm_env =
  me_build :: dev_build
  me_rfc :: bool
  me_xpki :: bool
  me_context :: bool
  me_friendlies :: bool
  me_secure_context :: bool
  me_offered :: "dev_service \<Rightarrow> bool"
  me_exists :: "string \<Rightarrow> bool"
  me_absolute :: "string \<Rightarrow> bool"
  me_build_filename :: "string \<Rightarrow> string \<Rightarrow> string"
  me_junk_file :: string
  me_junk_uuid :: string
  me_estbmac :: "string option"
  me_cvp_context :: bool
  me_cvp_service :: bool

text \<open>A running device: its state, its descriptions, the services found, and the secure context.\<close>

record 's dm_running =
  mr_state :: "'s dm_state"
  mr_docs :: descriptions
  mr_services :: "dev_service list"
  mr_secure :: bool

text \<open>The buffers are zero at the start; \<open>rfc_enabled\<close> is set by \<open>check_rfc\<close>.\<close>

definition dm_init :: "bool \<Rightarrow> 's \<Rightarrow> 's dm_state" where
  "dm_init rfc s = \<lparr>dm_buf = (\<lambda>_. []), dm_rawoffset = 0, dm_dstoffset = 0, dm_dstsavings = 0,
     dm_usedaylightsavings = False, dm_allowgwy = False, dm_requiresTrm = False, dm_rfc_enabled = rfc,
     dm_commands = [], dm_lib = s\<rparr>"

definition start_of :: "'a outcome \<Rightarrow> 'a start" where
  "start_of m = (case m of Inl Non_termination \<Rightarrow> Waiting | Inl Fatal_error \<Rightarrow> Aborted | Inl e \<Rightarrow> Faulted e | Inr x \<Rightarrow> Going x)"

text \<open>A call that fills a buffer, with its answer; and a chain of calls joined by \<open>&&\<close>.\<close>

definition dm_try :: "'s dev_lib \<Rightarrow> dev_fn \<times> dev_buf \<Rightarrow> 's dm_state \<Rightarrow> (bool \<times> 's dm_state) outcome" where
  "dm_try L c st =
     (case c of (f, b) \<Rightarrow>
        bind_outcome (dl_get L f (dm_buf st b) (dm_lib st)) (\<lambda>((ok, v), s).
          Inr (ok, st\<lparr>dm_buf := (dm_buf st)(b := v), dm_lib := s\<rparr>)))"

fun dm_try_all :: "'s dev_lib \<Rightarrow> (dev_fn \<times> dev_buf) list \<Rightarrow> 's dm_state \<Rightarrow> (bool \<times> 's dm_state) outcome" where
  "dm_try_all L [] st = Inr (True, st)"
| "dm_try_all L (c # cs) st =
     bind_outcome (dm_try L c st) (\<lambda>(ok, st). if ok then dm_try_all L cs st else Inr (False, st))"

subsection \<open>The phases\<close>

text \<open>The values of the plain device, and its description.\<close>

definition dm_collect :: "'s dev_lib \<Rightarrow> 's dm_state \<Rightarrow> 's dm_state outcome" where
  "dm_collect L st =
     bind_outcome (dm_try L (getGatewayIp, B_clientIp) st) (\<lambda>(_, st).
     bind_outcome (dm_try_all L [(getDevXmlPath, B_devXMlPath), (getDevXmlFile False, B_devXMlFile), (dev_fn.getUUID, B_uUid),
        (dev_fn.getSerialNum, B_serial_Num), (getBcastIf, B_devBcastIf)] st) (\<lambda>(_, st). Inr st))"

text \<open>The certificate and the key: their names, when all four settings are there.\<close>

definition dm_certificates ::
  "dm_env \<Rightarrow> 's dev_lib \<Rightarrow> 's dm_state \<Rightarrow> ((string \<times> string) option \<times> 's dm_state) outcome" where
  "dm_certificates M L st =
     (if me_build M \<noteq> Broadband \<and> me_xpki M then Inr (Some (''/tmp/xpki_cert'', ''/tmp/xpki_key''), st)
      else bind_outcome (dm_try_all L [(getDevCertFile, B_devCertFile), (getDevCertPath, B_devCertPath),
             (getDevKeyFile, B_devKeyFile), (getDevKeyPath, B_devKeyPath)] st) (\<lambda>(ok, st).
           let path = (\<lambda>dir f. if me_absolute M (dm_buf st f) then dm_buf st f
                               else me_build_filename M (dm_buf st dir) (dm_buf st f)) in
           Inr (if ok then Some (path B_devCertPath B_devCertFile, path B_devKeyPath B_devKeyFile) else None, st)))"

definition caFile :: string where "caFile = ''/tmp/UPnP_CA''"
definition BROADBAND_DEVICE_XML_FILE :: string where "BROADBAND_DEVICE_XML_FILE = ''X1BroadbandGateway.xml''"

text \<open>The services looked for in the description of that name.\<close>

definition dm_services :: "dm_env \<Rightarrow> string \<Rightarrow> dev_service list" where
  "dm_services M file =
     (let bb = strstr file BROADBAND_DEVICE_XML_FILE \<noteq> None; gw = strstr file ''X1VideoGateway.xml'' \<noteq> None in
      filter (me_offered M)
        (X1Identity # (if bb \<or> gw then [X1Time, X1GatewayConfiguration] else [X1MediaConfiguration]) @
         (if gw then [X1MediaConfiguration, X1QamConfiguration] else [])))"

text \<open>
  With certificate, key and authority there, the secure device: its description, its context, and
  the services found in it.
\<close>

definition dm_secure ::
  "dm_env \<Rightarrow> 's dev_lib \<Rightarrow> 's dm_state \<Rightarrow> string \<Rightarrow> string \<Rightarrow> descriptions \<Rightarrow> 's dm_running start" where
  "dm_secure M L st file uuid ds =
     bind_start (describe (dm_rfc_enabled st) file uuid (dm_buf st B_serial_Num) ds) (\<lambda>ds.
     if \<not> me_secure_context M
     then Going \<lparr>mr_state = st, mr_docs = ds, mr_services = [], mr_secure = False\<rparr>
     else bind_start (start_of (dm_try L (getReceiverId, B_receiverId) st)) (\<lambda>(_, st).
       Going \<lparr>mr_state = st, mr_docs = ds, mr_services = dm_services M file, mr_secure = True\<rparr>))"

text \<open>Otherwise the device goes on as the older one, and is described again.\<close>

definition dm_fall_back :: "'s dm_state \<Rightarrow> descriptions \<Rightarrow> 's dm_running start" where
  "dm_fall_back st ds =
     (let st = st\<lparr>dm_rfc_enabled := False\<rparr> in
      bind_start (describe (dm_rfc_enabled st) (dm_buf st B_devXMlFile) (dm_buf st B_uUid) (dm_buf st B_serial_Num) ds)
        (\<lambda>ds. Going \<lparr>mr_state = st, mr_docs = ds, mr_services = [], mr_secure = False\<rparr>))"

definition dm_protected :: "dm_env \<Rightarrow> (string \<times> string) option \<Rightarrow> bool" where
  "dm_protected M certs = (case certs of None \<Rightarrow> False
     | Some (cert, key) \<Rightarrow> me_exists M cert \<and> me_exists M key \<and> me_exists M caFile)"

text \<open>
  The refactored device. \<open>snprintf\<close> cuts the name off at 47 characters; the buffer of the name is
  left as it was when there is no hardware address.
\<close>

definition dm_refactored ::
  "dm_env \<Rightarrow> 's dev_lib \<Rightarrow> 's dm_state \<Rightarrow> descriptions \<Rightarrow> 's dm_running start" where
  "dm_refactored M L st ds =
     bind_start (start_of (dl_get L (getDevXmlFile True) (me_junk_file M) (dm_lib st))) (\<lambda>((_, file), s).
     bind_start (start_of (dm_try L (dev_fn.getAccountId, B_accountId) (st\<lparr>dm_lib := s\<rparr>))) (\<lambda>(_, st).
     let mac = dm_buf st B_bcastMacaddress;
         uuid = (if mac \<noteq> [] then take 47 (''uuid:'' @ mac) else me_junk_uuid M) in
     bind_start (start_of (dm_certificates M L st)) (\<lambda>(certs, st).
       if dm_protected M certs then dm_secure M L st file uuid ds else dm_fall_back st ds)))"

text \<open>
  The second device for the remote user interface, which only a gateway has. \<open>result\<close> is 1 when it is
  reached, and stays 1 when there is no hardware address to write into the description.
\<close>

definition dm_second_device :: "dm_env \<Rightarrow> 's dev_lib \<Rightarrow> 's dm_running \<Rightarrow> 's dm_running start" where
  "dm_second_device M L r =
     (if me_build M \<noteq> Video_gateway \<or> \<not> dl_bool L checkCVP2Enabled (dm_lib (mr_state r)) then Going r
      else
        bind_start (start_of (dm_try_all L [(getCVPIf, B_cvpInterface), (getCVPXmlFile, B_cvPXmlFile)] (mr_state r)))
          (\<lambda>(_, st).
          let strip = (\<lambda>b st. st\<lparr>dm_buf := (dm_buf st)(b := g_strstrip (dm_buf st b))\<rparr>);
              st = strip B_cvPXmlFile (strip B_devXMlPath st);
              file = dm_buf st B_devXMlPath @ ''/'' @ dm_buf st B_cvPXmlFile in
          bind_start (case me_estbmac M of
                        None \<Rightarrow> Going (mr_docs r)
                      | Some mac \<Rightarrow> describe (dm_rfc_enabled st) file (''uuid:AA5859B7-EFF4-42FD-BB92-'' @ mac)
                                     (dm_buf st B_serial_Num) (mr_docs r)) (\<lambda>ds.
          if \<not> me_cvp_context M \<or> \<not> me_cvp_service M then Exited 1
          else Going (r\<lparr>mr_state := st, mr_docs := ds\<rparr>))))"

text \<open>\<open>main\<close>, from the state \<open>s\<close> that \<open>xdeviceInit\<close> left the library in.\<close>

definition dm_main :: "dm_env \<Rightarrow> 's dev_lib \<Rightarrow> descriptions \<Rightarrow> 's \<Rightarrow> 's dm_running start" where
  "dm_main M L ds s =
     bind_start (start_of (dm_collect L (dm_init (me_rfc M) s))) (\<lambda>st.
     bind_start (describe (dm_rfc_enabled st) (dm_buf st B_devXMlFile) (dm_buf st B_uUid) (dm_buf st B_serial_Num) ds) (\<lambda>ds.
     bind_start (start_of (dm_try L (getBcastMacAddress, B_bcastMacaddress) st)) (\<lambda>(_, st).
     if \<not> me_context M \<or> \<not> me_friendlies M then Exited 1
     else bind_start
       (if dm_rfc_enabled st then dm_refactored M L st ds
        else Going \<lparr>mr_state = st, mr_docs = ds, mr_services = [], mr_secure = False\<rparr>)
       (dm_second_device M L))))"

end
