(* ===== verification/Dev_Discovery.thy ===== *)
theory Dev_Discovery
  imports Dev_Contract Callbacks
begin

text \<open>
  The services of \<open>src/xcal-device-main.c\<close> as the control points of \<open>src/xdiscovery.c\<close> read them:
  what arrives in the device record, for any device library.
\<close>

subsection \<open>The services as proxies\<close>

definition dm_proxy :: "dev_build \<Rightarrow> 's dev_lib \<Rightarrow> dev_service \<Rightarrow> 's dm_state \<Rightarrow> service_proxy" where
  "dm_proxy build L s st action args =
     (case result_of (dm_call build L s action args st) of Inr out \<Rightarrow> out | Inl e \<Rightarrow> None)"

lemma proxy_action:
  assumes "dm_registered build (dm_rfc_enabled st) s" "map_of (dm_actions build L s) a = Some cb"
  shows "send_action (dm_proxy build L s st) a args n =
    (case result_of (cb args st) of Inr out \<Rightarrow> out n | Inl e \<Rightarrow> None)"
  using assms by (cases "cb args st") (auto simp: send_action_def dm_proxy_def dm_call_def split: prod.splits)

lemma proxy_no_action:
  assumes "map_of (dm_actions build L s) a = None"
  shows "send_action (dm_proxy build L s st) a args n = None"
  using assms by (simp add: send_action_def dm_proxy_def dm_call_def)

lemma said_output:
  "(case dm_said L st n b of Inr out \<Rightarrow> out n | Inl e \<Rightarrow> None) =
     (case dm_reading L st b of Inr v \<Rightarrow> Some (G_STRING v) | Inl e \<Rightarrow> None)"
  by (cases "dm_reading L st b") (simp_all add: dm_said_def)

text \<open>The value of a buffer put into a field; a library that fails to return gives no answer.\<close>

definition told ::
  "'s dev_lib \<Rightarrow> 's dm_state \<Rightarrow> dev_buf \<Rightarrow> ((string \<Rightarrow> string) \<Rightarrow> GwyDeviceData \<Rightarrow> GwyDeviceData)
     \<Rightarrow> GwyDeviceData \<Rightarrow> GwyDeviceData" where
  "told L st b u d = (case dm_reading L st b of Inr v \<Rightarrow> u (\<lambda>_. v) d | Inl e \<Rightarrow> d)"

lemma read_str_told:
  assumes "send_action sp a [] n = (case dm_reading L st b of Inr v \<Rightarrow> Some (G_STRING v) | Inl e \<Rightarrow> None)"
  shows "read_str sp a n u d = told L st b u d"
  using assms by (cases "dm_reading L st b") (simp_all add: read_str_def processStringRequest_def told_def)

lemma proxy_says:
  assumes "dm_registered build (dm_rfc_enabled st) s"
    and "case map_of (dm_actions build L s) a of None \<Rightarrow> False
           | Some cb \<Rightarrow> (\<forall>args. result_of (cb args st) = dm_said L st n b)"
  shows "read_str (dm_proxy build L s st) a n u d = told L st b u d"
proof -
  obtain cb where "map_of (dm_actions build L s) a = Some cb" "result_of (cb [] st) = dm_said L st n b"
    using assms(2) by (auto split: option.splits)
  then show ?thesis
    by (intro read_str_told) (simp add: proxy_action [OF assms(1)] said_output)
qed

lemma proxy_silent:
  "map_of (dm_actions build L s) a = None \<Longrightarrow> read_str (dm_proxy build L s st) a n u d = d"
  by (simp add: read_str_def processStringRequest_def proxy_no_action)

lemmas service_tables = dm_actions_def dm_identity_actions_def dm_media_actions_def dm_gateway_actions_def
  dm_qam_actions_def dm_time_actions_def dm_registered_def Let_def

lemma identity_proxy:
  assumes "dm_rfc_enabled st"
  shows
    "read_str (dm_proxy build L X1Identity st) ''GetRecvDevType'' ''RecvDevType'' recvdevtype_update d = told L st B_recvdevType recvdevtype_update d"
    "read_str (dm_proxy build L X1Identity st) ''GetBuildVersion'' ''BuildVersion'' buildversion_update d = told L st B_buildVersion buildversion_update d"
    "read_str (dm_proxy build L X1Identity st) ''GetDeviceName'' ''DeviceName'' devicename_update d = told L st B_deviceName devicename_update d"
    "read_str (dm_proxy build L X1Identity st) ''GetDeviceType'' ''DeviceType'' devicetype_update d = told L st B_deviceType devicetype_update d"
    "read_str (dm_proxy build L X1Identity st) ''GetModelClass'' ''ModelClass'' modelclass_update d = told L st B_modelclass modelclass_update d"
    "read_str (dm_proxy build L X1Identity st) ''GetModelNumber'' ''ModelNumber'' modelnumber_update d = told L st B_modelNumber modelnumber_update d"
    "read_str (dm_proxy build L X1Identity st) ''GetDeviceId'' ''DeviceId'' deviceid_update d = told L st B_deviceid deviceid_update d"
    "read_str (dm_proxy build L X1Identity st) ''GetHardwareRevision'' ''HardwareRevision'' hardwarerevision_update d = told L st B_hardwarerevision hardwarerevision_update d"
    "read_str (dm_proxy build L X1Identity st) ''GetSoftwareRevision'' ''SoftwareRevision'' softwarerevision_update d = told L st B_softwarerevision softwarerevision_update d"
    "read_str (dm_proxy build L X1Identity st) ''GetManagementUrl'' ''ManagementURL'' managementurl_update d = told L st B_managementurl managementurl_update d"
    "read_str (dm_proxy build L X1Identity st) ''GetMake'' ''Make'' make_str_update d = told L st B_Make make_str_update d"
    "read_str (dm_proxy build L X1Identity st) ''GetReceiverId'' ''ReceiverId'' receiverid_update d = told L st B_receiverId receiverid_update d"
    "read_str (dm_proxy build L X1Identity st) ''GetClientIP'' ''ClientIP'' clientip_update d = told L st B_clientIp clientip_update d"
    "read_str (dm_proxy build L X1Identity st) ''GetBcastMacAddress'' ''BcastMacAddress'' bcastmacaddress_update d = told L st B_bcastMacaddress bcastmacaddress_update d"
  using assms by (simp_all add: proxy_says service_tables)

lemma gateway_proxy:
  assumes "dm_rfc_enabled st"
  shows
    "read_str (dm_proxy Video_gateway L X1GatewayConfiguration st) ''GetDataGatewayIPaddress'' ''DataGatewayIPaddress'' dataGatewayIPaddress_update d = told L st B_dataGatewayIPAddress dataGatewayIPaddress_update d"
    "read_str (dm_proxy Video_gateway L X1GatewayConfiguration st) ''GetGatewayStbIP'' ''GatewayStbIP'' gatewaystbip_update d = told L st B_gwystbIp gatewaystbip_update d"
    "read_str (dm_proxy Video_gateway L X1GatewayConfiguration st) ''GetIpv6Prefix'' ''Ipv6Prefix'' ipv6prefix_update d = told L st B_ipv6preFix ipv6prefix_update d"
    "read_str (dm_proxy Video_gateway L X1GatewayConfiguration st) ''GetDnsConfig'' ''DnsConfig'' dnsconfig_update d = told L st B_dnsConfig dnsconfig_update d"
    "read_str (dm_proxy Video_gateway L X1GatewayConfiguration st) ''GetGatewayIPv6'' ''GatewayIPv6'' gwyipv6_update d = told L st B_gwyIpv6 gwyipv6_update d"
    "read_str (dm_proxy Video_gateway L X1GatewayConfiguration st) ''GetGatewayIP'' ''GatewayIP'' gwyip_update d = told L st B_gwyIp gwyip_update d"
    "read_str (dm_proxy Video_gateway L X1GatewayConfiguration st) ''GetHostMacAddress'' ''HostMacAddress'' hostmacaddress_update d = told L st B_hostMacaddress hostmacaddress_update d"
    "read_str (dm_proxy Video_gateway L X1GatewayConfiguration st) ''GetHosts'' ''Hosts'' etchosts_update d = told L st B_etcHosts etchosts_update d"
  using assms by (simp_all add: proxy_says service_tables)

lemma qam_proxy:
  assumes "dm_rfc_enabled st"
  shows
    "read_str (dm_proxy Video_gateway L X1QamConfiguration st) ''GetBaseTrmUrl'' ''BaseTrmUrl'' basetrmurl_update d = told L st B_trmUrl basetrmurl_update d"
    "read_str (dm_proxy Video_gateway L X1QamConfiguration st) ''GetSystemIds'' ''SystemIds'' systemids_update d = told L st B_systemIds systemids_update d"
  using assms by (simp_all add: proxy_says service_tables)

lemma time_proxy:
  assumes "dm_rfc_enabled st"
  shows
    "read_str (dm_proxy Video_gateway L X1Time st) ''GetTimeZone'' ''TimeZone'' dsgtimezone_update d = told L st B_dsgtimeZone dsgtimezone_update d"
  using assms by (simp_all add: proxy_says service_tables)


lemma numbers_proxy:
  assumes "dm_rfc_enabled st"
  shows
    "read_int (dm_proxy Video_gateway L X1Time st) ''GetRawOffSet'' ''RawOffSet'' u d =
       u (\<lambda>_. dl_int L getRawOffSet (dm_lib st)) d"
    "read_int (dm_proxy Video_gateway L X1Time st) ''GetDSTSavings'' ''DSTSavings'' u d =
       u (\<lambda>_. dl_int L getDstSavings (dm_lib st)) d"
    "read_int (dm_proxy Video_gateway L X1Time st) ''GetDSTOffset'' ''DSTOffset'' u d =
       u (\<lambda>_. dl_int L getDstOffset (dm_lib st)) d"
    "read_bool (dm_proxy Video_gateway L X1Time st) ''GetUsesDaylightTime'' ''UsesDaylightTime'' v d =
       v (\<lambda>_. dl_bool L getUsesDayLightTime (dm_lib st)) d"
    "read_bool (dm_proxy Video_gateway L X1QamConfiguration st) ''GetRequiresTRM'' ''RequiresTRM'' v d =
       v (\<lambda>_. dl_bool L getRequiresTRM (dm_lib st)) d"
    "send_action (dm_proxy Video_gateway L X1GatewayConfiguration st) ''GetIsGateway'' args ''IsGateway'' =
       Some (G_BOOLEAN (dl_bool L getIsGateway (dm_lib st)))"
  using assms
  by (simp_all add: read_int_def read_bool_def processIntRequest_def processBooleanRequest_def proxy_action
      service_tables numbers_say)

lemma account_proxy:
  assumes "dm_rfc_enabled st"
  shows "send_action (dm_proxy build L X1Identity st) ''GetAccountId'' args ''GAccountId'' =
    Some (G_STRING (dm_buf st B_accountId))"
  using assms
  by (simp add: proxy_action service_tables account_says [where L = L] dm_said_def dm_reading_def dm_source_def)

lemma playback_proxy:
  assumes "dm_rfc_enabled st"
  shows "read_str (dm_proxy Video_gateway L X1MediaConfiguration st) ''GetPlaybackUrl'' ''PlaybackUrl'' playbackurl_update d =
    (if dl_bool L getTuneReady (dm_lib st) then told L st B_playBackUrl playbackurl_update d
     else d\<lparr>playbackurl := ''NULL''\<rparr>)"
proof (cases "dl_bool L getTuneReady (dm_lib st)")
  case True
  then show ?thesis using assms
    by (simp add: proxy_says service_tables playback_says)
next
  case False
  then show ?thesis using assms
    by (simp add: read_str_def processStringRequest_def proxy_action service_tables playback_says)
qed

lemma subnet_proxy:
  assumes "dm_rfc_enabled st"
  shows "processStringRequest (dm_proxy Video_gateway L X1GatewayConfiguration st) ''GetIPSubNet'' ''IPSubNet'' =
    (case dm_reading L st B_ipsubnet of Inr v \<Rightarrow> Some v | Inl e \<Rightarrow> None)"
  using assms
  by (simp add: processStringRequest_def proxy_action service_tables said_output split: sum.split)

text \<open>\<open>GetDeviceName\<close> and \<open>GetBcastMacAddress\<close> are asked of a service that does not offer them.\<close>

lemma gateway_silent:
  "read_str (dm_proxy Video_gateway L X1GatewayConfiguration st) ''GetDeviceName'' n u d = d"
  "read_str (dm_proxy Video_gateway L X1GatewayConfiguration st) ''GetBcastMacAddress'' n u d = d"
  by (simp_all add: proxy_silent service_tables)

subsection \<open>The device record\<close>

text \<open>The fields in the order they are read, each with the buffer it is read from.\<close>

definition told_identity :: "'s dev_lib \<Rightarrow> 's dm_state \<Rightarrow> GwyDeviceData \<Rightarrow> GwyDeviceData" where
  "told_identity L st d =
     (let t = told L st; d = d\<lparr>accountid := dm_buf st B_accountId\<rparr>;
          d = t B_recvdevType recvdevtype_update d; d = t B_buildVersion buildversion_update d;
          d = t B_deviceName devicename_update d; d = t B_deviceType devicetype_update d;
          d = t B_modelclass modelclass_update d; d = t B_modelNumber modelnumber_update d;
          d = t B_deviceid deviceid_update d; d = t B_hardwarerevision hardwarerevision_update d;
          d = t B_softwarerevision softwarerevision_update d; d = t B_managementurl managementurl_update d;
          d = t B_Make make_str_update d; d = t B_receiverId receiverid_update d;
          d = t B_clientIp clientip_update d
      in t B_bcastMacaddress bcastmacaddress_update d)"

definition told_time :: "'s dev_lib \<Rightarrow> 's dm_state \<Rightarrow> GwyDeviceData \<Rightarrow> GwyDeviceData" where
  "told_time L st d = (told L st B_dsgtimeZone dsgtimezone_update d)
     \<lparr>rawoffset := dl_int L getRawOffSet (dm_lib st), dstsavings := dl_int L getDstSavings (dm_lib st),
      usesdaylighttime := dl_bool L getUsesDayLightTime (dm_lib st), dstoffset := dl_int L getDstOffset (dm_lib st)\<rparr>"

definition told_gateway :: "'s dev_lib \<Rightarrow> 's dm_state \<Rightarrow> GwyDeviceData \<Rightarrow> GwyDeviceData" where
  "told_gateway L st d =
     (let t = told L st;
          d = t B_dataGatewayIPAddress dataGatewayIPaddress_update d; d = t B_gwystbIp gatewaystbip_update d;
          d = t B_ipv6preFix ipv6prefix_update d; d = t B_dnsConfig dnsconfig_update d;
          d = t B_gwyIpv6 gwyipv6_update d; d = t B_gwyIp gwyip_update d;
          d = t B_hostMacaddress hostmacaddress_update d; d = t B_etcHosts etchosts_update d
      in d\<lparr>isgateway := dl_bool L getIsGateway (dm_lib st)\<rparr>)"

definition told_qam :: "'s dev_lib \<Rightarrow> 's dm_state \<Rightarrow> GwyDeviceData \<Rightarrow> GwyDeviceData" where
  "told_qam L st d = (told L st B_systemIds systemids_update (told L st B_trmUrl basetrmurl_update d))
     \<lparr>requirestrm := dl_bool L getRequiresTRM (dm_lib st)\<rparr>"

lemma told_identity_read:
  "dm_rfc_enabled st \<Longrightarrow>
     process_gw_services_identity own ip (dm_proxy build L X1Identity st) d = told_identity L st d"
  by (simp add: process_gw_services_identity_def told_identity_def account_proxy identity_proxy Let_def)

lemma told_time_read:
  "dm_rfc_enabled st \<Longrightarrow>
     process_gw_services_time_config (dm_proxy Video_gateway L X1Time st) d = told_time L st d"
  by (simp add: process_gw_services_time_config_def told_time_def time_proxy numbers_proxy Let_def)

lemma told_gateway_read:
  "dm_rfc_enabled st \<Longrightarrow>
     process_gw_services_gateway_config (dm_proxy Video_gateway L X1GatewayConfiguration st) d dst =
       (True, case dm_reading L st B_ipsubnet of
          Inr net \<Rightarrow> ((told_gateway L st d)\<lparr>ipSubNet := net\<rparr>, if net \<noteq> [] then addRouteToMocaBridge net dst else dst)
        | Inl e \<Rightarrow> (told_gateway L st d, dst))"
  by (simp add: process_gw_services_gateway_config_def gateway_config_read_def told_gateway_def gateway_proxy
      gateway_silent numbers_proxy subnet_proxy Let_def split: sum.split)

lemma told_qam_read:
  "dm_rfc_enabled st \<Longrightarrow>
     process_gw_services_qam_config E (dm_proxy Video_gateway L X1QamConfiguration st) d dst =
       localise E (told_qam L st d) dst"
  by (simp add: process_gw_services_qam_config_def told_qam_def qam_proxy numbers_proxy Let_def)

end
