(* ===== verification/Lib_Base.thy ===== *)
theory Lib_Base
  imports Xcal_Start Dev_Contract
begin

text \<open>
  What the device libraries of \<open>src/video/lib\<close> and \<open>src/broadband/lib\<close> share: their configuration,
  their variables, what the world answers them, and the ways their functions fill a buffer of the
  caller. Many of their variables are those of \<open>src/xcal-device.c\<close>, from which the libraries were
  made, and so is the state record, in a field of the library's own.
\<close>

subsection \<open>Configuration, variables, environment\<close>

record lib_conf =
  lc :: xd_conf
  lc_devCertFile :: "string option"
  lc_devCertPath :: "string option"
  lc_devKeyFile :: "string option"
  lc_devKeyPath :: "string option"

text \<open>
  The variables; of those shared with \<open>src/xcal-device.c\<close>, the calls of the event callback are the
  notifications of \<open>x_sent\<close>.
\<close>

record lib_state =
  lx :: xd_state
  l_modelnumber :: string
  l_make :: string

text \<open>
  What the world answers while the service runs: files, sockets and hardware addresses, the route
  manager (whether the call succeeded, then its status and address), the manufacturer library, the
  account of the remote settings, if they have one, and the rounds of \<open>getID\<close>.
\<close>

record lib_env =
  le_names :: iarm_names
  le_client :: bool
  le_conf :: lib_conf
  le_v6 :: bool
  le_files :: files
  le_socket :: bool
  le_hwaddr :: "string \<Rightarrow> 8 word list option"
  le_junk_mac :: "8 word list"
  le_route :: "(bool \<times> string) option"
  le_mfr :: "string option"
  le_account :: "string option"
  le_id_rounds :: "id_round list"

abbreviation le_C :: "lib_env \<Rightarrow> xd_conf" where
  "le_C E \<equiv> lc (le_conf E)"

type_synonym 's filled = "((bool \<times> string) \<times> 's) outcome"
type_synonym lib_reply = "lib_state filled"

text \<open>A function on the shared variables, on the variables of the library.\<close>

definition on_shared :: "(xd_state \<Rightarrow> bool \<times> xd_state) \<Rightarrow> lib_state \<Rightarrow> bool \<times> lib_state" where
  "on_shared f st = (case f (lx st) of (r, x) \<Rightarrow> (r, st\<lparr>lx := x\<rparr>))"

subsection \<open>Filling a buffer\<close>

definition MAX_OUTVALUE :: nat where "MAX_OUTVALUE = 256"
definition MAX_FILE_LENGTH :: nat where "MAX_FILE_LENGTH = 250"

text \<open>
  \<open>strcpy_s\<close> with a destination of \<open>dmax\<close> bytes: a source that does not fit is refused, and leaves
  the empty string.
\<close>

definition fill_s :: "nat \<Rightarrow> string \<Rightarrow> 's \<Rightarrow> 's filled" where
  "fill_s dmax src st = Inr (if length src < dmax then (True, src) else (False, []), st)"

definition fill_nothing :: "string \<Rightarrow> 's \<Rightarrow> 's filled" where
  "fill_nothing old st = Inr ((False, old), st)"

text \<open>The value of a variable, unless it is empty.\<close>

definition fill_nonempty :: "nat \<Rightarrow> string \<Rightarrow> string \<Rightarrow> 's \<Rightarrow> 's filled" where
  "fill_nonempty dmax src old st = (if src \<noteq> [] then fill_s dmax src st else fill_nothing old st)"

text \<open>\<open>sprintf\<close> into a buffer of \<open>MAXSIZE\<close> bytes.\<close>

definition fill_printf :: "string \<Rightarrow> 's \<Rightarrow> 's filled" where
  "fill_printf src st = (if length src < MAXSIZE then Inr ((True, src), st) else Inl Out_of_bounds)"

text \<open>
  \<open>strncpy\<close> of \<open>n\<close> bytes: no end is written when the source has \<open>n\<close> characters or more, so what the
  buffer held from there on follows. A name that is null is refused, as is one that is empty.
\<close>

definition fill_n :: "nat \<Rightarrow> string option \<Rightarrow> string \<Rightarrow> 's \<Rightarrow> 's filled" where
  "fill_n n src old st =
     (case src of
        None \<Rightarrow> fill_nothing old st
      | Some s \<Rightarrow>
          if s = [] then fill_nothing old st
          else Inr ((True, if length s < n then s else take n s @ drop n old), st))"

lemmas fill_defs = fill_s_def fill_nothing_def fill_nonempty_def fill_printf_def fill_n_def

text \<open>Every way of filling keeps to the size of the buffer.\<close>

lemma fill_size:
  "fill_s n src st = Inr ((ok, v), st') \<Longrightarrow> 0 < n \<Longrightarrow> length v < n"
  "fill_nothing old st = Inr ((ok, v), st') \<Longrightarrow> length old < n \<Longrightarrow> length v < n"
  "fill_nonempty n src old st = Inr ((ok, v), st') \<Longrightarrow> length old < n \<Longrightarrow> length v < n"
  "fill_printf src st = Inr ((ok, v), st') \<Longrightarrow> length v < MAXSIZE"
  "fill_n n s old st = Inr ((ok, v), st') \<Longrightarrow> length old < m \<Longrightarrow> n < m \<Longrightarrow> length v < m"
  by (auto simp: fill_defs split: if_splits option.splits)

text \<open>A string that the code prints although it may be null.\<close>

definition printed :: "string option \<Rightarrow> string" where
  "printed s = (case s of Some x \<Rightarrow> x | None \<Rightarrow> ''(null)'')"

end
