(* ===== verification/Video_Lib.thy ===== *)
theory Video_Lib
  imports Lib_Base
begin

text \<open>
  The device library \<open>src/video/lib/src/xcal_device_library.c\<close>: the bus events it handles, the values
  it reads, and the functions by which \<open>src/xcal-device-main.c\<close> gets them; the record \<open>video_library\<close>
  puts them in the place of the library, and keeps the contract \<open>device_library\<close>. The list of user
  interfaces of a second device is left out.
\<close>

subsection \<open>Bus events\<close>

text \<open>\<open>(*eventCallback)\<close>, which is registered before the library starts.\<close>

definition vl_event :: "string \<Rightarrow> string \<Rightarrow> xd_state \<Rightarrow> xd_state" where
  "vl_event name v st = xd_emit (Notify name (G_STRING v)) st"

definition vl_notify_timezone :: "xd_state \<Rightarrow> xd_state" where
  "vl_notify_timezone st =
     (let st = st\<lparr>x_dsgtimezone := g_strstrip (x_dsgtimezone st)\<rparr>;
          st = (if g_strcmp0 (Some (x_dsgtimezone st)) (Some ''US/Mountain'') = 0 \<and> x_dstOffset st = 0
                then st\<lparr>x_dsgtimezone := ''US/Arizona''\<rparr>
                else if g_strcmp0 (Some (x_dsgtimezone st)) (Some ''US/Central'') = 0 \<and> x_dstOffset st = 0
                then st\<lparr>x_dsgtimezone := ''Canada/Saskatchewan''\<rparr> else st)
      in vl_event ''TimeZone'' (x_dsgtimezone st) st)"

definition vl_mapTimeZoneToJavaFormat :: "string \<Rightarrow> xd_state \<Rightarrow> xd_state" where
  "vl_mapTimeZoneToJavaFormat payload st =
     (case find_tzStruct payload of
        None \<Rightarrow> st
      | Some t \<Rightarrow>
          (let st = st\<lparr>x_dsgtimezone := javaTZ t\<rparr>;
               st = (if x_dstOffset st \<noteq> 1 then vl_notify_timezone st else st)
           in st\<lparr>x_rawOffset := tz_rawOffset t, x_usesDaylightTime := usesDST t\<rparr>))"

text \<open>The time zone is compared with a null pointer, so it is always announced.\<close>

definition vl_tell_timezone :: "xd_state \<Rightarrow> xd_state" where
  "vl_tell_timezone st =
     (let st = st\<lparr>x_dsgtimezone := g_strstrip (x_dsgtimezone st)\<rparr> in
      if g_strcmp0 (Some (x_dsgtimezone st)) None \<noteq> 0 then vl_notify_timezone st else st)"

definition vl_publish_ids :: "xd_conf \<Rightarrow> files \<Rightarrow> xd_state \<Rightarrow> xd_state" where
  "vl_publish_ids C files st =
     (let st = snd (updatesystemids C files st) in vl_event ''SystemIds'' (x_systemids st) st)"

definition vl_publish_urls :: "xd_conf \<Rightarrow> files \<Rightarrow> xd_state \<Rightarrow> xd_state" where
  "vl_publish_urls C files st =
     (let st = (if \<not> dc_useGliDiag C then vl_publish_ids C files st else st)
      in vl_event ''PlaybackUrl'' (x_playbackurl st) st)"

definition vl_id_event ::
  "xd_conf \<Rightarrow> files \<Rightarrow> ((64 word \<Rightarrow> 64 word) \<Rightarrow> xd_state \<Rightarrow> xd_state) \<Rightarrow> sys_event \<Rightarrow> xd_state \<Rightarrow> xd_state" where
  "vl_id_event C files assign e st =
     (if ev_error e then assign (\<lambda>_. 0) st
      else if ev_state e = 2 then
        (if length (ev_payload e) > 0 \<and> is_num (ev_payload e)
         then vl_publish_ids C files (assign (\<lambda>_. strtoul (ev_payload e)) st) else st)
      else st)"

definition vl_tune_event :: "xd_conf \<Rightarrow> files \<Rightarrow> int \<Rightarrow> xd_state \<Rightarrow> xd_state" where
  "vl_tune_event C files state st =
     (if x_tune_ready st \<noteq> state then
        (let st = st\<lparr>x_tune_ready := state\<rparr> in
         if dc_rmfCrshSupp C \<and> x_tune_ready st \<noteq> 1 then st else vl_publish_urls C files st)
      else st)"

definition vl_sysEventHandler ::
  "iarm_names \<Rightarrow> xd_conf \<Rightarrow> files \<Rightarrow> string \<Rightarrow> int \<Rightarrow> sys_event \<Rightarrow> xd_state \<Rightarrow> xd_state" where
  "vl_sysEventHandler I C files owner eventId e st =
     (if eventId \<noteq> SYSMGR_EVENT_SYSTEMSTATE I \<or> strcmp (SYSMGR_NAME I) owner \<noteq> 0 then st
      else (case ev_stateId e of
        SYSSTATE_TUNEREADY \<Rightarrow> vl_tune_event C files (ev_state e) st
      | SYSSTATE_STB_SERIAL_NO \<Rightarrow> st\<lparr>x_serial_num := ev_payload e\<rparr>
      | SYSSTATE_CHANNELMAP \<Rightarrow> vl_id_event C files x_channelmap_id_update e st
      | SYSSTATE_DAC_ID \<Rightarrow> vl_id_event C files x_dac_id_update e st
      | SYSSTATE_PLANT_ID \<Rightarrow> vl_id_event C files x_plant_id_update e st
      | SYSSTATE_VOD_AD \<Rightarrow> vl_id_event C files x_vodserver_id_update e st
      | SYSSTATE_TIME_ZONE \<Rightarrow>
          (if ev_error e then st
           else if ev_state e = 2 \<and> length (ev_payload e) > 1 then vl_mapTimeZoneToJavaFormat (ev_payload e) st
           else st)
      | SYSSTATE_DST_OFFSET \<Rightarrow>
          (if ev_error e then st
           else if ev_state e = 2 then vl_tell_timezone (set_dst_offset (ev_payload e) st)
           else st)
      | SYSSTATE_OTHER \<Rightarrow> st))"

definition vl_routesysEventHandler :: "string \<Rightarrow> int \<Rightarrow> string \<Rightarrow> xd_state \<Rightarrow> xd_state" where
  "vl_routesysEventHandler owner eventId routeIp st =
     (if strcmp IARM_BUS_NM_SRV_MGR_NAME owner = 0 \<and> eventId = EVENT_ROUTE_DATA then
        (let routeIp = g_strstrip routeIp in
         if g_strcmp0 (Some routeIp) (Some (x_dataGatewayIPaddress st)) \<noteq> 0 then
           vl_event ''DataGatewayIPaddress'' routeIp (st\<lparr>x_dataGatewayIPaddress := routeIp\<rparr>)
         else st)
      else st)"

fun vl_handle :: "iarm_names \<Rightarrow> xd_conf \<Rightarrow> files \<Rightarrow> xd_event \<Rightarrow> xd_state \<Rightarrow> xd_state" where
  "vl_handle I C files (Sys_event owner eventId e) st = vl_sysEventHandler I C files owner eventId e st"
| "vl_handle I C files (Route_event owner eventId ip) st = vl_routesysEventHandler owner eventId ip st"
| "vl_handle I C files (Mode_change m) st = SysModeChange m st"

definition vl_run :: "iarm_names \<Rightarrow> xd_conf \<Rightarrow> batch \<Rightarrow> xd_state \<Rightarrow> xd_state" where
  "vl_run I C es st = foldl (\<lambda>st (files, e). vl_handle I C files e st) st es"

text \<open>The answer of the route manager, when the call succeeds; and the system values at the start.\<close>

definition vl_getRouteData :: "(bool \<times> string) option \<Rightarrow> xd_state \<Rightarrow> bool \<times> xd_state" where
  "vl_getRouteData param st =
     (case param of
        None \<Rightarrow> (False, st)
      | Some (status, routeIp) \<Rightarrow>
          if status then (True, st\<lparr>x_dataGatewayIPaddress := routeIp\<rparr>) else (False, st))"

definition vl_take_dst_offset :: "int \<times> string \<Rightarrow> xd_state \<Rightarrow> xd_state" where
  "vl_take_dst_offset p st =
     (if fst p = 2 then
        (let st = (if length (snd p) > 0 then st\<lparr>x_dstOffset := atoi (snd p)\<rparr> else st);
             st = st\<lparr>x_dstSavings := x_dstOffset st * 60000\<rparr>
         in vl_tell_timezone st)
      else st)"

definition vl_getSystemValues :: "system_states \<Rightarrow> xd_state \<Rightarrow> xd_state" where
  "vl_getSystemValues param st =
     (let st = take_id x_channelmap_id_update (ss_channel_map param) st;
          st = take_id x_dac_id_update (ss_dac_id param) st;
          st = take_id x_plant_id_update (ss_plant_id param) st;
          st = take_id x_vodserver_id_update (ss_vod_ad param) st;
          st = (if fst (ss_time_zone param) = 2 \<and> length (snd (ss_time_zone param)) > 0
                then vl_mapTimeZoneToJavaFormat (snd (ss_time_zone param)) st else st);
          st = vl_take_dst_offset (ss_dst_offset param) st;
          st = (if x_tune_ready st \<noteq> ss_TuneReadyStatus param
                then (let st = st\<lparr>x_tune_ready := ss_TuneReadyStatus param\<rparr>
                      in vl_event ''PlaybackUrl'' (x_playbackurl st) st)
                else st)
      in case ss_stb_serial_no param of Some s \<Rightarrow> st\<lparr>x_serial_num := s\<rparr> | None \<Rightarrow> st)"

subsection \<open>Values from files, scripts and interfaces\<close>

text \<open>
  \<open>getID\<close>, by the rounds of \<open>src/xcal-device.c\<close>, where the sleep between two rounds lets the events
  of this library in.
\<close>

fun vl_getID_loop ::
  "iarm_names \<Rightarrow> xd_conf \<Rightarrow> string \<Rightarrow> id_round list \<Rightarrow> nat \<Rightarrow> string \<Rightarrow> xd_state \<Rightarrow> (string \<times> xd_state) start" where
  "vl_getID_loop I C ident [] counter v st = Waiting"
| "vl_getID_loop I C ident (r # rs) counter v st =
     (if dc_wareHouseMode C \<or> x_sysModeParam st = SYS_MODE_WAREHOUSE I then Going (ir_mac r, st)
      else
        (case ir_response r of
           None \<Rightarrow> vl_getID_loop I C ident rs counter v (vl_run I C (ir_events r) st)
         | Some resp \<Rightarrow>
             (let response = take 1023 resp in
              if response = [] \<and> counter < MAX_DEBUG_MESSAGE
              then vl_getID_loop I C ident rs (Suc counter) v (vl_run I C (ir_events r) st)
              else
                (case id_tokens ident (g_strsplit_set response [CHR ''{'', CHR ''}'', CHR '':'', CHR '','', CHR 0x22]) v of
                   (found, v) \<Rightarrow>
                     if found then Going (v, st)
                     else if g_strrstr ident PARTNER_ID then Going (v, st)
                     else vl_getID_loop I C ident rs
                            (if counter < MAX_DEBUG_MESSAGE then Suc counter else counter) v
                            (vl_run I C (ir_events r) st)))))"

definition vl_getID :: "iarm_names \<Rightarrow> xd_conf \<Rightarrow> string \<Rightarrow> id_round list \<Rightarrow> xd_state \<Rightarrow> (string \<times> xd_state) start" where
  "vl_getID I C ident rounds st = vl_getID_loop I C ident rounds 0 [] st"

text \<open>
  \<open>readDevFile\<close>: seven keys, of which the first three exclude each other; a key that is followed by a
  token sets a variable and counts, and the seventh ends the loop.
\<close>

definition vl_hits :: "string \<Rightarrow> ((string \<Rightarrow> string) \<Rightarrow> lib_state \<Rightarrow> lib_state) list" where
  "vl_hits t =
     (let shared = (\<lambda>f v st. st\<lparr>lx := f v (lx st)\<rparr>) in
      (if g_strrstr t ''DEVICE_TYPE'' then [shared x_recvdevtype_update]
       else if g_strrstr t ''BUILD_VERSION'' then [shared x_buildversion_update]
       else if g_strrstr t ''BOX_TYPE'' then [shared x_devicetype_update] else []) @
      (if g_strrstr t ''MOCA_INTERFACE'' then [shared x_mocaIface_update] else []) @
      (if g_strrstr t ''WIFI_INTERFACE'' then [shared x_wifiIface_update] else []) @
      (if g_strrstr t ''MODEL_NUM'' then [l_modelnumber_update] else []) @
      (if g_strrstr t ''MFG_NAME'' then [l_make_update] else []))"

fun vl_found ::
  "((string \<Rightarrow> string) \<Rightarrow> lib_state \<Rightarrow> lib_state) list \<Rightarrow> string list \<Rightarrow> nat \<Rightarrow> lib_state \<Rightarrow> nat \<times> lib_state \<times> bool" where
  "vl_found [] ts counter st = (counter, st, False)"
| "vl_found (assign # hits) ts counter st =
     (case (case ts of [] \<Rightarrow> (counter, st) | u # _ \<Rightarrow> (Suc counter, assign (\<lambda>_. g_strstrip u) st)) of
        (counter, st) \<Rightarrow> if counter = 7 then (counter, st, True) else vl_found hits ts counter st)"

fun vl_dev_loop :: "string list \<Rightarrow> nat \<Rightarrow> lib_state \<Rightarrow> bool \<times> lib_state" where
  "vl_dev_loop [] counter st = (False, st)"
| "vl_dev_loop (t # ts) counter st =
     (case vl_found (vl_hits (g_strstrip t)) ts counter st of
        (counter, st, full) \<Rightarrow> if full then (True, st) else vl_dev_loop ts counter st)"

definition vl_readDevFile :: "files \<Rightarrow> string option \<Rightarrow> lib_state \<Rightarrow> bool \<times> lib_state" where
  "vl_readDevFile files deviceFile st =
     (case deviceFile of
        None \<Rightarrow> (False, st)
      | Some f \<Rightarrow>
          (case files f of
             None \<Rightarrow> (False, st)
           | Some contents \<Rightarrow>
               vl_dev_loop (g_strsplit_set contents [CHR '','', CHR ''='', CHR 0x27, CHR 0x0A]) 0 st))"

text \<open>
  \<open>g_strescape\<close> with the exceptions backspace and newline: quotes and backslashes get a backslash,
  the other control characters their letter, and what is not printable ASCII three octal digits.
\<close>

definition octal :: "nat \<Rightarrow> char" where
  "octal n = char_of (48 + n mod 8)"

definition g_strescape1 :: "char \<Rightarrow> string" where
  "g_strescape1 c =
     (if c \<in> {CHR 0x08, CHR 0x0A} then [c]
      else if c = CHR 0x0C then [CHR 0x5C, CHR ''f'']
      else if c = CHR 0x0D then [CHR 0x5C, CHR ''r'']
      else if c = CHR 0x09 then [CHR 0x5C, CHR ''t'']
      else if c = CHR 0x0B then [CHR 0x5C, CHR ''v'']
      else if c = CHR 0x5C \<or> c = CHR 0x22 then [CHR 0x5C, c]
      else if code c < 32 \<or> code c \<ge> 127
      then [CHR 0x5C, octal (code c div 64), octal (code c div 8), octal (code c)]
      else [c])"

definition g_strescape :: "string \<Rightarrow> string" where
  "g_strescape s = concat (map g_strescape1 s)"

text \<open>
  \<open>parsedevicename\<close> is \<open>getdevicename\<close> of \<open>src/xcal-device.c\<close>, and escapes a name it found that holds a
  quote or a backslash.
\<close>

definition vl_parsedevicename :: "lib_env \<Rightarrow> lib_state \<Rightarrow> bool \<times> lib_state" where
  "vl_parsedevicename E st =
     (case dc_deviceNameFile (le_C E) of
        None \<Rightarrow> (False, st)
      | Some f \<Rightarrow>
          (case le_files E f of
             None \<Rightarrow> (False, st)
           | Some contents \<Rightarrow>
               (case tokens_after ''deviceName'' (g_strsplit_set contents [CHR 0x27, CHR ''='', CHR 0x0A]) of
                  None \<Rightarrow> (True, st)
                | Some ts \<Rightarrow>
                    (let name = (case ts of [] \<Rightarrow> ''(null)'' | u # _ \<Rightarrow> g_strstrip u);
                         name = (if CHR 0x22 \<in> set name \<or> CHR 0x5C \<in> set name then g_strescape name else name)
                     in (True, st\<lparr>lx := (lx st)\<lparr>x_devicename := name\<rparr>\<rparr>)))))"

text \<open>The readers that are copies of those of \<open>src/xcal-device.c\<close>.\<close>

definition vl_updatesystemids :: "lib_env \<Rightarrow> lib_state \<Rightarrow> bool \<times> lib_state" where
  "vl_updatesystemids E = on_shared (updatesystemids (le_C E) (le_files E))"

definition vl_parsednsconfig :: "lib_env \<Rightarrow> lib_state \<Rightarrow> bool \<times> lib_state" where
  "vl_parsednsconfig E = on_shared (getdnsconfig (le_C E) (le_files E))"

definition vl_getetchosts :: "lib_env \<Rightarrow> lib_state \<Rightarrow> bool \<times> lib_state" where
  "vl_getetchosts E = on_shared (getetchosts (le_v6 E) (le_files E))"

definition vl_parseserialnum :: "lib_env \<Rightarrow> lib_state \<Rightarrow> bool \<times> lib_state" where
  "vl_parseserialnum E = on_shared (xd_getserialnum (le_client E) (le_files E) (le_mfr E))"

definition vl_parseipv6prefix :: "lib_env \<Rightarrow> lib_state \<Rightarrow> (bool \<times> lib_state) outcome" where
  "vl_parseipv6prefix E st =
     bind_outcome (getipv6prefix (le_C E) (le_files E) (lx st)) (\<lambda>(r, x). Inr (r, st\<lparr>lx := x\<rparr>))"

text \<open>
  \<open>getmacaddress\<close>: zeros without a socket; \<open>strcpy_s\<close> leaves an empty name when the name is too long,
  and the bytes are those of \<open>ioctl\<close> or whatever was there.
\<close>

definition vl_getmacaddress :: "lib_env \<Rightarrow> string \<Rightarrow> string" where
  "vl_getmacaddress E ifname =
     (if \<not> le_socket E then ''00:00:00:00:00:00''
      else getmacaddress True (le_hwaddr E (if length ifname < 15 then ifname else [])) (le_junk_mac E))"

subsection \<open>The functions of the library\<close>

text \<open>The base URL is put together anew at every call.\<close>

definition vl_getBaseUrl :: "string \<Rightarrow> lib_state \<Rightarrow> lib_reply" where
  "vl_getBaseUrl old st =
     (let x = lx st in
      if x_gwyip x \<noteq> [] \<and> x_recv_id x \<noteq> [] then
        (let x = x\<lparr>x_url := ''http://'' @ x_gwyip x @ '':8080/videoStreamInit?recorderId='' @ x_recv_id x\<rparr>
         in fill_s MAX_OUTVALUE (x_url x) (st\<lparr>lx := x\<rparr>))
      else fill_nothing old st)"

definition vl_getPlaybackUrl :: "string \<Rightarrow> lib_state \<Rightarrow> lib_reply" where
  "vl_getPlaybackUrl old st = fill_nonempty URLSIZE (x_playbackurl (lx st)) old st"

text \<open>The prefix is given when it can be read, and also when it is empty.\<close>

definition vl_getIpv6Prefix :: "lib_env \<Rightarrow> string \<Rightarrow> lib_state \<Rightarrow> lib_reply" where
  "vl_getIpv6Prefix E old st =
     bind_outcome (vl_parseipv6prefix E st) (\<lambda>(ok, st).
       if ok \<or> x_ipv6prefix (lx st) = [] then fill_s MAX_OUTVALUE (x_ipv6prefix (lx st)) st
       else fill_nothing old st)"

definition vl_getIpSubnet :: "string \<Rightarrow> lib_state \<Rightarrow> lib_reply" where
  "vl_getIpSubnet old st = fill_s MAX_OUTVALUE [] st"

definition vl_getDeviceName :: "lib_env \<Rightarrow> string \<Rightarrow> lib_state \<Rightarrow> lib_reply" where
  "vl_getDeviceName E old st =
     (case vl_parsedevicename E st of (ok, st) \<Rightarrow>
        if ok then fill_s MAX_OUTVALUE (x_devicename (lx st)) st else fill_nothing old st)"

definition vl_getDeviceType :: "string \<Rightarrow> lib_state \<Rightarrow> lib_reply" where
  "vl_getDeviceType old st = fill_nonempty MAX_OUTVALUE (x_devicetype (lx st)) old st"

definition vl_getBcastMacAddress :: "lib_env \<Rightarrow> string \<Rightarrow> lib_state \<Rightarrow> lib_reply" where
  "vl_getBcastMacAddress E old st =
     (case dc_bcastIf (le_C E) of
        None \<Rightarrow> fill_nothing old st
      | Some i \<Rightarrow>
          (let x = (lx st)\<lparr>x_bcastmacaddress := vl_getmacaddress E i\<rparr>
           in fill_s MAX_OUTVALUE (x_bcastmacaddress x) (st\<lparr>lx := x\<rparr>)))"

definition vl_getGatewayStbIp :: "lib_env \<Rightarrow> string \<Rightarrow> lib_state \<Rightarrow> lib_reply" where
  "vl_getGatewayStbIp E old st =
     (if le_client E then fill_nothing old st else fill_nonempty MAX_OUTVALUE (x_gwystbip (lx st)) old st)"

definition vl_getGatewayIpv6 :: "lib_env \<Rightarrow> string \<Rightarrow> lib_state \<Rightarrow> lib_reply" where
  "vl_getGatewayIpv6 E old st =
     (if le_client E then fill_nothing old st else fill_nonempty MAX_OUTVALUE (x_gwyipv6 (lx st)) old st)"

definition vl_getGatewayIp :: "string \<Rightarrow> lib_state \<Rightarrow> lib_reply" where
  "vl_getGatewayIp old st = fill_nonempty MAX_OUTVALUE (x_gwyip (lx st)) old st"

definition vl_getRecvDevType :: "string \<Rightarrow> lib_state \<Rightarrow> lib_reply" where
  "vl_getRecvDevType old st = fill_nonempty MAX_OUTVALUE (x_recvdevtype (lx st)) old st"

definition vl_getBuildVersion :: "string \<Rightarrow> lib_state \<Rightarrow> lib_reply" where
  "vl_getBuildVersion old st = fill_nonempty MAX_OUTVALUE (x_buildversion (lx st)) old st"

definition vl_getHostMacAddress :: "lib_env \<Rightarrow> string \<Rightarrow> lib_state \<Rightarrow> lib_reply" where
  "vl_getHostMacAddress E old st =
     (if le_client E then fill_nothing old st
      else (case dc_hostMacIf (le_C E) of
              None \<Rightarrow> fill_nothing old st
            | Some i \<Rightarrow>
                (let x = (lx st)\<lparr>x_hostmacaddress := vl_getmacaddress E i\<rparr>
                 in fill_s MAX_OUTVALUE (x_hostmacaddress x) (st\<lparr>lx := x\<rparr>))))"

definition vl_getDnsConfig :: "lib_env \<Rightarrow> string \<Rightarrow> lib_state \<Rightarrow> lib_reply" where
  "vl_getDnsConfig E old st =
     (case vl_parsednsconfig E st of (ok, st) \<Rightarrow>
        if ok then fill_s MAX_OUTVALUE (x_dnsconfig (lx st)) st else fill_nothing old st)"

text \<open>The identifiers are refreshed, unless they are empty.\<close>

definition vl_getSystemsIds :: "lib_env \<Rightarrow> string \<Rightarrow> lib_state \<Rightarrow> lib_reply" where
  "vl_getSystemsIds E old st =
     (if x_systemids (lx st) \<noteq> [] then
        (case vl_updatesystemids E st of (ok, st) \<Rightarrow>
           if ok then fill_s MAX_OUTVALUE (x_systemids (lx st)) st else fill_nothing old st)
      else fill_nothing old st)"

definition vl_getTimeZone :: "string \<Rightarrow> lib_state \<Rightarrow> lib_reply" where
  "vl_getTimeZone old st = fill_nonempty MAX_OUTVALUE (x_dsgtimezone (lx st)) old st"

definition vl_getHosts :: "lib_env \<Rightarrow> string \<Rightarrow> lib_state \<Rightarrow> lib_reply" where
  "vl_getHosts E old st =
     (case vl_getetchosts E st of (ok, st) \<Rightarrow>
        if ok then fill_s RUIURLSIZE (x_etchosts (lx st)) st else fill_nothing old st)"

definition vl_getBcastIp :: "string \<Rightarrow> lib_state \<Rightarrow> lib_reply" where
  "vl_getBcastIp old st = fill_nonempty MAX_OUTVALUE (x_gwyip (lx st)) old st"

definition vl_getBcastIf :: "lib_env \<Rightarrow> string \<Rightarrow> lib_state \<Rightarrow> lib_reply" where
  "vl_getBcastIf E old st =
     (case dc_bcastIf (le_C E) of None \<Rightarrow> fill_nothing old st | Some i \<Rightarrow> fill_s MAX_OUTVALUE i st)"

definition vl_getSerialNum :: "lib_env \<Rightarrow> string \<Rightarrow> lib_state \<Rightarrow> lib_reply" where
  "vl_getSerialNum E old st =
     (case vl_parseserialnum E st of (ok, st) \<Rightarrow>
        if ok then fill_s MAX_OUTVALUE (x_serial_num (lx st)) st else fill_nothing old st)"

definition vl_getUUID :: "string \<Rightarrow> lib_state \<Rightarrow> lib_reply" where
  "vl_getUUID old st =
     (if x_recv_id (lx st) \<noteq> [] then fill_printf (''uuid:'' @ x_recv_id (lx st)) st else fill_nothing old st)"

text \<open>The receiver id is asked for again, which may wait for ever.\<close>

definition vl_getReceiverId :: "lib_env \<Rightarrow> string \<Rightarrow> lib_state \<Rightarrow> lib_reply" where
  "vl_getReceiverId E old st =
     (case vl_getID (le_names E) (le_C E) RECEIVER_ID (le_id_rounds E) (lx st) of
        Going (v, x) \<Rightarrow> fill_nonempty MAX_OUTVALUE v old (st\<lparr>lx := x\<lparr>x_recv_id := v\<rparr>\<rparr>)
      | _ \<Rightarrow> Inl Non_termination)"

definition vl_getTrmUrl :: "string \<Rightarrow> lib_state \<Rightarrow> lib_reply" where
  "vl_getTrmUrl old st = fill_nonempty MAX_OUTVALUE (x_trmurl (lx st)) old st"

text \<open>Settings of the second device, which are read without asking whether they are there.\<close>

definition vl_getCVPIf :: "lib_env \<Rightarrow> string \<Rightarrow> lib_state \<Rightarrow> lib_reply" where
  "vl_getCVPIf E old st =
     (case dc_cvpIf (le_C E) of None \<Rightarrow> Inl Null_deref | Some s \<Rightarrow> fill_nonempty MAX_OUTVALUE s old st)"

definition vl_getCVPXmlFile :: "lib_env \<Rightarrow> string \<Rightarrow> lib_state \<Rightarrow> lib_reply" where
  "vl_getCVPXmlFile E old st =
     (case dc_cvpXmlFile (le_C E) of None \<Rightarrow> Inl Null_deref | Some s \<Rightarrow> fill_nonempty MAX_OUTVALUE s old st)"

definition vl_getRouteDataGateway :: "lib_env \<Rightarrow> string \<Rightarrow> lib_state \<Rightarrow> lib_reply" where
  "vl_getRouteDataGateway E old st =
     (case on_shared (vl_getRouteData (le_route E)) st of (ok, st) \<Rightarrow>
        if ok then fill_s MAX_OUTVALUE (x_dataGatewayIPaddress (lx st)) st else fill_nothing old st)"

definition vl_getLogFile :: "lib_env \<Rightarrow> string \<Rightarrow> lib_state \<Rightarrow> lib_reply" where
  "vl_getLogFile E old st =
     (case dc_logFile (le_C E) of None \<Rightarrow> Inl Null_deref | Some s \<Rightarrow> fill_nonempty MAX_OUTVALUE s old st)"

text \<open>The address of the host, looked up only when it is not known yet.\<close>

definition vl_getEstbMacAddr :: "lib_env \<Rightarrow> string \<Rightarrow> lib_state \<Rightarrow> lib_reply" where
  "vl_getEstbMacAddr E old st =
     (if le_client E then fill_nothing old st
      else (case dc_hostMacIf (le_C E) of
              None \<Rightarrow> fill_nothing old st
            | Some i \<Rightarrow>
                (let x = (if x_hostmacaddress (lx st) = [] then (lx st)\<lparr>x_hostmacaddress := vl_getmacaddress E i\<rparr>
                          else lx st)
                 in fill_s MAX_OUTVALUE (x_hostmacaddress x) (st\<lparr>lx := x\<rparr>))))"

definition vl_getDevXmlPath :: "lib_env \<Rightarrow> string \<Rightarrow> lib_state \<Rightarrow> lib_reply" where
  "vl_getDevXmlPath E old st =
     (case dc_devXmlPath (le_C E) of None \<Rightarrow> fill_nothing old st | Some p \<Rightarrow> fill_s MAX_OUTVALUE p st)"

definition GW_DEVICE_XML_FILE :: string where "GW_DEVICE_XML_FILE = ''X1VideoGateway.xml''"
definition CLIENT_DEVICE_XML_FILE :: string where "CLIENT_DEVICE_XML_FILE = ''X1Renderer.xml''"

definition vl_getDevXmlFile :: "lib_env \<Rightarrow> bool \<Rightarrow> string \<Rightarrow> lib_state \<Rightarrow> lib_reply" where
  "vl_getDevXmlFile E refactor old st =
     (case dc_devXmlFile (le_C E) of
        None \<Rightarrow> fill_nothing old st
      | Some f \<Rightarrow>
          (let dir = printed (dc_devXmlPath (le_C E)) @ ''/'' in
           if \<not> refactor then (if f \<noteq> [] then fill_printf (dir @ f) st else fill_nothing old st)
           else fill_printf (dir @ (if le_client E then CLIENT_DEVICE_XML_FILE else GW_DEVICE_XML_FILE)) st))"

definition vl_getDevKeyPath :: "lib_env \<Rightarrow> string \<Rightarrow> lib_state \<Rightarrow> lib_reply" where
  "vl_getDevKeyPath E old st = fill_n MAX_FILE_LENGTH (lc_devKeyPath (le_conf E)) old st"

definition vl_getDevKeyFile :: "lib_env \<Rightarrow> string \<Rightarrow> lib_state \<Rightarrow> lib_reply" where
  "vl_getDevKeyFile E old st = fill_n MAX_FILE_LENGTH (lc_devKeyFile (le_conf E)) old st"

definition vl_getDevCertPath :: "lib_env \<Rightarrow> string \<Rightarrow> lib_state \<Rightarrow> lib_reply" where
  "vl_getDevCertPath E old st = fill_n MAX_FILE_LENGTH (lc_devCertPath (le_conf E)) old st"

definition vl_getDevCertFile :: "lib_env \<Rightarrow> string \<Rightarrow> lib_state \<Rightarrow> lib_reply" where
  "vl_getDevCertFile E old st = fill_n MAX_FILE_LENGTH (lc_devCertFile (le_conf E)) old st"

definition vl_getModelNumber :: "string \<Rightarrow> lib_state \<Rightarrow> lib_reply" where
  "vl_getModelNumber old st = fill_nonempty MAX_OUTVALUE (l_modelnumber st) old st"

definition vl_getMake :: "string \<Rightarrow> lib_state \<Rightarrow> lib_reply" where
  "vl_getMake old st = fill_nonempty MAX_OUTVALUE (l_make st) old st"

definition vl_getAccountId :: "lib_env \<Rightarrow> string \<Rightarrow> lib_state \<Rightarrow> lib_reply" where
  "vl_getAccountId E old st =
     (case le_account E of None \<Rightarrow> fill_nothing old st | Some a \<Rightarrow> fill_s MAX_OUTVALUE a st)"

text \<open>Numbers and flags; \<open>getTuneReady\<close> returns the state of the tuner as an \<open>unsigned char\<close>.\<close>

fun vl_int :: "lib_env \<Rightarrow> dev_int_fn \<Rightarrow> lib_state \<Rightarrow> 32 word" where
  "vl_int E getRawOffSet st = x_rawOffset (lx st)"
| "vl_int E getDstOffset st = x_dstOffset (lx st)"
| "vl_int E getDstSavings st = x_dstSavings (lx st)"
| "vl_int E getBcastPort st = word_of_int (dc_bcastPort (le_C E))"
| "vl_int E getCVPPort st = word_of_int (dc_cvpPort (le_C E))"

fun vl_bool :: "lib_env \<Rightarrow> dev_bool_fn \<Rightarrow> lib_state \<Rightarrow> bool" where
  "vl_bool E getUsesDayLightTime st = x_usesDaylightTime (lx st)"
| "vl_bool E getIsGateway st = dc_allowGwy (le_C E)"
| "vl_bool E getRequiresTRM st = x_requirestrm (lx st)"
| "vl_bool E getTuneReady st = (x_tune_ready (lx st) mod 256 \<noteq> 0)"
| "vl_bool E getIsuseGliDiagEnabled st = dc_useGliDiag (le_C E)"
| "vl_bool E getDisableTuneReadyStatus st = dc_disableTuneReady (le_C E)"
| "vl_bool E checkCVP2Enabled st = dc_enableCVP2 (le_C E)"

fun vl_get :: "lib_env \<Rightarrow> dev_fn \<Rightarrow> string \<Rightarrow> lib_state \<Rightarrow> lib_reply" where
  "vl_get E getBaseUrl = vl_getBaseUrl"
| "vl_get E getTrmUrl = vl_getTrmUrl"
| "vl_get E getPlaybackUrl = vl_getPlaybackUrl"
| "vl_get E getGatewayIp = vl_getGatewayIp"
| "vl_get E getGatewayIpv6 = vl_getGatewayIpv6 E"
| "vl_get E getGatewayStbIp = vl_getGatewayStbIp E"
| "vl_get E getIpv6Prefix = vl_getIpv6Prefix E"
| "vl_get E getHostMacAddress = vl_getHostMacAddress E"
| "vl_get E getBcastMacAddress = vl_getBcastMacAddress E"
| "vl_get E getRecvDevType = vl_getRecvDevType"
| "vl_get E getDeviceType = vl_getDeviceType"
| "vl_get E getBuildVersion = vl_getBuildVersion"
| "vl_get E getDnsConfig = vl_getDnsConfig E"
| "vl_get E getSystemsIds = vl_getSystemsIds E"
| "vl_get E getRouteDataGateway = vl_getRouteDataGateway E"
| "vl_get E getIpSubnet = vl_getIpSubnet"
| "vl_get E getTimeZone = vl_getTimeZone"
| "vl_get E getDeviceName = vl_getDeviceName E"
| "vl_get E getHosts = vl_getHosts E"
| "vl_get E getModelNumber = vl_getModelNumber"
| "vl_get E getMake = vl_getMake"
| "vl_get E getReceiverId = vl_getReceiverId E"
| "vl_get E getUUID = vl_getUUID"
| "vl_get E getSerialNum = vl_getSerialNum E"
| "vl_get E getBcastIf = vl_getBcastIf E"
| "vl_get E getDevXmlPath = vl_getDevXmlPath E"
| "vl_get E getAccountId = vl_getAccountId E"
| "vl_get E getDevCertFile = vl_getDevCertFile E"
| "vl_get E getDevCertPath = vl_getDevCertPath E"
| "vl_get E getDevKeyFile = vl_getDevKeyFile E"
| "vl_get E getDevKeyPath = vl_getDevKeyPath E"
| "vl_get E getCVPIf = vl_getCVPIf E"
| "vl_get E getCVPXmlFile = vl_getCVPXmlFile E"
| "vl_get E (getDevXmlFile refactor) = vl_getDevXmlFile E refactor"

definition video_library :: "lib_env \<Rightarrow> lib_state dev_lib" where
  "video_library E = \<lparr>dl_get = vl_get E, dl_int = vl_int E, dl_bool = vl_bool E\<rparr>"

subsection \<open>The contract\<close>

lemmas vl_getter_defs = vl_getBaseUrl_def vl_getPlaybackUrl_def vl_getIpv6Prefix_def vl_getIpSubnet_def
  vl_getDeviceName_def vl_getDeviceType_def vl_getGatewayStbIp_def vl_getGatewayIpv6_def vl_getGatewayIp_def
  vl_getRecvDevType_def vl_getBuildVersion_def vl_getHostMacAddress_def vl_getDnsConfig_def
  vl_getSystemsIds_def vl_getTimeZone_def vl_getHosts_def vl_getTrmUrl_def vl_getRouteDataGateway_def
  vl_getModelNumber_def vl_getMake_def

lemmas vl_setting_defs = vl_getBcastMacAddress_def vl_getBcastIf_def vl_getSerialNum_def vl_getUUID_def
  vl_getReceiverId_def vl_getCVPIf_def vl_getCVPXmlFile_def vl_getDevXmlPath_def vl_getDevXmlFile_def
  vl_getDevKeyPath_def vl_getDevKeyFile_def vl_getDevCertPath_def vl_getDevCertFile_def vl_getAccountId_def

lemmas buffer_sizes = MAXSIZE_def RUIURLSIZE_def URLSIZE_def MAX_OUTVALUE_def MAX_FILE_LENGTH_def fn_size_def

lemma vl_fits:
  assumes "vl_get E f old s = Inr ((ok, v), s')" "length old < fn_size f"
  shows "length v < fn_size f"
  using assms
  by (cases f) (auto simp: vl_getter_defs vl_setting_defs fill_defs buffer_sizes Let_def bind_outcome_Inr_iff
      split: if_splits option.splits start.splits prod.splits)

text \<open>What a call can change: one variable, which is read again or not read at all.\<close>

definition vl_effect :: "lib_env \<Rightarrow> lib_state \<Rightarrow> lib_state \<Rightarrow> bool" where
  "vl_effect E s s' \<longleftrightarrow> s' = s \<or> (\<exists>v. s' = s\<lparr>lx := (lx s)\<lparr>x_url := v\<rparr>\<rparr>) \<or>
     (\<exists>v. s' = s\<lparr>lx := (lx s)\<lparr>x_hostmacaddress := v\<rparr>\<rparr>) \<or>
     (\<exists>v. s' = s\<lparr>lx := (lx s)\<lparr>x_dataGatewayIPaddress := v\<rparr>\<rparr>) \<or>
     s' = snd (vl_parsedevicename E s) \<or> s' = snd (vl_parsednsconfig E s) \<or> s' = snd (vl_getetchosts E s) \<or>
     x_systemids (lx s) \<noteq> [] \<and> s' = snd (vl_updatesystemids E s) \<or>
     (\<exists>ok. vl_parseipv6prefix E s = Inr (ok, s'))"

lemma vl_effectI:
  "vl_effect E s s" "vl_effect E s (s\<lparr>lx := (lx s)\<lparr>x_url := v\<rparr>\<rparr>)"
  "vl_effect E s (s\<lparr>lx := (lx s)\<lparr>x_hostmacaddress := v\<rparr>\<rparr>)"
  "vl_effect E s (s\<lparr>lx := (lx s)\<lparr>x_dataGatewayIPaddress := v\<rparr>\<rparr>)"
  "vl_parsedevicename E s = (ok, s') \<Longrightarrow> vl_effect E s s'"
  "vl_parsednsconfig E s = (ok, s') \<Longrightarrow> vl_effect E s s'"
  "vl_getetchosts E s = (ok, s') \<Longrightarrow> vl_effect E s s'"
  "vl_updatesystemids E s = (ok, s') \<Longrightarrow> x_systemids (lx s) \<noteq> [] \<Longrightarrow> vl_effect E s s'"
  "vl_parseipv6prefix E s = Inr (ok, s') \<Longrightarrow> vl_effect E s s'"
  unfolding vl_effect_def by (fastforce intro: snd_conv [symmetric])+

lemma fill_state:
  "fill_s n v st = Inr (r, s') \<Longrightarrow> s' = st" "fill_nothing v st = Inr (r, s') \<Longrightarrow> s' = st"
  "fill_nonempty n v old st = Inr (r, s') \<Longrightarrow> s' = st"
  by (auto simp: fill_defs split: if_splits)

lemma vl_get_effect:
  assumes "refreshes g" "vl_get E g other s = Inr (r, s')"
  shows "vl_effect E s s'"
proof -
  note parsed = vl_getDeviceName_def vl_getDnsConfig_def vl_getHosts_def vl_getSystemsIds_def
  have parsers: "vl_effect E s s'" if "g \<in> {getDeviceName, getDnsConfig, getHosts, getSystemsIds, getIpv6Prefix, getRouteDataGateway}"
    using that assms(2)
    by (auto simp: parsed vl_getIpv6Prefix_def vl_getRouteDataGateway_def on_shared_def vl_getRouteData_def
        bind_outcome_Inr_iff split: prod.splits if_splits option.splits dest!: fill_state
        intro: vl_effectI simp: vl_effectI(1-4))
  show ?thesis
  proof (cases "g \<in> {getDeviceName, getDnsConfig, getHosts, getSystemsIds, getIpv6Prefix, getRouteDataGateway}")
    case False
    with assms show ?thesis
      by (cases g) (auto simp: refreshes_def vl_getter_defs Let_def vl_effectI
          split: if_splits option.splits dest!: fill_state)
  qed (rule parsers)
qed

text \<open>
  What the readers find, which does not depend on the variables they set: the device name (if the
  file can be read, and if it holds one), the DNS servers, the prefix and the lines of the hosts.
\<close>

definition found_name :: "lib_env \<Rightarrow> string option option" where
  "found_name E = map_option (\<lambda>contents. map_option
     (\<lambda>ts. let n = (case ts of [] \<Rightarrow> ''(null)'' | u # _ \<Rightarrow> g_strstrip u)
           in if CHR 0x22 \<in> set n \<or> CHR 0x5C \<in> set n then g_strescape n else n)
     (tokens_after ''deviceName'' (g_strsplit_set contents [CHR 0x27, CHR ''='', CHR 0x0A])))
     (Option.bind (dc_deviceNameFile (le_C E)) (le_files E))"

definition found_dns :: "lib_env \<Rightarrow> string option" where
  "found_dns E = map_option (\<lambda>contents. concat (map (\<lambda>l. l @ '';'') (filter (\<lambda>l. l \<noteq> []) (lines_of contents))))
     (Option.bind (dc_dnsFile (le_C E)) (le_files E))"

definition found_prefix :: "lib_env \<Rightarrow> string option outcome" where
  "found_prefix E =
     (case Option.bind (dc_ipv6PrefixFile (le_C E)) (le_files E) of
        None \<Rightarrow> Inr None
      | Some contents \<Rightarrow> prefix_lines (dc_hostMacIf (le_C E)) (g_strsplit_set contents [CHR 0x27, CHR 0x0A]) False 0)"

definition found_hosts :: "lib_env \<Rightarrow> string \<Rightarrow> string option" where
  "found_hosts E gw = map_option (\<lambda>contents. concat (map (\<lambda>l. gw @ '' '' @ l @ '';'')
       (filter (\<lambda>l. l \<noteq> [] \<and> \<not> g_strrstr l ''127.0.0.1'') (lines_of contents))))
     (le_files E (if le_v6 E then ''//etc//xi-xconf-hosts.list'' else ''//etc//hosts''))"

text \<open>The identifiers as \<open>updatesystemids\<close> would publish them, and whether it succeeds.\<close>

definition fresh_ids :: "lib_env \<Rightarrow> xd_state \<Rightarrow> bool \<times> string" where
  "fresh_ids E x = (case updatesystemids (le_C E) (le_files E) x of (ok, x') \<Rightarrow> (ok, x_systemids x'))"

lemma bind_outcome_assoc: "bind_outcome (bind_outcome m f) g = bind_outcome m (\<lambda>x. bind_outcome (f x) g)"
  by (cases m) simp_all

lemma bind_outcome_cong: "(\<And>x. f x = g x) \<Longrightarrow> bind_outcome m f = bind_outcome m g"
  by (cases m) simp_all

lemma vl_readers:
  "vl_parsedevicename E s = (found_name E \<noteq> None,
     case found_name E of Some (Some v) \<Rightarrow> s\<lparr>lx := (lx s)\<lparr>x_devicename := v\<rparr>\<rparr> | _ \<Rightarrow> s)"
  "vl_parsednsconfig E s = (case found_dns E of
     None \<Rightarrow> (False, s) | Some v \<Rightarrow> (True, s\<lparr>lx := (lx s)\<lparr>x_dnsconfig := v\<rparr>\<rparr>))"
  "vl_getetchosts E s = (case found_hosts E (x_gwyip (lx s)) of
     None \<Rightarrow> (False, s) | Some v \<Rightarrow> (True, s\<lparr>lx := (lx s)\<lparr>x_etchosts := v\<rparr>\<rparr>))"
  by (simp_all add: vl_parsedevicename_def found_name_def Let_def vl_parsednsconfig_def on_shared_def
      getdnsconfig_lines found_dns_def vl_getetchosts_def getetchosts_lines found_hosts_def
      split: option.split bind_split)

lemma vl_prefix_reader:
  "vl_parseipv6prefix E s = bind_outcome (found_prefix E) (\<lambda>p. Inr (case p of
     None \<Rightarrow> (False, s) | Some v \<Rightarrow> (True, s\<lparr>lx := (lx s)\<lparr>x_ipv6prefix := v\<rparr>\<rparr>)))"
  by (auto simp: vl_parseipv6prefix_def getipv6prefix_def found_prefix_def bind_outcome_assoc
      split: option.split bind_split intro!: bind_outcome_cong)

lemma vl_ids_reader:
  "vl_updatesystemids E s =
     (fst (fresh_ids E (lx s)), s\<lparr>lx := (lx s)\<lparr>x_systemids := snd (fresh_ids E (lx s))\<rparr>\<rparr>)"
  by (simp add: vl_updatesystemids_def on_shared_def fresh_ids_def updatesystemids_def split: option.split)

lemma fresh_ids_frame:
  "fresh_ids E (x\<lparr>x_url := v\<rparr>) = fresh_ids E x" "fresh_ids E (x\<lparr>x_hostmacaddress := v\<rparr>) = fresh_ids E x"
  "fresh_ids E (x\<lparr>x_dataGatewayIPaddress := v\<rparr>) = fresh_ids E x" "fresh_ids E (x\<lparr>x_devicename := v\<rparr>) = fresh_ids E x"
  "fresh_ids E (x\<lparr>x_dnsconfig := v\<rparr>) = fresh_ids E x" "fresh_ids E (x\<lparr>x_etchosts := v\<rparr>) = fresh_ids E x"
  "fresh_ids E (x\<lparr>x_ipv6prefix := v\<rparr>) = fresh_ids E x"
  "fresh_ids E (x\<lparr>x_systemids := snd (fresh_ids E x)\<rparr>) = fresh_ids E x"
  by (simp_all add: fresh_ids_def updatesystemids_def split: option.split)

lemma fresh_ids_nonempty: "x_systemids x \<noteq> [] \<Longrightarrow> snd (fresh_ids E x) \<noteq> []"
  by (simp add: fresh_ids_def updatesystemids_def ids_text_def split: option.split)

text \<open>What each function answers, as a function of the variables and of what is found.\<close>

definition copied :: "nat \<Rightarrow> string \<Rightarrow> bool \<times> string" where
  "copied n src = (if length src < n then (True, src) else (False, []))"

definition copied_nonempty :: "nat \<Rightarrow> string \<Rightarrow> string \<Rightarrow> bool \<times> string" where
  "copied_nonempty n src old = (if src \<noteq> [] then copied n src else (False, old))"

lemma fill_results [simp]:
  "result_of (fill_s n src st) = Inr (copied n src)"
  "result_of (fill_nothing old st) = Inr (False, old)"
  "result_of (fill_nonempty n src old st) = Inr (copied_nonempty n src old)"
  by (simp_all add: fill_defs copied_def copied_nonempty_def)

lemma result_of_bind: "result_of (bind_outcome m f) = bind_outcome m (\<lambda>x. result_of (f x))"
  by (cases m) simp_all

lemma vl_answers:
  fixes s E
  defines "x \<equiv> lx s"
  shows
  "result_of (vl_getBaseUrl old s) = Inr (if x_gwyip x \<noteq> [] \<and> x_recv_id x \<noteq> []
     then copied MAX_OUTVALUE (''http://'' @ x_gwyip x @ '':8080/videoStreamInit?recorderId='' @ x_recv_id x)
     else (False, old))"
  "result_of (vl_getTrmUrl old s) = Inr (copied_nonempty MAX_OUTVALUE (x_trmurl x) old)"
  "result_of (vl_getPlaybackUrl old s) = Inr (copied_nonempty URLSIZE (x_playbackurl x) old)"
  "result_of (vl_getGatewayIp old s) = Inr (copied_nonempty MAX_OUTVALUE (x_gwyip x) old)"
  "result_of (vl_getGatewayIpv6 E old s) =
     Inr (if le_client E then (False, old) else copied_nonempty MAX_OUTVALUE (x_gwyipv6 x) old)"
  "result_of (vl_getGatewayStbIp E old s) =
     Inr (if le_client E then (False, old) else copied_nonempty MAX_OUTVALUE (x_gwystbip x) old)"
  "result_of (vl_getIpv6Prefix E old s) = bind_outcome (found_prefix E) (\<lambda>p. Inr (case p of
     Some v \<Rightarrow> copied MAX_OUTVALUE v
   | None \<Rightarrow> if x_ipv6prefix x = [] then copied MAX_OUTVALUE [] else (False, old)))"
  "result_of (vl_getHostMacAddress E old s) = Inr (case dc_hostMacIf (le_C E) of
     Some i \<Rightarrow> if le_client E then (False, old) else copied MAX_OUTVALUE (vl_getmacaddress E i)
   | None \<Rightarrow> (False, old))"
  "result_of (vl_getRecvDevType old s) = Inr (copied_nonempty MAX_OUTVALUE (x_recvdevtype x) old)"
  "result_of (vl_getDeviceType old s) = Inr (copied_nonempty MAX_OUTVALUE (x_devicetype x) old)"
  "result_of (vl_getBuildVersion old s) = Inr (copied_nonempty MAX_OUTVALUE (x_buildversion x) old)"
  "result_of (vl_getDnsConfig E old s) =
     Inr (case found_dns E of Some v \<Rightarrow> copied MAX_OUTVALUE v | None \<Rightarrow> (False, old))"
  "result_of (vl_getSystemsIds E old s) = Inr (if x_systemids x \<noteq> [] \<and> fst (fresh_ids E x)
     then copied MAX_OUTVALUE (snd (fresh_ids E x)) else (False, old))"
  "result_of (vl_getRouteDataGateway E old s) =
     Inr (case le_route E of Some (True, ip) \<Rightarrow> copied MAX_OUTVALUE ip | _ \<Rightarrow> (False, old))"
  "result_of (vl_getIpSubnet old s) = Inr (copied MAX_OUTVALUE [])"
  "result_of (vl_getTimeZone old s) = Inr (copied_nonempty MAX_OUTVALUE (x_dsgtimezone x) old)"
  "result_of (vl_getDeviceName E old s) = Inr (case found_name E of
     None \<Rightarrow> (False, old) | Some None \<Rightarrow> copied MAX_OUTVALUE (x_devicename x) | Some (Some v) \<Rightarrow> copied MAX_OUTVALUE v)"
  "result_of (vl_getHosts E old s) =
     Inr (case found_hosts E (x_gwyip x) of Some v \<Rightarrow> copied RUIURLSIZE v | None \<Rightarrow> (False, old))"
  "result_of (vl_getModelNumber old s) = Inr (copied_nonempty MAX_OUTVALUE (l_modelnumber s) old)"
  "result_of (vl_getMake old s) = Inr (copied_nonempty MAX_OUTVALUE (l_make s) old)"
  by (auto simp: x_def vl_getter_defs vl_readers vl_prefix_reader vl_ids_reader Let_def on_shared_def
      vl_getRouteData_def bind_outcome_assoc result_of_bind intro!: bind_outcome_cong
      split: option.split)

lemma vl_again:
  assumes "refreshes f" "vl_get E f old s = Inr ((ok, v), s')"
  shows "result_of (vl_get E f v s) = Inr (ok, v)"
proof -
  from assms(2) have "result_of (vl_get E f old s) = Inr (ok, v)" by simp
  with assms(1) show ?thesis
    by (cases f) (auto simp: refreshes_def vl_answers copied_def copied_nonempty_def bind_outcome_Inr_iff
        split: if_splits option.splits bool.splits)
qed

lemma vl_apart:
  assumes f: "refreshes f" and "vl_effect E s s'"
  shows "result_of (vl_get E f old s') = result_of (vl_get E f old s)"
proof -
  let ?same = "\<lambda>s'. result_of (vl_get E f old s') = result_of (vl_get E f old s)"
  have x_url: "?same (s\<lparr>lx := (lx s)\<lparr>x_url := v\<rparr>\<rparr>)" for v
    using f by (cases f) (simp_all add: refreshes_def vl_answers fresh_ids_frame cong: option.case_cong)
  have x_hostmacaddress: "?same (s\<lparr>lx := (lx s)\<lparr>x_hostmacaddress := v\<rparr>\<rparr>)" for v
    using f by (cases f) (simp_all add: refreshes_def vl_answers fresh_ids_frame cong: option.case_cong)
  have x_dataGatewayIPaddress: "?same (s\<lparr>lx := (lx s)\<lparr>x_dataGatewayIPaddress := v\<rparr>\<rparr>)" for v
    using f by (cases f) (simp_all add: refreshes_def vl_answers fresh_ids_frame cong: option.case_cong)
  have x_dnsconfig: "?same (s\<lparr>lx := (lx s)\<lparr>x_dnsconfig := v\<rparr>\<rparr>)" for v
    using f by (cases f) (simp_all add: refreshes_def vl_answers fresh_ids_frame cong: option.case_cong)
  have x_etchosts: "?same (s\<lparr>lx := (lx s)\<lparr>x_etchosts := v\<rparr>\<rparr>)" for v
    using f by (cases f) (simp_all add: refreshes_def vl_answers fresh_ids_frame cong: option.case_cong)
  note x_url x_hostmacaddress x_dataGatewayIPaddress x_dnsconfig x_etchosts
  moreover have "?same (s\<lparr>lx := (lx s)\<lparr>x_devicename := v\<rparr>\<rparr>)" if "found_name E = Some (Some v)" for v
    using f that by (cases f) (simp_all add: refreshes_def vl_answers fresh_ids_frame cong: option.case_cong)
  moreover have "?same (s\<lparr>lx := (lx s)\<lparr>x_ipv6prefix := v\<rparr>\<rparr>)" if "found_prefix E = Inr (Some v)" for v
    using f that by (cases f) (simp_all add: refreshes_def vl_answers fresh_ids_frame cong: option.case_cong)
  moreover have "?same (s\<lparr>lx := (lx s)\<lparr>x_systemids := snd (fresh_ids E (lx s))\<rparr>\<rparr>)" if "x_systemids (lx s) \<noteq> []"
    using f that fresh_ids_nonempty [OF that] by (cases f) (simp_all add: refreshes_def vl_answers fresh_ids_frame cong: option.case_cong)
  ultimately show ?thesis
    using assms(2) unfolding vl_effect_def
    by (auto simp: vl_readers vl_prefix_reader vl_ids_reader bind_outcome_Inr_iff split: option.splits)
qed

lemma vl_numbers: "vl_effect E s s' \<Longrightarrow> vl_int E i s' = vl_int E i s"
  unfolding vl_effect_def
  by (cases i) (auto simp: vl_readers vl_prefix_reader vl_ids_reader bind_outcome_Inr_iff split: option.splits)

lemma vl_flags: "vl_effect E s s' \<Longrightarrow> vl_bool E p s' = vl_bool E p s"
  unfolding vl_effect_def
  by (cases p) (auto simp: vl_readers vl_prefix_reader vl_ids_reader bind_outcome_Inr_iff split: option.splits)

interpretation video: device_library "video_library E" for E
proof
  fix f old s ok v s'
  assume "dl_get (video_library E) f old s = Inr ((ok, v), s')" "length old < fn_size f"
  then show "length v < fn_size f" by (simp add: video_library_def vl_fits)
next
  fix f old s ok v s'
  assume "refreshes f" "dl_get (video_library E) f old s = Inr ((ok, v), s')"
  then show "result_of (dl_get (video_library E) f v s) = Inr (ok, v)" by (simp add: video_library_def vl_again)
next
  fix f g old other s r s'
  assume "refreshes f" "refreshes g" "dl_get (video_library E) g other s = Inr (r, s')"
  then show "result_of (dl_get (video_library E) f old s') = result_of (dl_get (video_library E) f old s)"
    by (simp add: video_library_def vl_apart vl_get_effect)
next
  fix f old s r s' i
  assume "refreshes f" "dl_get (video_library E) f old s = Inr (r, s')"
  then show "dl_int (video_library E) i s' = dl_int (video_library E) i s"
    by (simp add: video_library_def vl_numbers vl_get_effect)
next
  fix f old s r s' p
  assume "refreshes f" "dl_get (video_library E) f old s = Inr (r, s')"
  then show "dl_bool (video_library E) p s' = dl_bool (video_library E) p s"
    by (simp add: video_library_def vl_flags vl_get_effect)
qed

end
