(* ===== verification/Video_Start.thy ===== *)
theory Video_Start
  imports Video_Lib
begin

text \<open>
  The start of the video library: \<open>readconffile\<close> and \<open>xdeviceInit\<close> of
  \<open>src/video/lib/src/xcal_device_library.c\<close>, in the build with the bus, as a client and as a gateway.
  The waits are given the bus events of each sleep, as for \<open>src/xcal-device.c\<close>.
\<close>

subsection \<open>Configuration\<close>

text \<open>\<open>g_new0\<close>: all strings null, all numbers zero.\<close>

definition lib_conf0 :: lib_conf where
  "lib_conf0 = \<lparr>lc = \<lparr>dc_bcastIf = None, dc_streamIf = None, dc_trmIf = None, dc_gwIf = None,
     dc_cvpIf = None, dc_ruiPath = None, dc_uriOverride = None, dc_hostMacIf = None, dc_oemFile = None,
     dc_dnsFile = None, dc_dsgFile = None, dc_diagFile = None, dc_devXmlPath = None, dc_devXmlFile = None,
     dc_cvpXmlFile = None, dc_logFile = None, dc_devPropertyFile = None, dc_ipv6FileLocation = None,
     dc_ipv6PrefixFile = None, dc_deviceNameFile = None, dc_enableCVP2 = False, dc_useIARM = False,
     dc_allowGwy = False, dc_enableTRM = False, dc_useGliDiag = False, dc_disableTuneReady = False,
     dc_enableHostMacPblsh = False, dc_rmfCrshSupp = False, dc_wareHouseMode = False, dc_bcastPort = 0,
     dc_cvpPort = 0\<rparr>,
     lc_devCertFile = None, lc_devCertPath = None, lc_devKeyFile = None, lc_devKeyPath = None\<rparr>"

text \<open>
  \<open>readconffile\<close> of the gateway build: false when the file cannot be loaded, and when a mandatory
  setting is missing. The client build does not call it.
\<close>

definition vl_readconffile :: "bool \<Rightarrow> keyfile option \<Rightarrow> bool \<times> lib_conf" where
  "vl_readconffile vidiPath configfile =
     (case configfile of
        None \<Rightarrow> (False, lib_conf0)
      | Some k \<Rightarrow>
          (let s = kf_string k; b = kf_boolean k ''Flags'';
               c = (lc lib_conf0)\<lparr>dc_bcastIf := s ''Network'' ''BCastIf'', dc_bcastPort := kf_integer k ''Network'' ''BCastPort'',
                     dc_streamIf := s ''Network'' ''StreamIf'', dc_trmIf := s ''Network'' ''TrmIf'',
                     dc_gwIf := s ''Network'' ''GwIf'', dc_cvpIf := s ''Network'' ''CvpIf'',
                     dc_cvpPort := kf_integer k ''Network'' ''CvpPort'', dc_hostMacIf := s ''Network'' ''HostMacIf'',
                     dc_oemFile := s ''DataFiles'' ''OemFile'', dc_dnsFile := s ''DataFiles'' ''DnsFile'',
                     dc_dsgFile := s ''DataFiles'' ''DsgFile'', dc_diagFile := s ''DataFiles'' ''DiagFile'',
                     dc_devXmlPath := s ''DataFiles'' ''DevXmlPath'', dc_devXmlFile := s ''DataFiles'' ''DevXmlFile'',
                     dc_cvpXmlFile := s ''DataFiles'' ''CvpXmlFile'', dc_logFile := s ''DataFiles'' ''LogFile'',
                     dc_ipv6FileLocation := s ''DataFiles'' ''Ipv6FileLocation'',
                     dc_ipv6PrefixFile := s ''DataFiles'' ''Ipv6PrefixFile'',
                     dc_deviceNameFile := s ''DataFiles'' ''DeviceNameFile'',
                     dc_devPropertyFile := s ''DataFiles'' ''DevPropertyFile'',
                     dc_useIARM := b ''UseIARM'', dc_allowGwy := b ''AllowGwy'', dc_enableCVP2 := vidiPath,
                     dc_ruiPath := s ''Rui'' ''RuiPath'',
                     dc_uriOverride := (if s ''Rui'' ''RuiPath'' = None then s ''Rui'' ''uriOverride'' else None),
                     dc_enableTRM := b ''EnableTRM'', dc_useGliDiag := b ''UseGliDiag'',
                     dc_disableTuneReady := b ''DisableTuneReady'',
                     dc_enableHostMacPblsh := b ''EnableHostMacPblsh'', dc_rmfCrshSupp := b ''rmfCrshSupp'',
                     dc_wareHouseMode := b ''wareHouseMode''\<rparr>
           in (\<not> (dc_bcastIf c = None \<or> dc_bcastPort c = 0 \<or> dc_devXmlPath c = None \<or> dc_devXmlFile c = None),
               \<lparr>lc = c, lc_devCertFile = s ''DataFiles'' ''DevCertFile'', lc_devCertPath = s ''DataFiles'' ''DevCertPath'',
                lc_devKeyFile = s ''DataFiles'' ''DevKeyFile'', lc_devKeyPath = s ''DataFiles'' ''DevKeyPath''\<rparr>)))"

text \<open>The settings of the client build, which are zero before.\<close>

definition vl_client_conf :: lib_conf where
  "vl_client_conf = \<lparr>lc = (lc lib_conf0)\<lparr>dc_bcastPort := 50755, dc_devPropertyFile := Some ''/etc/device.properties'',
       dc_deviceNameFile := Some ''/opt/hn_service_settings.conf'', dc_logFile := Some ''/opt/logs/xdevice.log'',
       dc_devXmlPath := Some ''/etc/xupnp/'', dc_devXmlFile := Some ''BasicDevice.xml'',
       dc_allowGwy := False, dc_useIARM := True, dc_useGliDiag := True\<rparr>,
     lc_devCertFile = Some ''xpki_cert'', lc_devCertPath = Some ''/tmp/'',
     lc_devKeyFile = Some ''xpki_key'', lc_devKeyPath = Some ''/tmp/''\<rparr>"

subsection \<open>The start\<close>

text \<open>
  What the world answers during the start, beside what it answers later: the argument, the
  configuration file, the answers of \<open>getifaddrs\<close> in their order, the bus, and what happens in the
  waits. The state and configuration \<open>xdeviceInit\<close> leaves are those of the rest of the run.
\<close>

record vs_env =
  vs_has_arg :: bool
  vs_keyfile :: "keyfile option"
  vs_vidiPath :: bool
  vs_linklocal :: "string \<Rightarrow> bool"
  vs_addrs :: "nat \<Rightarrow> ifaddrs list option"
  vs_stb_addrs :: "ifaddrs list option"
  vs_iarm :: bool
  vs_values :: system_states
  vs_id_rounds :: "id_round list"
  vs_tune_waits :: "batch list"
  vs_prefix_looks :: "(files \<times> batch) list"

definition lib_init :: lib_state where
  "lib_init = \<lparr>lx = xd_init\<lparr>x_url := [], x_trmurl := [], x_playbackurl := [], x_gwyip := [], x_gwyipv6 := [],
     x_gwystbip := [], x_ipv6prefix := [], x_dnsconfig := [], x_systemids := [], x_dsgtimezone := [],
     x_etchosts := [], x_serial_num := [], x_recv_id := [], x_partner_id := [], x_hostmacaddress := [],
     x_bcastmacaddress := [], x_devicename := [], x_buildversion := [], x_recvdevtype := [],
     x_devicetype := [], x_mocaIface := [], x_wifiIface := [], x_dataGatewayIPaddress := [],
     x_trmurlCVP2 := [], x_playbackurlCVP2 := [], x_gwyipCVP2 := [], x_ruiurl := []\<rparr>,
   l_modelnumber = [], l_make = []\<rparr>"

definition vl_configure :: "vs_env \<Rightarrow> bool \<Rightarrow> lib_conf start" where
  "vl_configure V client =
     (if client then Going vl_client_conf
      else if \<not> vs_has_arg V then Exited 1
      else (case vl_readconffile (vs_vidiPath V) (vs_keyfile V) of
              (ok, c) \<Rightarrow> if ok then Going c else Exited 1))"

text \<open>
  The address of a gateway: up to ten rounds, in each first the IPv6 address, then the IPv4 address,
  into one buffer. The result is whether one of them was found, the buffer, and \<open>gwyipv6\<close>.
\<close>

fun vl_gateway_rounds ::
  "vs_env \<Rightarrow> xd_conf \<Rightarrow> nat \<Rightarrow> nat \<Rightarrow> bool \<Rightarrow> string \<Rightarrow> string \<Rightarrow> bool \<times> string \<times> string" where
  "vl_gateway_rounds V C 0 i assigned buf v6 = (assigned, buf, v6)"
| "vl_gateway_rounds V C (Suc n) i assigned buf v6 =
     (let get = xd_getipaddress (vs_linklocal V) C; bcastIf = str_of (dc_bcastIf C) in
      case get (vs_addrs V i) bcastIf buf True of (r6, buf6) \<Rightarrow>
      case get (vs_addrs V (Suc i)) bcastIf [] False of (r4, buf4) \<Rightarrow>
      if r4 \<noteq> 0 then (True, buf4, buf6)
      else vl_gateway_rounds V C n (i + 2) (assigned \<or> r6 \<noteq> 0) buf4 buf6)"

text \<open>The address of a client: the first of its two interfaces that has one becomes its interface.\<close>

fun vl_client_rounds ::
  "vs_env \<Rightarrow> xd_conf \<Rightarrow> xd_state \<Rightarrow> nat \<Rightarrow> nat \<Rightarrow> (string \<times> string) option" where
  "vl_client_rounds V C st 0 i = None"
| "vl_client_rounds V C st (Suc n) i =
     (let get = xd_getipaddress (vs_linklocal V) C in
      case get (vs_addrs V i) (x_mocaIface st) [] False of (r, buf) \<Rightarrow>
      if r \<noteq> 0 then Some (x_mocaIface st, buf)
      else (case get (vs_addrs V (Suc i)) (x_wifiIface st) buf False of (r, buf) \<Rightarrow>
            if r \<noteq> 0 then Some (x_wifiIface st, buf) else vl_client_rounds V C st n (i + 2)))"

definition vl_addresses :: "vs_env \<Rightarrow> bool \<Rightarrow> xd_conf \<Rightarrow> xd_state \<Rightarrow> (xd_conf \<times> xd_state) start" where
  "vl_addresses V client C st =
     (if \<not> client then
        (case vl_gateway_rounds V C 10 0 False [] (x_gwyipv6 st) of (assigned, buf, v6) \<Rightarrow>
           if assigned then Going (C, st\<lparr>x_gwyipv6 := v6, x_gwyip := buf\<rparr>) else Exited 1)
      else
        (case vl_client_rounds V C st 10 0 of
           None \<Rightarrow> Exited 1
         | Some (iface, buf) \<Rightarrow> Going (C\<lparr>dc_bcastIf := Some iface\<rparr>, st\<lparr>x_gwyip := buf\<rparr>)))"

text \<open>The waits of the start, which let the events of the library in.\<close>

fun vl_wait_tuner :: "iarm_names \<Rightarrow> xd_conf \<Rightarrow> batch list \<Rightarrow> xd_state \<Rightarrow> xd_state start" where
  "vl_wait_tuner I C [] st = (if x_tune_ready st \<noteq> 0 then Going st else Waiting)"
| "vl_wait_tuner I C (b # bs) st =
     (if x_tune_ready st \<noteq> 0 then Going st else vl_wait_tuner I C bs (vl_run I C b st))"

fun vl_wait_prefix ::
  "iarm_names \<Rightarrow> xd_conf \<Rightarrow> string \<Rightarrow> (files \<times> batch) list \<Rightarrow> bool \<Rightarrow> xd_state \<Rightarrow> xd_state start" where
  "vl_wait_prefix I C f [] there st = Waiting"
| "vl_wait_prefix I C f ((files, b) # looks) there st =
     (if \<not> there \<and> files f = None then vl_wait_prefix I C f looks there (vl_run I C b st)
      else (case getipv6prefix C files st of
              Inl e \<Rightarrow> Faulted e
            | Inr (ok, st) \<Rightarrow> if ok then Going st else vl_wait_prefix I C f looks True (vl_run I C b st)))"

text \<open>The system values, the hardware addresses, the device name, the receiver id and the URLs.\<close>

definition vl_identify :: "vs_env \<Rightarrow> lib_env \<Rightarrow> lib_state \<Rightarrow> lib_state start" where
  "vl_identify V E st =
     (let C = le_C E; ip = x_gwyip (lx st);
          x = (if vs_iarm V \<and> \<not> le_client E then vl_getSystemValues (vs_values V) (lx st) else lx st);
          x = (case dc_hostMacIf C of
                 Some i \<Rightarrow> if le_client E then x else x\<lparr>x_hostmacaddress := vl_getmacaddress E i\<rparr> | None \<Rightarrow> x);
          x = (case dc_bcastIf C of Some i \<Rightarrow> x\<lparr>x_bcastmacaddress := vl_getmacaddress E i\<rparr> | None \<Rightarrow> x);
          st = snd (vl_parsedevicename E (st\<lparr>lx := x\<rparr>))
      in bind_start (vl_getID (le_names E) C RECEIVER_ID (vs_id_rounds V) (lx st)) (\<lambda>(ident, x).
      let x = x\<lparr>x_recv_id := ident, x_url := ''http://'' @ ip @ '':8080/videoStreamInit?recorderId='' @ ident\<rparr>;
          x = (if le_client E then x
               else if \<not> dc_enableTRM C then x\<lparr>x_requirestrm := False, x_trmurl := []\<rparr>
               else x\<lparr>x_requirestrm := True, x_trmurl := ''ws://'' @ ip @ '':9988''\<rparr>);
          x = (if \<not> dc_allowGwy C then x\<lparr>x_isgateway := False\<rparr> else x)
      in Going (st\<lparr>lx := x\<rparr>)))"

text \<open>The play URL and the values from files; a client asks for its serial number and its route.\<close>

definition vl_values :: "lib_env \<Rightarrow> lib_state \<Rightarrow> lib_state" where
  "vl_values E st =
     (if \<not> le_client E then
        (let x = lx st; ip = x_gwyip x;
             st = st\<lparr>lx := x\<lparr>x_playbackurl := ''http://'' @ ip @ '':8080/hnStreamStart?deviceId='' @ x_recv_id x @
                        ''&DTCP1HOST='' @ ip @ ''&DTCP1PORT=5000''\<rparr>\<rparr>;
             st = snd (vl_parsednsconfig E st);
             st = snd (vl_updatesystemids E st);
             st = st\<lparr>lx := (lx st)\<lparr>x_serial_num := g_strstrip (x_serial_num (lx st))\<rparr>\<rparr>
         in snd (vl_getetchosts E st))
      else snd (on_shared (vl_getRouteData (le_route E)) (snd (vl_parseserialnum E st))))"

definition vl_tuner :: "vs_env \<Rightarrow> lib_env \<Rightarrow> xd_state \<Rightarrow> xd_state start" where
  "vl_tuner V E x =
     (if \<not> dc_disableTuneReady (le_C E) then vl_wait_tuner (le_names E) (le_C E) (vs_tune_waits V) x
      else Going (x\<lparr>x_tune_ready := 1\<rparr>))"

definition vl_prefix :: "vs_env \<Rightarrow> lib_env \<Rightarrow> xd_state \<Rightarrow> xd_state start" where
  "vl_prefix V E x =
     (case dc_ipv6PrefixFile (le_C E) of
        None \<Rightarrow> Going x
      | Some f \<Rightarrow>
          if dc_allowGwy (le_C E) \<and> le_v6 E
          then vl_wait_prefix (le_names E) (le_C E) f (vs_prefix_looks V) False x else Going x)"

definition vl_stbip :: "vs_env \<Rightarrow> lib_env \<Rightarrow> xd_state \<Rightarrow> xd_state" where
  "vl_stbip V E x =
     (case dc_hostMacIf (le_C E) of
        None \<Rightarrow> x
      | Some i \<Rightarrow> x\<lparr>x_gwystbip := snd (xd_getipaddress (vs_linklocal V) (le_C E) (vs_stb_addrs V) i [] (le_v6 E))\<rparr>)"

text \<open>
  \<open>xdeviceInit\<close>: from the environment, of which \<open>le_conf\<close> and \<open>le_v6\<close> are not looked at, to the
  environment with both set, and the state.
\<close>

definition vl_xdeviceInit :: "vs_env \<Rightarrow> lib_env \<Rightarrow> (lib_env \<times> lib_state) start" where
  "vl_xdeviceInit V E =
     bind_start (vl_configure V (le_client E)) (\<lambda>c.
     let st = (case dc_devPropertyFile (lc c) of
                 None \<Rightarrow> lib_init | Some f \<Rightarrow> snd (vl_readDevFile (le_files E) (Some f) lib_init)) in
     bind_start (vl_addresses V (le_client E) (lc c) (lx st)) (\<lambda>(C, x).
     let v6 = (\<not> le_client E \<and> (case dc_ipv6FileLocation C of None \<Rightarrow> False | Some f \<Rightarrow> le_files E f \<noteq> None));
         E = E\<lparr>le_conf := c\<lparr>lc := C\<rparr>, le_v6 := v6\<rparr> in
     bind_start (vl_identify V E (st\<lparr>lx := x\<rparr>)) (\<lambda>st.
     let st = vl_values E st in
     if le_client E then Going (E, st)
     else bind_start (vl_tuner V E (lx st)) (\<lambda>x. bind_start (vl_prefix V E x) (\<lambda>x.
            Going (E, st\<lparr>lx := vl_stbip V E x\<rparr>))))))"

subsection \<open>The remote settings\<close>

text \<open>The refactored device is enabled by any value that starts with \<open>true\<close>.\<close>

definition vl_check_rfc :: "string option \<Rightarrow> bool" where
  "vl_check_rfc param = (case param of None \<Rightarrow> False | Some v \<Rightarrow> strncmp v ''true'' 4 = 0)"

definition vl_xPKI_check_rfc :: "string option \<Rightarrow> bool" where
  "vl_xPKI_check_rfc param = (case param of None \<Rightarrow> False | Some v \<Rightarrow> strcmp v ''true'' = 0)"

end
