(* ===== verification/Bb_Lib.thy ===== *)
theory Bb_Lib
  imports Lib_Base
begin

text \<open>
  The device library \<open>src/broadband/lib/src/xcal-device-library.c\<close>, in the build that \<open>configure.ac\<close>
  makes for broadband gateways (\<open>CLIENT_XCAL_SERVER\<close>, without the bus): the values it reads, its start,
  and the functions by which \<open>src/xcal-device-main.c\<close> gets them; \<open>broadband_library\<close> puts them in the
  place of the library, and keeps the contract \<open>device_library\<close>.
\<close>

subsection \<open>State and environment\<close>

record bb_state =
  bl :: lib_state
  b_eroutermacaddress :: string
  b_fogtsburl :: string
  b_videobaseurl :: string

abbreviation bx :: "bb_state \<Rightarrow> xd_state" where
  "bx st \<equiv> lx (bl st)"

definition bx_update :: "(xd_state \<Rightarrow> xd_state) \<Rightarrow> bb_state \<Rightarrow> bb_state" where
  "bx_update f st = st\<lparr>bl := (bl st)\<lparr>lx := f (lx (bl st))\<rparr>\<rparr>"

text \<open>
  What the world answers: the interface the start chose, the hardware addresses, the system
  configuration (by name and size of the buffer it fills), and what the route command prints with
  the status of its end.
\<close>

record bb_env =
  be_bcastIf :: "string option"
  be_hwaddr :: "string \<Rightarrow> 8 word list option"
  be_junk_mac :: "8 word list"
  be_syscfg :: "string \<Rightarrow> nat \<Rightarrow> string option"
  be_routes :: "(string \<times> int) option"

definition bb_devXmlPath :: string where "bb_devXmlPath = ''/etc/xupnp/''"
definition bb_devXmlFile :: string where "bb_devXmlFile = ''BasicDevice.xml''"
definition BB_DEVICE_XML_FILE :: string where "BB_DEVICE_XML_FILE = ''X1BroadbandGateway.xml''"
definition BB_FILE_LENGTH :: nat where "BB_FILE_LENGTH = 256"
definition ISOLATION_IF :: string where "ISOLATION_IF = ''brlan10''"
definition WIFI_IF :: string where "WIFI_IF = ''brlan0:0''"
definition UDN_IF :: string where "UDN_IF = ''erouter0''"

text \<open>The settings of the build, which are zero before.\<close>

definition bb_conf :: lib_conf where
  "bb_conf = \<lparr>lc = \<lparr>dc_bcastIf = None, dc_streamIf = None, dc_trmIf = None, dc_gwIf = None,
     dc_cvpIf = None, dc_ruiPath = None, dc_uriOverride = None, dc_hostMacIf = None, dc_oemFile = None,
     dc_dnsFile = None, dc_dsgFile = None, dc_diagFile = None, dc_devXmlPath = Some bb_devXmlPath,
     dc_devXmlFile = Some bb_devXmlFile, dc_cvpXmlFile = None, dc_logFile = Some ''/rdklogs/logs/xdevice.log'',
     dc_devPropertyFile = Some ''/etc/device.properties'', dc_ipv6FileLocation = None,
     dc_ipv6PrefixFile = None, dc_deviceNameFile = Some ''/opt/hn_service_settings.conf'',
     dc_enableCVP2 = False, dc_useIARM = True, dc_allowGwy = False, dc_enableTRM = False,
     dc_useGliDiag = True, dc_disableTuneReady = False, dc_enableHostMacPblsh = False,
     dc_rmfCrshSupp = False, dc_wareHouseMode = False, dc_bcastPort = 50755, dc_cvpPort = 0\<rparr>,
     lc_devCertFile = Some ''xpki_cert'', lc_devCertPath = Some ''/tmp/'',
     lc_devKeyFile = Some ''xpki_key'', lc_devKeyPath = Some ''/tmp/''\<rparr>"

definition bb_init :: bb_state where
  "bb_init = \<lparr>bl = \<lparr>lx = xd_init\<lparr>x_url := [], x_trmurl := [], x_playbackurl := [], x_gwyip := [], x_gwyipv6 := [],
     x_gwystbip := [], x_ipv6prefix := [], x_dnsconfig := [], x_systemids := [], x_dsgtimezone := [],
     x_etchosts := [], x_serial_num := [], x_recv_id := [], x_partner_id := [], x_hostmacaddress := [],
     x_bcastmacaddress := [], x_devicename := [], x_buildversion := [], x_recvdevtype := [],
     x_devicetype := [], x_mocaIface := [], x_wifiIface := [], x_dataGatewayIPaddress := [],
     x_trmurlCVP2 := [], x_playbackurlCVP2 := [], x_gwyipCVP2 := [], x_ruiurl := [],
     x_isgateway := False, x_requirestrm := False, x_dstOffset := 0\<rparr>,
     l_modelnumber = [], l_make = []\<rparr>,
   b_eroutermacaddress = [], b_fogtsburl = [], b_videobaseurl = ''null''\<rparr>"

subsection \<open>Values from files, interfaces and the system configuration\<close>

text \<open>
  \<open>readDevFile\<close>: six keys; the first four exclude each other, and so do the two names of the
  manufacturer. The names of the interfaces are fixed.
\<close>

definition bb_hits :: "string \<Rightarrow> ((string \<Rightarrow> string) \<Rightarrow> bb_state \<Rightarrow> bb_state) list" where
  "bb_hits t =
     (let shared = (\<lambda>f v. bx_update (f v)); make = (\<lambda>v st. st\<lparr>bl := l_make_update v (bl st)\<rparr>) in
      (if g_strrstr t ''DEVICE_TYPE'' then [shared x_recvdevtype_update]
       else if g_strrstr t ''BUILD_VERSION'' then [shared x_buildversion_update]
       else if g_strrstr t ''BOX_TYPE'' then [shared x_devicetype_update]
       else if g_strrstr t ''MODEL_NUM'' then [shared x_devicename_update] else []) @
      (if g_strrstr t ''MFG_NAME'' then [make] else if g_strrstr t ''MANUFACTURE'' then [make] else []))"

fun bb_found ::
  "((string \<Rightarrow> string) \<Rightarrow> bb_state \<Rightarrow> bb_state) list \<Rightarrow> string list \<Rightarrow> nat \<Rightarrow> bb_state \<Rightarrow> nat \<times> bb_state \<times> bool" where
  "bb_found [] ts counter st = (counter, st, False)"
| "bb_found (assign # hits) ts counter st =
     (case (case ts of [] \<Rightarrow> (counter, st) | u # _ \<Rightarrow> (Suc counter, assign (\<lambda>_. g_strstrip u) st)) of
        (counter, st) \<Rightarrow> if counter = 6 then (counter, st, True) else bb_found hits ts counter st)"

fun bb_dev_loop :: "string list \<Rightarrow> nat \<Rightarrow> bb_state \<Rightarrow> bool \<times> bb_state" where
  "bb_dev_loop [] counter st = (False, st)"
| "bb_dev_loop (t # ts) counter st =
     (case bb_found (bb_hits (g_strstrip t)) ts counter st of
        (counter, st, full) \<Rightarrow> if full then (True, st) else bb_dev_loop ts counter st)"

definition bb_readDevFile :: "files \<Rightarrow> string option \<Rightarrow> bb_state \<Rightarrow> bool \<times> bb_state" where
  "bb_readDevFile files deviceFile st =
     (case deviceFile of
        None \<Rightarrow> (False, st)
      | Some f \<Rightarrow>
          (case (case files f of
                   None \<Rightarrow> (False, st)
                 | Some contents \<Rightarrow>
                     bb_dev_loop (g_strsplit_set contents [CHR '','', CHR ''='', CHR 0x27, CHR 0x0A]) 0 st) of
             (result, st) \<Rightarrow> (result, bx_update (\<lambda>x. x\<lparr>x_mocaIface := ISOLATION_IF, x_wifiIface := WIFI_IF\<rparr>) st)))"

definition bb_getmacaddress :: "bb_env \<Rightarrow> string \<Rightarrow> string" where
  "bb_getmacaddress E ifname =
     getmacaddress True (be_hwaddr E (if length ifname < 15 then ifname else [])) (be_junk_mac E)"

definition bb_check_rfc :: "bb_env \<Rightarrow> bool" where
  "bb_check_rfc E = (case be_syscfg E ''Refactor'' 24 of None \<Rightarrow> False | Some temp \<Rightarrow> strcmp ''true'' temp = 0)"

text \<open>
  \<open>getUidfromRecvId\<close> reads six parts of the address of the router, whatever their number, as the
  function of that name in \<open>src/idm_server.c\<close>.
\<close>

definition bb_getUidfromRecvId :: "bb_state \<Rightarrow> (bool \<times> bb_state) outcome" where
  "bb_getUidfromRecvId st =
     (let tokens = g_strsplit_set (b_eroutermacaddress st) [CHR 0x27, CHR '':'', CHR 0x0A] in
      if tokens = [] then Inr (False, st)
      else bind_outcome (tokens_from tokens 0 6) (\<lambda>ts.
             Inr (True, bx_update (\<lambda>x. x\<lparr>x_recv_id := uid_prefix @ ts\<rparr>) st)))"

subsection \<open>The functions of the library\<close>

text \<open>The base URL is put together, and not copied to the buffer.\<close>

definition bb_getBaseUrl :: "string \<Rightarrow> bb_state \<Rightarrow> bb_state filled" where
  "bb_getBaseUrl old st =
     (let x = bx st in
      if x_gwyip x \<noteq> [] \<and> x_recv_id x \<noteq> [] then
        Inr ((True, old), bx_update (x_url_update (\<lambda>_. ''http://'' @ x_gwyip x @
               '':8080/videoStreamInit?recorderId='' @ x_recv_id x)) st)
      else fill_nothing old st)"

definition bb_getFogTsbUrl :: "string \<Rightarrow> bb_state \<Rightarrow> bb_state filled" where
  "bb_getFogTsbUrl old st = fill_s MAX_OUTVALUE (b_fogtsburl st) st"

definition bb_getVideoBasedUrl :: "string \<Rightarrow> bb_state \<Rightarrow> bb_state filled" where
  "bb_getVideoBasedUrl old st = fill_nonempty MAX_OUTVALUE (b_videobaseurl st) old st"

definition bb_getDeviceName :: "string \<Rightarrow> bb_state \<Rightarrow> bb_state filled" where
  "bb_getDeviceName old st = fill_s MAX_OUTVALUE (x_devicename (bx st)) st"

definition bb_getDeviceType :: "string \<Rightarrow> bb_state \<Rightarrow> bb_state filled" where
  "bb_getDeviceType old st = fill_nonempty MAX_OUTVALUE (x_devicetype (bx st)) old st"

definition bb_getBcastMacAddress :: "bb_env \<Rightarrow> string \<Rightarrow> bb_state \<Rightarrow> bb_state filled" where
  "bb_getBcastMacAddress E old st =
     (case be_bcastIf E of
        None \<Rightarrow> fill_nothing old st
      | Some i \<Rightarrow>
          (let st = bx_update (\<lambda>x. x\<lparr>x_bcastmacaddress := bb_getmacaddress E i\<rparr>) st
           in fill_s MAX_OUTVALUE (x_bcastmacaddress (bx st)) st))"

text \<open>In this build these three answer nothing.\<close>

definition bb_getGatewayStbIp :: "string \<Rightarrow> bb_state \<Rightarrow> bb_state filled" where
  "bb_getGatewayStbIp old st = fill_nothing old st"

definition bb_getGatewayIpv6 :: "string \<Rightarrow> bb_state \<Rightarrow> bb_state filled" where
  "bb_getGatewayIpv6 old st = fill_nothing old st"

definition bb_getHostMacAddress :: "string \<Rightarrow> bb_state \<Rightarrow> bb_state filled" where
  "bb_getHostMacAddress old st = fill_nothing old st"

definition bb_getGatewayIp :: "string \<Rightarrow> bb_state \<Rightarrow> bb_state filled" where
  "bb_getGatewayIp old st = fill_nonempty MAX_OUTVALUE (x_gwyip (bx st)) old st"

definition bb_getRecvDevType :: "string \<Rightarrow> bb_state \<Rightarrow> bb_state filled" where
  "bb_getRecvDevType old st = fill_nonempty MAX_OUTVALUE (x_recvdevtype (bx st)) old st"

definition bb_getBuildVersion :: "string \<Rightarrow> bb_state \<Rightarrow> bb_state filled" where
  "bb_getBuildVersion old st = fill_nonempty MAX_OUTVALUE (x_buildversion (bx st)) old st"

definition bb_getSystemsIds :: "string \<Rightarrow> bb_state \<Rightarrow> bb_state filled" where
  "bb_getSystemsIds old st = fill_nonempty MAX_OUTVALUE (x_systemids (bx st)) old st"

text \<open>
  \<open>fgets\<close> reads up to the end of a line, and at most one character less than the size it is given,
  which here is that of the number \<open>MAX_OUTVALUE\<close>, four bytes. Each piece replaces the one before.
\<close>

fun fgets_piece :: "nat \<Rightarrow> string \<Rightarrow> string" where
  "fgets_piece 0 s = []"
| "fgets_piece (Suc n) [] = []"
| "fgets_piece (Suc n) (c # s) = (if c = CHR 0x0A then [c] else c # fgets_piece n s)"

definition drop_newline :: "string \<Rightarrow> string" where
  "drop_newline s = (if s \<noteq> [] \<and> last s = CHR 0x0A then butlast s else s)"

function bb_last_piece :: "string \<Rightarrow> string \<Rightarrow> string" where
  "bb_last_piece out [] = out"
| "bb_last_piece out (c # s) =
     (let piece = fgets_piece 3 (c # s) in bb_last_piece (drop_newline piece) (drop (length piece) (c # s)))"
  by pat_completeness auto
termination
  by (relation "measure (\<lambda>(_, s). length s)") (auto simp: numeral_3_eq_3)

definition bb_getIpSubnet :: "bb_env \<Rightarrow> string \<Rightarrow> bb_state \<Rightarrow> bb_state filled" where
  "bb_getIpSubnet E old st =
     (case be_routes E of
        None \<Rightarrow> fill_nothing old st
      | Some (told_routes, status) \<Rightarrow> Inr ((status = 0, bb_last_piece old told_routes), st))"

definition bb_getTimeZone :: "string \<Rightarrow> bb_state \<Rightarrow> bb_state filled" where
  "bb_getTimeZone old st = fill_nonempty MAX_OUTVALUE (x_dsgtimezone (bx st)) old st"

definition bb_getHosts :: "string \<Rightarrow> bb_state \<Rightarrow> bb_state filled" where
  "bb_getHosts old st = fill_nonempty RUIURLSIZE (x_etchosts (bx st)) old st"

definition bb_getBcastIp :: "string \<Rightarrow> bb_state \<Rightarrow> bb_state filled" where
  "bb_getBcastIp old st = fill_nonempty MAX_OUTVALUE (x_gwyip (bx st)) old st"

definition bb_getBcastIf :: "bb_env \<Rightarrow> string \<Rightarrow> bb_state \<Rightarrow> bb_state filled" where
  "bb_getBcastIf E old st =
     (case be_bcastIf E of None \<Rightarrow> Inl Null_deref | Some i \<Rightarrow> fill_nonempty MAXSIZE i old st)"

definition bb_getSerialNum :: "string \<Rightarrow> bb_state \<Rightarrow> bb_state filled" where
  "bb_getSerialNum old st = fill_nonempty MAX_OUTVALUE (x_serial_num (bx st)) old st"

definition bb_getPartnerId :: "string \<Rightarrow> bb_state \<Rightarrow> bb_state filled" where
  "bb_getPartnerId old st = fill_nonempty MAX_OUTVALUE (x_partner_id (bx st)) old st"

text \<open>The list of user interfaces is not made, and announced as there.\<close>

definition bb_getRUIUrl :: "string \<Rightarrow> bb_state \<Rightarrow> bb_state filled" where
  "bb_getRUIUrl old st = Inr ((True, old), st)"

definition bb_getDevKeyPath :: "string \<Rightarrow> bb_state \<Rightarrow> bb_state filled" where
  "bb_getDevKeyPath old st = fill_n BB_FILE_LENGTH (lc_devKeyPath bb_conf) old st"

definition bb_getDevKeyFile :: "string \<Rightarrow> bb_state \<Rightarrow> bb_state filled" where
  "bb_getDevKeyFile old st = fill_n BB_FILE_LENGTH (lc_devKeyFile bb_conf) old st"

definition bb_getDevCertPath :: "string \<Rightarrow> bb_state \<Rightarrow> bb_state filled" where
  "bb_getDevCertPath old st = fill_n BB_FILE_LENGTH (lc_devCertPath bb_conf) old st"

definition bb_getDevCertFile :: "string \<Rightarrow> bb_state \<Rightarrow> bb_state filled" where
  "bb_getDevCertFile old st = fill_n BB_FILE_LENGTH (lc_devCertFile bb_conf) old st"

definition bb_getUUID :: "string \<Rightarrow> bb_state \<Rightarrow> bb_state filled" where
  "bb_getUUID old st =
     bind_outcome (bb_getUidfromRecvId st) (\<lambda>(ok, st).
       if ok \<and> x_recv_id (bx st) \<noteq> [] then fill_printf (''uuid:'' @ x_recv_id (bx st)) st
       else fill_nothing old st)"

definition bb_getReceiverId :: "string \<Rightarrow> bb_state \<Rightarrow> bb_state filled" where
  "bb_getReceiverId old st =
     bind_outcome (bb_getUidfromRecvId st) (\<lambda>(ok, st).
       if ok then fill_nonempty MAX_OUTVALUE (x_recv_id (bx st)) old st else fill_nothing old st)"

definition bb_getTrmUrl :: "string \<Rightarrow> bb_state \<Rightarrow> bb_state filled" where
  "bb_getTrmUrl old st = fill_nonempty MAX_OUTVALUE (x_trmurl (bx st)) old st"

definition bb_getPlaybackUrl :: "string \<Rightarrow> bb_state \<Rightarrow> bb_state filled" where
  "bb_getPlaybackUrl old st = fill_nonempty URLSIZE (x_playbackurl (bx st)) old st"

definition bb_getRouteDataGateway :: "string \<Rightarrow> bb_state \<Rightarrow> bb_state filled" where
  "bb_getRouteDataGateway old st = fill_nonempty MAX_OUTVALUE (x_dataGatewayIPaddress (bx st)) old st"

definition bb_getLogFile :: "string \<Rightarrow> bb_state \<Rightarrow> bb_state filled" where
  "bb_getLogFile old st =
     (case dc_logFile (lc bb_conf) of None \<Rightarrow> Inl Null_deref | Some s \<Rightarrow> fill_nonempty MAX_OUTVALUE s old st)"

definition bb_getEstbMacAddr :: "string \<Rightarrow> bb_state \<Rightarrow> bb_state filled" where
  "bb_getEstbMacAddr old st = fill_nothing old st"

definition bb_getDevXmlPath :: "string \<Rightarrow> bb_state \<Rightarrow> bb_state filled" where
  "bb_getDevXmlPath old st =
     (case dc_devXmlPath (lc bb_conf) of
        None \<Rightarrow> fill_nothing old st | Some p \<Rightarrow> fill_nonempty MAX_OUTVALUE p old st)"

definition bb_getDevXmlFile :: "bool \<Rightarrow> string \<Rightarrow> bb_state \<Rightarrow> bb_state filled" where
  "bb_getDevXmlFile refactor old st =
     (case dc_devXmlFile (lc bb_conf) of
        None \<Rightarrow> fill_nothing old st
      | Some f \<Rightarrow>
          (let dir = printed (dc_devXmlPath (lc bb_conf)) @ ''/'' in
           if \<not> refactor then (if f \<noteq> [] then fill_printf (dir @ f) st else fill_nothing old st)
           else fill_printf (dir @ BB_DEVICE_XML_FILE) st))"

definition bb_getModelNumber :: "string \<Rightarrow> bb_state \<Rightarrow> bb_state filled" where
  "bb_getModelNumber old st = fill_nonempty MAX_OUTVALUE (x_devicename (bx st)) old st"

definition bb_getMake :: "string \<Rightarrow> bb_state \<Rightarrow> bb_state filled" where
  "bb_getMake old st = fill_nonempty MAX_OUTVALUE (l_make (bl st)) old st"

definition bb_getAccountId :: "bb_env \<Rightarrow> string \<Rightarrow> bb_state \<Rightarrow> bb_state filled" where
  "bb_getAccountId E old st =
     (case be_syscfg E ''AccountID'' 24 of
        None \<Rightarrow> fill_nothing old st | Some temp \<Rightarrow> fill_s MAX_OUTVALUE temp st)"

text \<open>Numbers and flags.\<close>

fun bb_int :: "dev_int_fn \<Rightarrow> bb_state \<Rightarrow> 32 word" where
  "bb_int getRawOffSet st = x_rawOffset (bx st)"
| "bb_int getDstOffset st = x_dstOffset (bx st)"
| "bb_int getDstSavings st = x_dstSavings (bx st)"
| "bb_int getBcastPort st = word_of_int (dc_bcastPort (lc bb_conf))"
| "bb_int getCVPPort st = word_of_int (dc_cvpPort (lc bb_conf))"

fun bb_bool :: "dev_bool_fn \<Rightarrow> bb_state \<Rightarrow> bool" where
  "bb_bool getUsesDayLightTime st = x_usesDaylightTime (bx st)"
| "bb_bool getIsGateway st = dc_allowGwy (lc bb_conf)"
| "bb_bool getRequiresTRM st = x_requirestrm (bx st)"
| "bb_bool getTuneReady st = (x_tune_ready (bx st) mod 256 \<noteq> 0)"
| "bb_bool getIsuseGliDiagEnabled st = dc_useGliDiag (lc bb_conf)"
| "bb_bool getDisableTuneReadyStatus st = dc_disableTuneReady (lc bb_conf)"
| "bb_bool checkCVP2Enabled st = dc_enableCVP2 (lc bb_conf)"

text \<open>
  The library as its client sees it. The last four functions are not built into it, nor are their
  calls built into the client; they stand here as functions that answer nothing.
\<close>

fun bb_get :: "bb_env \<Rightarrow> dev_fn \<Rightarrow> string \<Rightarrow> bb_state \<Rightarrow> bb_state filled" where
  "bb_get E getBaseUrl = bb_getBaseUrl"
| "bb_get E getTrmUrl = bb_getTrmUrl"
| "bb_get E getPlaybackUrl = bb_getPlaybackUrl"
| "bb_get E getGatewayIp = bb_getGatewayIp"
| "bb_get E getGatewayIpv6 = bb_getGatewayIpv6"
| "bb_get E getGatewayStbIp = bb_getGatewayStbIp"
| "bb_get E getHostMacAddress = bb_getHostMacAddress"
| "bb_get E getBcastMacAddress = bb_getBcastMacAddress E"
| "bb_get E getRecvDevType = bb_getRecvDevType"
| "bb_get E getDeviceType = bb_getDeviceType"
| "bb_get E getBuildVersion = bb_getBuildVersion"
| "bb_get E getSystemsIds = bb_getSystemsIds"
| "bb_get E getRouteDataGateway = bb_getRouteDataGateway"
| "bb_get E getIpSubnet = bb_getIpSubnet E"
| "bb_get E getTimeZone = bb_getTimeZone"
| "bb_get E getDeviceName = bb_getDeviceName"
| "bb_get E getHosts = bb_getHosts"
| "bb_get E getModelNumber = bb_getModelNumber"
| "bb_get E getMake = bb_getMake"
| "bb_get E getReceiverId = bb_getReceiverId"
| "bb_get E dev_fn.getUUID = bb_getUUID"
| "bb_get E dev_fn.getSerialNum = bb_getSerialNum"
| "bb_get E getBcastIf = bb_getBcastIf E"
| "bb_get E getDevXmlPath = bb_getDevXmlPath"
| "bb_get E dev_fn.getAccountId = bb_getAccountId E"
| "bb_get E getDevCertFile = bb_getDevCertFile"
| "bb_get E getDevCertPath = bb_getDevCertPath"
| "bb_get E getDevKeyFile = bb_getDevKeyFile"
| "bb_get E getDevKeyPath = bb_getDevKeyPath"
| "bb_get E (getDevXmlFile refactor) = bb_getDevXmlFile refactor"
| "bb_get E getIpv6Prefix = fill_nothing"
| "bb_get E getDnsConfig = fill_nothing"
| "bb_get E getCVPIf = fill_nothing"
| "bb_get E getCVPXmlFile = fill_nothing"

definition broadband_library :: "bb_env \<Rightarrow> bb_state dev_lib" where
  "broadband_library E = \<lparr>dl_get = bb_get E, dl_int = bb_int, dl_bool = bb_bool\<rparr>"

subsection \<open>The contract\<close>

lemma fgets_piece_length: "length (fgets_piece n s) \<le> n"
  by (induction n s rule: fgets_piece.induct) auto

lemma drop_newline_length: "length (drop_newline s) \<le> length s"
  by (simp add: drop_newline_def)

lemma bb_last_piece_length: "length (bb_last_piece out s) \<le> max (length out) 3"
proof (induction out s rule: bb_last_piece.induct)
  case (2 out c s)
  have "length (drop_newline (fgets_piece 3 (c # s))) \<le> 3"
    using drop_newline_length fgets_piece_length le_trans by blast
  with 2 show ?case by (simp add: Let_def del: fgets_piece.simps)
qed simp

lemma bb_last_piece_again: "bb_last_piece (bb_last_piece out s) s = bb_last_piece out s"
  by (cases s) simp_all

lemmas bb_getter_defs = bb_getBaseUrl_def bb_getPlaybackUrl_def bb_getIpSubnet_def bb_getDeviceName_def
  bb_getDeviceType_def bb_getGatewayStbIp_def bb_getGatewayIpv6_def bb_getGatewayIp_def bb_getRecvDevType_def
  bb_getBuildVersion_def bb_getHostMacAddress_def bb_getSystemsIds_def bb_getTimeZone_def bb_getHosts_def
  bb_getTrmUrl_def bb_getRouteDataGateway_def bb_getModelNumber_def bb_getMake_def

lemmas bb_setting_defs = bb_getBcastMacAddress_def bb_getBcastIf_def bb_getSerialNum_def bb_getUUID_def
  bb_getReceiverId_def bb_getDevXmlPath_def bb_getDevXmlFile_def bb_getDevKeyPath_def bb_getDevKeyFile_def
  bb_getDevCertPath_def bb_getDevCertFile_def bb_getAccountId_def

lemmas bb_sizes = MAXSIZE_def RUIURLSIZE_def URLSIZE_def MAX_OUTVALUE_def BB_FILE_LENGTH_def fn_size_def

lemma bb_fits:
  assumes "bb_get E f old s = Inr ((ok, v), s')" "length old < fn_size f"
  shows "length v < fn_size f"
proof (cases "f = getIpSubnet")
  case True
  then obtain out where "v = old \<or> v = bb_last_piece old out"
    using assms(1) by (auto simp: bb_getIpSubnet_def fill_nothing_def split: option.splits)
  then have "length v \<le> max (length old) 3" using bb_last_piece_length [of old out] by auto
  moreover have "3 < fn_size f" by (simp add: True bb_sizes)
  ultimately show ?thesis using assms(2) by simp
next
  case False
  with assms show ?thesis
    by (cases f) (auto simp: bb_getter_defs bb_setting_defs fill_defs bb_sizes Let_def bind_outcome_Inr_iff bb_conf_def
        split: if_splits option.splits prod.splits)
qed

text \<open>The actions change nothing, or the base URL.\<close>

lemma bb_effect:
  assumes "refreshes g" "bb_get E g other s = Inr (r, s')"
  shows "s' = s \<or> (\<exists>v. s' = bx_update (x_url_update (\<lambda>_. v)) s)"
proof (cases "g = getBaseUrl")
  case True
  with assms(2) show ?thesis by (auto simp: bb_getBaseUrl_def Let_def fill_defs split: if_splits)
next
  case False
  with assms show ?thesis
    by (cases g) (auto simp: refreshes_def bb_getter_defs fill_defs split: if_splits option.splits prod.splits)
qed

lemma bb_again:
  assumes "refreshes f" "bb_get E f old s = Inr ((ok, v), s')"
  shows "result_of (bb_get E f v s) = Inr (ok, v)"
  using assms
  by (cases f) (auto simp: refreshes_def bb_getter_defs fill_defs Let_def bb_last_piece_again
      split: if_splits option.splits prod.splits)

lemma bb_apart:
  assumes "refreshes f" "s' = s \<or> (\<exists>v. s' = bx_update (x_url_update (\<lambda>_. v)) s)"
  shows "result_of (bb_get E f old s') = result_of (bb_get E f old s)"
  using assms
  by (cases f) (auto simp: refreshes_def bb_getter_defs fill_defs Let_def bx_update_def split: option.split)

lemma bb_numbers: "bb_int i (bx_update (x_url_update (\<lambda>_. v)) s) = bb_int i s"
  by (cases i) (simp_all add: bx_update_def)

lemma bb_flags: "bb_bool p (bx_update (x_url_update (\<lambda>_. v)) s) = bb_bool p s"
  by (cases p) (simp_all add: bx_update_def)

interpretation broadband: device_library "broadband_library E" for E
proof
  fix f old s ok v s'
  assume "dl_get (broadband_library E) f old s = Inr ((ok, v), s')" "length old < fn_size f"
  then show "length v < fn_size f" by (simp add: broadband_library_def bb_fits)
next
  fix f old s ok v s'
  assume "refreshes f" "dl_get (broadband_library E) f old s = Inr ((ok, v), s')"
  then show "result_of (dl_get (broadband_library E) f v s) = Inr (ok, v)" by (simp add: broadband_library_def bb_again)
next
  fix f g old other s r s'
  assume "refreshes f" "refreshes g" "dl_get (broadband_library E) g other s = Inr (r, s')"
  then show "result_of (dl_get (broadband_library E) f old s') = result_of (dl_get (broadband_library E) f old s)"
    by (simp add: broadband_library_def bb_apart [OF _ bb_effect])
next
  fix f old s r s' i
  assume "refreshes f" "dl_get (broadband_library E) f old s = Inr (r, s')"
  then show "dl_int (broadband_library E) i s' = dl_int (broadband_library E) i s"
    using bb_effect [of f E old s r s'] by (auto simp: broadband_library_def bb_numbers)
next
  fix f old s r s' p
  assume "refreshes f" "dl_get (broadband_library E) f old s = Inr (r, s')"
  then show "dl_bool (broadband_library E) p s' = dl_bool (broadband_library E) p s"
    using bb_effect [of f E old s r s'] by (auto simp: broadband_library_def bb_flags)
qed

end
