(* ===== verification/Bb_Start.thy ===== *)
theory Bb_Start
  imports Bb_Lib
begin

text \<open>
  The start of the broadband library: \<open>xdeviceInit\<close> of
  \<open>src/broadband/lib/src/xcal-device-library.c\<close>, and what the device publishes after it.
\<close>

subsection \<open>The start\<close>

text \<open>
  What the world answers during the start: files, the answers of \<open>getifaddrs\<close> in their order, the
  hardware layer, which has to be opened and then asked for the serial number, and the number of
  bytes that GLib gives an empty \<open>GString\<close>.
\<close>

record bs_env =
  bs_files :: files
  bs_addrs :: "nat \<Rightarrow> ifaddrs list option"
  bs_hal_open :: bool
  bs_hal_serial :: "string option"
  bs_room :: nat

text \<open>
  \<open>getserialnum\<close> lets the hardware layer write into the storage of an empty string; when it has no
  number, \<open>g_error\<close> ends the process.
\<close>

definition bb_getserialnum :: "bs_env \<Rightarrow> bb_state \<Rightarrow> (bool \<times> bb_state) start" where
  "bb_getserialnum V st =
     (if \<not> bs_hal_open V then Going (False, st)
      else (case bs_hal_serial V of
              None \<Rightarrow> Aborted
            | Some s \<Rightarrow>
                if length s < bs_room V then Going (True, bx_update (x_serial_num_update (\<lambda>_. s)) st)
                else Faulted Out_of_bounds))"

text \<open>Up to ten rounds over the two interfaces, of which the first that has an address is taken.\<close>

fun bb_rounds :: "bs_env \<Rightarrow> xd_state \<Rightarrow> nat \<Rightarrow> nat \<Rightarrow> (string \<times> string) option" where
  "bb_rounds V st 0 i = None"
| "bb_rounds V st (Suc n) i =
     (let get = xd_getipaddress (\<lambda>_. False) (lc bb_conf) in
      case get (bs_addrs V i) (x_mocaIface st) [] False of (r, buf) \<Rightarrow>
      if r \<noteq> 0 then Some (x_mocaIface st, buf)
      else (case get (bs_addrs V (Suc i)) (x_wifiIface st) buf False of (r, buf) \<Rightarrow>
            if r \<noteq> 0 then Some (x_wifiIface st, buf) else bb_rounds V st n (i + 2)))"

text \<open>\<open>xdeviceInit\<close>: to the environment with the interface set, and the state.\<close>

definition bb_xdeviceInit :: "bs_env \<Rightarrow> bb_env \<Rightarrow> (bb_env \<times> bb_state) start" where
  "bb_xdeviceInit V E =
     (let st = (case dc_devPropertyFile (lc bb_conf) of
                  None \<Rightarrow> bb_init | Some f \<Rightarrow> snd (bb_readDevFile (bs_files V) (Some f) bb_init)) in
      case bb_rounds V (bx st) 10 0 of
        None \<Rightarrow> Exited 1
      | Some (iface, buf) \<Rightarrow>
          (let E = E\<lparr>be_bcastIf := Some iface\<rparr>;
               st = bx_update (\<lambda>x. x\<lparr>x_gwyip := buf\<rparr>) st;
               st = bx_update (\<lambda>x. x\<lparr>x_bcastmacaddress := bb_getmacaddress E iface\<rparr>) st;
               st = st\<lparr>b_eroutermacaddress := bb_getmacaddress E UDN_IF\<rparr>;
               st = (if \<not> dc_allowGwy (lc bb_conf) then bx_update (\<lambda>x. x\<lparr>x_isgateway := False\<rparr>) st else st)
           in bind_start (bb_getserialnum V st) (\<lambda>(ok, st). Going (E, st))))"

subsection \<open>The identifier of the device\<close>

lemma hex_digit_cases:
  assumes "n < 16"
  shows "hex_digit n \<in> set ''0123456789abcdef''"
proof -
  have "\<forall>n \<in> set [0..<16]. hex_digit n \<in> set ''0123456789abcdef''" by code_simp
  with assms show ?thesis by simp
qed

lemma hex2_plain: "\<exists>a b. hex2 w = [a, b] \<and> {a, b} \<subseteq> set ''0123456789abcdef''"
proof -
  have "unat w < 256" using unsigned_less [of w] by simp
  then have "unat w div 16 < 16" "unat w mod 16 < 16" by (simp_all add: div_less_iff_less_mult)
  then show ?thesis unfolding hex2_def using hex_digit_cases by fastforce
qed

lemma hex2_part:
  "set (hex2 w) \<inter> {CHR 0x27, CHR '':'', CHR 0x0A} = {}" "g_strstrip (hex2 w) = hex2 w"
  "length (hex2 w) = 2" "filter (\<lambda>c. c \<noteq> CHR '':'') (hex2 w) = hex2 w"
proof -
  obtain a b where h: "hex2 w = [a, b]" and ab: "{a, b} \<subseteq> set ''0123456789abcdef''" using hex2_plain by blast
  have spaces: "\<forall>c \<in> set ''0123456789abcdef''. \<not> g_ascii_isspace c \<and> c \<notin> {CHR 0x27, CHR '':'', CHR 0x0A}"
    by code_simp
  with ab have s: "\<not> g_ascii_isspace a" "\<not> g_ascii_isspace b" "a \<notin> {CHR 0x27, CHR '':'', CHR 0x0A}"
    "b \<notin> {CHR 0x27, CHR '':'', CHR 0x0A}" by blast+
  then show "set (hex2 w) \<inter> {CHR 0x27, CHR '':'', CHR 0x0A} = {}" "g_strstrip (hex2 w) = hex2 w"
    "length (hex2 w) = 2" "filter (\<lambda>c. c \<noteq> CHR '':'') (hex2 w) = hex2 w"
    by (simp_all add: h g_strstrip_stripped stripped_def)
qed

lemma mac_parts:
  "g_strsplit_set (getmacaddress True hwaddr junk) [CHR 0x27, CHR '':'', CHR 0x0A] =
     map (\<lambda>i. hex2 ((case hwaddr of Some m \<Rightarrow> m | None \<Rightarrow> junk) ! i)) [0, 1, 2, 3, 4, 5]"
proof -
  have cons: "split_set (set [CHR 0x27, CHR '':'', CHR 0x0A]) (hex2 w @ CHR '':'' # t) =
      hex2 w # split_set (set [CHR 0x27, CHR '':'', CHR 0x0A]) t" for w t
    using hex2_part(1) [of w] by (intro split_set_sep) simp_all
  have lone: "split_set (set [CHR 0x27, CHR '':'', CHR 0x0A]) (hex2 w) = [hex2 w]" for w
    using hex2_part(1) [of w] by (intro split_set_no_sep) simp
  have ne: "getmacaddress True hwaddr junk \<noteq> []" by (simp add: getmacaddress_def Let_def hex2_def)
  show ?thesis
    unfolding g_strsplit_set_def if_not_P [OF ne]
    by (simp only: getmacaddress_def if_not_P not_True_eq_False Let_def append_Cons append_Nil cons lone not_not
        if_False list.map)
qed

lemma uid_of_mac:
  assumes "b_eroutermacaddress st = getmacaddress True hwaddr junk"
  shows "bb_getUidfromRecvId st =
    Inr (True, bx_update (\<lambda>x. x\<lparr>x_recv_id := uid_prefix @ filter (\<lambda>c. c \<noteq> CHR '':'') (b_eroutermacaddress st)\<rparr>) st)"
proof -
  let ?ts = "g_strsplit_set (getmacaddress True hwaddr junk) [CHR 0x27, CHR '':'', CHR 0x0A]"
  have "tokens_from ?ts 0 6 = Inr (concat (map g_strstrip ?ts))" by (simp add: tokens_from_spec mac_parts)
  also have "concat (map g_strstrip ?ts) = filter (\<lambda>c. c \<noteq> CHR '':'') (getmacaddress True hwaddr junk)"
    unfolding mac_parts by (simp add: getmacaddress_def Let_def hex2_part)
  finally show ?thesis using mac_parts [of hwaddr junk] by (simp add: bb_getUidfromRecvId_def assms Let_def)
qed

lemma mac_length: "length (filter (\<lambda>c. c \<noteq> CHR '':'') (getmacaddress True hwaddr junk)) = 12"
  by (simp add: getmacaddress_def Let_def hex2_part)

lemma readDevFile_interfaces:
  "x_mocaIface (bx (snd (bb_readDevFile files (Some f) st))) = ISOLATION_IF"
  "x_wifiIface (bx (snd (bb_readDevFile files (Some f) st))) = WIFI_IF"
  by (simp_all add: bb_readDevFile_def bx_update_def split: prod.split)

lemma bb_rounds_interface: "bb_rounds V st n i = Some (iface, buf) \<Longrightarrow> iface \<in> {x_mocaIface st, x_wifiIface st}"
  by (induction V st n i rule: bb_rounds.induct) (auto simp: Let_def split: prod.splits if_splits)

lemma bb_start_parts:
  assumes "bb_xdeviceInit V E = Going (E', st)"
  shows "b_eroutermacaddress st = bb_getmacaddress E UDN_IF" "be_hwaddr E' = be_hwaddr E"
    and "\<exists>iface. iface \<in> {ISOLATION_IF, WIFI_IF} \<and> be_bcastIf E' = Some iface \<and>
      x_bcastmacaddress (bx st) = bb_getmacaddress E iface"
proof -
  from assms show "b_eroutermacaddress st = bb_getmacaddress E UDN_IF" "be_hwaddr E' = be_hwaddr E"
    by (auto simp: bb_xdeviceInit_def Let_def bind_start_Going_iff bb_getserialnum_def bb_getmacaddress_def
        bb_conf_def bx_update_def split: option.splits if_splits prod.splits)
  let ?st = "bx (snd (bb_readDevFile (bs_files V) (Some ''/etc/device.properties'') bb_init))"
  from assms obtain iface buf where r: "bb_rounds V ?st 10 0 = Some (iface, buf)"
    and e: "be_bcastIf E' = Some iface" "x_bcastmacaddress (bx st) = bb_getmacaddress E iface"
    by (auto simp: bb_xdeviceInit_def Let_def bind_start_Going_iff bb_getserialnum_def bb_getmacaddress_def
        bb_conf_def bx_update_def split: option.splits if_splits prod.splits)
  show "\<exists>iface. iface \<in> {ISOLATION_IF, WIFI_IF} \<and> be_bcastIf E' = Some iface \<and>
      x_bcastmacaddress (bx st) = bb_getmacaddress E iface"
    using bb_rounds_interface [OF r] e by (auto simp: readDevFile_interfaces)
qed

subsection \<open>The pieces of a line\<close>

lemma fgets_piece_short: "length s < n \<Longrightarrow> CHR 0x0A \<notin> set s \<Longrightarrow> fgets_piece n (s @ [CHR 0x0A]) = s @ [CHR 0x0A]"
  by (induction n s rule: fgets_piece.induct) (auto simp: less_Suc_eq_0_disj)

lemma last_piece_line: "CHR 0x0A \<notin> set s \<Longrightarrow> bb_last_piece out (s @ [CHR 0x0A]) = drop (3 * (length s div 3)) s"
proof (induction "length s" arbitrary: s out rule: less_induct)
  case less
  show ?case
  proof (cases "length s < 3")
    case True
    then have p: "fgets_piece 3 (s @ [CHR 0x0A]) = s @ [CHR 0x0A]" using less.prems fgets_piece_short by blast
    obtain c u where cu: "s @ [CHR 0x0A] = c # u" by (cases "s @ [CHR 0x0A]") auto
    have "bb_last_piece out (c # u) = drop_newline (c # u)" using p by (simp add: cu Let_def del: fgets_piece.simps)
    also have "\<dots> = s" unfolding cu [symmetric] by (simp add: drop_newline_def)
    finally show ?thesis using True by (simp add: cu)
  next
    case False
    then obtain a b c t where s: "s = [a, b, c] @ t" 
      by (cases s; cases "tl s"; cases "tl (tl s)") auto
    have p: "fgets_piece 3 (a # b # c # t @ [CHR 0x0A]) = [a, b, c]" "drop_newline [a, b, c] = [a, b, c]"
      using less.prems by (auto simp: s numeral_3_eq_3 drop_newline_def)
    have "bb_last_piece out (s @ [CHR 0x0A]) = bb_last_piece [a, b, c] (t @ [CHR 0x0A])"
      unfolding s append_Cons append_Nil bb_last_piece.simps(2) Let_def p by simp
    also have "\<dots> = drop (3 * (length t div 3)) t" using less.prems by (intro less.hyps) (simp_all add: s)
    also have "\<dots> = drop (3 * (length s div 3)) s"
    proof -
      have "3 * (length s div 3) = Suc (Suc (Suc (3 * (length t div 3))))"
        using div_add_self1 [of 3 "length t"] by (simp add: s del: div_add_self1)
      then show ?thesis by (simp only: s append_Cons append_Nil drop_Suc_Cons)
    qed
    finally show ?thesis .
  qed
qed

subsection \<open>Properties\<close>

text \<open>
  C23. A broadband gateway whose start succeeded announces itself over one of its two interfaces with
  the hardware address of that interface, and under an identifier that is made of a fixed prefix and
  the twelve digits of the hardware address of the router's interface, whatever the two interfaces
  and the environment answered otherwise.
\<close>

theorem broadband_identity:
  assumes "bb_xdeviceInit V E = Going (E', st)"
  shows "map_sum id fst (bb_getUUID old st) =
      Inr (True, ''uuid:'' @ uid_prefix @ filter (\<lambda>c. c \<noteq> CHR '':'') (bb_getmacaddress E UDN_IF)) \<and>
    length (filter (\<lambda>c. c \<noteq> CHR '':'') (bb_getmacaddress E UDN_IF)) = 12 \<and>
    (\<exists>iface \<in> {ISOLATION_IF, WIFI_IF}. be_bcastIf E' = Some iface \<and>
       map_sum id fst (bb_getBcastMacAddress E' old st) = Inr (True, bb_getmacaddress E' iface))"
proof (intro conjI)
  note parts = bb_start_parts [OF assms]
  from parts(1) have "b_eroutermacaddress st = getmacaddress True (be_hwaddr E UDN_IF) (be_junk_mac E)"
    by (simp add: bb_getmacaddress_def UDN_IF_def)
  note uid = uid_of_mac [OF this]
  have n: "length (filter (\<lambda>c. c \<noteq> CHR '':'') (bb_getmacaddress E UDN_IF)) = 12"
    by (simp add: bb_getmacaddress_def mac_length)
  then show "length (filter (\<lambda>c. c \<noteq> CHR '':'') (bb_getmacaddress E UDN_IF)) = 12" .
  show "map_sum id fst (bb_getUUID old st) =
      Inr (True, ''uuid:'' @ uid_prefix @ filter (\<lambda>c. c \<noteq> CHR '':'') (bb_getmacaddress E UDN_IF))"
    using n by (simp add: bb_getUUID_def uid parts(1) bx_update_def uid_prefix_def fill_printf_def MAXSIZE_def)
  have "length (bb_getmacaddress F i) = 17" for F i
    by (simp add: bb_getmacaddress_def getmacaddress_def Let_def hex2_part)
  with parts(3) show "\<exists>iface \<in> {ISOLATION_IF, WIFI_IF}. be_bcastIf E' = Some iface \<and>
       map_sum id fst (bb_getBcastMacAddress E' old st) = Inr (True, bb_getmacaddress E' iface)"
    by (auto simp: bb_getBcastMacAddress_def Let_def bx_update_def fill_s_def MAX_OUTVALUE_def)
qed

definition sample_start :: bs_env where
  "sample_start = \<lparr>bs_files = (\<lambda>_. None), bs_addrs = (\<lambda>i. if i = 1 then
     Some [\<lparr>ifa_name = WIFI_IF, ifa_addr = Some (AF_INET ''10.0.0.1'')\<rparr>] else Some []), bs_hal_open = True,
     bs_hal_serial = Some ''M1'', bs_room = 16\<rparr>"

definition sample_hardware :: bb_env where
  "sample_hardware = \<lparr>be_bcastIf = None, be_hwaddr = (\<lambda>i. if i = UDN_IF then Some [0, 17, 34, 51, 68, 255]
     else Some [0, 1, 2, 3, 4, 5]), be_junk_mac = [], be_syscfg = (\<lambda>_ _. None),
     be_routes = Some (''10.0.0.0/24'' @ [CHR 0x0A], 0)\<rparr>"

theorem broadband_identity_witness:
  "\<exists>E' st. bb_xdeviceInit sample_start sample_hardware = Going (E', st) \<and>
     map_sum id fst (bb_getUUID [] st) = Inr (True, ''uuid:ebf5a0a0-1dd1-11b2-a90f-0011223344ff'')"
proof -
  have "case bb_xdeviceInit sample_start sample_hardware of Going _ \<Rightarrow> True | _ \<Rightarrow> False" by code_simp
  then obtain E' st where run: "bb_xdeviceInit sample_start sample_hardware = Going (E', st)"
    by (auto split: start.splits)
  have "''uuid:'' @ uid_prefix @ filter (\<lambda>c. c \<noteq> CHR '':'') (bb_getmacaddress sample_hardware UDN_IF) =
      ''uuid:ebf5a0a0-1dd1-11b2-a90f-0011223344ff''" by code_simp
  with broadband_identity [OF run, of "[]"] run show ?thesis by auto
qed

text \<open>
  C24. The subnet of a broadband gateway is told three characters at a time, each piece over the one
  before: of a line that the command prints, what reaches the clients is what follows the last whole
  group of three characters.
\<close>

theorem broadband_subnet_last_piece:
  assumes "be_routes E = Some (s @ [CHR 0x0A], 0)" "CHR 0x0A \<notin> set s"
  shows "bb_getIpSubnet E old st = Inr ((True, drop (3 * (length s div 3)) s), st)"
  using assms by (simp add: bb_getIpSubnet_def last_piece_line)

theorem broadband_subnet_last_piece_witness:
  "bb_getIpSubnet sample_hardware [] bb_init = Inr ((True, ''24''), bb_init)"
proof -
  have d: "drop (3 * (length ''10.0.0.0/24'' div 3)) ''10.0.0.0/24'' = ''24''" "CHR 0x0A \<notin> set ''10.0.0.0/24''"
    by code_simp+
  have "be_routes sample_hardware = Some (''10.0.0.0/24'' @ [CHR 0x0A], 0)" by (simp add: sample_hardware_def)
  from broadband_subnet_last_piece [OF this d(2)] show ?thesis by (simp only: d(1))
qed

end
