(* ===== verification/Dev_Runs.thy ===== *)
theory Dev_Runs
  imports Dev_Main Dev_Discovery Video_Start Bb_Start
begin

text \<open>
  The refactored device as a whole: the start of \<open>src/xcal-device-main.c\<close> over a library, and then
  any sequence of requests, for each of the two libraries.
\<close>

subsection \<open>Requests\<close>

text \<open>A request invokes an action of a service, or asks for a state variable.\<close>

datatype dm_request = Invoke dev_service string args | Query dev_service string

lemma bind_outcome_InrE:
  assumes "bind_outcome m (\<lambda>(out, st). Inr (Some out, st)) = Inr (Some r, t)"
  shows "m = Inr (r, t)"
  using assms by (cases m) (auto split: prod.splits)

definition dm_query ::
  "dev_build \<Rightarrow> 's dev_lib \<Rightarrow> dev_service \<Rightarrow> string \<Rightarrow> 's dm_state \<Rightarrow> (gvalue option \<times> 's dm_state) outcome" where
  "dm_query build L s name st =
     (case (if dm_registered build (dm_rfc_enabled st) s then map_of (dm_queries build L s) name else None) of
        None \<Rightarrow> Inr (None, st)
      | Some q \<Rightarrow> bind_outcome (q st) (\<lambda>(v, st). Inr (Some v, st)))"

fun dm_serve :: "dev_build \<Rightarrow> 's dev_lib \<Rightarrow> dm_request \<Rightarrow> 's dm_state \<Rightarrow> 's dm_state outcome" where
  "dm_serve build L (Invoke s a args) st = bind_outcome (dm_call build L s a args st) (\<lambda>(_, st). Inr st)"
| "dm_serve build L (Query s name) st = bind_outcome (dm_query build L s name st) (\<lambda>(_, st). Inr st)"

fun dm_requests :: "dev_build \<Rightarrow> 's dev_lib \<Rightarrow> dm_request list \<Rightarrow> 's dm_state \<Rightarrow> 's dm_state outcome" where
  "dm_requests build L [] st = Inr st"
| "dm_requests build L (r # rs) st = bind_outcome (dm_serve build L r st) (dm_requests build L rs)"

text \<open>A call or a query, whichever it is, is a handler of the table or nothing.\<close>

lemma dm_call_cases:
  "dm_call build L s a args st = Inr (None, st) \<or>
     (\<exists>cb. (a, cb) \<in> set (dm_actions build L s) \<and>
        dm_call build L s a args st = bind_outcome (cb args st) (\<lambda>(out, st). Inr (Some out, st)))"
  by (auto simp: dm_call_def dest: map_of_SomeD split: option.split)

lemma dm_query_cases:
  "dm_query build L s n st = Inr (None, st) \<or>
     (\<exists>q. (n, q) \<in> set (dm_queries build L s) \<and>
        dm_query build L s n st = bind_outcome (q st) (\<lambda>(v, st). Inr (Some v, st)))"
  by (auto simp: dm_query_def dest: map_of_SomeD split: option.split)

lemma start_of_Going: "start_of m = Going x \<longleftrightarrow> m = Inr x"
  by (auto simp: start_of_def split: sum.split fault.split)

lemmas query_tables = dm_queries_def Let_def dm_friendlies_queries_def dm_identity_queries_def
  dm_media_queries_def dm_gateway_queries_def dm_qam_queries_def dm_time_queries_def

lemmas action_tables = dm_actions_def Let_def dm_friendlies_actions_def dm_identity_actions_def
  dm_media_actions_def dm_gateway_actions_def dm_qam_actions_def dm_time_actions_def

lemma g_strstrip_shorter: "length (g_strstrip s) \<le> length s"
  using le_trans [OF length_dropWhile_le length_dropWhile_le]
  by (simp add: g_strstrip_def g_strchomp_def g_strchug_def le_trans [OF length_dropWhile_le])

lemmas going_parts = bind_start_Going_iff start_of_Going Let_def split_paired_Ex prod.case

lemma if_Going: "(if b then Exited n else m) = Going r \<longleftrightarrow> \<not> b \<and> m = Going r"
  by simp

context device_library begin

lemma value_keeps_readings:
  "dm_source L st b = Some f \<Longrightarrow> keeps_readings L st (dm_value b (dm_fill L f b st))"
  "keeps_readings L st (dm_value b (Inr st))"
  using fill_keeps_readings by (auto simp: keeps_readings_def dm_value_def bind_outcome_Inr_iff same_readings_fields)

lemma queries_keep_readings:
  "list_all (\<lambda>(n, q). \<forall>st. dl_bool L getIsuseGliDiagEnabled (dm_lib st) \<longrightarrow> keeps_readings L st (q st))
     (dm_queries build L s)"
  by (cases s) (simp_all add: query_tables dm_query_defs dm_query_playback_url_cb_def dm_query_ipsubnet_cb_def
      dm_query_timezone_cb_def value_keeps_readings keeps_readings_plain dm_source_def)

lemma serve_keeps_readings:
  assumes "dm_serve build L r st = Inr st'" "dl_bool L getIsuseGliDiagEnabled (dm_lib st)"
  shows "same_readings L st st'"
proof (cases r)
  case (Invoke s a args)
  with assms(1) show ?thesis
    using call_keeps_readings [of st build s a args] by (auto simp: keeps_readings_def bind_outcome_Inr_iff)
next
  case (Query s n)
  with assms(1) consider "st' = st" | q v where "(n, q) \<in> set (dm_queries build L s)" "q st = Inr (v, st')"
    using dm_query_cases [of build L s n st] by (auto simp: bind_outcome_Inr_iff)
  then show ?thesis
  proof cases
    case 2
    have "keeps_readings L st (q st)"
      using queries_keep_readings [of build s] 2(1) assms(2) unfolding list_all_iff by fastforce
    with 2(2) show ?thesis by (simp add: keeps_readings_def)
  qed (simp add: same_readings_numbers)
qed

lemma requests_keep_readings:
  assumes "dm_requests build L rs st = Inr st'" "dl_bool L getIsuseGliDiagEnabled (dm_lib st)"
  shows "same_readings L st st'"
  using assms
proof (induction rs arbitrary: st)
  case (Cons r rs)
  then obtain st1 where 1: "dm_serve build L r st = Inr st1" "dm_requests build L rs st1 = Inr st'"
    by (auto simp: bind_outcome_Inr_iff)
  have s: "same_readings L st st1" using serve_keeps_readings 1(1) Cons.prems(2) by blast
  then have "dl_bool L getIsuseGliDiagEnabled (dm_lib st1)" using Cons.prems(2) by (simp add: same_readings_library)
  with s show ?case using Cons.IH 1(2) same_readings_trans by blast
qed (simp add: same_readings_numbers)

lemma serve_keeps_fit: "dm_serve build L r st = Inr st' \<Longrightarrow> bufs_fit st \<Longrightarrow> bufs_fit st'"
proof (cases r)
  case (Invoke s a args)
  assume "dm_serve build L r st = Inr st'" "bufs_fit st"
  with Invoke show ?thesis
    using call_keeps_fit [of st build s a args] by (auto simp: keeps_fit_def bind_outcome_Inr_iff)
next
  case (Query s n)
  assume "dm_serve build L r st = Inr st'" and fit: "bufs_fit st"
  with Query consider "st' = st" | q v where "(n, q) \<in> set (dm_queries build L s)" "q st = Inr (v, st')"
    using dm_query_cases [of build L s n st] by (auto simp: bind_outcome_Inr_iff)
  then show ?thesis
  proof cases
    case 2
    then have "keeps_fit st (q st)" using queries_keep_fit [of build s] unfolding list_all_iff by fastforce
    with 2(2) fit show ?thesis by (simp add: keeps_fit_def)
  qed (use fit in simp)
qed

lemma requests_keep_fit: "dm_requests build L rs st = Inr st' \<Longrightarrow> bufs_fit st \<Longrightarrow> bufs_fit st'"
  by (induction rs arbitrary: st) (auto simp: bind_outcome_Inr_iff dest: serve_keeps_fit)

text \<open>The start fills buffers that are large enough.\<close>

lemma try_fits:
  "dm_try L (f, b) st = Inr (ok, st') \<Longrightarrow> fn_size f = buf_size b \<Longrightarrow> bufs_fit st \<Longrightarrow> bufs_fit st'"
  using fits by (fastforce simp: dm_try_def bind_outcome_Inr_iff bufs_fit_def)

lemma try_all_fits:
  "dm_try_all L cs st = Inr (ok, st') \<Longrightarrow> \<forall>(f, b) \<in> set cs. fn_size f = buf_size b \<Longrightarrow> bufs_fit st \<Longrightarrow> bufs_fit st'"
proof (induction cs arbitrary: st)
  case (Cons c cs)
  obtain f b where c: "c = (f, b)" by (cases c)
  from Cons.prems(1) obtain ok1 st1 where 1: "dm_try L (f, b) st = Inr (ok1, st1)"
    and 2: "st' = st1 \<or> dm_try_all L cs st1 = Inr (ok, st')"
    by (auto simp: c bind_outcome_Inr_iff split: if_splits)
  have "bufs_fit st1" using try_fits [OF 1] Cons.prems(2,3) by (simp add: c)
  then show ?case using 2 Cons.IH Cons.prems(2) by (auto simp: c)
qed simp

lemma certificates_fit:
  assumes "dm_certificates M L st = Inr (certs, st')" "bufs_fit st"
  shows "bufs_fit st'"
proof (cases "me_build M \<noteq> Broadband \<and> me_xpki M")
  case False
  with assms(1) obtain ok where "dm_try_all L [(getDevCertFile, B_devCertFile), (getDevCertPath, B_devCertPath),
     (getDevKeyFile, B_devKeyFile), (getDevKeyPath, B_devKeyPath)] st = Inr (ok, st')"
    unfolding dm_certificates_def by (auto simp: bind_outcome_Inr_iff Let_def simp del: dm_try_all.simps)
  from try_all_fits [OF this] assms(2) show ?thesis by (simp add: fn_size_def buf_size_def)
qed (use assms in \<open>simp add: dm_certificates_def\<close>)

lemma collect_fits: "dm_collect L st = Inr st' \<Longrightarrow> bufs_fit st \<Longrightarrow> bufs_fit st'"
  by (auto simp: dm_collect_def bind_outcome_Inr_iff fn_size_def buf_size_def simp del: dm_try_all.simps
      dest!: try_all_fits try_fits)

lemma fits_fields:
  "bufs_fit (st\<lparr>dm_lib := s\<rparr>) = bufs_fit st" "bufs_fit (st\<lparr>dm_rfc_enabled := p\<rparr>) = bufs_fit st"
  by (simp_all add: bufs_fit_def)

lemma refactored_fits:
  assumes "dm_refactored M L st ds = Going r" "bufs_fit st"
  shows "bufs_fit (mr_state r)"
proof -
  from assms(1) obtain q s ok st1 certs st2 uuid where
    1: "dm_try L (dev_fn.getAccountId, B_accountId) (st\<lparr>dm_lib := s\<rparr>) = Inr (ok, st1)"
    and 2: "dm_certificates M L st1 = Inr (certs, st2)"
    and 3: "(if dm_protected M certs then dm_secure M L st2 q uuid ds else dm_fall_back st2 ds) = Going r"
    by (simp only: going_parts dm_refactored_def) blast
  have "bufs_fit st1" using try_fits [OF 1] assms(2) by (simp add: fits_fields fn_size_def buf_size_def)
  then have fit: "bufs_fit st2" by (rule certificates_fit [OF 2])
  show ?thesis
  proof (cases "dm_protected M certs")
    case True
    with 3 have "mr_state r = st2 \<or> (\<exists>ok. dm_try L (getReceiverId, B_receiverId) st2 = Inr (ok, mr_state r))"
      by (auto simp: dm_secure_def bind_start_Going_iff start_of_Going split: if_splits)
    then show ?thesis using fit try_fits [of getReceiverId B_receiverId st2] by (auto simp: fn_size_def buf_size_def)
  next
    case False
    with 3 fit show ?thesis by (auto simp: dm_fall_back_def Let_def bind_start_Going_iff fits_fields)
  qed
qed

lemma second_device_fits:
  assumes "dm_second_device M L r = Going r'" "bufs_fit (mr_state r)"
  shows "bufs_fit (mr_state r')"
proof (cases "me_build M \<noteq> Video_gateway \<or> \<not> dl_bool L checkCVP2Enabled (dm_lib (mr_state r))")
  case False
  let ?strip = "\<lambda>b st. st\<lparr>dm_buf := (dm_buf st)(b := g_strstrip (dm_buf st b))\<rparr>"
  have strip: "bufs_fit (?strip b st)" if "bufs_fit st" for b and st :: "'s dm_state"
    using that g_strstrip_shorter [of "dm_buf st b"] le_less_trans by (fastforce simp: bufs_fit_def)
  from False assms(1) obtain ok st where
    1: "dm_try_all L [(getCVPIf, B_cvpInterface), (getCVPXmlFile, B_cvPXmlFile)] (mr_state r) = Inr (ok, st)"
    and 2: "mr_state r' = ?strip B_cvPXmlFile (?strip B_devXMlPath st)"
    by (auto simp: dm_second_device_def bind_start_Going_iff start_of_Going Let_def simp del: dm_try_all.simps
        split: if_splits)
  have "bufs_fit st" using try_all_fits [OF 1] assms(2) by (simp add: fn_size_def buf_size_def)
  then have "bufs_fit (?strip B_devXMlPath st)" using strip by blast
  then show ?thesis using strip by (simp only: 2)
qed (use assms in \<open>simp add: dm_second_device_def\<close>)

lemma main_fits:
  assumes "dm_main M L ds s = Going r"
  shows "bufs_fit (mr_state r)"
proof -
  let ?plain = "\<lambda>st ds. \<lparr>mr_state = st, mr_docs = ds, mr_services = [], mr_secure = False\<rparr>"
  from assms obtain st ds ok st1 r1 where
    1: "dm_collect L (dm_init (me_rfc M) s) = Inr st"
    and 2: "dm_try L (getBcastMacAddress, B_bcastMacaddress) st = Inr (ok, st1)"
    and 3: "(if dm_rfc_enabled st1 then dm_refactored M L st1 ds else Going (?plain st1 ds)) = Going r1"
    and 4: "dm_second_device M L r1 = Going r"
    by (simp only: going_parts dm_main_def if_Going) blast
  have "bufs_fit (dm_init (me_rfc M) s)" by (simp add: bufs_fit_def dm_init_def buf_size_def MAXSIZE_def URLSIZE_def RUIURLSIZE_def)
  then have "bufs_fit st" by (rule collect_fits [OF 1])
  then have "bufs_fit st1" using try_fits [OF 2] by (simp add: fn_size_def buf_size_def)
  then have "bufs_fit (mr_state r1)" using 3 refactored_fits by (cases "dm_rfc_enabled st1") auto
  then show ?thesis by (rule second_device_fits [OF 4])
qed

end

subsection \<open>Libraries that return\<close>

definition gets_there :: "'a outcome \<Rightarrow> bool" where
  "gets_there m \<longleftrightarrow> (\<exists>r. m = Inr r)"

lemma gets_there_simps [simp]: "gets_there (Inr r)" "\<not> gets_there (Inl e)"
  by (auto simp: gets_there_def)

lemma bind_gets_there: "gets_there m \<Longrightarrow> (\<And>x. gets_there (f x)) \<Longrightarrow> gets_there (bind_outcome m f)"
  by (auto simp: gets_there_def)

locale total_library = device_library +
  assumes returns: "refreshes f \<Longrightarrow> gets_there (dl_get L f old s)"

context total_library begin

lemma fill_gets_there: "refreshes f \<Longrightarrow> gets_there (dm_fill L f b st)"
  using returns [of f "dm_buf st b" "dm_lib st"] by (auto simp: dm_fill_def gets_there_def)

lemma answer_gets_there:
  "refreshes f \<Longrightarrow> gets_there (dm_answer n b (dm_fill L f b st))" "gets_there (dm_answer n b (Inr st))"
  "refreshes f \<Longrightarrow> gets_there (dm_value b (dm_fill L f b st))" "gets_there (dm_value b (Inr st))"
  using fill_gets_there [of f b st] by (auto simp: dm_answer_def dm_value_def gets_there_def)

lemma actions_get_there:
  "list_all (\<lambda>(a, cb). \<forall>args st. gets_there (cb args st)) (dm_actions build L s)"
  by (cases s) (simp_all add: action_tables dm_handler_defs dm_get_playback_url_cb_def answer_gets_there
      refreshes_def dm_get_rawoffset_cb_def dm_get_dstsavings_cb_def dm_get_dstoffset_cb_def
      dm_get_usesdaylighttime_cb_def dm_get_isgateway_cb_def dm_get_requirestrm_cb_def dm_get_account_id_cb_def)

lemma queries_get_there: "list_all (\<lambda>(n, q). \<forall>st. gets_there (q st)) (dm_queries build L s)"
  by (cases s) (simp_all add: query_tables dm_query_defs dm_query_playback_url_cb_def dm_query_ipsubnet_cb_def
      dm_query_timezone_cb_def answer_gets_there refreshes_def)

lemma call_gets_there: "gets_there (dm_call build L s a args st)"
proof (rule disjE [OF dm_call_cases [of build L s a args st]])
  assume "\<exists>cb. (a, cb) \<in> set (dm_actions build L s) \<and>
    dm_call build L s a args st = bind_outcome (cb args st) (\<lambda>(out, st). Inr (Some out, st))"
  then obtain cb where cb: "(a, cb) \<in> set (dm_actions build L s)"
    and eq: "dm_call build L s a args st = bind_outcome (cb args st) (\<lambda>(out, st). Inr (Some out, st))" by blast
  have "gets_there (cb args st)" using bspec [OF actions_get_there [of build s, unfolded list_all_iff] cb] by simp
  then show ?thesis unfolding eq by (rule bind_gets_there) (simp split: prod.split)
qed simp

lemma query_gets_there: "gets_there (dm_query build L s n st)"
proof (rule disjE [OF dm_query_cases [of build L s n st]])
  assume "\<exists>q. (n, q) \<in> set (dm_queries build L s) \<and>
    dm_query build L s n st = bind_outcome (q st) (\<lambda>(v, st). Inr (Some v, st))"
  then obtain q where q: "(n, q) \<in> set (dm_queries build L s)"
    and eq: "dm_query build L s n st = bind_outcome (q st) (\<lambda>(v, st). Inr (Some v, st))" by blast
  have "gets_there (q st)" using bspec [OF queries_get_there [of build s, unfolded list_all_iff] q] by simp
  then show ?thesis unfolding eq by (rule bind_gets_there) (simp split: prod.split)
qed simp

lemma serve_gets_there: "gets_there (dm_serve build L r st)"
  by (cases r) (simp_all add: bind_gets_there call_gets_there query_gets_there split: prod.split)

lemma requests_get_there: "gets_there (dm_requests build L rs st)"
proof (induction rs arbitrary: st)
  case (Cons r rs)
  obtain st1 where "dm_serve build L r st = Inr st1" using serve_gets_there [of build r st] by (auto simp: gets_there_def)
  with Cons show ?case by simp
qed simp

end

interpretation broadband_total: total_library "broadband_library E" for E
proof
  fix f old and s :: bb_state
  assume "refreshes f"
  then show "gets_there (dl_get (broadband_library E) f old s)"
    by (cases f) (simp_all add: refreshes_def broadband_library_def bb_getter_defs fill_defs Let_def split: option.split)
qed

lemma video_total:
  assumes "found_prefix E = Inr p"
  shows "total_library (video_library E)"
proof
  fix f old and s :: lib_state
  assume f: "refreshes f"
  have "gets_there (result_of (vl_get E f old s))"
    using f assms by (cases f) (simp_all add: refreshes_def vl_answers split: option.split)
  then show "gets_there (dl_get (video_library E) f old s)"
    by (cases "vl_get E f old s") (auto simp: video_library_def gets_there_def)
qed

definition sample_video_env :: lib_env where
  "sample_video_env = \<lparr>le_names = sample_names, le_client = False,
     le_conf = lib_conf0\<lparr>lc := (lc lib_conf0)\<lparr>dc_bcastIf := Some ''eth1'', dc_hostMacIf := Some ''wan'',
       dc_devXmlPath := Some ''/opt'', dc_devXmlFile := Some ''BasicDevice.xml'', dc_bcastPort := 50755,
       dc_allowGwy := True, dc_useGliDiag := True, dc_disableTuneReady := True\<rparr>\<rparr>,
     le_v6 = False, le_files = [''//etc//udhcpc.vendor_specific'' \<mapsto> ''SUBOPTION4 x M11806''],
     le_socket = True, le_hwaddr = (\<lambda>_. Some [0, 1, 2, 3, 4, 5]), le_junk_mac = [0, 0, 0, 0, 0, 0],
     le_route = None, le_mfr = None, le_account = Some ''4711'',
     le_id_rounds = [\<lparr>ir_response = Some ''{deviceId:::T1234}'', ir_mac = [], ir_events = []\<rparr>]\<rparr>"

definition sample_video_state :: lib_state where
  "sample_video_state = lib_init\<lparr>lx := (lx lib_init)\<lparr>x_gwyip := ''10.0.0.1'', x_recv_id := ''T1234'',
     x_dsgtimezone := ''US/Eastern'', x_tune_ready := 1, x_playbackurl := ''http://10.0.0.1'', x_systemids := ''c''\<rparr>\<rparr>"

definition sample_device_xml :: "xml list" where
  "sample_device_xml = [Elem ''root'' [Elem ''device'' [Elem ''UPC'' [Text []], Elem ''UDN'' [Text ''uuid:0''],
     Elem ''serialNumber'' [Text ''1''], Elem ''friendlyName'' [Text ''x'']]]]"

definition sample_descriptions :: descriptions where
  "sample_descriptions = (\<lambda>_. \<lparr>xml_parsed = Some sample_device_xml, xml_openable = True, xml_dump_ok = True\<rparr>)"

definition sample_dm_env :: "dev_build \<Rightarrow> dm_env" where
  "sample_dm_env build = \<lparr>me_build = build, me_rfc = True, me_xpki = True, me_context = True, me_friendlies = True,
     me_secure_context = True, me_offered = (\<lambda>_. True), me_exists = (\<lambda>_. True), me_absolute = (\<lambda>_. False),
     me_build_filename = (\<lambda>d f. d @ f), me_junk_file = [], me_junk_uuid = [], me_estbmac = None,
     me_cvp_context = True, me_cvp_service = True\<rparr>"

definition sample_broadband_env :: bb_env where
  "sample_broadband_env = \<lparr>be_bcastIf = Some ''brlan10'', be_hwaddr = (\<lambda>_. Some [0, 1, 2, 3, 4, 5]),
     be_junk_mac = [0, 0, 0, 0, 0, 0], be_syscfg = (\<lambda>n _. if n = ''AccountID'' then Some ''4711'' else None),
     be_routes = Some (''10.0.0.0/24'' @ [CHR 0x0A], 0)\<rparr>"

definition sample_broadband_state :: bb_state where
  "sample_broadband_state = bb_init\<lparr>bl := (bl bb_init)\<lparr>lx := (lx (bl bb_init))\<lparr>x_gwyip := ''10.0.0.1'',
     x_serial_num := ''M1''\<rparr>\<rparr>, b_eroutermacaddress := ''00:01:02:03:04:05''\<rparr>"

lemma samples_run:
  "\<exists>r. dm_main (sample_dm_env Video_gateway) (video_library sample_video_env) sample_descriptions sample_video_state =
     Going r \<and> mr_secure r \<and> dm_rfc_enabled (mr_state r)"
  "\<exists>r. dm_main (sample_dm_env Broadband) (broadband_library sample_broadband_env) sample_descriptions
     sample_broadband_state = Going r \<and> mr_secure r \<and> dm_rfc_enabled (mr_state r)"
proof -
  have "case dm_main (sample_dm_env Video_gateway) (video_library sample_video_env) sample_descriptions sample_video_state of
     Going r \<Rightarrow> mr_secure r \<and> dm_rfc_enabled (mr_state r) | _ \<Rightarrow> False" by code_simp
  then show "\<exists>r. dm_main (sample_dm_env Video_gateway) (video_library sample_video_env) sample_descriptions sample_video_state =
     Going r \<and> mr_secure r \<and> dm_rfc_enabled (mr_state r)" by (auto split: start.splits)
  have "case dm_main (sample_dm_env Broadband) (broadband_library sample_broadband_env) sample_descriptions
     sample_broadband_state of Going r \<Rightarrow> mr_secure r \<and> dm_rfc_enabled (mr_state r) | _ \<Rightarrow> False" by code_simp
  then show "\<exists>r. dm_main (sample_dm_env Broadband) (broadband_library sample_broadband_env) sample_descriptions
     sample_broadband_state = Going r \<and> mr_secure r \<and> dm_rfc_enabled (mr_state r)" by (auto split: start.splits)
qed

lemma sample_prefix: "found_prefix sample_video_env = Inr None"
  by (simp add: found_prefix_def sample_video_env_def lib_conf0_def)

end
