(* ===== verification/Dev_Props.thy ===== *)
theory Dev_Props
  imports Dev_Runs
begin

text \<open>
  The properties of the refactored device over its libraries: that it serves, what its answers depend
  on, who is put on the white list, when the secure services are there, and the types of the answers.
\<close>

subsection \<open>Who is put on the white list\<close>

text \<open>What a request makes of the white list, by the service's own account.\<close>

fun account_request :: "dev_build \<Rightarrow> bool \<Rightarrow> string \<Rightarrow> dm_request \<Rightarrow> (string \<times> string option) list" where
  "account_request build rfc acc (Invoke s a args) =
     (if build = Broadband \<and> rfc \<and> s = X1Identity \<and> a = ''GetAccountId''
      then [(if string_arg args ''SAccountId'' = Some acc then ''add'' else ''del'', string_arg args ''ipAddr'')]
      else [])"
| "account_request build rfc acc (Query s n) = []"

definition keeps_account :: "'s dm_state \<Rightarrow> ('a \<times> 's dm_state) outcome \<Rightarrow> bool" where
  "keeps_account st m \<longleftrightarrow> (\<forall>r st'. m = Inr (r, st') \<longrightarrow> dm_commands st' = dm_commands st \<and>
     dm_buf st' B_accountId = dm_buf st B_accountId \<and> dm_rfc_enabled st' = dm_rfc_enabled st)"

lemma keeps_account_simps:
  "b \<noteq> B_accountId \<Longrightarrow> keeps_account st (dm_answer n b (dm_fill L f b st))" "keeps_account st (dm_answer n b (Inr st))"
  "b \<noteq> B_accountId \<Longrightarrow> keeps_account st (dm_value b (dm_fill L f b st))" "keeps_account st (dm_value b (Inr st))"
  "keeps_account st (Inr (r, st))"
  by (auto simp: keeps_account_def dm_answer_def dm_value_def dm_fill_def bind_outcome_Inr_iff)

lemma actions_keep_account:
  "list_all (\<lambda>(a, cb). a = ''GetAccountId'' \<or> (\<forall>args st. keeps_account st (cb args st))) (dm_actions build L s)"
proof -
  have numbers: "keeps_account st (dm_get_rawoffset_cb L st)" "keeps_account st (dm_get_dstsavings_cb L st)"
    "keeps_account st (dm_get_dstoffset_cb L st)" "keeps_account st (dm_get_usesdaylighttime_cb L st)"
    "keeps_account st (dm_get_isgateway_cb L args st)" "keeps_account st (dm_get_requirestrm_cb L st)" for st args
    by (simp_all add: keeps_account_def Let_def dm_get_rawoffset_cb_def dm_get_dstsavings_cb_def
        dm_get_dstoffset_cb_def dm_get_usesdaylighttime_cb_def dm_get_isgateway_cb_def dm_get_requirestrm_cb_def)
  show ?thesis
    by (cases s) (simp_all add: action_tables dm_handler_defs dm_get_playback_url_cb_def keeps_account_simps numbers)
qed

lemma queries_keep_account: "list_all (\<lambda>(n, q). \<forall>st. keeps_account st (q st)) (dm_queries build L s)"
  by (cases s) (simp_all add: query_tables dm_query_defs dm_query_playback_url_cb_def dm_query_ipsubnet_cb_def
      dm_query_timezone_cb_def keeps_account_simps)

lemma no_account_action: "s \<noteq> X1Identity \<Longrightarrow> map_of (dm_actions build L s) ''GetAccountId'' = None"
  by (cases s) (simp_all add: action_tables)

lemma serve_account:
  assumes "dm_serve build L r st = Inr st'"
  shows "dm_commands st' = dm_commands st @ account_request build (dm_rfc_enabled st) (dm_buf st B_accountId) r \<and>
    dm_buf st' B_accountId = dm_buf st B_accountId \<and> dm_rfc_enabled st' = dm_rfc_enabled st"
proof (cases r)
  case (Query s n)
  with assms consider "st' = st" | q v where "(n, q) \<in> set (dm_queries build L s)" "q st = Inr (v, st')"
    using dm_query_cases [of build L s n st] by (auto simp: bind_outcome_Inr_iff)
  then show ?thesis
  proof cases
    case 2
    have "keeps_account st (q st)" using bspec [OF queries_keep_account [unfolded list_all_iff] 2(1)] by simp
    with 2(2) Query show ?thesis by (simp add: keeps_account_def)
  qed (simp add: Query)
next
  case (Invoke s a args)
  show ?thesis
  proof (cases "dm_registered build (dm_rfc_enabled st) s \<and> s = X1Identity \<and> a = ''GetAccountId''")
    case True
    then have rfc: "dm_rfc_enabled st" by (auto simp: dm_registered_def)
    show ?thesis using assms True rfc
      by (auto simp: Invoke dm_call_def dm_get_account_id_cb_def action_tables bind_outcome_Inr_iff strcmp_eq_0
          split: option.splits)
  next
    case False
    then have none: "account_request build (dm_rfc_enabled st) (dm_buf st B_accountId) r = []"
      by (auto simp: Invoke dm_registered_def)
    from assms consider "st' = st" | cb out where "dm_registered build (dm_rfc_enabled st) s"
        "map_of (dm_actions build L s) a = Some cb" "cb args st = Inr (out, st')"
      by (auto simp: Invoke dm_call_def bind_outcome_Inr_iff split: option.splits if_splits)
    then show ?thesis
    proof cases
      case 2
      have "a \<noteq> ''GetAccountId''" using 2(1,2) False no_account_action [of s build L] by auto
      then have "keeps_account st (cb args st)"
        using bspec [OF actions_keep_account [unfolded list_all_iff] map_of_SomeD [OF 2(2)]] by simp
      with 2(3) none show ?thesis by (simp add: keeps_account_def)
    qed (simp add: none)
  qed
qed

lemma requests_account:
  assumes "dm_requests build L rs st = Inr st'"
  shows "dm_commands st' = dm_commands st @
      concat (map (account_request build (dm_rfc_enabled st) (dm_buf st B_accountId)) rs) \<and>
    dm_buf st' B_accountId = dm_buf st B_accountId \<and> dm_rfc_enabled st' = dm_rfc_enabled st"
  using assms
proof (induction rs arbitrary: st)
  case (Cons r rs)
  then obtain st1 where 1: "dm_serve build L r st = Inr st1" "dm_requests build L rs st1 = Inr st'"
    by (auto simp: bind_outcome_Inr_iff)
  show ?case using Cons.IH [OF 1(2)] serve_account [OF 1(1)] by simp
qed simp

subsection \<open>Properties\<close>

text \<open>
  C8. Once the start of the refactored device has succeeded over one of the two libraries, every
  sequence of requests is served: no request makes the device fail, and no buffer is ever filled
  beyond its size. With the video library this holds if the file of the IPv6 prefix does not make
  its reader run out of its tokens.
\<close>

theorem refactored_device_serves:
  "(\<forall>r p. dm_main M (video_library E) ds s = Going r \<longrightarrow> found_prefix E = Inr p \<longrightarrow>
      (\<exists>st. dm_requests (me_build M) (video_library E) rs (mr_state r) = Inr st \<and> bufs_fit st)) \<and>
   (\<forall>r. dm_main M (broadband_library B) ds t = Going r \<longrightarrow>
      (\<exists>st. dm_requests (me_build M) (broadband_library B) rs (mr_state r) = Inr st \<and> bufs_fit st))"
proof (intro conjI allI impI)
  fix r p
  assume r: "dm_main M (video_library E) ds s = Going r" and p: "found_prefix E = Inr p"
  from total_library.requests_get_there [OF video_total [OF p]]
  obtain st where "dm_requests (me_build M) (video_library E) rs (mr_state r) = Inr st"
    by (fastforce simp: gets_there_def)
  with video.requests_keep_fit video.main_fits [OF r]
  show "\<exists>st. dm_requests (me_build M) (video_library E) rs (mr_state r) = Inr st \<and> bufs_fit st" by blast
next
  fix r
  assume r: "dm_main M (broadband_library B) ds t = Going r"
  from broadband_total.requests_get_there
  obtain st where "dm_requests (me_build M) (broadband_library B) rs (mr_state r) = Inr st"
    by (fastforce simp: gets_there_def)
  with broadband.requests_keep_fit broadband.main_fits [OF r]
  show "\<exists>st. dm_requests (me_build M) (broadband_library B) rs (mr_state r) = Inr st \<and> bufs_fit st" by blast
qed

theorem refactored_device_serves_witness:
  "(\<exists>r st. dm_main (sample_dm_env Video_gateway) (video_library sample_video_env) sample_descriptions
       sample_video_state = Going r \<and> mr_secure r \<and>
     dm_requests Video_gateway (video_library sample_video_env)
       [Invoke X1Time ''GetTimeZone'' [], Query DiscoverFriendlies ''TimeZone''] (mr_state r) = Inr st \<and> bufs_fit st) \<and>
   (\<exists>r st. dm_main (sample_dm_env Broadband) (broadband_library sample_broadband_env) sample_descriptions
       sample_broadband_state = Going r \<and> mr_secure r \<and>
     dm_requests Broadband (broadband_library sample_broadband_env)
       [Invoke X1GatewayConfiguration ''GetIPSubNet'' []] (mr_state r) = Inr st \<and> bufs_fit st)"
proof -
  have b: "me_build (sample_dm_env b) = b" for b by (simp add: sample_dm_env_def)
  obtain r where r: "dm_main (sample_dm_env Video_gateway) (video_library sample_video_env) sample_descriptions
     sample_video_state = Going r" "mr_secure r" using samples_run(1) by blast
  obtain q where q: "dm_main (sample_dm_env Broadband) (broadband_library sample_broadband_env) sample_descriptions
     sample_broadband_state = Going q" "mr_secure q" using samples_run(2) by blast
  note d = refactored_device_serves [unfolded b]
  show ?thesis
    using conjunct1 [OF d [of "sample_dm_env Video_gateway"], unfolded b, rule_format, OF r(1) sample_prefix]
      conjunct2 [OF d [of "sample_dm_env Broadband"], unfolded b, rule_format, OF q(1)] r q by blast
qed

text \<open>
  C21. On a video device that reads its identifiers from the bus, what an action answers does not
  depend on the requests that came before it: every control point is told the same.
\<close>

theorem refactored_answers_any_order:
  assumes "dc_useGliDiag (le_C E)" "dm_requests build (video_library E) rs st = Inr st'"
  shows "result_of (dm_call build (video_library E) s a args st') = result_of (dm_call build (video_library E) s a args st)"
proof -
  have "dl_bool (video_library E) getIsuseGliDiagEnabled (dm_lib st)" using assms(1) by (simp add: video_library_def)
  from call_says [OF video.requests_keep_readings [OF assms(2) this]] show ?thesis .
qed

definition sample_dm_state :: "lib_state dm_state" where
  "sample_dm_state = dm_init True sample_video_state"

theorem refactored_answers_any_order_witness:
  "\<exists>st'. dm_requests Video_gateway (video_library sample_video_env)
       [Query X1Time ''TimeZone'', Invoke X1MediaConfiguration ''GetBaseUrl'' []] sample_dm_state = Inr st' \<and>
     result_of (dm_call Video_gateway (video_library sample_video_env) X1Time ''GetTimeZone'' [] st') =
     result_of (dm_call Video_gateway (video_library sample_video_env) X1Time ''GetTimeZone'' [] sample_dm_state)"
proof -
  obtain st' where st': "dm_requests Video_gateway (video_library sample_video_env)
       [Query X1Time ''TimeZone'', Invoke X1MediaConfiguration ''GetBaseUrl'' []] sample_dm_state = Inr st'"
    using total_library.requests_get_there [OF video_total [OF sample_prefix]] unfolding gets_there_def by blast
  have "dc_useGliDiag (le_C sample_video_env)" by (simp add: sample_video_env_def)
  from refactored_answers_any_order [OF this st'] st' show ?thesis by blast
qed

text \<open>
  C10. On a broadband gateway the white list is told of exactly the requests for the account, in
  their order: the asking client is added when it sent the account of the gateway and removed when
  it sent another or none. Nothing else a client asks for touches the white list.
\<close>

theorem account_requests_on_white_list:
  assumes "dm_requests build L rs st = Inr st'"
  shows "dm_commands st' = dm_commands st @
      concat (map (account_request build (dm_rfc_enabled st) (dm_buf st B_accountId)) rs)"
  using requests_account [OF assms] by blast

definition sample_broadband_device :: "bb_state dm_state" where
  "sample_broadband_device = (dm_init True sample_broadband_state)\<lparr>dm_buf := (\<lambda>_. ''4711'')\<rparr>"

theorem account_requests_on_white_list_witness:
  "\<exists>st'. dm_requests Broadband (broadband_library sample_broadband_env)
       [Invoke X1Identity ''GetAccountId'' [(''SAccountId'', G_STRING ''4711''), (''ipAddr'', G_STRING ''10.0.0.7'')],
        Invoke X1Identity ''GetMake'' [],
        Invoke X1Identity ''GetAccountId'' [(''SAccountId'', G_STRING ''4712''), (''ipAddr'', G_STRING ''10.0.0.8'')]]
       sample_broadband_device = Inr st' \<and>
     dm_commands st' = [(''add'', Some ''10.0.0.7''), (''del'', Some ''10.0.0.8'')]"
proof -
  let ?rs = "[Invoke X1Identity ''GetAccountId'' [(''SAccountId'', G_STRING ''4711''), (''ipAddr'', G_STRING ''10.0.0.7'')],
        Invoke X1Identity ''GetMake'' [],
        Invoke X1Identity ''GetAccountId'' [(''SAccountId'', G_STRING ''4712''), (''ipAddr'', G_STRING ''10.0.0.8'')]]"
  obtain st' where st': "dm_requests Broadband (broadband_library sample_broadband_env) ?rs sample_broadband_device = Inr st'"
    using broadband_total.requests_get_there unfolding gets_there_def by blast
  have "dm_rfc_enabled sample_broadband_device" "dm_buf sample_broadband_device B_accountId = ''4711''"
    "dm_commands sample_broadband_device = []"
    by (simp_all add: sample_broadband_device_def dm_init_def)
  with account_requests_on_white_list [OF st'] st' show ?thesis by (auto simp: string_arg_def)
qed

text \<open>The flag of the remote setting survives the start only with the files in place.\<close>

lemma try_rfc: "dm_try L c st = Inr (ok, st') \<Longrightarrow> dm_rfc_enabled st' = dm_rfc_enabled st"
  by (auto simp: dm_try_def bind_outcome_Inr_iff split: prod.splits)

lemma try_all_rfc: "dm_try_all L cs st = Inr (ok, st') \<Longrightarrow> dm_rfc_enabled st' = dm_rfc_enabled st"
  by (induction cs arbitrary: st) (auto simp: bind_outcome_Inr_iff dest: try_rfc split: if_splits)

definition cert_names :: "dm_env \<Rightarrow> (string \<times> string) option \<Rightarrow> bool" where
  "cert_names M certs \<longleftrightarrow> (me_build M \<noteq> Broadband \<and> me_xpki M \<longrightarrow> certs = Some (''/tmp/xpki_cert'', ''/tmp/xpki_key''))"

lemma certificates_rfc:
  assumes "dm_certificates M L st = Inr (certs, st')"
  shows "dm_rfc_enabled st' = dm_rfc_enabled st" "cert_names M certs"
  using assms unfolding dm_certificates_def cert_names_def
  by (auto simp: bind_outcome_Inr_iff Let_def simp del: dm_try_all.simps dest: try_all_rfc split: if_splits)

lemma refactored_rfc:
  assumes "dm_refactored M L st ds = Going r" "dm_rfc_enabled (mr_state r) \<or> mr_secure r"
  shows "\<exists>certs. dm_protected M certs \<and> cert_names M certs"
proof -
  from assms(1) obtain q st1 certs st2 uuid where
    2: "dm_certificates M L st1 = Inr (certs, st2)"
    and 3: "(if dm_protected M certs then dm_secure M L st2 q uuid ds else dm_fall_back st2 ds) = Going r"
    by (simp only: going_parts dm_refactored_def) blast
  have "dm_protected M certs" using 3 assms(2)
    by (rule_tac ccontr) (auto simp: dm_fall_back_def Let_def bind_start_Going_iff)
  then show ?thesis using certificates_rfc(2) [OF 2] by blast
qed

lemma second_device_keeps:
  assumes "dm_second_device M L r = Going r'"
  shows "dm_rfc_enabled (mr_state r') = dm_rfc_enabled (mr_state r) \<and> mr_secure r' = mr_secure r \<and>
    mr_services r' = mr_services r"
  using assms unfolding dm_second_device_def
  by (auto simp: bind_start_Going_iff start_of_Going Let_def simp del: dm_try_all.simps dest: try_all_rfc
      split: if_splits)

lemma main_rfc:
  assumes "dm_main M L ds s = Going r" "dm_rfc_enabled (mr_state r) \<or> mr_secure r"
  shows "me_rfc M \<and> (\<exists>certs. dm_protected M certs \<and> cert_names M certs)"
proof -
  let ?plain = "\<lambda>st ds. \<lparr>mr_state = st, mr_docs = ds, mr_services = [], mr_secure = False\<rparr>"
  from assms(1) obtain st ds ok st1 r1 where
    1: "dm_collect L (dm_init (me_rfc M) s) = Inr st"
    and 2: "dm_try L (getBcastMacAddress, B_bcastMacaddress) st = Inr (ok, st1)"
    and 3: "(if dm_rfc_enabled st1 then dm_refactored M L st1 ds else Going (?plain st1 ds)) = Going r1"
    and 4: "dm_second_device M L r1 = Going r"
    by (simp only: going_parts dm_main_def if_Going) blast
  have "dm_rfc_enabled st = me_rfc M"
    using 1 by (auto simp: dm_collect_def bind_outcome_Inr_iff dm_init_def simp del: dm_try_all.simps
        dest!: try_all_rfc try_rfc)
  then have rfc: "dm_rfc_enabled st1 = me_rfc M" using try_rfc [OF 2] by simp
  have r1: "dm_rfc_enabled (mr_state r1) \<or> mr_secure r1" using assms(2) second_device_keeps [OF 4] by simp
  have on: "dm_rfc_enabled st1"
  proof (rule ccontr)
    assume "\<not> dm_rfc_enabled st1"
    with 3 have "r1 = ?plain st1 ds" by simp
    with r1 \<open>\<not> dm_rfc_enabled st1\<close> show False by simp
  qed
  with 3 have "dm_refactored M L st1 ds = Going r1" by simp
  from refactored_rfc [OF this r1] on rfc show ?thesis by simp
qed

text \<open>Only a device whose remote setting enables them looks for further services, and keeps the flag.\<close>

lemma refactored_services:
  assumes "dm_refactored M L st ds = Going r" "dm_rfc_enabled st" "mr_services r \<noteq> []"
  shows "dm_rfc_enabled (mr_state r) \<and> mr_secure r"
proof -
  from assms(1) obtain s q ok st1 certs st2 uuid where
    1: "dm_try L (dev_fn.getAccountId, B_accountId) (st\<lparr>dm_lib := s\<rparr>) = Inr (ok, st1)"
    and 2: "dm_certificates M L st1 = Inr (certs, st2)"
    and 3: "(if dm_protected M certs then dm_secure M L st2 q uuid ds else dm_fall_back st2 ds) = Going r"
    by (simp only: going_parts dm_refactored_def) blast
  have rfc: "dm_rfc_enabled st2" using try_rfc [OF 1] certificates_rfc(1) [OF 2] assms(2) by simp
  have "dm_protected M certs" using 3 assms(3)
    by (rule_tac ccontr) (auto simp: dm_fall_back_def Let_def bind_start_Going_iff)
  with 3 have "dm_secure M L st2 q uuid ds = Going r" by simp
  then show ?thesis using rfc assms(3)
    by (auto simp: dm_secure_def bind_start_Going_iff start_of_Going dest: try_rfc split: if_splits)
qed

lemma main_services:
  assumes "dm_main M L ds s = Going r" "mr_services r \<noteq> []"
  shows "dm_rfc_enabled (mr_state r) \<and> mr_secure r"
proof -
  from assms(1) obtain st1 ds r1 where
    3: "(if dm_rfc_enabled st1 then dm_refactored M L st1 ds
         else Going \<lparr>mr_state = st1, mr_docs = ds, mr_services = [], mr_secure = False\<rparr>) = Going r1"
    and 4: "dm_second_device M L r1 = Going r"
    by (simp only: going_parts dm_main_def if_Going) blast
  note k = second_device_keeps [OF 4]
  with assms(2) have "mr_services r1 \<noteq> []" by simp
  moreover from this 3 have "dm_rfc_enabled st1" by (auto split: if_splits)
  ultimately show ?thesis using 3 refactored_services k by fastforce
qed



text \<open>
  On a video device that does not read its identifiers from the bus, the action for the time zone
  answers the text of an earlier query, and the empty text before the first: only the query asks
  the library.
\<close>

theorem timezone_told_after_query:
  assumes "\<not> dc_useGliDiag (le_C E)" "x_dsgtimezone (lx (dm_lib st)) = z" "z \<noteq> []" "length z < MAXSIZE"
  shows "result_of (dm_call build (video_library E) DiscoverFriendlies ''GetTimeZone'' args st) =
      Inr (Some [''TimeZone'' \<mapsto> G_STRING (dm_buf st B_dsgtimeZone)]) \<and>
    (\<exists>st'. dm_requests build (video_library E) [Query DiscoverFriendlies ''TimeZone''] st = Inr st' \<and>
      result_of (dm_call build (video_library E) DiscoverFriendlies ''GetTimeZone'' args st') =
        Inr (Some [''TimeZone'' \<mapsto> G_STRING z]))"
proof -
  have say: "result_of (dm_call build (video_library E) DiscoverFriendlies ''GetTimeZone'' args t) =
      Inr (Some [''TimeZone'' \<mapsto> G_STRING (dm_buf t B_dsgtimeZone)])" for t
    using assms(1) by (simp add: dm_call_def dm_registered_def action_tables dm_get_timezone_cb_def
        dm_answer_def video_library_def)
  have "dm_requests build (video_library E) [Query DiscoverFriendlies ''TimeZone''] st =
      Inr (st\<lparr>dm_buf := (dm_buf st)(B_dsgtimeZone := z)\<rparr>)"
    using assms by (simp add: dm_query_def dm_registered_def query_tables dm_query_timezone_cb_def dm_value_def
        dm_fill_def video_library_def vl_getTimeZone_def fill_defs MAX_OUTVALUE_def MAXSIZE_def)
  with say show ?thesis by simp
qed

definition no_diag_env :: lib_env where
  "no_diag_env = sample_video_env\<lparr>le_conf := lib_conf0\<rparr>"

theorem timezone_told_after_query_witness:
  "result_of (dm_call Video_gateway (video_library no_diag_env) DiscoverFriendlies ''GetTimeZone'' [] sample_dm_state) =
     Inr (Some [''TimeZone'' \<mapsto> G_STRING []])"
proof -
  have h: "\<not> dc_useGliDiag (le_C no_diag_env)" "x_dsgtimezone (lx (dm_lib sample_dm_state)) = ''US/Eastern''"
    "dm_buf sample_dm_state B_dsgtimeZone = []" "''US/Eastern'' \<noteq> []" "length ''US/Eastern'' < MAXSIZE"
    by (simp_all add: no_diag_env_def lib_conf0_def sample_dm_state_def sample_video_state_def dm_init_def MAXSIZE_def)
  from timezone_told_after_query [OF h(1,2,4,5), of Video_gateway "[]"] h(3) show ?thesis by simp
qed

subsection \<open>The types of the answers\<close>

datatype gtype = T_STRING | T_INT | T_BOOLEAN

fun gtype_of :: "gvalue \<Rightarrow> gtype" where
  "gtype_of (G_STRING s) = T_STRING"
| "gtype_of (G_INT i) = T_INT"
| "gtype_of (G_BOOLEAN b) = T_BOOLEAN"

definition declared_type :: "string \<Rightarrow> gtype" where
  "declared_type n =
     (if n \<in> {''RawOffSet'', ''DSTOffset'', ''DSTSavings''} then T_INT
      else if n \<in> {''UsesDaylightTime'', ''IsGateway'', ''RequiresTRM''} then T_BOOLEAN else T_STRING)"

definition typed :: "((string \<Rightarrow> gvalue option) \<times> 's) outcome \<Rightarrow> bool" where
  "typed m \<longleftrightarrow> (\<forall>out st. m = Inr (out, st) \<longrightarrow> (\<exists>n v. out = [n \<mapsto> v] \<and> gtype_of v = declared_type n))"

lemma answer_typed: "declared_type n = T_STRING \<Longrightarrow> typed (dm_answer n b m)"
  unfolding typed_def dm_answer_def bind_outcome_Inr_iff by (metis gtype_of.simps(1) prod.inject sum.inject(2))

lemma value_typed: "gtype_of v = declared_type n \<Longrightarrow> typed (Inr ([n \<mapsto> v], st))"
  by (auto simp: typed_def)

lemma actions_typed: "list_all (\<lambda>(a, cb). \<forall>args st. typed (cb args st)) (dm_actions build L s)"
  by (cases s) (simp_all add: action_tables dm_handler_defs dm_get_playback_url_cb_def answer_typed value_typed
      declared_type_def dm_get_rawoffset_cb_def dm_get_dstsavings_cb_def dm_get_dstoffset_cb_def
      dm_get_usesdaylighttime_cb_def dm_get_isgateway_cb_def dm_get_requirestrm_cb_def dm_get_account_id_cb_def)



end
