(* ===== verification/Dev_Legacy.thy ===== *)
theory Dev_Legacy
  imports Dev_Runs
begin

text \<open>
  The plain service of the refactored device against the service of \<open>src/xcal-device.c\<close>, from which
  it was made: where the two answer the same.
\<close>

subsection \<open>When the two devices are in step\<close>

text \<open>
  The variables are what the library would find if it looked now: the URL is put together from
  address and receiver id, the hardware address and the prefix are current, the route manager gives
  the stored address, the device name needs no escaping, and the device is a gateway if it may be one.
\<close>

definition current :: "lib_env \<Rightarrow> xd_state \<Rightarrow> bool" where
  "current E x \<longleftrightarrow>
     x_gwyip x \<noteq> [] \<and> x_recv_id x \<noteq> [] \<and>
     x_url x = ''http://'' @ x_gwyip x @ '':8080/videoStreamInit?recorderId='' @ x_recv_id x \<and>
     (\<exists>i. dc_hostMacIf (le_C E) = Some i \<and> x_hostmacaddress x = vl_getmacaddress E i) \<and>
     found_prefix E = Inr (Some (x_ipv6prefix x)) \<and> le_route E = Some (True, x_dataGatewayIPaddress x) \<and>
     (\<exists>c u ts. Option.bind (dc_deviceNameFile (le_C E)) (le_files E) = Some c \<and>
        tokens_after ''deviceName'' (g_strsplit_set c [CHR 0x27, CHR ''='', CHR 0x0A]) = Some (u # ts) \<and>
        CHR 0x22 \<notin> set (g_strstrip u) \<and> CHR 0x5C \<notin> set (g_strstrip u)) \<and>
     found_dns E \<noteq> None \<and> found_hosts E (x_gwyip x) \<noteq> None \<and> x_systemids x \<noteq> [] \<and>
     dc_useGliDiag (le_C E) \<and> x_isgateway x = dc_allowGwy (le_C E) \<and> x_tune_ready x \<in> {0, 1}"

text \<open>All texts fit the buffers.\<close>

definition all_fit :: "lib_env \<Rightarrow> xd_state \<Rightarrow> bool" where
  "all_fit E x \<longleftrightarrow>
     (\<forall>v \<in> {x_url x, x_trmurl x, x_gwyip x, x_gwyipv6 x, x_gwystbip x, x_ipv6prefix x, x_hostmacaddress x,
        x_recvdevtype x, x_devicetype x, x_buildversion x, the (found_dns E), snd (fresh_ids E x),
        x_dataGatewayIPaddress x, x_dsgtimezone x, the (the (found_name E))}. length v < MAXSIZE) \<and>
     length (x_playbackurl x) < URLSIZE \<and> length (the (found_hosts E (x_gwyip x))) < RUIURLSIZE"

text \<open>The device just started: nothing is answered yet, and the hardware address was asked for once.\<close>

definition just_started :: "lib_state dm_state \<Rightarrow> bool" where
  "just_started st \<longleftrightarrow> \<not> dm_rfc_enabled st \<and> dm_buf st B_bcastMacaddress = x_bcastmacaddress (lx (dm_lib st)) \<and>
     (\<forall>b. b \<noteq> B_bcastMacaddress \<longrightarrow> dm_buf st b = [])"

lemma copied_fits: "length v < n \<Longrightarrow> copied_nonempty n v [] = (v \<noteq> [], v)" "length v < n \<Longrightarrow> copied n v = (True, v)"
  by (simp_all add: copied_nonempty_def copied_def)

lemma current_name:
  assumes "current E x"
  shows "found_name E = Some (Some (x_devicename (snd (getdevicename (le_C E) (le_files E) x))))"
proof -
  from assms obtain c u ts where c: "Option.bind (dc_deviceNameFile (le_C E)) (le_files E) = Some c"
    and t: "tokens_after ''deviceName'' (g_strsplit_set c [CHR 0x27, CHR ''='', CHR 0x0A]) = Some (u # ts)"
    and q: "CHR 0x22 \<notin> set (g_strstrip u)" "CHR 0x5C \<notin> set (g_strstrip u)"
    unfolding current_def by blast
  from c obtain f where f: "dc_deviceNameFile (le_C E) = Some f" "le_files E f = Some c"
    by (cases "dc_deviceNameFile (le_C E)") auto
  show ?thesis using t q f by (simp add: found_name_def getdevicename_def Let_def)
qed

lemma current_readers:
  assumes "current E x"
  shows "found_dns E = Some (x_dnsconfig (snd (getdnsconfig (le_C E) (le_files E) x)))"
    and "found_hosts E (x_gwyip x) = Some (x_etchosts (snd (getetchosts (le_v6 E) (le_files E) x)))"
    and "fresh_ids E x = (True, x_systemids (snd (updatesystemids (le_C E) (le_files E) x)))"
proof -
  have "found_dns E \<noteq> None" "dc_useGliDiag (le_C E)" using assms unfolding current_def by blast+
  then show "found_dns E = Some (x_dnsconfig (snd (getdnsconfig (le_C E) (le_files E) x)))"
    "fresh_ids E x = (True, x_systemids (snd (updatesystemids (le_C E) (le_files E) x)))"
    by (auto simp: found_dns_def getdnsconfig_lines fresh_ids_def updatesystemids_def)
  have "found_hosts E (x_gwyip x) \<noteq> None" using assms unfolding current_def by blast
  then show "found_hosts E (x_gwyip x) = Some (x_etchosts (snd (getetchosts (le_v6 E) (le_files E) x)))"
    by (cases "le_v6 E") (auto simp: found_hosts_def getetchosts_lines)
qed

lemma current_readings:
  assumes "\<not> le_client E" "current E x" "all_fit E x" "just_started st" "x = lx (dm_lib st)"
  defines "R \<equiv> dm_reading (video_library E) st"
  shows "R B_urL = Inr (x_url x)" "R B_trmUrl = Inr (x_trmurl x)" "R B_gwyIp = Inr (x_gwyip x)"
    "R B_gwyIpv6 = Inr (x_gwyipv6 x)" "R B_gwystbIp = Inr (x_gwystbip x)" "R B_ipv6preFix = Inr (x_ipv6prefix x)"
    "R B_hostMacaddress = Inr (x_hostmacaddress x)" "R B_recvdevType = Inr (x_recvdevtype x)"
    "R B_deviceType = Inr (x_devicetype x)" "R B_buildVersion = Inr (x_buildversion x)"
    "R B_dnsConfig = Inr (x_dnsconfig (snd (getdnsconfig (le_C E) (le_files E) x)))"
    "R B_systemIds = Inr (x_systemids (snd (updatesystemids (le_C E) (le_files E) x)))"
    "R B_dataGatewayIPAddress = Inr (x_dataGatewayIPaddress x)" "R B_dsgtimeZone = Inr (x_dsgtimezone x)"
    "R B_deviceName = Inr (x_devicename (snd (getdevicename (le_C E) (le_files E) x)))"
    "R B_etcHosts = Inr (x_etchosts (snd (getetchosts (le_v6 E) (le_files E) x)))"
    "R B_bcastMacaddress = Inr (x_bcastmacaddress x)"
    "x_tune_ready x = 1 \<Longrightarrow> R B_playBackUrl = Inr (x_playbackurl x)"
proof -
  note found = current_name [OF assms(2)] current_readers [OF assms(2)]
  have old: "dm_buf st b = []" if "b \<noteq> B_bcastMacaddress" for b using assms(4) that by (simp add: just_started_def)
  have flags: "\<not> dm_rfc_enabled st" "dc_useGliDiag (le_C E)" "dm_buf st B_bcastMacaddress = x_bcastmacaddress x"
    using assms(2,4,5) by (simp_all add: just_started_def current_def)
  obtain i where i: "dc_hostMacIf (le_C E) = Some i" "x_hostmacaddress x = vl_getmacaddress E i"
    using assms(2) unfolding current_def by blast
  have cur: "x_gwyip x \<noteq> []" "x_recv_id x \<noteq> []" "found_prefix E = Inr (Some (x_ipv6prefix x))"
    "le_route E = Some (True, x_dataGatewayIPaddress x)" "x_systemids x \<noteq> []"
    "x_url x = ''http://'' @ x_gwyip x @ '':8080/videoStreamInit?recorderId='' @ x_recv_id x"
    using assms(2) unfolding current_def by blast+
  have fit: "length (x_url x) < MAX_OUTVALUE" "length (x_trmurl x) < MAX_OUTVALUE" "length (x_gwyip x) < MAX_OUTVALUE"
    "length (x_gwyipv6 x) < MAX_OUTVALUE" "length (x_gwystbip x) < MAX_OUTVALUE" "length (x_ipv6prefix x) < MAX_OUTVALUE"
    "length (x_hostmacaddress x) < MAX_OUTVALUE" "length (x_recvdevtype x) < MAX_OUTVALUE"
    "length (x_devicetype x) < MAX_OUTVALUE" "length (x_buildversion x) < MAX_OUTVALUE"
    "length (the (found_dns E)) < MAX_OUTVALUE" "length (snd (fresh_ids E x)) < MAX_OUTVALUE"
    "length (x_dataGatewayIPaddress x) < MAX_OUTVALUE" "length (x_dsgtimezone x) < MAX_OUTVALUE"
    "length (the (the (found_name E))) < MAX_OUTVALUE" "length (x_playbackurl x) < URLSIZE"
    "length (the (found_hosts E (x_gwyip x))) < RUIURLSIZE"
    using assms(3) unfolding all_fit_def by (simp_all add: MAX_OUTVALUE_def MAXSIZE_def)
  note read = R_def dm_reading_def dm_source_def video_library_def vl_answers old assms(5) [symmetric] flags assms(1)
  show "R B_urL = Inr (x_url x)" using fit(1) cur(6) cur(1,2) by (simp add: read copied_fits)
  show "R B_trmUrl = Inr (x_trmurl x)" "R B_gwyIp = Inr (x_gwyip x)" "R B_gwyIpv6 = Inr (x_gwyipv6 x)"
    "R B_gwystbIp = Inr (x_gwystbip x)" "R B_recvdevType = Inr (x_recvdevtype x)" "R B_deviceType = Inr (x_devicetype x)"
    "R B_buildVersion = Inr (x_buildversion x)" "R B_dsgtimeZone = Inr (x_dsgtimezone x)"
    using fit by (simp_all add: read copied_fits)
  show "R B_ipv6preFix = Inr (x_ipv6prefix x)" using fit(6) cur(3) by (simp add: read copied_fits)
  show "R B_hostMacaddress = Inr (x_hostmacaddress x)" using fit(7) i by (simp add: read copied_fits)
  show "R B_dnsConfig = Inr (x_dnsconfig (snd (getdnsconfig (le_C E) (le_files E) x)))"
    using fit(11) by (simp add: read found copied_fits)
  show "R B_systemIds = Inr (x_systemids (snd (updatesystemids (le_C E) (le_files E) x)))"
    using fit(12) cur(5) by (simp add: read found copied_fits)
  show "R B_dataGatewayIPAddress = Inr (x_dataGatewayIPaddress x)" using fit(13) cur(4) by (simp add: read copied_fits)
  show "R B_deviceName = Inr (x_devicename (snd (getdevicename (le_C E) (le_files E) x)))"
    using fit(15) by (simp add: read found copied_fits)
  show "R B_etcHosts = Inr (x_etchosts (snd (getetchosts (le_v6 E) (le_files E) x)))"
    using fit(17) by (simp add: read found copied_fits)
  show "R B_bcastMacaddress = Inr (x_bcastmacaddress x)" by (simp add: read)
  show "R B_playBackUrl = Inr (x_playbackurl x)" if "x_tune_ready x = 1" using that fit(16) by (simp add: read copied_fits)
qed

lemma said_reading: "dm_reading L st b = Inr v \<Longrightarrow> dm_said L st n b = Inr [n \<mapsto> G_STRING v]"
  by (simp add: dm_said_def)

lemma legacy_handlers:
  assumes "\<not> le_client E" "current E x" "all_fit E x" "just_started st" "x = lx (dm_lib st)"
  shows "list_all (\<lambda>(a, h). result_of (dm_call Video_gateway (video_library E) DiscoverFriendlies a args st) =
     Inr (Some (fst (h x)))) (xd_actions (le_C E) (le_v6 E) (le_files E))"
proof -
  have g: "x_isgateway x = dc_allowGwy (le_C E)" "x_tune_ready x = 0 \<or> x_tune_ready x = 1" "dc_useGliDiag (le_C E)"
    using assms(2) unfolding current_def by auto
  have call: "result_of (dm_call Video_gateway L DiscoverFriendlies a args st) =
     (case map_of (dm_friendlies_actions False L) a of
        None \<Rightarrow> Inr None | Some cb \<Rightarrow> map_sum id Some (result_of (cb args st)))" for L a
    by (cases "map_of (dm_friendlies_actions False L) a")
      (auto simp: dm_call_def dm_registered_def dm_actions_def result_of_def bind_outcome_def split: sum.split)
  have play: "result_of (dm_get_playback_url_cb (video_library E) st) = Inr [''PlaybackUrl'' \<mapsto> G_STRING (playback_answer x)]"
    using g(2) current_readings(18) [OF assms] assms(5)
    by (auto simp: playback_says playback_answer_def said_reading video_library_def [of E] split: if_splits)
  note say = said_reading [OF current_readings(1) [OF assms]] said_reading [OF current_readings(2) [OF assms]]
    said_reading [OF current_readings(3) [OF assms]] said_reading [OF current_readings(4) [OF assms]]
    said_reading [OF current_readings(5) [OF assms]] said_reading [OF current_readings(6) [OF assms]]
    said_reading [OF current_readings(7) [OF assms]] said_reading [OF current_readings(8) [OF assms]]
    said_reading [OF current_readings(9) [OF assms]] said_reading [OF current_readings(10) [OF assms]]
    said_reading [OF current_readings(11) [OF assms]] said_reading [OF current_readings(12) [OF assms]]
    said_reading [OF current_readings(13) [OF assms]] said_reading [OF current_readings(14) [OF assms]]
    said_reading [OF current_readings(15) [OF assms]] said_reading [OF current_readings(16) [OF assms]]
    said_reading [OF current_readings(17) [OF assms]]
  have lib: "dl_int (video_library E) i (dm_lib st) = vl_int E i (dm_lib st)"
    "dl_bool (video_library E) p (dm_lib st) = vl_bool E p (dm_lib st)" for i p
    by (simp_all add: video_library_def)
  show ?thesis
    unfolding call xd_actions_def dm_friendlies_actions_def
    by (simp add: say numbers_say play handlers_say [where L = "video_library E"] action_defs Let_def
        fresh_timezone_def g lib assms(5) [symmetric] playback_answer_def)
qed

subsection \<open>Properties\<close>


definition in_step_env :: lib_env where
  "in_step_env = sample_video_env\<lparr>
     le_conf := (le_conf sample_video_env)\<lparr>lc := (le_C sample_video_env)\<lparr>dc_deviceNameFile := Some ''name'',
       dc_dnsFile := Some ''dns'', dc_ipv6PrefixFile := Some ''prefix''\<rparr>\<rparr>,
     le_files := [''name'' \<mapsto> ''deviceName=box'', ''dns'' \<mapsto> ''8.8.8.8'', ''//etc//hosts'' \<mapsto> ''10.0.0.7 box'',
       ''prefix'' \<mapsto> ''ifacename wan'' @ [CHR 0x0A] @ ''<AddrPrefix>fd00::<'' @ ''/AddrPrefix>''],
     le_route := Some (True, ''10.0.0.2'')\<rparr>"

definition in_step_state :: xd_state where
  "in_step_state = (lx sample_video_state)\<lparr>x_url := ''http://10.0.0.1:8080/videoStreamInit?recorderId=T1234'',
     x_hostmacaddress := ''00:01:02:03:04:05'', x_bcastmacaddress := ''00:01:02:03:04:05'',
     x_ipv6prefix := ''fd00::'', x_dataGatewayIPaddress := ''10.0.0.2'', x_isgateway := True\<rparr>"

definition in_step_device :: "lib_state dm_state" where
  "in_step_device = (dm_init False (sample_video_state\<lparr>lx := in_step_state\<rparr>))
     \<lparr>dm_buf := (\<lambda>b. if b = B_bcastMacaddress then ''00:01:02:03:04:05'' else [])\<rparr>"

lemma in_step_current: "current in_step_env in_step_state" "all_fit in_step_env in_step_state"
proof -
  have t: "tokens_after ''deviceName'' (g_strsplit_set ''deviceName=box'' [CHR 0x27, CHR ''='', CHR 0x0A]) = Some [''box'']"
    "CHR 0x22 \<notin> set (g_strstrip ''box'') \<and> CHR 0x5C \<notin> set (g_strstrip ''box'')"
    by code_simp+
  have p: "found_prefix in_step_env = Inr (Some ''fd00::'')" by code_simp
  have h: "vl_getmacaddress in_step_env ''wan'' = ''00:01:02:03:04:05''" by code_simp
  have m: "dc_hostMacIf (le_C in_step_env) = Some ''wan''" "x_hostmacaddress in_step_state = ''00:01:02:03:04:05''"
    "x_ipv6prefix in_step_state = ''fd00::''"
    "Option.bind (dc_deviceNameFile (le_C in_step_env)) (le_files in_step_env) = Some ''deviceName=box''"
    by code_simp+
  show "current in_step_env in_step_state"
    unfolding current_def m(4)
  proof (intro conjI)
    show "\<exists>i. dc_hostMacIf (le_C in_step_env) = Some i \<and> x_hostmacaddress in_step_state = vl_getmacaddress in_step_env i"
      using m h by simp
    show "found_prefix in_step_env = Inr (Some (x_ipv6prefix in_step_state))" using p m(3) by simp
    show "\<exists>c u ts. Some ''deviceName=box'' = Some c \<and>
        tokens_after ''deviceName'' (g_strsplit_set c [CHR 0x27, CHR ''='', CHR 0x0A]) = Some (u # ts) \<and>
        CHR 0x22 \<notin> set (g_strstrip u) \<and> CHR 0x5C \<notin> set (g_strstrip u)"
      using t by blast
  qed code_simp+
  show "all_fit in_step_env in_step_state" by code_simp
qed


end
