(* ===== verification/Dev_Listed.thy ===== *)
theory Dev_Listed
  imports Dev_Props
begin

text \<open>
  The refactored gateway of \<open>src/xcal-device-main.c\<close> met by the control point that
  \<open>src/xdiscovery.c\<close> runs for gateways: the device is put on the list, and the report that the other
  processes read holds the values its services gave.
\<close>

subsection \<open>What the control point reads\<close>

text \<open>The services of the device, as the control point finds them.\<close>

definition offers :: "device_info \<Rightarrow> 's dev_lib \<Rightarrow> 's dm_state \<Rightarrow> bool" where
  "offers dev L st \<longleftrightarrow> dm_rfc_enabled st \<and>
     (\<forall>(s, t) \<in> {(XDISC_SERVICE_IDENTITY, X1Identity), (XDISC_SERVICE_MEDIA, X1MediaConfiguration),
        (XDISC_SERVICE_TIME, X1Time), (XDISC_SERVICE_GW_CFG, X1GatewayConfiguration),
        (XDISC_SERVICE_QAM_CFG, X1QamConfiguration)}. di_proxy dev s = dm_proxy Video_gateway L t st)"

text \<open>The fields that hold, in the end, what the library gives.\<close>

definition read_fields :: "(dev_buf \<times> (GwyDeviceData \<Rightarrow> string)) list" where
  "read_fields = [(B_recvdevType, recvdevtype), (B_buildVersion, buildversion), (B_deviceName, devicename),
     (B_deviceType, devicetype), (B_dsgtimeZone, dsgtimezone), (B_dataGatewayIPAddress, dataGatewayIPaddress),
     (B_gwystbIp, gatewaystbip), (B_ipv6preFix, ipv6prefix), (B_dnsConfig, dnsconfig),
     (B_hostMacaddress, hostmacaddress), (B_etcHosts, etchosts), (B_systemIds, systemids)]"

definition as_read :: "'s dev_lib \<Rightarrow> 's dm_state \<Rightarrow> GwyDeviceData \<Rightarrow> bool" where
  "as_read L st d \<longleftrightarrow>
     isgateway d = dl_bool L getIsGateway (dm_lib st) \<and> requirestrm d = dl_bool L getRequiresTRM (dm_lib st) \<and>
     usesdaylighttime d = dl_bool L getUsesDayLightTime (dm_lib st) \<and>
     rawoffset d = dl_int L getRawOffSet (dm_lib st) \<and> dstoffset d = dl_int L getDstOffset (dm_lib st) \<and>
     dstsavings d = dl_int L getDstSavings (dm_lib st) \<and> accountid d = dm_buf st B_accountId \<and>
     (\<forall>(b, field) \<in> set read_fields. dm_reading L st b = Inr (field d))"

lemma told_field: "dm_reading L st b = Inr v \<Longrightarrow> told L st b u d = u (\<lambda>_. v) d"
  by (simp add: told_def)

lemma told_keeps: "(\<And>f d. field (u f d) = field d) \<Longrightarrow> field (told L st b u d) = field d"
  by (simp add: told_def split: sum.split)

lemma playback_keeps:
  "(\<And>f d. field (playbackurl_update f d) = field d) \<Longrightarrow>
     field (process_gw_services_media_config sp d) = field d"
  by (simp add: process_gw_services_media_config_def read_str_def split: option.split)

context total_library begin

lemma readings_get_there: "\<exists>v. dm_reading L st b = Inr v"
proof (cases "dm_source L st b")
  case (Some f)
  then have "refreshes f"
    by (cases b) (auto simp: dm_source_def refreshes_def split: if_splits)
  from returns [OF this, of "dm_buf st b" "dm_lib st"] show ?thesis
    by (auto simp: dm_reading_def Some gets_there_def)
qed (simp add: dm_reading_def)

text \<open>The device as it is when the last service has been read.\<close>

lemma told_all_read:
  fixes st d sp
  defines "m \<equiv> process_gw_services_media_config sp (told_identity L st d)"
  shows "as_read L st (told_qam L st ((told_gateway L st (told_time L st m))\<lparr>ipSubNet := net\<rparr>))"
proof -
  have t: "told L st b u d = u (\<lambda>_. (case dm_reading L st b of Inr v \<Rightarrow> v | Inl e \<Rightarrow> [])) d" for b u and d :: GwyDeviceData
    using readings_get_there [of st b] by (auto simp: told_def)
  have r: "dm_reading L st b = Inr (case dm_reading L st b of Inr v \<Rightarrow> v | Inl e \<Rightarrow> [])" for b
    using readings_get_there [of st b] by auto
  show ?thesis
    unfolding as_read_def read_fields_def told_qam_def told_gateway_def told_time_def m_def told_identity_def t Let_def
    by (simp add: playback_keeps flip: r)
qed

text \<open>Local URLs, and the mark of a refactored device, leave all of it.\<close>

lemma as_read_update [simp]:
  "as_read L st (d\<lparr>gwyip := v\<rparr>) = as_read L st d" "as_read L st (d\<lparr>isOwnGateway := p\<rparr>) = as_read L st d"
  "as_read L st (d\<lparr>playbackurl := v\<rparr>) = as_read L st d" "as_read L st (d\<lparr>baseurl := v\<rparr>) = as_read L st d"
  "as_read L st (d\<lparr>basetrmurl := v\<rparr>) = as_read L st d" "as_read L st (d\<lparr>isDevRefactored := p\<rparr>) = as_read L st d"
  "as_read L st (d\<lparr>serial_num := v\<rparr>) = as_read L st d"
  by (simp_all add: as_read_def read_fields_def)

lemma replace_hn_as_read: "replace_hn_with_local d = Inr d' \<Longrightarrow> as_read L st d' = as_read L st d"
  by (auto simp: replace_hn_with_local_def bind_outcome_Inr_iff Let_def)

lemma localise_as_read: "localise E d dst = Inr (d', dst') \<Longrightarrow> as_read L st d' = as_read L st d"
  by (auto simp: localise_def replace_local_device_ip_def bind_outcome_Inr_iff Let_def replace_hn_as_read
      split: if_splits)

text \<open>All services of the device are read, and it is passed on to the list.\<close>

lemma gw_services_enlist:
  assumes "offers dev L st" "g_strstrip (ipaddress dst) \<noteq> []"
  obtains d' dst' where "gw_services E own dev d dst =
      bind_outcome (enlist E d' dst') (\<lambda>(ok, d, st). Inr (if ok then Go_on else Not_listed, d, st))"
    "as_read L st d'" "serial_num d' = serial_num d" "addr d' = addr d" "same_list dst dst'"
proof -
  have rfc: "dm_rfc_enabled st" and px: "di_proxy dev XDISC_SERVICE_IDENTITY = dm_proxy Video_gateway L X1Identity st"
    "di_proxy dev XDISC_SERVICE_TIME = dm_proxy Video_gateway L X1Time st"
    "di_proxy dev XDISC_SERVICE_GW_CFG = dm_proxy Video_gateway L X1GatewayConfiguration st"
    "di_proxy dev XDISC_SERVICE_QAM_CFG = dm_proxy Video_gateway L X1QamConfiguration st"
    using assms(1) by (auto simp: offers_def)
  define d1 where "d1 = told_time L st (process_gw_services_media_config (di_proxy dev XDISC_SERVICE_MEDIA) (told_identity L st d))"
  have "d1 = process_gw_services_time_config (di_proxy dev XDISC_SERVICE_TIME) (process_gw_services_media_config
      (di_proxy dev XDISC_SERVICE_MEDIA) (process_gw_services_identity own (ipaddress dst) (di_proxy dev XDISC_SERVICE_IDENTITY) d))"
    by (simp add: d1_def px told_identity_read [OF rfc] told_time_read [OF rfc])
  note d1 = this
  have d1_same: "serial_num d1 = serial_num d" "addr d1 = addr d" by (simp_all add: d1)
  obtain net where net: "dm_reading L st B_ipsubnet = Inr net" using readings_get_there by blast
  define d2 where "d2 = (told_gateway L st d1)\<lparr>ipSubNet := net\<rparr>"
  define dst2 where "dst2 = (if net \<noteq> [] then addRouteToMocaBridge net dst else dst)"
  have g: "process_gw_services_gateway_config (di_proxy dev XDISC_SERVICE_GW_CFG) d1 dst = (True, d2, dst2)"
    by (simp add: px told_gateway_read [OF rfc] net d2_def dst2_def)
  note G = gateway_config_frame [OF g]
  have "g_strstrip (ipaddress dst2) \<noteq> []" using assms(2) G(4) by (simp add: same_list_def)
  then obtain d3 dst3 where q: "localise E (told_qam L st d2) dst2 = Inr (d3, dst3)"
    using localise_returns by (metis surj_pair)
  have q': "process_gw_services_qam_config E (di_proxy dev XDISC_SERVICE_QAM_CFG) d2 dst2 = Inr (d3, dst3)"
    by (simp add: px told_qam_read [OF rfc] q)
  note Q = qam_frame [OF q']
  show thesis
  proof
    show "gw_services E own dev d dst =
      bind_outcome (enlist E d3 dst3) (\<lambda>(ok, d, st). Inr (if ok then Go_on else Not_listed, d, st))"
      by (simp add: gw_services_def Let_def d1 [symmetric] g q' del: bind_outcome_Inr_iff)
    show "as_read L st d3"
      using localise_as_read [OF q] told_all_read
      by (simp add: d2_def d1_def)
    show "serial_num d3 = serial_num d" "addr d3 = addr d" using G Q d1_same by simp_all
    show "same_list dst dst3" using G(4) Q(3) by (simp add: same_list_def)
  qed
qed

end

subsection \<open>The report after an arrival\<close>

lemma joined_member: "x \<in> set xs \<Longrightarrow> sublist x (joined xs)"
proof (induction xs)
  case (Cons y ys)
  show ?case
  proof (cases "x = y")
    case True
    then show ?thesis by (simp add: joined_Cons)
  next
    case False
    with Cons have s: "sublist x (joined ys)" and ne: "ys \<noteq> []" by auto
    obtain p q where "joined ys = p @ x @ q" using s by (auto simp: sublist_def)
    then have "joined (y # ys) = (y @ '','' @ p) @ x @ q" using ne by (simp add: joined_Cons)
    then show ?thesis unfolding sublist_def by blast
  qed
qed simp

lemma report_member: "d \<in> set ds \<Longrightarrow> sublist (device_json d) (report ds)"
  using joined_member [of "device_json d" "map device_json ds"]
  by (auto simp: report_def sublist_def) (metis append.assoc)

lemma inserted_member:
  "\<exists>s. g_strstrip s = g_strstrip (serial_num d) \<and>
     d\<lparr>serial_num := s\<rparr> \<in> set (g_list_insert_sorted_with_data g_list_compare_sno ds d)"
proof (induction ds arbitrary: d)
  case Nil
  show ?case by (intro exI [of _ "serial_num d"]) simp
next
  case (Cons e ds)
  obtain s where s: "g_strstrip s = g_strstrip (serial_num d)"
    "d\<lparr>serial_num := s\<rparr> \<in> set (g_list_insert_sorted_with_data g_list_compare_sno ds (strip_serial d))"
    using Cons.IH [of "strip_serial d"] by (auto simp: strip_serial_def)
  have "d\<lparr>serial_num := g_strstrip (serial_num d)\<rparr> = strip_serial d" by (simp add: strip_serial_def)
  then show ?case
    using s by (auto simp: gwl.insert_Cons simp del: g_list_insert_sorted_with_data.simps(2)
        intro: exI [of _ s] exI [of _ "g_strstrip (serial_num d)"])
qed

text \<open>A device that is new on the list is in the report as it came, but for spaces around its serial number.\<close>

lemma update_gwylist_reports:
  assumes "update_gwylist E d st = Inr (ok, st')" "g_strstrip (serial_num d) \<notin> devices st" "no_whitelist E"
  shows "\<exists>s. g_strstrip s = g_strstrip (serial_num d) \<and>
    sublist (device_json (d\<lparr>serial_num := s\<rparr>)) (outputcontents st')"
proof -
  have "\<forall>s \<in> set (serials serial_num (xdevlist st)). map_option g_strstrip (Some (serial_num d)) \<noteq> Some s"
    using assms(2) by (auto simp: devices_def)
  note absent = gwl.find_absent [OF this]
  obtain ds k where f: "g_list_find_custom g_list_find_sno (xdevlist st) (Some (serial_num d)) = (ds, k, None)"
    "g_strstrip (the k) = g_strstrip (serial_num d)" using absent by (cases "xdevlist st = []") auto
  let ?d = "d\<lparr>serial_num := the k\<rparr>"
  let ?st = "(st\<lparr>xdevlist := g_list_insert_sorted_with_data g_list_compare_sno ds ?d\<rparr>)"
  have "remove_old E d st = Inr (True, ?d, st\<lparr>xdevlist := ds\<rparr>)" by (simp add: remove_old_def f(1))
  with assms(1) obtain r where s: "sendDiscoveryResult E ?st = Inr (r, st')"
    by (auto simp: update_gwylist_def insert_new_def enrol_device_returns [OF assms(3)] bind_outcome_Inr_iff)
  obtain t where t: "g_strstrip t = g_strstrip (the k)" "?d\<lparr>serial_num := t\<rparr> \<in> set (xdevlist ?st)"
    using inserted_member [of ?d ds] by auto
  from report_member [OF t(2)] sendDiscoveryResult_frame(8) [OF s] t(1) f(2) show ?thesis by auto
qed

lemma outputcontents_finish [simp]:
  "outputcontents (gw_finish dev d st) = outputcontents st" "outputcontents (leave_cb st) = outputcontents st"
proof -
  define t where "t = g_strstrip (devicetype (current d st))"
  have "outputcontents (modify_dev (addr d) (\<lambda>e. e\<lparr>devicetype := t\<rparr>) st) = outputcontents st"
    by (simp add: modify_dev_def)
  then show "outputcontents (gw_finish dev d st) = outputcontents st" unfolding gw_finish_def Let_def t_def [symmetric] by simp
  show "outputcontents (leave_cb st) = outputcontents st" by (simp add: leave_cb_def)
qed

context total_library begin

lemma gateway_arrives:
  assumes "offers dev L dst" "no_whitelist E" "report_safe E"
    "g_strstrip (ipaddress st) \<noteq> []" "list_inv st" "di_serial dev = Some s" "receiver_of (di_udn dev) = Some r"
    "g_strstrip s \<notin> devices st"
  shows "\<exists>st' d. device_proxy_available_cb_gw E own True dev st = Inr st' \<and> list_inv st' \<and>
    devices st' = insert (g_strstrip s) (devices st) \<and> as_read L dst d \<and>
    g_strstrip (serial_num d) = g_strstrip s \<and> sublist (device_json d) (outputcontents st')"
proof -
  have "\<forall>t \<in> set (serials serial_num (xdevlist (enter_cb st))). map_option g_strstrip (Some s) \<noteq> Some t"
    using assms(8) by (auto simp: devices_def enter_cb_def)
  note absent = gwl.find_absent [OF this]
  then obtain ds k where f: "g_list_find_custom g_list_find_sno (xdevlist (enter_cb st)) (Some s) = (ds, Some k, None)"
    and k: "g_strstrip k = g_strstrip s"
    by (cases "xdevlist (enter_cb st) = []") auto
  note F = enter_keeps_find [OF f assms(5)]
  obtain d0 st1 where n: "new_device ((enter_cb st)\<lparr>xdevlist := ds\<rparr>) = (d0, st1)" by (metis surj_pair)
  note N = new_device_fresh [OF n F(1)]
  define d1 where "d1 = d0\<lparr>sproxy_i := di_has dev XDISC_SERVICE_IDENTITY, sproxy_m := di_has dev XDISC_SERVICE_MEDIA,
     sproxy_t := di_has dev XDISC_SERVICE_TIME, sproxy_g := di_has dev XDISC_SERVICE_GW_CFG,
     sproxy_q := di_has dev XDISC_SERVICE_QAM_CFG, serial_num := k, receiverid := r\<rparr>"
  have ip: "g_strstrip (ipaddress st1) \<noteq> []" using n assms(4) by (auto simp: new_device_def enter_cb_def)
  have fresh: "fresh_in d1 st1" "serial_num d1 = k" using N(1) by (simp_all add: fresh_in_def d1_def)
  obtain d2 st2 where g: "gw_services E own dev d1 st1 =
      bind_outcome (enlist E d2 st2) (\<lambda>(ok, d, st). Inr (if ok then Go_on else Not_listed, d, st))"
    and d2: "as_read L dst d2" "serial_num d2 = k" "addr d2 = addr d1" "same_list st1 st2"
    using gw_services_enlist [OF assms(1) ip] fresh(2) by metis
  note S = same_list_inv [OF d2(4)]
  obtain st3 where u: "update_gwylist E (d2\<lparr>isDevRefactored := True\<rparr>) st2 = Inr (True, st3)"
    using update_gwylist_returns [OF assms(2,3)] S(1) N(2) by blast
  have gone: "gw_services E own dev d1 st1 = Inr (Go_on, d2\<lparr>isDevRefactored := True\<rparr>, st3)"
    by (simp add: g enlist_def u)
  from gw_serves [of E own dev, unfolded serves_def, rule_format, OF gone N(2) fresh(1)]
  have K: "keeps st1 st3" "devices st3 = insert (g_strstrip s) (devices st)"
    using F(2) N(4) k fresh(2) by simp_all
  obtain t where t: "g_strstrip t = g_strstrip s"
    "sublist (device_json (d2\<lparr>isDevRefactored := True, serial_num := t\<rparr>)) (outputcontents st3)"
    using update_gwylist_reports [OF u] S(2) N(4) F(2) assms(2,8) k d2(2) by auto
  let ?st = "leave_cb (gw_finish dev (d2\<lparr>isDevRefactored := True\<rparr>) st3)"
  let ?d = "d2\<lparr>isDevRefactored := True, serial_num := t\<rparr>"
  have "device_proxy_available_cb_gw E own True dev st = Inr ?st"
    using gone by (simp add: device_proxy_available_cb_gw_def Let_def arrive_def assms(6,7) f n with_new_device_def
        serve_new_def close_call_def d1_def)
  moreover have "list_inv ?st" using keeps_gw_finish K(1) keeps_trans N(2)
    by (simp add: keeps_def list_inv_def leave_cb_def)
  moreover have "devices ?st = devices (gw_finish dev (d2\<lparr>isDevRefactored := True\<rparr>) st3)"
    by (simp add: devices_def leave_cb_def)
  moreover have "as_read L dst ?d" "g_strstrip (serial_num ?d) = g_strstrip s" using d2(1) t(1) by simp_all
  moreover have "sublist (device_json ?d) (outputcontents ?st)" using t(2) by simp
  ultimately show ?thesis using K(2) by (intro exI [of _ ?st] exI [of _ ?d] conjI) simp_all
qed

end

text \<open>
  The running device as the control point finds it: a request to a service that the start did not
  find in the description is not answered. What it still says after some requests.
\<close>

definition service_type :: "service \<Rightarrow> dev_service" where
  "service_type s = (case s of XDISC_SERVICE_IDENTITY \<Rightarrow> X1Identity | XDISC_SERVICE_MEDIA \<Rightarrow> X1MediaConfiguration
     | XDISC_SERVICE_TIME \<Rightarrow> X1Time | XDISC_SERVICE_GW_CFG \<Rightarrow> X1GatewayConfiguration
     | XDISC_SERVICE_QAM_CFG \<Rightarrow> X1QamConfiguration | XDISC_SERVICE \<Rightarrow> DiscoverFriendlies)"

definition proxies_of :: "'s dev_lib \<Rightarrow> dev_service list \<Rightarrow> 's dm_state \<Rightarrow> service \<Rightarrow> service_proxy" where
  "proxies_of L found st s =
     (if service_type s \<in> set found then dm_proxy Video_gateway L (service_type s) st else (\<lambda>action args. None))"

definition gateway_services :: "dev_service list" where
  "gateway_services = [X1Identity, X1MediaConfiguration, X1Time, X1GatewayConfiguration, X1QamConfiguration]"

lemma offers_running:
  assumes "di_proxy dev = proxies_of L found st" "set gateway_services \<subseteq> set found" "dm_rfc_enabled st"
  shows "offers dev L st"
  using assms by (simp add: offers_def proxies_of_def service_type_def gateway_services_def)

lemma as_read_same:
  assumes "same_readings L st st'" "dm_buf st' B_accountId = dm_buf st B_accountId"
  shows "as_read L st' d = as_read L st d"
  using assms by (simp add: same_readings_def as_read_def)

subsection \<open>Properties\<close>

text \<open>
  C3. A refactored video gateway that is not on the list yet, and offers its five services, is put on
  it when the control point for gateways meets it: the callback returns, the list keeps its invariant
  and has this device more, and the report written then holds an entry of the device in which the
  account, the flags, the offsets and the texts are those the device library gives. The discovery
  service runs without a white list and without telemetry, can read its serial number, and has an
  address.
\<close>

theorem refactored_gateway_listed:
  assumes "offers dev (video_library V) dst" "found_prefix V = Inr p"
    and "no_whitelist E" "report_safe E" "g_strstrip (ipaddress st) \<noteq> []" "list_inv st"
    and "di_serial dev = Some s" "receiver_of (di_udn dev) = Some r" "g_strstrip s \<notin> devices st"
  shows "\<exists>st' d. device_proxy_available_cb_gw E own True dev st = Inr st' \<and> list_inv st' \<and>
    devices st' = insert (g_strstrip s) (devices st) \<and> as_read (video_library V) dst d \<and>
    g_strstrip (serial_num d) = g_strstrip s \<and> sublist (device_json d) (outputcontents st')"
  by (rule total_library.gateway_arrives [OF video_total [OF assms(2)] assms(1,3-9)])

text \<open>
  C4. The composition of both programs: a video gateway whose start found its five services, whatever
  requests it has served since, is listed when the control point for gateways meets it, and the entry
  holds what the library said when the start was over. The device reads its identifiers from the bus,
  and the discovery service runs as above.
\<close>

theorem started_gateway_listed:
  assumes "dm_main M (video_library V) ds s = Going r" "set gateway_services \<subseteq> set (mr_services r)"
    and "dm_requests Video_gateway (video_library V) rs (mr_state r) = Inr dst"
    and "di_proxy dev = proxies_of (video_library V) (mr_services r) dst"
    and "dc_useGliDiag (le_C V)" "found_prefix V = Inr p"
    and "no_whitelist E" "report_safe E" "g_strstrip (ipaddress st) \<noteq> []" "list_inv st"
    and "di_serial dev = Some sno" "receiver_of (di_udn dev) = Some rid" "g_strstrip sno \<notin> devices st"
  shows "\<exists>st' d. device_proxy_available_cb_gw E own True dev st = Inr st' \<and> list_inv st' \<and>
    devices st' = insert (g_strstrip sno) (devices st) \<and> as_read (video_library V) (mr_state r) d \<and>
    g_strstrip (serial_num d) = g_strstrip sno \<and> sublist (device_json d) (outputcontents st')"
proof -
  have "dl_bool (video_library V) getIsuseGliDiagEnabled (dm_lib (mr_state r))"
    using assms(5) by (simp add: video_library_def)
  note same = video.requests_keep_readings [OF assms(3) this]
  have "mr_services r \<noteq> []" using assms(2) by (auto simp: gateway_services_def)
  then have "dm_rfc_enabled dst" using main_services [OF assms(1)] requests_account [OF assms(3)] by simp
  with offers_running assms(2,4) have "offers dev (video_library V) dst" by blast
  from total_library.gateway_arrives [OF video_total [OF assms(6)] this assms(7-13)]
  show ?thesis using as_read_same [OF same] requests_account [OF assms(3)] by simp
qed

lemma sample_discovery:
  "no_whitelist sample_env" "report_safe sample_env"
  "g_strstrip (ipaddress (disc_start ''10.0.0.1'')) \<noteq> []" "list_inv (disc_start ''10.0.0.1'')"
  by (simp_all add: no_whitelist_def sample_env_def sample_flags_def report_safe_def serial_safe_def)
    (simp add: disc_start_def g_strstrip_def g_strchug_def g_strchomp_def g_ascii_isspace_def)

lemma sample_listed: "insert (g_strstrip ''M11'') (devices (disc_start ''10.0.0.1'')) = {''M11''}"
  by (simp add: devices_def disc_start_def) code_simp

definition sample_gateway :: device_info where
  "sample_gateway = sample_dev_info\<lparr>di_proxy := (\<lambda>s.
     dm_proxy Video_gateway (video_library sample_video_env)
       (case s of XDISC_SERVICE_IDENTITY \<Rightarrow> X1Identity | XDISC_SERVICE_MEDIA \<Rightarrow> X1MediaConfiguration
        | XDISC_SERVICE_TIME \<Rightarrow> X1Time | XDISC_SERVICE_GW_CFG \<Rightarrow> X1GatewayConfiguration
        | XDISC_SERVICE_QAM_CFG \<Rightarrow> X1QamConfiguration | XDISC_SERVICE \<Rightarrow> DiscoverFriendlies)
       (dm_init True sample_video_state))\<rparr>"

theorem refactored_gateway_listed_witness:
  "\<exists>st' d. device_proxy_available_cb_gw sample_env sample_own True sample_gateway (disc_start ''10.0.0.1'') = Inr st' \<and>
     devices st' = {''M11''} \<and> sublist (device_json d) (outputcontents st') \<and> dsgtimezone d = ''US/Eastern''"
proof -
  have o: "offers sample_gateway (video_library sample_video_env) (dm_init True sample_video_state)"
    by (simp add: offers_def sample_gateway_def dm_init_def)
  have d: "di_serial sample_gateway = Some ''M11''" "receiver_of (di_udn sample_gateway) = Some ''P11''"
    "g_strstrip ''M11'' \<notin> devices (disc_start ''10.0.0.1'')"
    by (simp_all add: sample_gateway_def sample_dev_info_def receiver_of_def g_strrstr_def devices_def disc_start_def)
  have z: "dm_reading (video_library sample_video_env) (dm_init True sample_video_state) B_dsgtimeZone = Inr ''US/Eastern''"
    by code_simp
  from refactored_gateway_listed [OF o sample_prefix sample_discovery d, of sample_own, unfolded sample_listed] obtain st' d where
    "device_proxy_available_cb_gw sample_env sample_own True sample_gateway (disc_start ''10.0.0.1'') = Inr st'"
    "devices st' = {''M11''}" "sublist (device_json d) (outputcontents st')"
    "as_read (video_library sample_video_env) (dm_init True sample_video_state) d" by blast
  moreover from this(4) z have "dsgtimezone d = ''US/Eastern''" by (simp add: as_read_def read_fields_def)
  ultimately show ?thesis by blast
qed

lemma sample_services:
  "\<exists>r. dm_main (sample_dm_env Video_gateway) (video_library sample_video_env) sample_descriptions sample_video_state =
     Going r \<and> set gateway_services \<subseteq> set (mr_services r) \<and>
     dm_reading (video_library sample_video_env) (mr_state r) B_dsgtimeZone = Inr ''US/Eastern''"
proof -
  have "case dm_main (sample_dm_env Video_gateway) (video_library sample_video_env) sample_descriptions sample_video_state of
     Going r \<Rightarrow> list_all (\<lambda>s. s \<in> set (mr_services r)) gateway_services \<and>
       dm_reading (video_library sample_video_env) (mr_state r) B_dsgtimeZone = Inr ''US/Eastern''
   | _ \<Rightarrow> False" by code_simp
  then show ?thesis by (auto simp: list_all_iff split: start.splits)
qed

theorem started_gateway_listed_witness:
  "\<exists>r dev st' d. dm_main (sample_dm_env Video_gateway) (video_library sample_video_env) sample_descriptions
       sample_video_state = Going r \<and>
     device_proxy_available_cb_gw sample_env sample_own True dev (disc_start ''10.0.0.1'') = Inr st' \<and>
     devices st' = {''M11''} \<and> sublist (device_json d) (outputcontents st') \<and> dsgtimezone d = ''US/Eastern''"
proof -
  obtain r where r: "dm_main (sample_dm_env Video_gateway) (video_library sample_video_env) sample_descriptions
       sample_video_state = Going r" "set gateway_services \<subseteq> set (mr_services r)"
    and z: "dm_reading (video_library sample_video_env) (mr_state r) B_dsgtimeZone = Inr ''US/Eastern''"
    using sample_services by blast
  obtain dst where q: "dm_requests Video_gateway (video_library sample_video_env) [Invoke X1Time ''GetTimeZone'' []] (mr_state r) = Inr dst"
    using total_library.requests_get_there [OF video_total [OF sample_prefix]] unfolding gets_there_def by blast
  define dev where "dev = sample_dev_info\<lparr>di_proxy := proxies_of (video_library sample_video_env) (mr_services r) dst\<rparr>"
  have p: "di_proxy dev = proxies_of (video_library sample_video_env) (mr_services r) dst"
    and d: "di_serial dev = Some ''M11''" "receiver_of (di_udn dev) = Some ''P11''"
      "g_strstrip ''M11'' \<notin> devices (disc_start ''10.0.0.1'')"
    by (simp_all add: dev_def sample_dev_info_def receiver_of_def g_strrstr_def devices_def disc_start_def)
  have g: "dc_useGliDiag (le_C sample_video_env)" by (simp add: sample_video_env_def)
  from started_gateway_listed [OF r q p g sample_prefix sample_discovery d, of sample_own, unfolded sample_listed] obtain st' d where
    "device_proxy_available_cb_gw sample_env sample_own True dev (disc_start ''10.0.0.1'') = Inr st'"
    "devices st' = {''M11''}" "sublist (device_json d) (outputcontents st')"
    "as_read (video_library sample_video_env) (mr_state r) d" by blast
  moreover from this(4) z have "dsgtimezone d = ''US/Eastern''" by (simp add: as_read_def read_fields_def)
  ultimately show ?thesis using r(1) by blast
qed

end
