(* ===== verification/Video_Rui.thy ===== *)
theory Video_Rui
  imports Video_Lib Xcal_Rui
begin

text \<open>
  The remote user interface of the video library \<open>src/video/lib/src/xcal_device_library.c\<close>:
  \<open>getPartnerId\<close>, the names of the partner, the icons, \<open>get_uri_value\<close> and \<open>getRUIUrl\<close>, with the
  action and the query of \<open>src/xcal-device-main.c\<close> that answer with it. The functions were made
  from those of \<open>src/xcal-device.c\<close>, where \<open>getPartnerID\<close> returns a string; here it was replaced by
  \<open>getPartnerId\<close>, which asks for the partner again, writes through its argument and answers with a
  truth value.
\<close>

subsection \<open>The partner\<close>

text \<open>
  Every call of \<open>getPartnerId\<close> below has the text of \<open>partner_id\<close> as its buffer, a string that
  \<open>getID\<close> replaces before it is written to. \<open>rp_rounds k\<close> are the rounds of \<open>getID\<close> in the \<open>k\<close>-th
  call, \<open>rp_room k\<close> is the allocated size of the replaced string in bytes, of which GLib only
  promises that the old text fits. The state counts the calls.
\<close>

record partner_env =
  rp_rounds :: "nat \<Rightarrow> id_round list"
  rp_room :: "nat \<Rightarrow> nat"

type_synonym rui_state = "nat \<times> lib_state"

text \<open>
  A text of 256 characters or more is refused by \<open>strcpy_s\<close>, which then ends the buffer at its first
  byte.
\<close>

definition vl_getPartnerId ::
  "lib_env \<Rightarrow> id_round list \<Rightarrow> nat \<Rightarrow> lib_state \<Rightarrow> (bool \<times> lib_state) outcome" where
  "vl_getPartnerId E rounds room st =
     (case vl_getID (le_names E) (le_C E) PARTNER_ID rounds (lx st) of
        Going (v, x) \<Rightarrow>
          (let st = st\<lparr>lx := x\<lparr>x_partner_id := v\<rparr>\<rparr> in
           if v = [] then Inr (False, st)
           else if MAX_OUTVALUE \<le> length v
             then (if room = 0 then Inl Out_of_bounds else Inr (False, st))
           else if room \<le> length v then Inl Out_of_bounds else Inr (True, st))
      | _ \<Rightarrow> Inl Non_termination)"

definition vl_ask_partner :: "partner_env \<Rightarrow> lib_env \<Rightarrow> rui_state \<Rightarrow> (bool \<times> rui_state) outcome" where
  "vl_ask_partner P E s =
     (case s of (k, st) \<Rightarrow>
        bind_outcome (vl_getPartnerId E (rp_rounds P k) (rp_room P k) st) (\<lambda>(ok, st). Inr (ok, (Suc k, st))))"

definition vl_name :: "STRING_MAP \<Rightarrow> partner_env \<Rightarrow> lib_env \<Rightarrow> rui_state \<Rightarrow> (string \<times> rui_state) outcome" where
  "vl_name m P E s =
     bind_outcome (vl_ask_partner P E s) (\<lambda>(_, s). Inr (getStrValueFromMap (x_partner_id (lx (snd s))) m, s))"

definition vl_getPartnerName :: "partner_env \<Rightarrow> lib_env \<Rightarrow> rui_state \<Rightarrow> (string \<times> rui_state) outcome" where
  "vl_getPartnerName = vl_name partnerNameMap"

definition vl_getProductName :: "partner_env \<Rightarrow> lib_env \<Rightarrow> rui_state \<Rightarrow> (string \<times> rui_state) outcome" where
  "vl_getProductName = vl_name productNameMap"

definition vl_getServiceName :: "partner_env \<Rightarrow> lib_env \<Rightarrow> rui_state \<Rightarrow> (string \<times> rui_state) outcome" where
  "vl_getServiceName = vl_name serviceNameMap"

definition vl_getServiceDescription :: "partner_env \<Rightarrow> lib_env \<Rightarrow> rui_state \<Rightarrow> (string \<times> rui_state) outcome" where
  "vl_getServiceDescription = vl_name serviceDescriptionMap"

definition vl_getGatewayName :: "partner_env \<Rightarrow> lib_env \<Rightarrow> rui_state \<Rightarrow> (string \<times> rui_state) outcome" where
  "vl_getGatewayName = vl_name gatewayNameMap"

subsection \<open>Icons\<close>

text \<open>The arguments of a call are evaluated from left to right, an order C leaves open.\<close>

definition vl_get_compatible_uis_icon ::
  "nat \<Rightarrow> nat \<Rightarrow> string \<Rightarrow> string \<Rightarrow> partner_env \<Rightarrow> lib_env \<Rightarrow> rui_state \<Rightarrow> (string \<times> rui_state) outcome" where
  "vl_get_compatible_uis_icon nSize nDepth pszImageType pszImageExt P E s =
     bind_outcome (vl_getPartnerName P E s) (\<lambda>(partner, s).
     bind_outcome (vl_getProductName P E s) (\<lambda>(product, s).
       Inr (''<icon><mimetype>image/'' @ pszImageType @ ''</mimetype><width>'' @ show_nat nSize @
         ''</width><height>'' @ show_nat nSize @ ''</height><depth>'' @ show_nat nDepth @
         ''</depth> <url>http://syndeo.xcal.tv/app/x2rui/dlna/'' @ partner @ ''/'' @
         product @ ''_'' @ show_nat nSize @ ''.'' @ pszImageExt @ ''</url></icon>'', s)))"

definition vl_get_compatible_uis_icon_list ::
  "partner_env \<Rightarrow> lib_env \<Rightarrow> rui_state \<Rightarrow> (string \<times> rui_state) outcome" where
  "vl_get_compatible_uis_icon_list P E s =
     bind_outcome (vl_get_compatible_uis_icon 48 32 ''png'' ''png'' P E s) (\<lambda>(icon1, s).
     bind_outcome (vl_get_compatible_uis_icon 120 32 ''png'' ''png'' P E s) (\<lambda>(icon2, s).
     bind_outcome (vl_get_compatible_uis_icon 48 32 ''jpeg'' ''jpg'' P E s) (\<lambda>(icon3, s).
     bind_outcome (vl_get_compatible_uis_icon 120 32 ''jpeg'' ''jpg'' P E s) (\<lambda>(icon4, s).
       Inr (''<iconList>'' @ icon1 @ icon2 @ icon3 @ icon4 @ ''</iconList>'', s)))))"

subsection \<open>The URI\<close>

definition vl_initIpAddressBufferCVP2 :: "xd_conf \<Rightarrow> rui_env \<Rightarrow> lib_state \<Rightarrow> string \<times> lib_state" where
  "vl_initIpAddressBufferCVP2 C R st =
     (case initIpAddressBufferCVP2 C R (lx st) of (buf, x) \<Rightarrow> (buf, st\<lparr>lx := x\<rparr>))"

text \<open>
  The four identifiers and the address of the box are cut out before the name of the gateway is asked
  for. The answer of \<open>getPartnerId\<close> is then passed on as if it were a string: FALSE is the null
  pointer, which ends the arguments of \<open>g_strconcat\<close>, and TRUE is the address 1.
\<close>

definition vl_get_uri_value ::
  "partner_env \<Rightarrow> lib_env \<Rightarrow> rui_env \<Rightarrow> rui_state \<Rightarrow> (string \<times> rui_state) outcome" where
  "vl_get_uri_value P E R s =
     (let udnvalue = take 24 (''CVP-'' @ re_now R) in
      case vl_initIpAddressBufferCVP2 (le_C E) R (snd s) of (ip, st) \<Rightarrow>
      (let st = st\<lparr>lx := (lx st)\<lparr>x_trmurlCVP2 := ''ws://'' @ ip @ '':9988'',
                   x_playbackurlCVP2 := ''http://'' @ ip @ '':8080/hnStreamStart?deviceId='' @ x_recv_id (lx st) @
                     ''&DTCP1HOST='' @ ip @ ''&DTCP1PORT=5000''\<rparr>\<rparr>
       in bind_outcome (vl_getGatewayName P E (fst s, st)) (\<lambda>(_, s).
          let gw = gw_value udnvalue ((lx (snd s))\<lparr>x_systemids := x_systemids (lx st),
                     x_hostmacaddress := x_hostmacaddress (lx st)\<rparr>);
              gwescapededstr = uriescape gw
          in bind_outcome (vl_ask_partner P E s) (\<lambda>(ok, s).
             if ok then Inl Out_of_bounds else Inr (xmlescape (urilink (le_C E) @ ''?partner=''), s)))))"

subsection \<open>The listing\<close>

definition rui_listing :: "string \<Rightarrow> string \<Rightarrow> string \<Rightarrow> string \<Rightarrow> string" where
  "rui_listing service description iconlist urivalue =
     rui_head @ ''<name>'' @ service @ ''</name><description>'' @ description @ ''</description>'' @
     iconlist @ rui_protocol @ urivalue @ ''</uri></protocol></ui></uilist>''"

definition vl_getRUIUrl ::
  "partner_env \<Rightarrow> lib_env \<Rightarrow> rui_env \<Rightarrow> rui_state \<Rightarrow> rui_state filled" where
  "vl_getRUIUrl P E R s =
     bind_outcome
       (case dc_ruiPath (le_C E) of
          Some p \<Rightarrow> Inr (p, s)
        | None \<Rightarrow>
            bind_outcome (vl_get_uri_value P E R s) (\<lambda>(urivalue, s).
            bind_outcome (vl_get_compatible_uis_icon_list P E s) (\<lambda>(iconlist, s).
            bind_outcome (vl_getServiceName P E s) (\<lambda>(service, s).
            bind_outcome (vl_getServiceDescription P E s) (\<lambda>(description, s).
              Inr (rui_listing service description iconlist urivalue, s))))))
       (\<lambda>(url, s). fill_s RUIURLSIZE url (fst s, (snd s)\<lparr>lx := (lx (snd s))\<lparr>x_ruiurl := url\<rparr>\<rparr>))"

text \<open>
  The action of the second service and the query of its variable. The buffer is answered with
  whatever the call left in it.
\<close>

definition dm_get_rui_url_cb ::
  "partner_env \<Rightarrow> lib_env \<Rightarrow> rui_env \<Rightarrow> rui_state \<Rightarrow> ((string \<Rightarrow> gvalue option) \<times> string \<times> rui_state) outcome" where
  "dm_get_rui_url_cb P E R s =
     bind_outcome (vl_getRUIUrl P E R s) (\<lambda>((_, ruiUrl), s). Inr ([''UIListing'' \<mapsto> G_STRING ruiUrl], ruiUrl, s))"

definition dm_query_rui_url_cb :: "string \<Rightarrow> gvalue" where
  "dm_query_rui_url_cb ruiUrl = G_STRING ruiUrl"

subsection \<open>What the listing says of the gateway\<close>

text \<open>A round of \<open>getID\<close> that finds a partner whose name fits the buffer of the call.\<close>

definition names_partner :: "id_round list \<Rightarrow> bool" where
  "names_partner rounds \<longleftrightarrow> (\<exists>r rs resp v. rounds = r # rs \<and> ir_response r = Some resp \<and> take 1023 resp \<noteq> [] \<and>
     id_tokens PARTNER_ID (g_strsplit_set (take 1023 resp) [CHR ''{'', CHR ''}'', CHR '':'', CHR '','', CHR 0x22]) [] = (True, v) \<and>
     v \<noteq> [] \<and> length v < MAX_OUTVALUE \<and> ir_mac r \<noteq> [] \<and> length (ir_mac r) < MAX_OUTVALUE)"

lemma getPartnerId_named:
  assumes "names_partner rounds"
  shows "\<exists>st'. vl_getPartnerId E rounds room st \<in> {Inl Out_of_bounds, Inr (True, st')}"
proof -
  have "\<exists>v x. vl_getID (le_names E) (le_C E) PARTNER_ID rounds (lx st) = Going (v, x) \<and>
      v \<noteq> [] \<and> length v < MAX_OUTVALUE"
    using assms by (fastforce simp: names_partner_def vl_getID_def Let_def)
  then obtain v x where "vl_getID (le_names E) (le_C E) PARTNER_ID rounds (lx st) = Going (v, x)"
      "v \<noteq> []" "length v < MAX_OUTVALUE" by blast
  then show ?thesis by (cases "room \<le> length v") (simp_all add: vl_getPartnerId_def Let_def)
qed

lemma get_uri_value_returns:
  assumes "vl_get_uri_value P E R s = Inr (uri, s')"
  shows "uri = xmlescape (urilink (le_C E) @ ''?partner='')"
  using assms
  by (auto simp: vl_get_uri_value_def bind_outcome_Inr_iff Let_def case_prod_beta split: if_splits)

lemma name_named:
  assumes "\<And>k. names_partner (rp_rounds P k)"
  shows "vl_name m P E s = Inl Out_of_bounds \<or>
    (\<exists>st'. vl_name m P E s = Inr (getStrValueFromMap (x_partner_id (lx st')) m, (Suc (fst s), st')))"
proof -
  obtain st' where "vl_getPartnerId E (rp_rounds P (fst s)) (rp_room P (fst s)) (snd s)
      \<in> {Inl Out_of_bounds, Inr (True, st')}"
    using getPartnerId_named [OF assms] by blast
  then show ?thesis by (auto simp: vl_name_def vl_ask_partner_def case_prod_beta)
qed

lemma ask_named:
  assumes "\<And>k. names_partner (rp_rounds P k)"
  shows "vl_ask_partner P E s = Inl Out_of_bounds \<or> (\<exists>s'. vl_ask_partner P E s = Inr (True, s'))"
proof -
  obtain st' where "vl_getPartnerId E (rp_rounds P (fst s)) (rp_room P (fst s)) (snd s)
      \<in> {Inl Out_of_bounds, Inr (True, st')}"
    using getPartnerId_named [OF assms] by blast
  then show ?thesis by (auto simp: vl_ask_partner_def case_prod_beta)
qed

lemma get_uri_value_named:
  assumes "\<And>k. names_partner (rp_rounds P k)"
  shows "vl_get_uri_value P E R s = Inl Out_of_bounds"
proof -
  define st where "st = (case vl_initIpAddressBufferCVP2 (le_C E) R (snd s) of (ip, st) \<Rightarrow>
      st\<lparr>lx := (lx st)\<lparr>x_trmurlCVP2 := ''ws://'' @ ip @ '':9988'',
        x_playbackurlCVP2 := ''http://'' @ ip @ '':8080/hnStreamStart?deviceId='' @ x_recv_id (lx st) @
          ''&DTCP1HOST='' @ ip @ ''&DTCP1PORT=5000''\<rparr>\<rparr>)"
  have u: "vl_get_uri_value P E R s = bind_outcome (vl_name gatewayNameMap P E (fst s, st)) (\<lambda>(_, s).
      bind_outcome (vl_ask_partner P E s) (\<lambda>(ok, s).
        if ok then Inl Out_of_bounds else Inr (xmlescape (urilink (le_C E) @ ''?partner=''), s)))"
    by (simp add: vl_get_uri_value_def vl_getGatewayName_def st_def Let_def case_prod_beta)
  consider "vl_name gatewayNameMap P E (fst s, st) = Inl Out_of_bounds"
    | n s1 where "vl_name gatewayNameMap P E (fst s, st) = Inr (n, s1)"
    using name_named [OF assms, of gatewayNameMap E "(fst s, st)"] by blast
  then show ?thesis
  proof cases
    case (2 n s1)
    then show ?thesis using ask_named [OF assms, of E s1] unfolding u by auto
  qed (simp add: u)
qed

text \<open>Rounds that answer without a partner, and what the calls leave then: the first entry of every table.\<close>

definition names_nobody :: "id_round list \<Rightarrow> bool" where
  "names_nobody rounds \<longleftrightarrow> (\<exists>r rs resp. rounds = r # rs \<and> ir_response r = Some resp \<and> take 1023 resp \<noteq> [] \<and>
     id_tokens PARTNER_ID (g_strsplit_set (take 1023 resp) [CHR ''{'', CHR ''}'', CHR '':'', CHR '','', CHR 0x22]) [] = (False, []))"

definition in_warehouse :: "lib_env \<Rightarrow> lib_state \<Rightarrow> bool" where
  "in_warehouse E st \<longleftrightarrow> dc_wareHouseMode (le_C E) \<or> x_sysModeParam (lx st) = SYS_MODE_WAREHOUSE (le_names E)"

definition no_partner :: "lib_state \<Rightarrow> lib_state" where
  "no_partner st = st\<lparr>lx := (lx st)\<lparr>x_partner_id := []\<rparr>\<rparr>"

lemma no_partner_simps [simp]:
  "no_partner (no_partner st) = no_partner st" "in_warehouse E (no_partner st) = in_warehouse E st"
  "x_partner_id (lx (no_partner st)) = []"
  by (simp_all add: no_partner_def in_warehouse_def)

lemma getPartnerId_nobody:
  assumes "names_nobody rounds" "\<not> in_warehouse E st"
  shows "vl_getPartnerId E rounds room st = Inr (False, no_partner st)"
proof -
  have "g_strrstr PARTNER_ID PARTNER_ID" by (simp add: g_strrstr_iff)
  then have "vl_getID (le_names E) (le_C E) PARTNER_ID rounds (lx st) = Going ([], lx st)"
    using assms by (auto simp: names_nobody_def in_warehouse_def vl_getID_def Let_def)
  then show ?thesis by (simp add: vl_getPartnerId_def no_partner_def Let_def)
qed

lemma ask_nobody:
  assumes "\<And>k. names_nobody (rp_rounds P k)" "\<not> in_warehouse E st"
  shows "vl_ask_partner P E (k, st) = Inr (False, (Suc k, no_partner st))"
  using getPartnerId_nobody [OF assms(1) assms(2)] by (simp add: vl_ask_partner_def)

lemma name_nobody:
  assumes "\<And>k. names_nobody (rp_rounds P k)" "\<not> in_warehouse E st"
  shows "vl_name m P E (k, st) = Inr (getStrValueFromMap [] m, (Suc k, no_partner st))"
  using ask_nobody [OF assms] by (simp add: vl_name_def)

lemmas names_nobody_simps = name_nobody vl_getPartnerName_def vl_getProductName_def vl_getServiceName_def
  vl_getServiceDescription_def vl_getGatewayName_def

lemma icon_list_nobody:
  assumes "\<And>k. names_nobody (rp_rounds P k)" "\<not> in_warehouse E st"
  shows "vl_get_compatible_uis_icon_list P E (k, st) =
    Inr (get_compatible_uis_icon_list (lx (no_partner st)), (k + 8, no_partner st))"
  using assms
  by (simp add: vl_get_compatible_uis_icon_list_def vl_get_compatible_uis_icon_def names_nobody_simps
      get_compatible_uis_icon_list_def get_compatible_uis_icon_def getPartnerName_def getProductName_def getPartnerID_def)

lemma uri_nobody:
  assumes "\<And>k. names_nobody (rp_rounds P k)" "\<not> in_warehouse E st"
  shows "\<exists>st'. vl_get_uri_value P E R (k, st) =
      Inr (xmlescape (urilink (le_C E) @ ''?partner=''), (k + 2, no_partner st')) \<and> \<not> in_warehouse E st'"
proof -
  define ip where "ip = fst (vl_initIpAddressBufferCVP2 (le_C E) R st)"
  define st0 where "st0 = snd (vl_initIpAddressBufferCVP2 (le_C E) R st)"
  define st1 where "st1 = st0\<lparr>lx := (lx st0)\<lparr>x_trmurlCVP2 := ''ws://'' @ ip @ '':9988'',
     x_playbackurlCVP2 := ''http://'' @ ip @ '':8080/hnStreamStart?deviceId='' @ x_recv_id (lx st0) @
       ''&DTCP1HOST='' @ ip @ ''&DTCP1PORT=5000''\<rparr>\<rparr>"
  have w: "\<not> in_warehouse E st1" using assms(2)
    by (simp add: in_warehouse_def st1_def st0_def vl_initIpAddressBufferCVP2_def initIpAddressBufferCVP2_def Let_def)
  have "vl_get_uri_value P E R (k, st) = bind_outcome (vl_name gatewayNameMap P E (k, st1)) (\<lambda>(_, s).
      bind_outcome (vl_ask_partner P E s) (\<lambda>(ok, s).
        if ok then Inl Out_of_bounds else Inr (xmlescape (urilink (le_C E) @ ''?partner=''), s)))"
    by (simp add: vl_get_uri_value_def vl_getGatewayName_def st1_def st0_def ip_def Let_def case_prod_beta)
  then show ?thesis using w name_nobody [OF assms(1) w] ask_nobody [OF assms(1)] by auto
qed

text \<open>The listing without a partner.\<close>

definition comcast_listing :: "xd_conf \<Rightarrow> string" where
  "comcast_listing C = rui_listing ''Comcast XFINITY Guide'' ''Comcast XFINITY Guide application''
     (get_compatible_uis_icon_list (xd_init\<lparr>x_partner_id := []\<rparr>)) (xmlescape (urilink C @ ''?partner=''))"

lemma first_entries:
  "getStrValueFromMap [] serviceNameMap = ''Comcast XFINITY Guide''"
  "getStrValueFromMap [] serviceDescriptionMap = ''Comcast XFINITY Guide application''"
  by (simp_all add: getStrValueFromMap_def serviceNameMap_def serviceDescriptionMap_def strncasecmp_eq_def
      COMCAST_PARTNET_KEY_def COX_PARTNET_KEY_def)

lemma icon_list_partner:
  "x_partner_id x = x_partner_id y \<Longrightarrow> get_compatible_uis_icon_list x = get_compatible_uis_icon_list y"
  by (simp add: get_compatible_uis_icon_list_def get_compatible_uis_icon_def getPartnerName_def getProductName_def
      getPartnerID_def)

subsection \<open>Properties\<close>


text \<open>A script that answers with a partner, and one that answers without.\<close>

definition answer_of :: "string \<Rightarrow> string \<Rightarrow> string" where
  "answer_of key v = ''{'' @ dquote @ key @ dquote @ '':'' @ dquote @ v @ dquote @ ''}''"

definition answering :: "string \<Rightarrow> string \<Rightarrow> partner_env" where
  "answering key v = \<lparr>rp_rounds = (\<lambda>k. [\<lparr>ir_response = Some (answer_of key v), ir_mac = ''00'', ir_events = []\<rparr>]),
     rp_room = (\<lambda>k. 64)\<rparr>"

definition sample_names_env :: lib_env where
  "sample_names_env = \<lparr>le_names = sample_names, le_client = True,
     le_conf = \<lparr>lc = sample_xd_conf, lc_devCertFile = None, lc_devCertPath = None, lc_devKeyFile = None, lc_devKeyPath = None\<rparr>,
     le_v6 = False, le_files = (\<lambda>f. None), le_socket = True, le_hwaddr = (\<lambda>i. None), le_junk_mac = [0, 1, 2, 3, 4, 5],
     le_route = None, le_mfr = None, le_account = None, le_id_rounds = []\<rparr>"

lemma answers:
  "names_partner (rp_rounds (answering ''partnerId'' ''cox'') k)"
  "names_nobody (rp_rounds (answering ''deviceId'' ''T1'') k)"
proof -
  have "take 1023 (answer_of ''partnerId'' ''cox'') \<noteq> [] \<and>
      id_tokens PARTNER_ID (g_strsplit_set (take 1023 (answer_of ''partnerId'' ''cox''))
        [CHR ''{'', CHR ''}'', CHR '':'', CHR '','', CHR 0x22]) [] = (True, ''cox'')"
    by code_simp
  then show "names_partner (rp_rounds (answering ''partnerId'' ''cox'') k)"
    by (simp add: names_partner_def answering_def MAX_OUTVALUE_def)
  have "take 1023 (answer_of ''deviceId'' ''T1'') \<noteq> [] \<and>
      id_tokens PARTNER_ID (g_strsplit_set (take 1023 (answer_of ''deviceId'' ''T1''))
        [CHR ''{'', CHR ''}'', CHR '':'', CHR '','', CHR 0x22]) [] = (False, [])"
    by code_simp
  then show "names_nobody (rp_rounds (answering ''deviceId'' ''T1'') k)"
    by (simp add: names_nobody_def answering_def)
qed


end
