(* ===== verification/Lib_Readers.thy ===== *)
theory Lib_Readers
  imports Video_Start Bb_Lib
begin

text \<open>
  Functions of the two device libraries beside those the device asks for: the copies of the readers
  of \<open>src/xcal-device.c\<close> that were kept in \<open>src/broadband/lib/src/xcal-device-library.c\<close> and
  \<open>src/video/lib/src/xcal_device_library.c\<close>, a \<open>getID\<close> without its loop, and \<open>readconffile\<close> in both
  builds. Where a copy has the statements of the original, the model is the original on the
  variables of the library.
\<close>

subsection \<open>The broadband library\<close>

definition on_bx :: "(xd_state \<Rightarrow> bool \<times> xd_state) \<Rightarrow> bb_state \<Rightarrow> bool \<times> bb_state" where
  "on_bx f st = (case f (bx st) of (r, x) \<Rightarrow> (r, bx_update (\<lambda>_. x) st))"

definition bb_gettimezone :: "xd_conf \<Rightarrow> files \<Rightarrow> bb_state \<Rightarrow> bool \<times> bb_state" where
  "bb_gettimezone C files = on_bx (gettimezone C files)"

definition bb_updatesystemids :: "xd_conf \<Rightarrow> files \<Rightarrow> bb_state \<Rightarrow> bool \<times> bb_state" where
  "bb_updatesystemids C files = on_bx (updatesystemids C files)"

definition bb_parsedevicename :: "xd_conf \<Rightarrow> files \<Rightarrow> bb_state \<Rightarrow> bool \<times> bb_state" where
  "bb_parsedevicename C files = on_bx (getdevicename C files)"

definition bb_parseipv6prefix :: "xd_conf \<Rightarrow> files \<Rightarrow> bb_state \<Rightarrow> (bool \<times> bb_state) outcome" where
  "bb_parseipv6prefix C files st =
     bind_outcome (getipv6prefix C files (bx st)) (\<lambda>(r, x). Inr (r, bx_update (\<lambda>_. x) st))"

definition bb_getetchosts :: "bool \<Rightarrow> files \<Rightarrow> bb_state \<Rightarrow> bool \<times> bb_state" where
  "bb_getetchosts v6 files = on_bx (getetchosts v6 files)"

definition bb_parsednsconfig :: "xd_conf \<Rightarrow> files \<Rightarrow> bb_state \<Rightarrow> bool \<times> bb_state" where
  "bb_parsednsconfig C files = on_bx (getdnsconfig C files)"

text \<open>In the client build the body is commented out, and the answer is TRUE without a number.\<close>

definition bb_parseserialnum :: "bool \<Rightarrow> files \<Rightarrow> bb_state \<Rightarrow> bool \<times> bb_state" where
  "bb_parseserialnum client files st =
     (if client then (True, st) else on_bx (xd_getserialnum False files None) st)"

definition bb_getidfromdiagfile :: "string \<Rightarrow> string \<Rightarrow> 64 word" where
  "bb_getidfromdiagfile = getidfromdiagfile"

definition bb_get_eSTBMAC :: "bb_state \<Rightarrow> string option" where
  "bb_get_eSTBMAC st = get_eSTBMAC (x_hostmacaddress (bx st))"

definition bb_getipaddress ::
  "(string \<Rightarrow> bool) \<Rightarrow> ifaddrs list option \<Rightarrow> string \<Rightarrow> string \<Rightarrow> bool \<Rightarrow> int \<times> string" where
  "bb_getipaddress linklocal = xd_getipaddress linklocal (lc bb_conf)"

text \<open>
  \<open>getID\<close> has lost its loop and the test for the warehouse: it asks the script once, and answers with
  what it found, which may be nothing.
\<close>

definition bb_getID :: "string \<Rightarrow> string option \<Rightarrow> string" where
  "bb_getID ident script =
     (case script of
        None \<Rightarrow> []
      | Some resp \<Rightarrow>
          (let response = take 1023 resp; counter = (0 :: nat) in
           if response = [] \<and> counter < MAX_DEBUG_MESSAGE then []
           else snd (id_tokens ident (g_strsplit_set response [CHR ''{'', CHR ''}'', CHR '':'', CHR '','', CHR 0x22]) [])))"

text \<open>
  \<open>readconffile\<close> on cleared memory. The client build reads six settings and checks none; the gateway
  build wants a white box file as well, whose name it keeps nowhere else.
\<close>

definition bb_readconffile :: "bool \<Rightarrow> bool \<Rightarrow> keyfile option \<Rightarrow> (bool \<times> lib_conf) start" where
  "bb_readconffile client vidiPath configfile =
     bind_start (xd_readconffile client vidiPath (lc lib_conf0) configfile) (\<lambda>(ok, c).
       (case configfile of
          None \<Rightarrow> Aborted
        | Some k \<Rightarrow>
            (let s = kf_string k ''DataFiles'' in
             if client then Going (ok, lib_conf0\<lparr>lc := c\<rparr>)
             else Going (ok \<and> s ''WbFile'' \<noteq> None,
                    \<lparr>lc = c, lc_devCertFile = s ''DevCertFile'', lc_devCertPath = s ''DevCertPath'',
                     lc_devKeyFile = s ''DevKeyFile'', lc_devKeyPath = s ''DevKeyPath''\<rparr>))))"

subsection \<open>The video library\<close>

definition vl_gettimezone :: "lib_env \<Rightarrow> lib_state \<Rightarrow> bool \<times> lib_state" where
  "vl_gettimezone E = on_shared (gettimezone (le_C E) (le_files E))"

definition vl_getserialnum :: "lib_env \<Rightarrow> lib_state \<Rightarrow> bool \<times> lib_state" where
  "vl_getserialnum E = on_shared (xd_getserialnum (le_client E) (le_files E) (le_mfr E))"

definition vl_getipv6prefix :: "lib_env \<Rightarrow> lib_state \<Rightarrow> (bool \<times> lib_state) outcome" where
  "vl_getipv6prefix E st =
     bind_outcome (getipv6prefix (le_C E) (le_files E) (lx st)) (\<lambda>(r, x). Inr (r, st\<lparr>lx := x\<rparr>))"

definition vl_getipaddress ::
  "(string \<Rightarrow> bool) \<Rightarrow> lib_env \<Rightarrow> ifaddrs list option \<Rightarrow> string \<Rightarrow> string \<Rightarrow> bool \<Rightarrow> int \<times> string" where
  "vl_getipaddress linklocal E = xd_getipaddress linklocal (le_C E)"

text \<open>The address of the second device, asked for in a buffer that was emptied.\<close>

definition vl_getCVPIp :: "lib_env \<Rightarrow> ifaddrs list option \<Rightarrow> string \<Rightarrow> lib_state \<Rightarrow> lib_reply" where
  "vl_getCVPIp E addrs old st =
     (case vl_getipaddress (\<lambda>_. False) E addrs (case dc_cvpIf (le_C E) of Some i \<Rightarrow> i | None \<Rightarrow> []) [] False of
        (result, ipAddressBuffer) \<Rightarrow>
          if result = 0 then fill_nothing old st else fill_s MAX_OUTVALUE ipAddressBuffer st)"

subsection \<open>Properties\<close>

text \<open>
  The broadband \<open>getID\<close> always returns, and it agrees with the \<open>getID\<close> of the other services when
  the first answer of the script names the id and the box is not in the warehouse. When the answer
  does not name it, the others ask again until it does, and this one gives up with an empty id.
\<close>

theorem bb_getID_first_round:
  assumes "\<not> dc_wareHouseMode C" "x_sysModeParam st \<noteq> SYS_MODE_WAREHOUSE I"
  shows "(bb_getID ident (ir_response r) \<noteq> [] \<longrightarrow>
      getID I C ident (r # rs) st = Going (bb_getID ident (ir_response r), st)) \<and>
    (bb_getID ident (ir_response r) = [] \<and> \<not> g_strrstr ident PARTNER_ID \<longrightarrow>
      getID I C ident [r] st = Waiting)"
proof -
  have found: "snd (id_tokens ident ts []) \<noteq> [] \<longleftrightarrow> fst (id_tokens ident ts [])" for ts
  proof (induction ts)
    case (Cons t ts)
    then show ?case by (cases "drop 2 ts") (auto simp: Let_def)
  qed simp
  define split where "split = (\<lambda>resp. g_strsplit_set (take 1023 resp) [CHR ''{'', CHR ''}'', CHR '':'', CHR '','', CHR 0x22])"
  have step: "getID I C ident (r # rs) st = (case ir_response r of
      None \<Rightarrow> getID_loop I C ident rs 0 [] (xd_run I C (ir_events r) st)
    | Some resp \<Rightarrow>
        if take 1023 resp = [] then getID_loop I C ident rs 1 [] (xd_run I C (ir_events r) st)
        else if fst (id_tokens ident (split resp) []) then Going (snd (id_tokens ident (split resp) []), st)
        else if g_strrstr ident PARTNER_ID then Going (snd (id_tokens ident (split resp) []), st)
        else getID_loop I C ident rs 1 (snd (id_tokens ident (split resp) [])) (xd_run I C (ir_events r) st))" for rs
    using assms
    by (simp add: getID_def MAX_DEBUG_MESSAGE_def split_def Let_def case_prod_beta split: option.split)
  show ?thesis
    using found [of "split _"] unfolding step
    by (auto simp: bb_getID_def Let_def MAX_DEBUG_MESSAGE_def split_def split: option.splits)
qed

theorem bb_getID_first_round_witness:
  "getID sample_names sample_xd_conf ''deviceId'' (\<lparr>ir_response = Some ''deviceId:::T1'', ir_mac = [], ir_events = []\<rparr> # rs)
     xd_init = Going (''T1'', xd_init)"
proof -
  have c: "\<not> dc_wareHouseMode sample_xd_conf" "x_sysModeParam xd_init \<noteq> SYS_MODE_WAREHOUSE sample_names"
    by (simp_all add: sample_xd_conf_def xd_init_def sample_names_def)
  have b: "bb_getID ''deviceId'' (Some ''deviceId:::T1'') = ''T1''" by code_simp
  show ?thesis
    using bb_getID_first_round [OF c, of "''deviceId''"
        "\<lparr>ir_response = Some ''deviceId:::T1'', ir_mac = [], ir_events = []\<rparr>" rs] b
    by simp
qed

end
