(* ===== verification/Dev_Events.thy ===== *)
theory Dev_Events
  imports Dev_Props Xcal_Main
begin

text \<open>
  The refactored video device while the bus goes on: requests and bus events in any order, after its
  start. The library tells each change by the callback \<open>notify_value_change\<close> of
  \<open>src/xcal-device-main.c\<close>, which is silent until the service is ready. What the control points are
  told of the identifiers, what the action answers, and the variables of the library agree.
\<close>

subsection \<open>What every function of a library keeps\<close>

text \<open>
  Properties of the state of a library that its functions keep: those the handlers call, and those
  the start calls beside.
\<close>

locale refresh_keeps =
  fixes L :: "'s dev_lib" and P :: "'s \<Rightarrow> bool"
  assumes refresh: "refreshes f \<Longrightarrow> dl_get L f old s = Inr (r, s') \<Longrightarrow> P s \<Longrightarrow> P s'"

locale get_keeps = refresh_keeps +
  assumes get: "dl_get L f old s = Inr (r, s') \<Longrightarrow> P s \<Longrightarrow> P s'"

definition lib_keeps :: "('s \<Rightarrow> bool) \<Rightarrow> 's dm_state \<Rightarrow> ('a \<times> 's dm_state) outcome \<Rightarrow> bool" where
  "lib_keeps P st m \<longleftrightarrow> (\<forall>r st'. m = Inr (r, st') \<longrightarrow> P (dm_lib st) \<longrightarrow> P (dm_lib st'))"

lemma lib_keeps_plain: "lib_keeps P st (dm_answer n b (Inr st))" "lib_keeps P st (dm_value b (Inr st))"
  "lib_keeps P st (Inr (r, st))"
  by (simp_all add: lib_keeps_def dm_answer_def dm_value_def)

lemma numbers_keep_lib:
  "lib_keeps P st (dm_get_rawoffset_cb L st)" "lib_keeps P st (dm_get_dstsavings_cb L st)"
  "lib_keeps P st (dm_get_dstoffset_cb L st)" "lib_keeps P st (dm_get_usesdaylighttime_cb L st)"
  "lib_keeps P st (dm_get_isgateway_cb L args st)" "lib_keeps P st (dm_get_requirestrm_cb L st)"
  "lib_keeps P st (dm_get_account_id_cb bb args st)"
  by (simp_all add: lib_keeps_def Let_def dm_get_rawoffset_cb_def dm_get_dstsavings_cb_def
      dm_get_dstoffset_cb_def dm_get_usesdaylighttime_cb_def dm_get_isgateway_cb_def
      dm_get_requirestrm_cb_def dm_get_account_id_cb_def)

context refresh_keeps begin

lemma fill_keeps: "refreshes f \<Longrightarrow> dm_fill L f b st = Inr st' \<Longrightarrow> P (dm_lib st) \<Longrightarrow> P (dm_lib st')"
  by (auto simp: dm_fill_def bind_outcome_Inr_iff intro: refresh)

lemma answer_keeps:
  "refreshes f \<Longrightarrow> lib_keeps P st (dm_answer n b (dm_fill L f b st))"
  "refreshes f \<Longrightarrow> lib_keeps P st (dm_value b (dm_fill L f b st))"
  by (auto simp: lib_keeps_def dm_answer_def dm_value_def bind_outcome_Inr_iff intro: fill_keeps)

lemma actions_keep:
  "list_all (\<lambda>(a, cb). \<forall>args st. lib_keeps P st (cb args st)) (dm_actions build L s)"
  by (cases s) (simp_all add: action_tables dm_handler_defs dm_get_playback_url_cb_def answer_keeps
      lib_keeps_plain numbers_keep_lib refreshes_def)

lemma queries_keep: "list_all (\<lambda>(n, q). \<forall>st. lib_keeps P st (q st)) (dm_queries build L s)"
  by (cases s) (simp_all add: query_tables dm_query_defs dm_query_playback_url_cb_def dm_query_ipsubnet_cb_def
      dm_query_timezone_cb_def answer_keeps lib_keeps_plain refreshes_def)

lemma serve_keeps:
  assumes "dm_serve build L r st = Inr st'" "P (dm_lib st)"
  shows "P (dm_lib st')"
proof (cases r)
  case (Invoke s a args)
  with assms(1) consider "st' = st" | cb out where "(a, cb) \<in> set (dm_actions build L s)" "cb args st = Inr (out, st')"
    using dm_call_cases [of build L s a args st] by (auto simp: bind_outcome_Inr_iff)
  then show ?thesis
  proof cases
    case 2
    have "lib_keeps P st (cb args st)" using actions_keep [of build s] 2(1) unfolding list_all_iff by fastforce
    with 2(2) assms(2) show ?thesis by (simp add: lib_keeps_def)
  qed (use assms in simp)
next
  case (Query s n)
  with assms(1) consider "st' = st" | q v where "(n, q) \<in> set (dm_queries build L s)" "q st = Inr (v, st')"
    using dm_query_cases [of build L s n st] by (auto simp: bind_outcome_Inr_iff)
  then show ?thesis
  proof cases
    case 2
    have "lib_keeps P st (q st)" using queries_keep [of build s] 2(1) unfolding list_all_iff by fastforce
    with 2(2) assms(2) show ?thesis by (simp add: lib_keeps_def)
  qed (use assms in simp)
qed

end

context get_keeps begin

lemma try_keeps: "dm_try L c st = Inr (ok, st') \<Longrightarrow> P (dm_lib st) \<Longrightarrow> P (dm_lib st')"
  by (auto simp: dm_try_def bind_outcome_Inr_iff intro: get split: prod.splits)

lemma try_all_keeps: "dm_try_all L cs st = Inr (ok, st') \<Longrightarrow> P (dm_lib st) \<Longrightarrow> P (dm_lib st')"
  by (induction cs arbitrary: st) (auto simp: bind_outcome_Inr_iff dest: try_keeps split: if_splits)

lemma certificates_keep: "dm_certificates M L st = Inr (certs, st') \<Longrightarrow> P (dm_lib st) \<Longrightarrow> P (dm_lib st')"
  unfolding dm_certificates_def
  by (auto simp: bind_outcome_Inr_iff Let_def simp del: dm_try_all.simps dest: try_all_keeps split: if_splits)

lemma collect_keeps: "dm_collect L st = Inr st' \<Longrightarrow> P (dm_lib st) \<Longrightarrow> P (dm_lib st')"
  by (auto simp: dm_collect_def bind_outcome_Inr_iff simp del: dm_try_all.simps dest!: try_all_keeps try_keeps)

lemma refactored_keeps:
  assumes "dm_refactored M L st ds = Going r" "P (dm_lib st)"
  shows "P (dm_lib (mr_state r))"
proof -
  from assms(1) obtain q s v ok st1 certs st2 uuid where
    0: "dl_get L (getDevXmlFile True) (me_junk_file M) (dm_lib st) = Inr (v, s)"
    and 1: "dm_try L (dev_fn.getAccountId, B_accountId) (st\<lparr>dm_lib := s\<rparr>) = Inr (ok, st1)"
    and 2: "dm_certificates M L st1 = Inr (certs, st2)"
    and 3: "(if dm_protected M certs then dm_secure M L st2 q uuid ds else dm_fall_back st2 ds) = Going r"
    by (simp only: going_parts dm_refactored_def) blast
  have "P s" using get [OF 0] assms(2) by simp
  then have "P (dm_lib st1)" using try_keeps [OF 1] by simp
  then have p: "P (dm_lib st2)" by (rule certificates_keep [OF 2])
  show ?thesis
  proof (cases "dm_protected M certs")
    case True
    with 3 have "mr_state r = st2 \<or> (\<exists>ok. dm_try L (getReceiverId, B_receiverId) st2 = Inr (ok, mr_state r))"
      by (auto simp: dm_secure_def bind_start_Going_iff start_of_Going split: if_splits)
    then show ?thesis using p try_keeps by auto
  next
    case False
    with 3 p show ?thesis by (auto simp: dm_fall_back_def Let_def bind_start_Going_iff)
  qed
qed

lemma second_device_keeps_lib:
  assumes "dm_second_device M L r = Going r'" "P (dm_lib (mr_state r))"
  shows "P (dm_lib (mr_state r'))"
  using assms unfolding dm_second_device_def
  by (auto simp: bind_start_Going_iff start_of_Going Let_def simp del: dm_try_all.simps dest: try_all_keeps
      split: if_splits)

lemma main_keeps:
  assumes "dm_main M L ds s = Going r" "P s"
  shows "P (dm_lib (mr_state r))"
proof -
  let ?plain = "\<lambda>st ds. \<lparr>mr_state = st, mr_docs = ds, mr_services = [], mr_secure = False\<rparr>"
  from assms(1) obtain st ds ok st1 r1 where
    1: "dm_collect L (dm_init (me_rfc M) s) = Inr st"
    and 2: "dm_try L (getBcastMacAddress, B_bcastMacaddress) st = Inr (ok, st1)"
    and 3: "(if dm_rfc_enabled st1 then dm_refactored M L st1 ds else Going (?plain st1 ds)) = Going r1"
    and 4: "dm_second_device M L r1 = Going r"
    by (simp only: going_parts dm_main_def if_Going) blast
  have "P (dm_lib (dm_init (me_rfc M) s))" using assms(2) by (simp add: dm_init_def)
  then have "P (dm_lib st)" by (rule collect_keeps [OF 1])
  then have "P (dm_lib st1)" using try_keeps [OF 2] by simp
  then have "P (dm_lib (mr_state r1))" using 3 refactored_keeps by (cases "dm_rfc_enabled st1") auto
  then show ?thesis by (rule second_device_keeps_lib [OF 4])
qed

end

subsection \<open>Events of the video library\<close>

text \<open>
  The library announces the identifiers as they are published: either an event leaves the published
  text and says nothing of it, or the last it says is the new text.
\<close>

definition sends_ids :: "xd_state \<Rightarrow> xd_state \<Rightarrow> bool" where
  "sends_ids x x' \<longleftrightarrow> (\<exists>ns. x_sent x' = x_sent x @ ns \<and>
     (case List.find (is_notify ''SystemIds'') (rev ns) of
        None \<Rightarrow> x_systemids x' = x_systemids x
      | Some e \<Rightarrow> e = Notify ''SystemIds'' (G_STRING (x_systemids x'))))"

lemma sends_quiet: "x_sent x' = x_sent x \<Longrightarrow> x_systemids x' = x_systemids x \<Longrightarrow> sends_ids x x'"
  by (simp add: sends_ids_def)

lemma sends_other: "sends_ids x x' \<Longrightarrow> n \<noteq> ''SystemIds'' \<Longrightarrow> sends_ids x (vl_event n v x')"
  unfolding sends_ids_def vl_event_def xd_emit_def
  by (elim exE conjE, rule_tac x = "ns @ [Notify n (G_STRING v)]" in exI)
     (auto simp: is_notify_def split: option.splits)

lemma sends_publish: "x_sent x' = x_sent x \<Longrightarrow> sends_ids x (vl_publish_ids C files x')"
  by (simp add: sends_ids_def vl_publish_ids_def Let_def vl_event_def xd_emit_def is_notify_def)

lemma sends_timezone:
  assumes "x_sent x' = x_sent x" "x_systemids x' = x_systemids x"
  shows "sends_ids x (vl_notify_timezone x')" "sends_ids x (vl_tell_timezone x')"
    "sends_ids x (vl_mapTimeZoneToJavaFormat p x')"
proof -
  have 1: "sends_ids x (vl_notify_timezone y)" if "x_sent y = x_sent x" "x_systemids y = x_systemids x" for y
    using that by (simp add: vl_notify_timezone_def Let_def sends_other sends_quiet)
  then show "sends_ids x (vl_notify_timezone x')" using assms by blast
  show "sends_ids x (vl_tell_timezone x')"
    using assms by (simp add: vl_tell_timezone_def Let_def 1)
  have 2: "sends_ids x (y\<lparr>x_rawOffset := r, x_usesDaylightTime := u\<rparr>)" if "sends_ids x y" for y r u
    using that by (simp add: sends_ids_def cong: option.case_cong)
  show "sends_ids x (vl_mapTimeZoneToJavaFormat p x')"
    using assms by (simp add: vl_mapTimeZoneToJavaFormat_def Let_def 1 2 sends_quiet split: option.split)
qed

lemma sends_id_event:
  assumes "\<And>f y. x_sent (assign f y) = x_sent y" "\<And>f y. x_systemids (assign f y) = x_systemids y"
  shows "sends_ids x (vl_id_event C files assign e x)"
  using assms by (simp add: vl_id_event_def sends_publish sends_quiet)

lemma sends_tune: "sends_ids x (vl_tune_event C files t x)"
  unfolding vl_tune_event_def vl_publish_urls_def Let_def
  by (simp add: sends_other sends_quiet sends_publish)

lemma sends_handle: "sends_ids x (vl_handle I C files ev x)"
proof (cases ev)
  case (Sys_event owner eventId e)
  then show ?thesis
    by (cases "ev_stateId e") (simp_all add: vl_sysEventHandler_def sends_quiet sends_tune sends_id_event
        sends_timezone set_dst_offset_def Let_def)
next
  case (Route_event owner eventId ip)
  then show ?thesis by (simp add: vl_routesysEventHandler_def Let_def sends_other sends_quiet)
next
  case (Mode_change m)
  then show ?thesis by (simp add: SysModeChange_def sends_quiet)
qed

text \<open>The published text is that of the four variables.\<close>

definition ids_ok :: "xd_state \<Rightarrow> bool" where
  "ids_ok x \<longleftrightarrow> x_systemids x = current_ids x"

definition vl_id_error :: "iarm_names \<Rightarrow> xd_event \<Rightarrow> bool" where
  "vl_id_error I ev \<longleftrightarrow> (case ev of Sys_event owner eventId e \<Rightarrow>
      eventId = SYSMGR_EVENT_SYSTEMSTATE I \<and> strcmp (SYSMGR_NAME I) owner = 0 \<and> ev_stateId e \<in> id_states \<and> ev_error e
    | _ \<Rightarrow> False)"

definition clean_batch :: "iarm_names \<Rightarrow> batch \<Rightarrow> bool" where
  "clean_batch I = list_all (\<lambda>(files, e). \<not> vl_id_error I e)"

lemma ids_ok_frame: "x_systemids x' = x_systemids x \<Longrightarrow> current_ids x' = current_ids x \<Longrightarrow> ids_ok x' = ids_ok x"
  by (simp add: ids_ok_def)

lemma ids_ok_updates [simp]:
  "ids_ok (vl_event n v x) = ids_ok x"
  "ids_ok (x\<lparr>x_tune_ready := t\<rparr>) = ids_ok x"
  "ids_ok (x\<lparr>x_serial_num := s\<rparr>) = ids_ok x"
  "ids_ok (x\<lparr>x_dsgtimezone := s\<rparr>) = ids_ok x"
  "ids_ok (x\<lparr>x_rawOffset := w, x_usesDaylightTime := b\<rparr>) = ids_ok x"
  "ids_ok (x\<lparr>x_dstOffset := w, x_dstSavings := w'\<rparr>) = ids_ok x"
  "ids_ok (x\<lparr>x_dataGatewayIPaddress := s\<rparr>) = ids_ok x"
  "ids_ok (x\<lparr>x_sysModeParam := m\<rparr>) = ids_ok x"
  by (simp_all add: ids_ok_def current_ids_def vl_event_def xd_emit_def)

lemma ids_ok_publish: "dc_useGliDiag C \<Longrightarrow> ids_ok (vl_publish_ids C files x)"
  by (simp add: vl_publish_ids_def Let_def updatesystemids_def) (simp add: ids_ok_def current_ids_def)

lemma ids_ok_timezone [simp]:
  "ids_ok (vl_notify_timezone x) = ids_ok x" "ids_ok (vl_tell_timezone x) = ids_ok x"
  "ids_ok (vl_mapTimeZoneToJavaFormat p x) = ids_ok x"
  by (simp_all add: vl_notify_timezone_def vl_tell_timezone_def vl_mapTimeZoneToJavaFormat_def Let_def
      split: option.split)

lemma ids_ok_id_event:
  "dc_useGliDiag C \<Longrightarrow> ids_ok x \<Longrightarrow> \<not> ev_error e \<Longrightarrow> ids_ok (vl_id_event C files assign e x)"
  by (simp add: vl_id_event_def ids_ok_publish)

lemma ids_ok_handle:
  assumes "dc_useGliDiag C" "ids_ok x" "\<not> vl_id_error I ev"
  shows "ids_ok (vl_handle I C files ev x)"
proof (cases ev)
  case (Sys_event owner eventId e)
  with assms show ?thesis
    by (cases "ev_stateId e") (simp_all add: vl_sysEventHandler_def vl_id_error_def id_states_def set_dst_offset_def
        Let_def vl_tune_event_def vl_publish_urls_def ids_ok_id_event)
next
  case (Route_event owner eventId ip)
  with assms show ?thesis by (simp add: vl_routesysEventHandler_def Let_def)
next
  case (Mode_change m)
  with assms show ?thesis by (simp add: SysModeChange_def)
qed

lemma ids_ok_run:
  "dc_useGliDiag C \<Longrightarrow> ids_ok x \<Longrightarrow> clean_batch I es \<Longrightarrow> ids_ok (vl_run I C es x)"
  by (induction es arbitrary: x) (auto simp: vl_run_def clean_batch_def ids_ok_handle)

lemma ids_ok_getID_loop:
  assumes "dc_useGliDiag C"
  shows "vl_getID_loop I C ident rs n v x = Going (w, x') \<Longrightarrow> list_all (\<lambda>r. clean_batch I (ir_events r)) rs \<Longrightarrow>
     ids_ok x \<Longrightarrow> ids_ok x'"
proof (induction rs arbitrary: n v x)
  case (Cons r rs)
  have "ids_ok (vl_run I C (ir_events r) x)" using assms Cons.prems(2,3) by (simp add: ids_ok_run)
  with Cons show ?case
    by (auto simp: Let_def split: if_splits option.splits prod.splits)
qed simp

subsection \<open>The start and the functions of the video library\<close>

definition clean_env :: "lib_env \<Rightarrow> bool" where
  "clean_env E \<longleftrightarrow> dc_useGliDiag (le_C E) \<and> list_all (\<lambda>r. clean_batch (le_names E) (ir_events r)) (le_id_rounds E)"

lemma ids_ok_effect:
  assumes "vl_effect E s s'" "dc_useGliDiag (le_C E)" "ids_ok (lx s)"
  shows "ids_ok (lx s') \<and> current_ids (lx s') = current_ids (lx s)"
  using assms unfolding vl_effect_def
  by (auto simp: vl_readers vl_prefix_reader vl_ids_reader bind_outcome_Inr_iff ids_ok_def current_ids_def
      fresh_ids_def updatesystemids_def split: option.splits)

lemma fill_printf_state: "fill_printf v st = Inr (r, s') \<Longrightarrow> s' = st" "fill_n n o' old st = Inr (r, s') \<Longrightarrow> s' = st"
  by (auto simp: fill_defs split: if_splits option.splits)

lemma vl_get_ids_ok:
  assumes "vl_get E f old s = Inr (r, s')" "clean_env E" "ids_ok (lx s)"
  shows "ids_ok (lx s')"
proof (cases "refreshes f")
  case True
  with assms show ?thesis using ids_ok_effect [OF vl_get_effect] by (auto simp: clean_env_def)
next
  case False
  have frame: "ids_ok (x\<lparr>x_recv_id := v\<rparr>) = ids_ok x" "ids_ok (x\<lparr>x_bcastmacaddress := v\<rparr>) = ids_ok x" for x v
    by (simp_all add: ids_ok_def current_ids_def)
  have serial: "ids_ok (lx (snd (vl_parseserialnum E s))) = ids_ok (lx s)"
    by (rule ids_ok_frame) (auto simp: vl_parseserialnum_def on_shared_def xd_getserialnum_def Let_def current_ids_def
        split: option.splits prod.splits if_splits list.splits)
  show ?thesis
  proof (cases "f = getReceiverId")
    case True
    with assms show ?thesis
      by (auto simp: vl_getReceiverId_def vl_getID_def clean_env_def frame split: start.splits prod.splits
          dest!: fill_state ids_ok_getID_loop)
  next
    case other: False
    show ?thesis
    proof (cases "f = dev_fn.getSerialNum")
      case True
      with assms serial show ?thesis
        by (auto simp: vl_getSerialNum_def split: prod.splits if_splits dest!: fill_state)
    next
      case False
      with assms other \<open>\<not> refreshes f\<close> show ?thesis
        by (cases f) (auto simp: refreshes_def vl_setting_defs Let_def frame split: if_splits option.splits
            dest!: fill_state fill_printf_state)
    qed
  qed
qed

interpretation video_ids: get_keeps "video_library E" "\<lambda>s. clean_env E \<longrightarrow> ids_ok (lx s)" for E
  by unfold_locales (auto simp: video_library_def dest: vl_get_ids_ok)

interpretation video_same: refresh_keeps "video_library E"
  "\<lambda>s. dc_useGliDiag (le_C E) \<longrightarrow> ids_ok (lx s) \<and> current_ids (lx s) = c" for E c
  by unfold_locales (auto simp: video_library_def dest: ids_ok_effect [OF vl_get_effect])

lemma ids_ok_values:
  assumes "\<not> le_client E" "dc_useGliDiag (le_C E)"
  shows "ids_ok (lx (vl_values E st))"
  using assms
  by (simp add: vl_values_def Let_def vl_readers vl_ids_reader split: option.split)
     (simp add: ids_ok_def current_ids_def fresh_ids_def updatesystemids_def)

definition clean_waits :: "iarm_names \<Rightarrow> vs_env \<Rightarrow> bool" where
  "clean_waits I V \<longleftrightarrow> list_all (clean_batch I) (vs_tune_waits V) \<and>
     list_all (\<lambda>(files, b). clean_batch I b) (vs_prefix_looks V)"

lemma ids_ok_wait_tuner:
  assumes "dc_useGliDiag C"
  shows "vl_wait_tuner I C bs x = Going x' \<Longrightarrow> list_all (clean_batch I) bs \<Longrightarrow> ids_ok x \<Longrightarrow> ids_ok x'"
  by (induction bs arbitrary: x) (auto simp: assms ids_ok_run split: if_splits)

lemma ids_ok_prefix: "getipv6prefix C files x = Inr (ok, x') \<Longrightarrow> ids_ok x' = ids_ok x"
  by (auto simp: getipv6prefix_def bind_outcome_Inr_iff ids_ok_def current_ids_def split: option.splits)

lemma ids_ok_wait_prefix:
  assumes "dc_useGliDiag C"
  shows "vl_wait_prefix I C f looks there x = Going x' \<Longrightarrow> list_all (\<lambda>(files, b). clean_batch I b) looks \<Longrightarrow>
     ids_ok x \<Longrightarrow> ids_ok x'"
proof (induction looks arbitrary: x there)
  case (Cons l looks)
  obtain files b where l: "l = (files, b)" by (cases l)
  have run: "ids_ok (vl_run I C b y)" if "ids_ok y" for y using that assms Cons.prems(2) by (simp add: l ids_ok_run)
  show ?case using Cons run ids_ok_prefix by (fastforce simp: l split: if_splits sum.splits prod.splits)
qed simp

lemma init_ids_ok:
  assumes "vl_xdeviceInit V E0 = Going (E, s)" "\<not> le_client E0" "dc_useGliDiag (le_C E)" "clean_waits (le_names E0) V"
  shows "ids_ok (lx s)" "le_names E = le_names E0" "le_id_rounds E = le_id_rounds E0"
proof -
  from assms(1,2) obtain c C x v6 st x1 x2 where
    E: "E = E0\<lparr>le_conf := c\<lparr>lc := C\<rparr>, le_v6 := v6\<rparr>"
    and t: "vl_tuner V E (lx (vl_values E st)) = Going x1" and p: "vl_prefix V E x1 = Going x2"
    and s: "s = (vl_values E st)\<lparr>lx := vl_stbip V E x2\<rparr>"
    by (simp only: vl_xdeviceInit_def bind_start_Going_iff Let_def split_paired_Ex prod.case split: if_splits) auto
  show "le_names E = le_names E0" "le_id_rounds E = le_id_rounds E0" by (simp_all add: E)
  have "ids_ok (lx (vl_values E st))" by (rule ids_ok_values) (use assms in \<open>simp_all add: E\<close>)
  then have "ids_ok x1" using t assms(3,4)
    by (auto simp: vl_tuner_def clean_waits_def E split: if_splits dest: ids_ok_wait_tuner [rotated])
  then have "ids_ok x2" using p assms(3,4)
    by (auto simp: vl_prefix_def clean_waits_def E split: if_splits option.splits dest: ids_ok_wait_prefix [rotated])
  then show "ids_ok (lx s)"
    by (simp add: s vl_stbip_def split: option.split) (simp add: ids_ok_def current_ids_def)
qed

subsection \<open>The device while the bus goes on\<close>

text \<open>A request, or an event of the bus, each with the files as they are then.\<close>

datatype dm_input = Request files dm_request | Bus files xd_event

text \<open>The device, the flag \<open>service_ready\<close>, and what GUPnP was told by \<open>gupnp_service_notify_value\<close>.\<close>

record dm_device =
  dd_state :: "lib_state dm_state"
  dd_service_ready :: bool
  dd_told :: "xd_effect list"

definition dm_notify_value_change :: "string \<Rightarrow> gvalue \<Rightarrow> dm_device \<Rightarrow> dm_device" where
  "dm_notify_value_change varname v d =
     (if \<not> dd_service_ready d then d else d\<lparr>dd_told := dd_told d @ [Notify varname v]\<rparr>)"

fun dm_callback :: "xd_effect \<Rightarrow> dm_device \<Rightarrow> dm_device" where
  "dm_callback (Notify n v) d = dm_notify_value_change n v d"
| "dm_callback (Set_available b) d = d"

text \<open>An event: the library handles it, and what it announces is passed on in its order.\<close>

definition dm_bus :: "lib_env \<Rightarrow> files \<Rightarrow> xd_event \<Rightarrow> dm_device \<Rightarrow> dm_device" where
  "dm_bus E files ev d =
     (let s = dm_lib (dd_state d); x = vl_handle (le_names E) (le_C E) files ev (lx s) in
      fold dm_callback (drop (length (x_sent (lx s))) (x_sent x))
        (d\<lparr>dd_state := (dd_state d)\<lparr>dm_lib := s\<lparr>lx := x\<rparr>\<rparr>\<rparr>))"

fun dm_take :: "dev_build \<Rightarrow> lib_env \<Rightarrow> dm_input \<Rightarrow> dm_device \<Rightarrow> dm_device outcome" where
  "dm_take build E (Request files r) d =
     bind_outcome (dm_serve build (video_library (E\<lparr>le_files := files\<rparr>)) r (dd_state d)) (\<lambda>st. Inr (d\<lparr>dd_state := st\<rparr>))"
| "dm_take build E (Bus files ev) d = Inr (dm_bus E files ev d)"

fun dm_inputs :: "dev_build \<Rightarrow> lib_env \<Rightarrow> dm_input list \<Rightarrow> dm_device \<Rightarrow> dm_device outcome" where
  "dm_inputs build E [] d = Inr d"
| "dm_inputs build E (i # is) d = bind_outcome (dm_take build E i d) (dm_inputs build E is)"

text \<open>The device as \<open>main\<close> leaves it to the main loop: the service is ready, and nothing was told.\<close>

definition dm_up :: "lib_state dm_running \<Rightarrow> dm_device" where
  "dm_up r = \<lparr>dd_state = mr_state r, dd_service_ready = True, dd_told = []\<rparr>"

definition last_said :: "string \<Rightarrow> dm_device \<Rightarrow> gvalue option" where
  "last_said n d = (case List.find (is_notify n) (rev (dd_told d)) of Some (Notify m v) \<Rightarrow> Some v | _ \<Rightarrow> None)"

lemma callback_fields [simp]:
  "dd_state (dm_callback e d) = dd_state d" "dd_service_ready (dm_callback e d) = dd_service_ready d"
  by (cases e; simp add: dm_notify_value_change_def)+

lemma callbacks_fields [simp]:
  "dd_state (fold dm_callback ns d) = dd_state d" "dd_service_ready (fold dm_callback ns d) = dd_service_ready d"
  by (induction ns arbitrary: d) simp_all

lemma last_said_callback:
  "dd_service_ready d \<Longrightarrow> last_said n (dm_callback e d) =
     (if is_notify n e then (case e of Notify m v \<Rightarrow> Some v | _ \<Rightarrow> None) else last_said n d)"
  by (cases e) (auto simp: last_said_def dm_notify_value_change_def is_notify_def)

lemma last_said_callbacks:
  "dd_service_ready d \<Longrightarrow> last_said n (fold dm_callback ns d) =
     (case List.find (is_notify n) (rev ns) of Some e \<Rightarrow> (case e of Notify m v \<Rightarrow> Some v | _ \<Rightarrow> None)
      | None \<Rightarrow> last_said n d)"
  by (induction ns rule: rev_induct) (simp_all add: last_said_callback)

lemma last_said_state [simp]: "last_said n (d\<lparr>dd_state := t\<rparr>) = last_said n d"
  by (simp add: last_said_def)

abbreviation device_vars :: "dm_device \<Rightarrow> xd_state" where
  "device_vars d \<equiv> lx (dm_lib (dd_state d))"

definition device_inv :: "dm_device \<Rightarrow> bool" where
  "device_inv d \<longleftrightarrow> dd_service_ready d \<and> bufs_fit (dd_state d) \<and> ids_ok (device_vars d) \<and>
     last_said ''SystemIds'' d \<in> {None, Some (G_STRING (x_systemids (device_vars d)))}"

text \<open>An event is no error about an identifier; and a request finds a prefix file that can be read.\<close>

definition good_input :: "lib_env \<Rightarrow> dm_input \<Rightarrow> bool" where
  "good_input E i \<longleftrightarrow> (case i of Request files r \<Rightarrow> gets_there (found_prefix (E\<lparr>le_files := files\<rparr>))
     | Bus files ev \<Rightarrow> \<not> vl_id_error (le_names E) ev)"

lemma bus_keeps:
  assumes "device_inv d" "dc_useGliDiag (le_C E)" "\<not> vl_id_error (le_names E) ev"
  shows "device_inv (dm_bus E files ev d)"
proof -
  let ?x = "device_vars d" let ?x' = "vl_handle (le_names E) (le_C E) files ev ?x"
  obtain ns where ns: "x_sent ?x' = x_sent ?x @ ns"
    "case List.find (is_notify ''SystemIds'') (rev ns) of None \<Rightarrow> x_systemids ?x' = x_systemids ?x
      | Some e \<Rightarrow> e = Notify ''SystemIds'' (G_STRING (x_systemids ?x'))"
    using sends_handle [of ?x] unfolding sends_ids_def by blast
  have "ids_ok ?x'" using assms ids_ok_handle by (simp add: device_inv_def)
  then show ?thesis using assms(1) ns
    by (auto simp: device_inv_def dm_bus_def Let_def last_said_callbacks bufs_fit_def split: option.splits)
qed

lemma request_keeps:
  assumes "device_inv d" "dc_useGliDiag (le_C E)" "gets_there (found_prefix (E\<lparr>le_files := files\<rparr>))"
  shows "\<exists>d'. dm_take build E (Request files r) d = Inr d' \<and> device_inv d'"
proof -
  let ?E = "E\<lparr>le_files := files\<rparr>"
  have "total_library (video_library ?E)" using assms(3) video_total unfolding gets_there_def by blast
  from total_library.serve_gets_there [OF this] obtain st where
    st: "dm_serve build (video_library ?E) r (dd_state d) = Inr st" unfolding gets_there_def by blast
  have "ids_ok (lx (dm_lib st)) \<and> current_ids (lx (dm_lib st)) = current_ids (device_vars d)"
    using video_same.serve_keeps [OF st] assms(1,2) by (simp add: device_inv_def)
  moreover have "bufs_fit st" using video.serve_keeps_fit [OF st] assms(1) by (simp add: device_inv_def)
  ultimately have "device_inv (d\<lparr>dd_state := st\<rparr>)"
    using assms(1) by (auto simp: device_inv_def ids_ok_def)
  with st show ?thesis by simp
qed

lemma inputs_keep:
  assumes "device_inv d" "dc_useGliDiag (le_C E)" "list_all (good_input E) is"
  shows "\<exists>d'. dm_inputs build E is d = Inr d' \<and> device_inv d'"
  using assms
proof (induction "is" arbitrary: d)
  case (Cons i "is")
  have "\<exists>d1. dm_take build E i d = Inr d1 \<and> device_inv d1"
  proof (cases i)
    case (Request files r)
    with Cons.prems request_keeps [of d E files build r] show ?thesis by (simp add: good_input_def)
  next
    case (Bus files ev)
    with Cons.prems bus_keeps [of d E ev files] show ?thesis by (simp add: good_input_def)
  qed
  then obtain d1 where "dm_take build E i d = Inr d1" "device_inv d1" by blast
  with Cons show ?case by simp
qed simp

lemma show_nat_length: "n < 10 ^ Suc k \<Longrightarrow> length (show_nat n) \<le> Suc k"
proof (induction k arbitrary: n)
  case (Suc k)
  show ?case
  proof (cases "n < 10")
    case False
    have "n div 10 < 10 ^ Suc k" using Suc.prems by (simp add: div_less_iff_less_mult)
    from Suc.IH [OF this] False show ?thesis by (subst show_nat.simps) simp
  qed (simp add: show_nat.simps)
qed (simp add: show_nat.simps)

lemma show_ulong_length: "length (show_ulong w) \<le> 20"
  using show_nat_length [of "unat w" 19] unsigned_less [of w, where ?'a = nat] by (simp add: show_ulong_def)

lemma ids_fit: "length (current_ids x) < MAX_OUTVALUE"
  using show_ulong_length [of "x_channelmap_id x"] show_ulong_length [of "x_dac_id x"]
    show_ulong_length [of "x_plant_id x"] show_ulong_length [of "x_vodserver_id x"]
  by (simp add: current_ids_def ids_text_def MAX_OUTVALUE_def)

lemma ids_answered:
  assumes "x_systemids (lx (dm_lib st)) \<noteq> []" "dc_useGliDiag (le_C E)"
  shows "result_of (dm_call build (video_library E) DiscoverFriendlies ''GetSystemIds'' args st) =
    Inr (Some [''SystemIds'' \<mapsto> G_STRING (current_ids (lx (dm_lib st)))])"
  using assms ids_fit [of "lx (dm_lib st)"]
  by (simp add: dm_call_def dm_registered_def action_tables dm_get_systemids_cb_def dm_answer_def dm_fill_def
      video_library_def vl_getSystemsIds_def vl_ids_reader fill_defs fresh_ids_def updatesystemids_def current_ids_def)

lemma ids_ok_nonempty: "ids_ok x \<Longrightarrow> x_systemids x \<noteq> []"
  by (simp add: ids_ok_def current_ids_def ids_text_def)

text \<open>
  An error the bus reports for an identifier clears the variable and is told to nobody, while the
  action answers the new text at once.
\<close>

lemma plant_text: "q \<noteq> p \<Longrightarrow> ids_text c d p v \<noteq> ids_text c d q v"
proof -
  have "show_ulong p = show_ulong q \<Longrightarrow> p = q" by (metis strtoul_show_ulong)
  then show "q \<noteq> p \<Longrightarrow> ids_text c d p v \<noteq> ids_text c d q v" by (auto simp: ids_text_def)
qed

theorem library_error_untold:
  assumes "device_inv d" "dc_useGliDiag (le_C E)" "x_plant_id (device_vars d) \<noteq> 0"
    and "strcmp (SYSMGR_NAME (le_names E)) owner = 0" "ev_stateId e = SYSSTATE_PLANT_ID" "ev_error e"
  shows "let d' = dm_bus E files (Sys_event owner (SYSMGR_EVENT_SYSTEMSTATE (le_names E)) e) d;
      text = current_ids (device_vars d') in
    dd_told d' = dd_told d \<and> last_said ''SystemIds'' d' \<noteq> Some (G_STRING text) \<and>
    result_of (dm_call build (video_library E) DiscoverFriendlies ''GetSystemIds'' args (dd_state d')) =
      Inr (Some [''SystemIds'' \<mapsto> G_STRING text])"
proof -
  let ?d = "d\<lparr>dd_state := (dd_state d)\<lparr>dm_lib := (dm_lib (dd_state d))\<lparr>lx := (device_vars d)\<lparr>x_plant_id := 0\<rparr>\<rparr>\<rparr>\<rparr>"
  have d': "dm_bus E files (Sys_event owner (SYSMGR_EVENT_SYSTEMSTATE (le_names E)) e) d = ?d"
    using assms(4-6) by (simp add: dm_bus_def Let_def vl_sysEventHandler_def vl_id_event_def)
  have ok: "ids_ok (device_vars d)" using assms(1) by (simp add: device_inv_def)
  then have "current_ids (device_vars ?d) \<noteq> x_systemids (device_vars d)"
    using plant_text [OF assms(3)] by (simp add: ids_ok_def current_ids_def)
  then have "last_said ''SystemIds'' d \<noteq> Some (G_STRING (current_ids (device_vars ?d)))"
    using assms(1) by (auto simp: device_inv_def)
  moreover have "result_of (dm_call build (video_library E) DiscoverFriendlies ''GetSystemIds'' args (dd_state ?d)) =
      Inr (Some [''SystemIds'' \<mapsto> G_STRING (current_ids (device_vars ?d))])"
    by (rule ids_answered) (use ids_ok_nonempty [OF ok] assms(2) in simp_all)
  ultimately show ?thesis unfolding d' Let_def by simp
qed


definition sample_vs :: vs_env where
  "sample_vs = \<lparr>vs_has_arg = True, vs_keyfile = Some sample_keyfile, vs_vidiPath = False,
     vs_linklocal = xs_linklocal sample_start, vs_addrs = xs_addrs sample_start, vs_stb_addrs = None,
     vs_iarm = True, vs_values = xs_values sample_start, vs_id_rounds = xs_id_rounds sample_start,
     vs_tune_waits = [], vs_prefix_looks = []\<rparr>"

definition sample_inputs :: "dm_input list" where
  "sample_inputs = [Bus (\<lambda>_. None) (sys_ev SYSSTATE_PLANT_ID False ''77''),
     Request (\<lambda>_. None) (Invoke DiscoverFriendlies ''GetSystemIds'' []),
     Bus (\<lambda>_. None) (sys_ev SYSSTATE_DAC_ID False ''5'')]"

lemma going_case: "(case m of Going r \<Rightarrow> P r | _ \<Rightarrow> False) \<longleftrightarrow> (\<exists>r. m = Going r \<and> P r)"
  by (cases m) simp_all

lemma sample_gateway_runs:
  "\<exists>E s r. vl_xdeviceInit sample_vs sample_video_env = Going (E, s) \<and> dc_useGliDiag (le_C E) \<and>
     le_names E = sample_names \<and> dc_ipv6PrefixFile (le_C E) = None \<and>
     dm_main (sample_dm_env Video_gateway) (video_library E) sample_descriptions s = Going r"
proof -
  have "case vl_xdeviceInit sample_vs sample_video_env of
      Going (E, s) \<Rightarrow> dc_useGliDiag (le_C E) \<and> dc_ipv6PrefixFile (le_C E) = None \<and>
        (case dm_main (sample_dm_env Video_gateway) (video_library E) sample_descriptions s of Going r \<Rightarrow> True | _ \<Rightarrow> False)
    | _ \<Rightarrow> False" by code_simp
  then obtain E s r where 1: "vl_xdeviceInit sample_vs sample_video_env = Going (E, s)" "dc_useGliDiag (le_C E)"
      "dc_ipv6PrefixFile (le_C E) = None"
      "dm_main (sample_dm_env Video_gateway) (video_library E) sample_descriptions s = Going r"
    unfolding going_case by auto
  have "le_names E = le_names sample_video_env"
    by (rule init_ids_ok(2) [OF 1(1) _ 1(2)]) (simp_all add: sample_video_env_def clean_waits_def sample_vs_def)
  then have "le_names E = sample_names" by (simp add: sample_video_env_def)
  with 1 show ?thesis by blast
qed


end
