(* ===== verification/Spec2Isabelle.thy ===== *)
theory Spec2Isabelle
  imports Startup Idm_Client Xcal_Main Media_Browser Dev_Props Dev_Legacy Dev_Listed Video_Rui
    Lib_Readers Dev_Events
begin

text \<open>
  A model of the discovery and publication services of rdk-xupnp, and the theorems that make them
  correct or show where they are not.

  \<^bold>\<open>The program.\<close> Boxes of an RDK home network find each other over UPnP. \<open>src/xdiscovery.c\<close> runs
  control points, keeps the list of the devices found, and publishes it as a JSON report for the
  other processes of the box; on broadband gateways it enrols devices in a shared white list.
  \<open>src/xcal-device.c\<close> is the other side: it publishes the variables of a box, which it takes from
  the bus, from files and from the interfaces, as the actions of a UPnP service that the control
  points of \<open>src/xdiscovery.c\<close> call, and announces their changes.
  \<open>src/idm_client.c\<close>, \<open>src/idm_server.c\<close> and \<open>src/idm_library.c\<close> are the interdevice manager: peers
  of one account find each other and are reported through a callback.

  \<^bold>\<open>The theories.\<close>
  \<open>Prelude\<close>: C integers at the widths of an LP64 host, the faults a C function can run into, and
  outcomes: \<open>Inl\<close> a fault, \<open>Inr\<close> the result.
  \<open>Glib\<close>: the string and list functions of GLib and the C library that the code uses.
  \<open>Whitelist\<close>: the hash table of \<open>dp_wlistInit\<close>, \<open>dpnode_lookup\<close>, \<open>dpnode_insert\<close> and
  \<open>dpnode_delete\<close> with its overflow FIFO; the locale \<open>mac_table\<close> is the contract of a partial map with
  one key per bucket, interpreted on the code's operations through \<open>dp_abs\<close>.
  \<open>Gwy_Data\<close>: the record of a device, \<open>replace_string\<close>, the address checks.
  \<open>Sorted_List\<close>: the locale \<open>device_list\<close>, the contract between the comparison callbacks and GLib's
  sorted list, interpreted once for each of the two device lists of the program.
  \<open>Disc_State\<close>: build flags, configuration, environment and state of the discovery service, its bus
  calls, its serial number, time zone events.
  \<open>Json_Output\<close>: \<open>sendDiscoveryResult\<close>.
  \<open>Gwy_List\<close>: \<open>checkDeviceExists\<close>, \<open>delete_gwyitem\<close>, \<open>update_gwylist\<close>, \<open>delOldItemsFromList\<close> and the
  invariant \<open>list_inv\<close>.
  \<open>Services\<close>: requests to a device and the \<open>process_gw_services\<close> family.
  \<open>Callbacks\<close>: the callbacks of the four control points and \<open>on_last_change\<close>; the locale
  \<open>control_point\<close> is what the frame of an arrival needs from the services of a kind of device,
  interpreted for the four kinds; \<open>disc_step\<close> and \<open>disc_reachable\<close> are the runs of the service.
  \<open>Net_Lib\<close>: \<open>getipaddress\<close> and \<open>getmacaddress\<close>.
  \<open>Startup\<close>: \<open>main\<close>, \<open>readconffile\<close>, the remote settings, \<open>verify_devices\<close>.
  \<open>Idm_Server\<close>, \<open>Idm_Client\<close>: the interdevice manager.
  \<open>Text_Util\<close>: reading and printing numbers, the partner tables, the table of time zones, URI and
  XML escaping with decoders to compare them to.
  \<open>Xcal_State\<close>: variables, configuration and notifications of the device service, and the values it
  reads from files and interfaces; \<open>Xcal_Files\<close> shows what the readers of files compute.
  \<open>Xcal_Events\<close>: its handlers of bus events and \<open>getSystemValues\<close>; \<open>Xcal_Runs\<close>: sequences of
  events, the invariants of the identifiers and of the time zone.
  \<open>Xcal_Service\<close>: the actions and queries of the service \<open>DiscoverFriendlies\<close>, and the service as the
  proxy of a control point.
  \<open>Xcal_Rui\<close>: icons, URI and list of the remote user interface.
  \<open>Xcal_Start\<close>: \<open>readconffile\<close>, \<open>getID\<close> and \<open>main\<close> up to the main loop; \<open>Xcal_Main\<close> carries the
  invariants through the phases of the start and into the runs.
  \<open>Media_Browser\<close>: the list of media servers of \<open>src/mediabrowser.c\<close>, and the calls by which a
  client reads it over the bus.
  \<open>Dev_Service\<close>: the services of the refactored device \<open>src/xcal-device-main.c\<close> over a record of the
  functions of its device library; \<open>Dev_Contract\<close>: the locale \<open>device_library\<close>, what the services
  need of the library so that buffers are never overrun and answers do not depend on earlier calls;
  \<open>Dev_Discovery\<close>: what a discovery service reads from these services; \<open>Dev_Main\<close>: \<open>main\<close> from the
  return of \<open>xdeviceInit\<close> to the main loop.
  \<open>Lib_Base\<close>: what the two device libraries share. \<open>Video_Lib\<close>: the functions, values and events of
  \<open>src/video/lib/src/xcal_device_library.c\<close>, and the interpretation \<open>video\<close> of the contract;
  \<open>Video_Start\<close>: its \<open>readconffile\<close>, \<open>xdeviceInit\<close> and remote settings. \<open>Video_Rui\<close>: its remote user
  interface, which asks for the partner at every turn and never names the gateway.
  \<open>Bb_Lib\<close>: the functions of \<open>src/broadband/lib/src/xcal-device-library.c\<close> and the interpretation
  \<open>broadband\<close> of the contract; \<open>Bb_Start\<close>: its \<open>xdeviceInit\<close>, the identifier and the subnet it gives.
  \<open>Lib_Readers\<close>: the functions of both libraries that no part of the device calls.
  \<open>Dev_Runs\<close>: a run of the refactored device, that is \<open>main\<close> over a library and then any sequence of
  requests, with the locale \<open>total_library\<close> of the libraries that return; \<open>Dev_Props\<close>: what holds of
  all runs (buffers, answers, white list, the secure services, types); \<open>Dev_Legacy\<close>: that the plain
  service of the refactored gateway answers as \<open>src/xcal-device.c\<close> does.
  \<open>Dev_Listed\<close>: that the control point of \<open>src/xdiscovery.c\<close> puts this gateway on its list and
  reports what it read, from the start of the device to the report of the other program.
  \<open>Dev_Events\<close>: the refactored gateway from \<open>xdeviceInit\<close> on, with requests and bus events in any
  order: what it tells by \<open>notify_value_change\<close>, what it answers and what it knows agree; with the
  locales \<open>refresh_keeps\<close> and \<open>get_keeps\<close> of what the functions of a library keep.

  \<^bold>\<open>How the model corresponds to the code.\<close> A C function is a function of the same name (with the
  prefix \<open>idm_\<close> or another where two files use one name) that takes the environment, its arguments
  and the state and returns an outcome with the new state. File-scope variables are the fields of a
  state record. A \<open>GList\<close> is a list whose elements carry the address of their object, so that two
  objects with equal fields are told apart. Callbacks that write to what they compare, as those that
  strip serial numbers do, return it changed. \<open>#ifdef\<close>s are fields of the record \<open>build\<close> or boolean
  arguments. Shell commands, bus messages, files written, subscriptions and releases of objects are
  entries of the list \<open>effects\<close>, in their order. A call into GUPnP, the bus, the file system, the
  resolver or the system configuration is a field of an environment record or an argument: a proxy is
  a function from an action and its arguments to the named outputs, or to a failure. Loops are
  recursion on the list they walk. A message of level error ends the process: \<open>Fatal_error\<close> is its
  value, and \<open>report_safe\<close> the condition under which no report meets it. The two loops that follow
  stored indices or search a string carry fuel (\<open>dp_walk\<close> the size of the table, \<open>count_occurrences\<close>
  one more than the length of the string), and \<open>Non_termination\<close> is the value when it runs out:
  \<open>whitelist_lookup_terminates\<close> and
  \<open>replace_string_replaces\<close> show the fuel is enough where the code returns, and
  \<open>replace_local_device_ip_hangs\<close> that it does not always. The loops of the device service that sleep
  and look again take a list of what happens at each sleep; \<open>Waiting\<close> is the value when it is used up,
  and \<open>getID_returns\<close> says which lists are long enough.

  \<^bold>\<open>What the lemmas show.\<close> The refinement of the white list to a partial map, the invariants of the
  device lists and of the published values over all runs, what a discovery service reads from a
  device service and that it then lists it, the frame of each operation (what it leaves alone), the report as a
  function of the list, the searches as the first match in order, bounds and faults at the edges of
  the fixed buffers. A property that holds under a hypothesis is followed by its use on a concrete
  input.

  \<^bold>\<open>Not modelled.\<close> Logging, mutexes (the callbacks run one at a time in the main loop), the GLib main
  loop itself, TLS interaction objects, the crash handler, memory allocation failures.
  Of the start of the device service, the build without the bus; a run of it is a sequence of bus
  events, which during the start are handled while \<open>main\<close> sleeps: events between other instructions
  of \<open>main\<close> are not considered; in the main loop a bus event is taken as one step, between two
  requests. Of the refactored device, the releases after the main
  loop and the build of the broadband library that does not compile are not modelled; \<open>strcpy_s\<close> is that of the bounded string library.
\<close>

section \<open>Properties across components\<close>

text \<open>
  C1. From the start of the service by \<open>main\<close>, through any sequence of arrivals, departures, change
  notifications and clean-ups with any devices and environments, the device list is sorted by
  serial number, no serial number and no device object is in it twice, and the counter of running
  additions is back at zero.
\<close>

theorem service_keeps_sorted_list:
  assumes "disc_main S argv = Inr (Running r)" "disc_reachable (r_state r) st"
  shows "sno_sorted serial_num (xdevlist st) \<and> distinct (serials serial_num (xdevlist st)) \<and>
    distinct (map addr (xdevlist st)) \<and> deviceAddNo st = 0"
proof -
  have s: "xdevlist (r_state r) = []" "deviceAddNo (r_state r) = 0"
    using disc_main_state [OF assms(1)] by blast+
  then have "list_inv (r_state r)" by (simp add: list_inv_def)
  from disc_reachable_keeps [OF assms(2) this] s show ?thesis
    using sno_sorted_distinct by (auto simp: keeps_def list_inv_def)
qed

theorem service_keeps_sorted_list_witness:
  "\<exists>r st. disc_main good_startup [''xdiscovery'', ''xdiscovery.conf''] = Inr (Running r) \<and>
     disc_step (r_state r) st \<and> deviceAddNo st = 0"
proof -
  obtain r where r: "disc_main good_startup [''xdiscovery'', ''xdiscovery.conf''] = Inr (Running r)"
    using good_startup_runs by blast
  have h: "handle sample_env (Available sample_own False sample_dev_info) (r_state r) =
      Inr (leave_cb (enter_cb (r_state r)))"
    by (simp add: device_proxy_available_cb_def arrive_def Let_def)
  have s: "disc_step (r_state r) (leave_cb (enter_cb (r_state r)))" by (rule step [OF h])
  have "disc_reachable (r_state r) (leave_cb (enter_cb (r_state r)))" by (rule next_step [OF start s])
  from service_keeps_sorted_list [OF r this] r s show ?thesis by blast
qed

text \<open>
  C2. The two sides of the network meet: a discovery service whose proxy reads a running device
  service, whatever that one's configuration, files and variables are, returns with success and has
  the device in its list, sorted and once, with no other device gained or lost. The discovery
  service runs without a white list and without telemetry, can read its serial number, and has an
  address.
\<close>

theorem published_device_is_listed:
  assumes "no_whitelist E" "report_safe E" "g_strstrip (ipaddress st) \<noteq> []"
    and "list_inv st" "addr d \<notin> set (map addr (xdevlist st))" "addr d < next_addr st"
  shows "\<exists>st'. process_gw_services E own (xd_proxy C v6 files xst) d st = Inr (True, st') \<and>
    list_inv st' \<and> addr d \<in> set (map addr (xdevlist st')) \<and>
    devices st' = insert (g_strstrip (serial_num d)) (devices st)"
proof -
  obtain ok st' where p: "process_gw_services E own (xd_proxy C v6 files xst) d st = Inr (ok, st')"
    using process_gw_services_returns [OF assms(1,2,4,3)] by (metis surj_pair)
  note R = process_gw_services_result [OF p assms(4-6)]
  have ok: "ok" using R(4) by (simp add: gw_services_read_published)
  show ?thesis using p ok R(1,5,7) by simp
qed

theorem published_device_is_listed_witness:
  "\<exists>st'. process_gw_services sample_env \<lparr>accountId = [], bcastmac = []\<rparr>
       (xd_proxy sample_xd_conf False (\<lambda>_. None) sample_ready) sample_device (disc_start ''10.0.0.1'') = Inr (True, st') \<and>
     addr sample_device \<in> set (map addr (xdevlist st'))"
proof -
  have ip: "g_strstrip (ipaddress (disc_start ''10.0.0.1'')) \<noteq> []"
    by (simp add: disc_start_def g_strstrip_def g_strchug_def g_strchomp_def g_ascii_isspace_def)
  have E: "no_whitelist sample_env" "report_safe sample_env"
    by (simp_all add: no_whitelist_def sample_env_def sample_flags_def report_safe_def serial_safe_def)
  have pre: "list_inv (disc_start ''10.0.0.1'')" "addr sample_device \<notin> set (map addr (xdevlist (disc_start ''10.0.0.1'')))"
      "addr sample_device < next_addr (disc_start ''10.0.0.1'')"
    by simp_all (simp_all add: disc_start_def sample_device_def init_gwydata_def)
  show ?thesis using published_device_is_listed [OF E ip pre] by blast
qed

end
